(* ===== verification/Prelude.thy ===== *)
theory Prelude
  imports Main "HOL-Library.Word"
begin

text \<open>
  Shared vocabulary of the development: byte strings as character lists (a Go \<open>string\<close> and a
  Go \<open>[]byte\<close> are both the list of their bytes), the functions of Go's packages \<open>strings\<close>,
  \<open>bytes\<close> and \<open>encoding/hex\<close> that the sources call, and generic lemmas on lists and maps.

  Case mapping, case folding and white space are modelled on ASCII: every identifier the code
  folds (SKIs, fingerprints, TXT keys, nonces) is ASCII text; bytes from 128 on are left alone.
\<close>

named_theorems proj \<open>what an operation leaves unchanged in the state\<close>
named_theorems str_simps \<open>facts about the string helpers\<close>

type_synonym bytes = string
type_synonym duration = int  \<comment> \<open>Go's \<open>time.Duration\<close>, in nanoseconds\<close>

abbreviation ms :: "int \<Rightarrow> duration" where "ms n \<equiv> n * 1000000"
abbreviation sec :: "int \<Rightarrow> duration" where "sec n \<equiv> n * 1000000000"

section \<open>Characters\<close>

abbreviation code :: "char \<Rightarrow> nat" where "code c \<equiv> of_char c"

definition is_digit :: "char \<Rightarrow> bool" where
  "is_digit c \<longleftrightarrow> 48 \<le> code c \<and> code c \<le> 57"

definition is_upper :: "char \<Rightarrow> bool" where
  "is_upper c \<longleftrightarrow> 65 \<le> code c \<and> code c \<le> 90"

definition is_lower :: "char \<Rightarrow> bool" where
  "is_lower c \<longleftrightarrow> 97 \<le> code c \<and> code c \<le> 122"

definition lower :: "char \<Rightarrow> char" where
  "lower c = (if is_upper c then char_of (code c + 32) else c)"

definition upper :: "char \<Rightarrow> char" where
  "upper c = (if is_lower c then char_of (code c - 32) else c)"

definition ToLower :: "string \<Rightarrow> string" where "ToLower s = map lower s"
definition ToUpper :: "string \<Rightarrow> string" where "ToUpper s = map upper s"

text \<open>\<open>strings.EqualFold\<close>\<close>

definition EqualFold :: "string \<Rightarrow> string \<Rightarrow> bool" where
  "EqualFold a b \<longleftrightarrow> ToLower a = ToLower b"

lemma code_less_256: "code c < 256"
  using of_char_mod_256 [of c] by (metis mod_less_divisor zero_less_numeral)

lemma code_char_of: "n < 256 \<Longrightarrow> code (char_of n) = n"
  by (simp add: of_char_of)

lemma lower_lower [str_simps, simp]: "lower (lower c) = lower c"
  by (simp add: lower_def is_upper_def code_char_of)

lemma code_upper: "code (upper c) = (if is_lower c then code c - 32 else code c)"
proof -
  have "code (char_of (code c - 32) :: char) = code c - 32"
    by (rule code_char_of) (use code_less_256 [of c] in linarith)
  then show ?thesis by (simp add: upper_def)
qed

lemma code_lower: "code (lower c) = (if is_upper c then code c + 32 else code c)"
  by (simp add: lower_def is_upper_def code_char_of)

lemma upper_upper [str_simps, simp]: "upper (upper c) = upper c"
proof -
  have "\<not> is_lower (upper c)" by (auto simp: is_lower_def code_upper)
  then show ?thesis by (simp add: upper_def [of "upper c"])
qed

lemma code_eq_iff: "code c = code d \<longleftrightarrow> c = d"
  by (simp add: of_char_eq_iff)

lemma lower_upper_iff: "lower a = lower b \<longleftrightarrow> upper a = upper b"
proof -
  have "lower a = lower b \<longleftrightarrow> code (lower a) = code (lower b)" by (simp only: code_eq_iff)
  also have "\<dots> \<longleftrightarrow> code (upper a) = code (upper b)"
    unfolding code_lower code_upper is_upper_def is_lower_def
    by (auto simp del: of_char_eq_iff)
  also have "\<dots> \<longleftrightarrow> upper a = upper b" by (simp only: code_eq_iff)
  finally show ?thesis .
qed

lemma ToLower_ToLower [str_simps, simp]: "ToLower (ToLower s) = ToLower s"
  by (simp add: ToLower_def)

lemma ToUpper_ToUpper [str_simps, simp]: "ToUpper (ToUpper s) = ToUpper s"
  by (simp add: ToUpper_def)

lemma map_eq_pointwise:
  "(\<And>x y. f x = f y \<longleftrightarrow> g x = g y) \<Longrightarrow> map f xs = map f ys \<longleftrightarrow> map g xs = map g ys"
  by (induction xs arbitrary: ys) (case_tac ys; auto)+

text \<open>Folding both sides and upper-casing both sides compare the same strings.\<close>

lemma EqualFold_ToUpper: "EqualFold a b \<longleftrightarrow> ToUpper a = ToUpper b"
  unfolding EqualFold_def ToLower_def ToUpper_def
  by (rule map_eq_pointwise) (rule lower_upper_iff)

lemma EqualFold_refl [simp]: "EqualFold a a"
  by (simp add: EqualFold_def)

lemma EqualFold_sym: "EqualFold a b \<Longrightarrow> EqualFold b a"
  by (simp add: EqualFold_def)

lemma EqualFold_trans: "EqualFold a b \<Longrightarrow> EqualFold b c \<Longrightarrow> EqualFold a c"
  by (simp add: EqualFold_def)

lemma ToUpper_Nil [simp]: "ToUpper s = [] \<longleftrightarrow> s = []"
  by (simp add: ToUpper_def)

lemma ToLower_Nil [simp]: "ToLower s = [] \<longleftrightarrow> s = []"
  by (simp add: ToLower_def)

section \<open>Substrings\<close>

text \<open>\<open>strings.ReplaceAll\<close> and \<open>bytes.ReplaceAll\<close> for a non-empty pattern: left to right,
  non-overlapping.\<close>

fun ReplaceAll :: "string \<Rightarrow> string \<Rightarrow> string \<Rightarrow> string" where
  "ReplaceAll old new [] = []"
| "ReplaceAll old new (c # cs) =
     (if old \<noteq> [] \<and> take (length old) (c # cs) = old
      then new @ ReplaceAll old new (drop (length old - 1) cs)
      else c # ReplaceAll old new cs)"

text \<open>\<open>bytes.Contains\<close>\<close>

fun Contains :: "string \<Rightarrow> string \<Rightarrow> bool" where
  "Contains [] pat \<longleftrightarrow> pat = []"
| "Contains (c # cs) pat \<longleftrightarrow> take (length pat) (c # cs) = pat \<or> Contains cs pat"

definition TrimPrefix :: "string \<Rightarrow> string \<Rightarrow> string" where
  "TrimPrefix s p = (if take (length p) s = p then drop (length p) s else s)"

definition TrimSuffix :: "string \<Rightarrow> string \<Rightarrow> string" where
  "TrimSuffix s p = rev (TrimPrefix (rev s) (rev p))"

definition trim_where :: "(char \<Rightarrow> bool) \<Rightarrow> string \<Rightarrow> string" where
  "trim_where P s = rev (dropWhile P (rev (dropWhile P s)))"

definition is_space :: "char \<Rightarrow> bool" where
  "is_space c \<longleftrightarrow> code c = 32 \<or> (9 \<le> code c \<and> code c \<le> 13)"

definition TrimSpace :: "string \<Rightarrow> string" where "TrimSpace = trim_where is_space"

text \<open>\<open>strings.Cut s "="\<close>: the text before and after the first separator.\<close>

definition Cut :: "string \<Rightarrow> char \<Rightarrow> (string \<times> string) option" where
  "Cut s c = (if c \<in> set s
     then Some (takeWhile (\<lambda>x. x \<noteq> c) s, tl (dropWhile (\<lambda>x. x \<noteq> c) s)) else None)"

fun join :: "string \<Rightarrow> string list \<Rightarrow> string" where
  "join sep [] = []"
| "join sep [s] = s"
| "join sep (s # ss) = s @ sep @ join sep ss"

lemma trim_where_id: "(\<And>c. c \<in> set s \<Longrightarrow> \<not> P c) \<Longrightarrow> trim_where P s = s"
proof -
  assume a: "\<And>c. c \<in> set s \<Longrightarrow> \<not> P c"
  have d: "dropWhile P xs = xs" if "set xs \<subseteq> set s" for xs
    using that a by (cases xs) auto
  show ?thesis by (simp add: trim_where_def d)
qed

lemma ReplaceAll_absent:
  "(\<And>c. c \<in> set s \<Longrightarrow> c \<noteq> hd old) \<Longrightarrow> ReplaceAll old new s = s"
proof (induction s)
  case Nil
  then show ?case by simp
next
  case (Cons c cs)
  have "c \<noteq> hd old" using Cons.prems by simp
  then have "\<not> (old \<noteq> [] \<and> take (length old) (c # cs) = old)"
    by (cases old) auto
  moreover have "ReplaceAll old new cs = cs" using Cons by auto
  ultimately show ?case by (simp only: ReplaceAll.simps if_False)
qed

lemma ReplaceAll_char_filter: "ReplaceAll [x] [] s = filter (\<lambda>c. c \<noteq> x) s"
  by (induction s) auto

lemma Cut_append: "c \<notin> set k \<Longrightarrow> Cut (k @ c # v) c = Some (k, v)"
  by (simp add: Cut_def takeWhile_append2 dropWhile_append2 takeWhile_eq_all_conv dropWhile_eq_Nil_conv
      takeWhile_append dropWhile_append)

section \<open>Decimal and hexadecimal text\<close>

text \<open>\<open>strconv.Itoa\<close> and \<open>\<open>%d\<close>\<close> on natural numbers\<close>

fun Itoa :: "nat \<Rightarrow> string" where
  "Itoa n = (if n < 10 then [char_of (48 + n)] else Itoa (n div 10) @ [char_of (48 + n mod 10)])"

declare Itoa.simps [simp del]

definition ItoaInt :: "int \<Rightarrow> string" where
  "ItoaInt n = (if n < 0 then CHR ''-'' # Itoa (nat (- n)) else Itoa (nat n))"

definition hexdigit :: "nat \<Rightarrow> char" where
  "hexdigit n = (if n < 10 then char_of (48 + n) else char_of (55 + n))"

definition hexdigit_lower :: "nat \<Rightarrow> char" where
  "hexdigit_lower n = (if n < 10 then char_of (48 + n) else char_of (87 + n))"

definition hexval :: "char \<Rightarrow> nat option" where
  "hexval c = (if is_digit c then Some (code c - 48)
     else if 65 \<le> code c \<and> code c \<le> 70 then Some (code c - 55)
     else if 97 \<le> code c \<and> code c \<le> 102 then Some (code c - 87) else None)"

text \<open>\<open>strings.ToUpper (hex.EncodeToString b)\<close> and \<open>hex.EncodeToString\<close>\<close>

definition EncodeHexUpper :: "bytes \<Rightarrow> string" where
  "EncodeHexUpper b = concat (map (\<lambda>c. [hexdigit (code c div 16), hexdigit (code c mod 16)]) b)"

definition EncodeHexLower :: "bytes \<Rightarrow> string" where
  "EncodeHexLower b =
     concat (map (\<lambda>c. [hexdigit_lower (code c div 16), hexdigit_lower (code c mod 16)]) b)"

text \<open>\<open>hex.DecodeString\<close>: both cases of the digits are accepted, an odd length is an error.\<close>

fun DecodeHex :: "string \<Rightarrow> bytes option" where
  "DecodeHex [] = Some []"
| "DecodeHex [c] = None"
| "DecodeHex (c # d # cs) =
     (case (hexval c, hexval d, DecodeHex cs) of
        (Some h, Some l, Some bs) \<Rightarrow> Some (char_of (16 * h + l) # bs)
      | _ \<Rightarrow> None)"

definition is_upper_hex :: "char \<Rightarrow> bool" where
  "is_upper_hex c \<longleftrightarrow> is_digit c \<or> (65 \<le> code c \<and> code c \<le> 70)"

lemma hexdigit_code: "n < 16 \<Longrightarrow> code (hexdigit n) = (if n < 10 then 48 + n else 55 + n)"
  by (simp add: hexdigit_def code_char_of)

lemma hexval_hexdigit [simp]: "n < 16 \<Longrightarrow> hexval (hexdigit n) = Some n"
  by (simp add: hexval_def is_digit_def hexdigit_code)

lemma is_upper_hex_hexdigit: "n < 16 \<Longrightarrow> is_upper_hex (hexdigit n)"
  by (simp add: is_upper_hex_def is_digit_def hexdigit_code)

lemma nibbles: "code c div 16 < 16" "code c mod 16 < 16"
  using code_less_256 [of c] by linarith+

lemma DecodeHex_Encode: "DecodeHex (EncodeHexUpper b) = Some b"
proof (induction b)
  case Nil
  then show ?case by (simp add: EncodeHexUpper_def)
next
  case (Cons c cs)
  have "16 * (code c div 16) + code c mod 16 = code c" by simp
  with Cons nibbles [of c] show ?case by (simp add: EncodeHexUpper_def)
qed

lemma length_EncodeHexUpper: "length (EncodeHexUpper b) = 2 * length b"
  by (induction b) (auto simp: EncodeHexUpper_def)

lemma EncodeHexUpper_upper_hex: "c \<in> set (EncodeHexUpper b) \<Longrightarrow> is_upper_hex c"
proof -
  assume "c \<in> set (EncodeHexUpper b)"
  then obtain x where "c = hexdigit (code x div 16) \<or> c = hexdigit (code x mod 16)"
    by (auto simp: EncodeHexUpper_def)
  then show ?thesis using is_upper_hex_hexdigit nibbles [of x] by auto
qed

lemma EncodeHexUpper_inj: "EncodeHexUpper a = EncodeHexUpper b \<longleftrightarrow> a = b"
  by (metis DecodeHex_Encode option.inject)

section \<open>Lists\<close>

text \<open>\<open>append(xs[:i], xs[i+1:]...)\<close>\<close>

definition remove_at :: "nat \<Rightarrow> 'a list \<Rightarrow> 'a list" where
  "remove_at i xs = take i xs @ drop (Suc i) xs"

fun find_index :: "('a \<Rightarrow> bool) \<Rightarrow> 'a list \<Rightarrow> nat option" where
  "find_index P [] = None"
| "find_index P (x # xs) = (if P x then Some 0 else map_option Suc (find_index P xs))"

lemma set_remove_at: "set (remove_at i xs) \<subseteq> set xs"
  by (auto simp: remove_at_def dest: in_set_takeD in_set_dropD)

lemma distinct_remove_at: "distinct xs \<Longrightarrow> distinct (remove_at i xs)"
proof -
  assume d: "distinct xs"
  then have "distinct (take i xs @ drop i xs)" by simp
  then have "set (take i xs) \<inter> set (drop i xs) = {}" by (simp only: distinct_append)
  moreover have "set (drop (Suc i) xs) \<subseteq> set (drop i xs)"
    by (rule set_drop_subset_set_drop) simp
  ultimately show ?thesis using d by (auto simp: remove_at_def)
qed

lemma find_index_Some:
  "find_index P xs = Some i \<Longrightarrow> i < length xs \<and> P (xs ! i) \<and> (\<forall>j<i. \<not> P (xs ! j))"
proof (induction xs arbitrary: i)
  case Nil
  then show ?case by simp
next
  case (Cons x xs)
  show ?case
  proof (cases "P x")
    case True
    with Cons.prems show ?thesis by auto
  next
    case False
    with Cons.prems obtain k where k: "find_index P xs = Some k" "i = Suc k" by auto
    with Cons.IH have "k < length xs \<and> P (xs ! k) \<and> (\<forall>j<k. \<not> P (xs ! j))" by simp
    with k False show ?thesis by (auto simp: less_Suc_eq_0_disj)
  qed
qed

lemma find_index_None: "find_index P xs = None \<longleftrightarrow> (\<forall>x \<in> set xs. \<not> P x)"
  by (induction xs) auto

lemma find_Some_in: "find P xs = Some x \<Longrightarrow> x \<in> set xs \<and> P x"
  by (induction xs) (auto split: if_splits)

end
