(* ===== verification/Json.thy ===== *)
theory Json
  imports Prelude
begin

text \<open>
  The part of Go's \<open>encoding/json\<close> that the SHIP layer uses: the scanner and parser of JSON text,
  \<open>json.Marshal\<close> of a value (compact, with the escapes of Go 1.24, HTML escaping on),
  \<open>json.Compact\<close>, and the decoding rules of \<open>json.Unmarshal\<close> into a struct.

  A value is a tree; a number keeps its literal, as the decoder of each target type reads it.
  Bytes from 128 on are kept as they are (Go replaces invalid UTF-8 and escapes U+2028/9).
\<close>

datatype json =
    JNull
  | JBool bool
  | JNum string
  | JStr string
  | JArr "json list"
  | JObj "(string \<times> json) list"

section \<open>Printing\<close>

definition escape_char :: "char \<Rightarrow> string" where
  "escape_char c =
     (if c = CHR 0x22 \<or> c = CHR 0x5C then [CHR 0x5C, c]
      else if c = CHR 0x08 then [CHR 0x5C, CHR ''b'']
      else if c = CHR 0x0C then [CHR 0x5C, CHR ''f'']
      else if c = CHR 0x0A then [CHR 0x5C, CHR ''n'']
      else if c = CHR 0x0D then [CHR 0x5C, CHR ''r'']
      else if c = CHR 0x09 then [CHR 0x5C, CHR ''t'']
      else if code c < 32 \<or> c = CHR ''<'' \<or> c = CHR ''>'' \<or> c = CHR ''&''
      then [CHR 0x5C, CHR ''u'', CHR ''0'', CHR ''0'',
            hexdigit_lower (code c div 16), hexdigit_lower (code c mod 16)]
      else [c])"

definition quote_json :: "string \<Rightarrow> string" where
  "quote_json s = CHR 0x22 # concat (map escape_char s) @ [CHR 0x22]"

fun print_json :: "json \<Rightarrow> string" where
  "print_json JNull = ''null''"
| "print_json (JBool b) = (if b then ''true'' else ''false'')"
| "print_json (JNum l) = l"
| "print_json (JStr s) = quote_json s"
| "print_json (JArr vs) = ''['' @ join '','' (map print_json vs) @ '']''"
| "print_json (JObj kvs) =
     ''{'' @ join '','' (map (\<lambda>(k, v). quote_json k @ '':'' @ print_json v) kvs) @ ''}''"

section \<open>Parsing\<close>

definition json_space :: "char \<Rightarrow> bool" where
  "json_space c \<longleftrightarrow> code c = 32 \<or> code c = 9 \<or> code c = 10 \<or> code c = 13"

definition skip_ws :: "string \<Rightarrow> string" where "skip_ws = dropWhile json_space"

text \<open>The UTF-8 encoding of a code point\<close>

definition utf8 :: "nat \<Rightarrow> string" where
  "utf8 n =
     (if n < 0x80 then [char_of n]
      else if n < 0x800 then [char_of (0xC0 + n div 64), char_of (0x80 + n mod 64)]
      else if n < 0x10000
      then [char_of (0xE0 + n div 4096), char_of (0x80 + n div 64 mod 64), char_of (0x80 + n mod 64)]
      else [char_of (0xF0 + n div 262144), char_of (0x80 + n div 4096 mod 64),
            char_of (0x80 + n div 64 mod 64), char_of (0x80 + n mod 64)])"

definition hex4 :: "char \<Rightarrow> char \<Rightarrow> char \<Rightarrow> char \<Rightarrow> nat option" where
  "hex4 a b c d = (case (hexval a, hexval b, hexval c, hexval d) of
     (Some w, Some x, Some y, Some z) \<Rightarrow> Some (4096 * w + 256 * x + 16 * y + z) | _ \<Rightarrow> None)"

definition is_high_surrogate :: "nat \<Rightarrow> bool" where
  "is_high_surrogate n \<longleftrightarrow> 0xD800 \<le> n \<and> n < 0xDC00"

definition is_low_surrogate :: "nat \<Rightarrow> bool" where
  "is_low_surrogate n \<longleftrightarrow> 0xDC00 \<le> n \<and> n < 0xE000"

text \<open>The second half of a surrogate pair at the start of a text\<close>

fun low_half :: "string \<Rightarrow> nat option" where
  "low_half (bs # u # a # b # c # d # r) =
     (if bs = CHR 0x5C \<and> u = CHR ''u'' then
        (case hex4 a b c d of Some n \<Rightarrow> if is_low_surrogate n then Some n else None | None \<Rightarrow> None)
      else None)"
| "low_half _ = None"

definition simple_escape :: "char \<Rightarrow> char option" where
  "simple_escape e =
     (if e = CHR 0x22 \<or> e = CHR 0x5C \<or> e = CHR ''/'' then Some e
      else if e = CHR ''b'' then Some (CHR 0x08)
      else if e = CHR ''f'' then Some (CHR 0x0C)
      else if e = CHR ''n'' then Some (CHR 0x0A)
      else if e = CHR ''r'' then Some (CHR 0x0D)
      else if e = CHR ''t'' then Some (CHR 0x09)
      else None)"

text \<open>The rest of a string literal, after its opening quote\<close>

function parse_str :: "string \<Rightarrow> (string \<times> string) option" where
  "parse_str [] = None"
| "parse_str (c # cs) =
     (if c = CHR 0x22 then Some ([], cs)
      else if c = CHR 0x5C then
        (case cs of
           [] \<Rightarrow> None
         | e # r \<Rightarrow>
             (case simple_escape e of
                Some x \<Rightarrow> map_option (apfst ((#) x)) (parse_str r)
              | None \<Rightarrow>
                  if e = CHR ''u'' then
                    (case r of
                       h1 # h2 # h3 # h4 # r' \<Rightarrow>
                         (case hex4 h1 h2 h3 h4 of
                            None \<Rightarrow> None
                          | Some n \<Rightarrow>
                              if is_high_surrogate n \<and> low_half r' \<noteq> None
                              then map_option (apfst ((@) (utf8 (0x10000
                                     + (n - 0xD800) * 1024 + (the (low_half r') - 0xDC00)))))
                                     (parse_str (drop 6 r'))
                              else if is_high_surrogate n \<or> is_low_surrogate n
                              then map_option (apfst ((@) (utf8 0xFFFD))) (parse_str r')
                              else map_option (apfst ((@) (utf8 n))) (parse_str r'))
                     | _ \<Rightarrow> None)
                  else None))
      else if code c < 32 then None
      else map_option (apfst ((#) c)) (parse_str cs))"
  by pat_completeness auto
termination by (relation "measure length") auto

declare parse_str.simps [simp del]

text \<open>Number literals\<close>

definition is_numchar :: "char \<Rightarrow> bool" where
  "is_numchar c \<longleftrightarrow> is_digit c \<or> c \<in> set ''+-.eE''"

definition strip_digits :: "string \<Rightarrow> string option" where
  "strip_digits s = (case s of c # cs \<Rightarrow> if is_digit c then Some (dropWhile is_digit cs) else None
                             | [] \<Rightarrow> None)"

definition strip_int :: "string \<Rightarrow> string option" where
  "strip_int s = (let s' = TrimPrefix s ''-'' in
     case s' of c # cs \<Rightarrow> if c = CHR ''0'' then Some cs else strip_digits s' | [] \<Rightarrow> None)"

definition strip_frac :: "string \<Rightarrow> string option" where
  "strip_frac s = (case s of c # cs \<Rightarrow> if c = CHR ''.'' then strip_digits cs else Some s
                           | [] \<Rightarrow> Some [])"

definition strip_exp :: "string \<Rightarrow> string option" where
  "strip_exp s = (case s of
       c # cs \<Rightarrow> if c = CHR ''e'' \<or> c = CHR ''E''
                 then (case cs of d # ds \<Rightarrow> if d = CHR ''+'' \<or> d = CHR ''-'' then strip_digits ds
                                           else strip_digits cs
                                 | [] \<Rightarrow> None)
                 else Some s
     | [] \<Rightarrow> Some [])"

definition valid_number :: "string \<Rightarrow> bool" where
  "valid_number s \<longleftrightarrow>
     Option.bind (Option.bind (strip_int s) strip_frac) strip_exp = Some []"

definition parse_num :: "string \<Rightarrow> (json \<times> string) option" where
  "parse_num s = (let l = takeWhile is_numchar s in
     if valid_number l then Some (JNum l, dropWhile is_numchar s) else None)"

definition parse_lit :: "string \<Rightarrow> json \<Rightarrow> string \<Rightarrow> (json \<times> string) option" where
  "parse_lit l v s = (if take (length l) s = l then Some (v, drop (length l) s) else None)"

text \<open>Values, the elements of an array after its bracket, the members of an object after its
  brace; the first argument is fuel.\<close>

fun parse_value :: "nat \<Rightarrow> string \<Rightarrow> (json \<times> string) option"
  and parse_elems :: "nat \<Rightarrow> string \<Rightarrow> (json list \<times> string) option"
  and parse_members :: "nat \<Rightarrow> string \<Rightarrow> ((string \<times> json) list \<times> string) option" where
  "parse_value 0 s = None"
| "parse_value (Suc n) s =
     (case skip_ws s of
        [] \<Rightarrow> None
      | c # cs \<Rightarrow>
          if c = CHR ''{'' then
            (case skip_ws cs of
               [] \<Rightarrow> None
             | d # ds \<Rightarrow> if d = CHR ''}'' then Some (JObj [], ds)
                         else map_option (apfst JObj) (parse_members n cs))
          else if c = CHR ''['' then
            (case skip_ws cs of
               [] \<Rightarrow> None
             | d # ds \<Rightarrow> if d = CHR '']'' then Some (JArr [], ds)
                         else map_option (apfst JArr) (parse_elems n cs))
          else if c = CHR 0x22 then map_option (apfst JStr) (parse_str cs)
          else if c = CHR ''t'' then parse_lit ''true'' (JBool True) (c # cs)
          else if c = CHR ''f'' then parse_lit ''false'' (JBool False) (c # cs)
          else if c = CHR ''n'' then parse_lit ''null'' JNull (c # cs)
          else parse_num (c # cs))"
| "parse_elems 0 s = None"
| "parse_elems (Suc n) s =
     (case parse_value n s of
        None \<Rightarrow> None
      | Some (v, r) \<Rightarrow>
          (case skip_ws r of
             [] \<Rightarrow> None
           | c # cs \<Rightarrow> if c = CHR '','' then map_option (apfst ((#) v)) (parse_elems n cs)
                       else if c = CHR '']'' then Some ([v], cs) else None))"
| "parse_members 0 s = None"
| "parse_members (Suc n) s =
     (case skip_ws s of
        [] \<Rightarrow> None
      | q # qs \<Rightarrow>
          if q \<noteq> CHR 0x22 then None else
          (case parse_str qs of
             None \<Rightarrow> None
           | Some (k, r) \<Rightarrow>
               (case skip_ws r of
                  [] \<Rightarrow> None
                | d # ds \<Rightarrow>
                    if d \<noteq> CHR '':'' then None else
                    (case parse_value n ds of
                       None \<Rightarrow> None
                     | Some (v, r') \<Rightarrow>
                         (case skip_ws r' of
                            [] \<Rightarrow> None
                          | c # cs \<Rightarrow>
                              if c = CHR '','' then map_option (apfst ((#) (k, v))) (parse_members n cs)
                              else if c = CHR ''}'' then Some ([(k, v)], cs) else None)))))"

text \<open>A whole text: one value, nothing but white space after it. Each level of the recursion
  either reads a character or is the step from a list to its first element, so twice the length of
  the text is enough fuel.\<close>

definition parse_json :: "string \<Rightarrow> json option" where
  "parse_json s = (case parse_value (2 * length s + 2) s of
     Some (v, r) \<Rightarrow> if skip_ws r = [] then Some v else None
   | None \<Rightarrow> None)"

section \<open>\<open>json.Compact\<close>\<close>

fun strip_ws :: "bool \<Rightarrow> string \<Rightarrow> string" where
  "strip_ws inside [] = []"
| "strip_ws False (c # cs) =
     (if json_space c then strip_ws False cs else c # strip_ws (c = CHR 0x22) cs)"
| "strip_ws True [c] = [c]"
| "strip_ws True (c # d # cs) =
     (if c = CHR 0x5C then c # d # strip_ws True cs else c # strip_ws (c \<noteq> CHR 0x22) (d # cs))"

definition Compact :: "string \<Rightarrow> string option" where
  "Compact s = (if parse_json s = None then None else Some (strip_ws False s))"

section \<open>Decoding into Go values\<close>

text \<open>A decoder gets the value and the target's current content (a repeated key is decoded on top
  of the earlier one) and fails where \<open>json.Unmarshal\<close> reports an error. \<open>null\<close> leaves a string,
  number or struct untouched and resets a pointer or slice.\<close>

definition dec_string :: "json \<Rightarrow> string \<Rightarrow> string option" where
  "dec_string j old = (case j of JNull \<Rightarrow> Some old | JStr s \<Rightarrow> Some s | _ \<Rightarrow> None)"

fun digits_value :: "nat \<Rightarrow> string \<Rightarrow> nat" where
  "digits_value acc [] = acc"
| "digits_value acc (c # cs) = digits_value (10 * acc + (code c - 48)) cs"

text \<open>\<open>strconv.ParseUint(s, 10, bits)\<close>\<close>

definition ParseUint :: "nat \<Rightarrow> string \<Rightarrow> nat option" where
  "ParseUint bits s = (if s \<noteq> [] \<and> (\<forall>c \<in> set s. is_digit c) \<and> digits_value 0 s < 2 ^ bits
     then Some (digits_value 0 s) else None)"

definition dec_uint :: "nat \<Rightarrow> json \<Rightarrow> nat \<Rightarrow> nat option" where
  "dec_uint bits j old = (case j of JNull \<Rightarrow> Some old | JNum l \<Rightarrow> ParseUint bits l | _ \<Rightarrow> None)"

definition dec_bool :: "json \<Rightarrow> bool \<Rightarrow> bool option" where
  "dec_bool j old = (case j of JNull \<Rightarrow> Some old | JBool b \<Rightarrow> Some b | _ \<Rightarrow> None)"

definition dec_ptr :: "(json \<Rightarrow> 'a \<Rightarrow> 'a option) \<Rightarrow> 'a \<Rightarrow> json \<Rightarrow> 'a option \<Rightarrow> 'a option option" where
  "dec_ptr d zero j old = (if j = JNull then Some None
     else map_option Some (d j (case old of None \<Rightarrow> zero | Some x \<Rightarrow> x)))"

fun dec_all :: "(json \<Rightarrow> 'a \<Rightarrow> 'a option) \<Rightarrow> 'a \<Rightarrow> json list \<Rightarrow> 'a list option" where
  "dec_all d zero [] = Some []"
| "dec_all d zero (j # js) = (case (d j zero, dec_all d zero js) of
     (Some x, Some xs) \<Rightarrow> Some (x # xs) | _ \<Rightarrow> None)"

text \<open>A slice: \<open>None\<close> is nil, which is not the empty slice.\<close>

definition dec_slice ::
  "(json \<Rightarrow> 'a \<Rightarrow> 'a option) \<Rightarrow> 'a \<Rightarrow> json \<Rightarrow> 'a list option \<Rightarrow> 'a list option option" where
  "dec_slice d zero j old = (case j of JNull \<Rightarrow> Some None
     | JArr js \<Rightarrow> map_option Some (dec_all d zero js) | _ \<Rightarrow> None)"

text \<open>The struct field a key selects: the exact name, else the first one equal under folding.\<close>

definition go_field :: "string list \<Rightarrow> string \<Rightarrow> string option" where
  "go_field names k = (if k \<in> set names then Some k else find (EqualFold k) names)"

fun dec_members ::
  "string list \<Rightarrow> (string \<Rightarrow> json \<Rightarrow> 'r \<Rightarrow> 'r option) \<Rightarrow> (string \<times> json) list \<Rightarrow> 'r \<Rightarrow> 'r option" where
  "dec_members names d [] r = Some r"
| "dec_members names d ((k, v) # kvs) r = (case go_field names k of
     None \<Rightarrow> dec_members names d kvs r
   | Some f \<Rightarrow> (case d f v r of None \<Rightarrow> None | Some r' \<Rightarrow> dec_members names d kvs r'))"

definition dec_struct ::
  "string list \<Rightarrow> (string \<Rightarrow> json \<Rightarrow> 'r \<Rightarrow> 'r option) \<Rightarrow> json \<Rightarrow> 'r \<Rightarrow> 'r option" where
  "dec_struct names d j r = (case j of JNull \<Rightarrow> Some r
     | JObj kvs \<Rightarrow> dec_members names d kvs r | _ \<Rightarrow> None)"

definition Unmarshal :: "(json \<Rightarrow> 'r \<Rightarrow> 'r option) \<Rightarrow> 'r \<Rightarrow> string \<Rightarrow> 'r option" where
  "Unmarshal d zero s = Option.bind (parse_json s) (\<lambda>j. d j zero)"

text \<open>The keys of an object decoded into a \<open>map[string]json.RawMessage\<close>\<close>

definition dec_keys :: "json \<Rightarrow> string list option" where
  "dec_keys j = (case j of JNull \<Rightarrow> Some [] | JObj kvs \<Rightarrow> Some (map fst kvs) | _ \<Rightarrow> None)"

text \<open>The members of an object with the raw text of each value, for \<open>json.RawMessage\<close> fields;
  the argument starts after the brace, the object is known to be well-formed and non-empty.\<close>

fun raw_members :: "nat \<Rightarrow> string \<Rightarrow> (string \<times> string) list option" where
  "raw_members 0 s = None"
| "raw_members (Suc n) s =
     (case parse_str (tl (skip_ws s)) of
        None \<Rightarrow> None
      | Some (k, r) \<Rightarrow>
          (let t = skip_ws (tl (skip_ws r)) in
           case parse_value (2 * length t + 2) t of
             None \<Rightarrow> None
           | Some (v, r') \<Rightarrow>
               (case skip_ws r' of
                  [] \<Rightarrow> None
                | c # cs \<Rightarrow>
                    if c = CHR '','' then map_option ((#) (k, take (length t - length r') t)) (raw_members n cs)
                    else Some [(k, take (length t - length r') t)])))"

definition raw_object :: "string \<Rightarrow> (string \<times> string) list option" where
  "raw_object s = (case parse_json s of
     Some JNull \<Rightarrow> Some []
   | Some (JObj []) \<Rightarrow> Some []
   | Some (JObj (kv # kvs)) \<Rightarrow> raw_members (length s) (tl (skip_ws s))
   | _ \<Rightarrow> None)"

section \<open>Printing and parsing are inverse\<close>

lemma parse_str_escape_step:
  "parse_str (escape_char c @ t) = map_option (apfst ((#) c)) (parse_str t)"
proof (cases "code c < 32 \<or> c = CHR ''<'' \<or> c = CHR ''>'' \<or> c = CHR ''&''")
  case True
  have low: "code c < 128" using True by auto
  have v: "hexval (hexdigit_lower n) = Some n" if "n < 16" for n
    using that by (simp add: hexval_def is_digit_def hexdigit_lower_def code_char_of)
  have h: "hex4 (CHR ''0'') (CHR ''0'') (hexdigit_lower (code c div 16))
      (hexdigit_lower (code c mod 16)) = Some (code c)"
    using nibbles [of c] by (simp add: hex4_def v) (simp add: hexval_def is_digit_def)
  have u: "utf8 (code c) = [c]" using low by (simp add: utf8_def)
  have app: "(@) [c] = (#) c" by (rule ext) simp
  have ns: "\<not> is_high_surrogate (code c)" "\<not> is_low_surrogate (code c)"
    using low by (auto simp: is_high_surrogate_def is_low_surrogate_def)
  have "parse_str ([CHR 0x5C, CHR ''u'', CHR ''0'', CHR ''0'',
            hexdigit_lower (code c div 16), hexdigit_lower (code c mod 16)] @ t)
       = map_option (apfst ((#) c)) (parse_str t)"
    by (subst append_Cons, subst parse_str.simps) (simp add: simple_escape_def h ns u app)
  then show ?thesis
    by (auto simp: escape_char_def parse_str.simps simple_escape_def split del: if_split split: if_splits)
next
  case False
  then show ?thesis
    by (auto simp: escape_char_def parse_str.simps simple_escape_def)
qed

lemma parse_str_escape:
  "parse_str (concat (map escape_char s) @ CHR 0x22 # r) = Some (s, r)"
proof (induction s)
  case Nil
  then show ?case by (simp add: parse_str.simps)
next
  case (Cons c s)
  then show ?case by (simp add: parse_str_escape_step)
qed

fun wf_json :: "json \<Rightarrow> bool" where
  "wf_json (JNum l) \<longleftrightarrow> valid_number l \<and> (\<forall>c \<in> set l. is_numchar c)"
| "wf_json (JArr vs) \<longleftrightarrow> (\<forall>v \<in> set vs. wf_json v)"
| "wf_json (JObj kvs) \<longleftrightarrow> (\<forall>p \<in> set kvs. wf_json (snd p))"
| "wf_json _ \<longleftrightarrow> True"

text \<open>What may follow a value without changing how it is read\<close>

definition ends :: "string \<Rightarrow> bool" where
  "ends r \<longleftrightarrow> (case r of [] \<Rightarrow> True | c # _ \<Rightarrow> c \<in> set '',]}'')"

lemma ends_simps [simp]:
  "ends []" "ends (CHR '','' # r)" "ends (CHR '']'' # r)" "ends (CHR ''}'' # r)"
  by (simp_all add: ends_def)

lemma skip_ws_nonspace [simp]: "\<not> json_space c \<Longrightarrow> skip_ws (c # cs) = c # cs"
  by (simp add: skip_ws_def)

lemma json_space_marks [simp]:
  "\<not> json_space (CHR ''{'')" "\<not> json_space (CHR ''['')" "\<not> json_space (CHR ''}'')"
  "\<not> json_space (CHR '']'')" "\<not> json_space (CHR '','')" "\<not> json_space (CHR '':'')"
  "\<not> json_space (CHR 0x22)" "\<not> json_space (CHR ''t'')" "\<not> json_space (CHR ''f'')"
  "\<not> json_space (CHR ''n'')"
  by (simp_all add: json_space_def)

lemma valid_number_nonempty: "valid_number l \<Longrightarrow> l \<noteq> []"
  by (auto simp: valid_number_def strip_int_def TrimPrefix_def)

lemma numchar_not_mark:
  "is_numchar c \<Longrightarrow> c \<notin> set ''{}[],:tfn'' \<and> c \<noteq> CHR 0x22 \<and> \<not> json_space c"
  by (auto simp: is_numchar_def is_digit_def json_space_def)

lemma print_json_first:
  "wf_json j \<Longrightarrow> \<exists>c cs. print_json j = c # cs \<and> \<not> json_space c \<and> c \<notin> set ''],}:''"
proof (cases j)
  case (JNum l)
  assume "wf_json j"
  with JNum valid_number_nonempty obtain c cs where "l = c # cs" "is_numchar c"
    by (cases l) auto
  with JNum numchar_not_mark [of c] show ?thesis by auto
qed (auto simp: quote_json_def)

lemma parse_num_print:
  assumes "valid_number l" and "\<forall>c \<in> set l. is_numchar c" and "ends r"
  shows "parse_num (l @ r) = Some (JNum l, r)"
proof -
  have "takeWhile is_numchar (l @ r) = l" "dropWhile is_numchar (l @ r) = r"
    using assms(2,3) by (cases r; auto simp: ends_def takeWhile_append dropWhile_append
        is_numchar_def is_digit_def takeWhile_eq_Nil_iff)+
  with assms(1) show ?thesis by (simp add: parse_num_def)
qed

abbreviation print_member :: "string \<times> json \<Rightarrow> string" where
  "print_member \<equiv> \<lambda>(k, v). quote_json k @ '':'' @ print_json v"

text \<open>The fuel that is enough for a printed value, and for lists of them.\<close>

definition reads :: "json \<Rightarrow> bool" where
  "reads j \<longleftrightarrow> (\<forall>n r. 2 * length (print_json j) \<le> n \<longrightarrow> ends r \<longrightarrow>
     parse_value n (print_json j @ r) = Some (j, r))"

lemma join_Cons: "join sep (s # ss) = (if ss = [] then s else s @ sep @ join sep ss)"
  by (cases ss) auto

lemma parse_elems_print:
  assumes "vs \<noteq> []" and "\<forall>v \<in> set vs. reads v"
    and "2 * length (join '','' (map print_json vs)) < n"
  shows "parse_elems n (join '','' (map print_json vs) @ CHR '']'' # r) = Some (vs, r)"
  using assms
proof (induction vs arbitrary: n)
  case Nil
  then show ?case by simp
next
  case (Cons v vs)
  then obtain m where n: "n = Suc m" by (cases n) auto
  show ?case
  proof (cases "vs = []")
    case True
    have "parse_value m (print_json v @ CHR '']'' # r) = Some (v, CHR '']'' # r)"
      using Cons.prems n True by (auto simp: reads_def)
    with n True show ?thesis by simp
  next
    case False
    let ?t = "join '','' (map print_json vs) @ CHR '']'' # r"
    have "parse_value m (print_json v @ CHR '','' # ?t) = Some (v, CHR '','' # ?t)"
      using Cons.prems n False by (auto simp: reads_def join_Cons)
    moreover have "parse_elems m ?t = Some (vs, r)"
      using Cons.prems n False by (intro Cons.IH) (auto simp: join_Cons)
    ultimately show ?thesis using n False by (simp add: join_Cons)
  qed
qed

lemma parse_members_print:
  assumes "kvs \<noteq> []" and "\<forall>p \<in> set kvs. reads (snd p)"
    and "2 * length (join '','' (map print_member kvs)) < n"
  shows "parse_members n (join '','' (map print_member kvs) @ CHR ''}'' # r) = Some (kvs, r)"
  using assms
proof (induction kvs arbitrary: n)
  case Nil
  then show ?case by simp
next
  case (Cons p kvs)
  obtain k v where p: "p = (k, v)" by (cases p)
  from Cons.prems obtain m where n: "n = Suc m" by (cases n) auto
  let ?k = "concat (map escape_char k)"
  have key: "parse_str (?k @ CHR 0x22 # CHR '':'' # t) = Some (k, CHR '':'' # t)" for t
    by (rule parse_str_escape)
  show ?case
  proof (cases "kvs = []")
    case True
    have "parse_value m (print_json v @ CHR ''}'' # r) = Some (v, CHR ''}'' # r)"
      using Cons.prems n True p by (auto simp: reads_def)
    with n True p key show ?thesis by (simp add: quote_json_def)
  next
    case False
    let ?t = "join '','' (map print_member kvs) @ CHR ''}'' # r"
    have "parse_value m (print_json v @ CHR '','' # ?t) = Some (v, CHR '','' # ?t)"
      using Cons.prems n False p by (auto simp: reads_def join_Cons)
    moreover have "parse_members m ?t = Some (kvs, r)"
      using Cons.prems n False by (intro Cons.IH) (auto simp: join_Cons)
    ultimately show ?thesis using n False p key by (simp add: join_Cons quote_json_def)
  qed
qed

lemma reads_wf: "wf_json j \<Longrightarrow> reads j"
proof (induction j)
  case (JNum l)
  show ?case unfolding reads_def
  proof (intro allI impI)
    fix n r assume n: "2 * length (print_json (JNum l)) \<le> n" and r: "ends r"
    from JNum obtain c cs where l: "l = c # cs" "is_numchar c"
      using valid_number_nonempty by (cases l) auto
    with numchar_not_mark have c: "c \<notin> set ''{}[],:tfn''" "c \<noteq> CHR 0x22" "\<not> json_space c"
      by blast+
    from n l obtain m where m: "n = Suc m" by (cases n) auto
    have "parse_num (l @ r) = Some (JNum l, r)"
      using JNum r by (intro parse_num_print) auto
    with l c m show "parse_value n (print_json (JNum l) @ r) = Some (JNum l, r)" by simp
  qed
next
  case (JStr s)
  show ?case unfolding reads_def
  proof (intro allI impI)
    fix n r assume n: "2 * length (print_json (JStr s)) \<le> n"
    then obtain m where m: "n = Suc m" by (cases n) (auto simp: quote_json_def)
    show "parse_value n (print_json (JStr s) @ r) = Some (JStr s, r)"
      using m parse_str_escape [of s r] by (simp add: quote_json_def)
  qed
next
  case (JArr vs)
  then have IH: "\<forall>v \<in> set vs. reads v" by auto
  show ?case unfolding reads_def
  proof (intro allI impI)
    fix n r assume n: "2 * length (print_json (JArr vs)) \<le> n"
    then obtain m where m: "n = Suc m" by (cases n) auto
    show "parse_value n (print_json (JArr vs) @ r) = Some (JArr vs, r)"
    proof (cases vs)
      case Nil
      with m show ?thesis by simp
    next
      case (Cons v vs')
      then obtain c cs where c: "print_json v = c # cs" "\<not> json_space c" "c \<noteq> CHR '']''"
        using print_json_first [of v] JArr.prems by auto
      have "parse_elems m (join '','' (map print_json vs) @ CHR '']'' # r) = Some (vs, r)"
        using IH n m Cons by (intro parse_elems_print) auto
      with m c Cons show ?thesis by (simp add: join_Cons split: if_splits)
    qed
  qed
next
  case (JObj kvs)
  then have IH: "\<forall>p \<in> set kvs. reads (snd p)" by (auto simp: snds.simps)
  show ?case unfolding reads_def
  proof (intro allI impI)
    fix n r assume n: "2 * length (print_json (JObj kvs)) \<le> n"
    then obtain m where m: "n = Suc m" by (cases n) auto
    show "parse_value n (print_json (JObj kvs) @ r) = Some (JObj kvs, r)"
    proof (cases kvs)
      case Nil
      with m show ?thesis by simp
    next
      case (Cons p kvs')
      have "parse_members m (join '','' (map print_member kvs) @ CHR ''}'' # r) = Some (kvs, r)"
        using IH n m Cons by (intro parse_members_print) auto
      with m Cons show ?thesis
        by (cases p) (simp add: join_Cons quote_json_def split: if_splits)
    qed
  qed
next
  case JNull
  show ?case unfolding reads_def by (intro allI impI, case_tac n) (auto simp: parse_lit_def split: if_splits)
next
  case (JBool b)
  show ?case unfolding reads_def by (intro allI impI, case_tac n) (auto simp: parse_lit_def split: if_splits)
qed

theorem parse_print_json: "wf_json j \<Longrightarrow> parse_json (print_json j) = Some j"
proof -
  assume "wf_json j"
  then have "reads j" by (rule reads_wf)
  then have "parse_value (2 * length (print_json j) + 2) (print_json j @ []) = Some (j, [])"
    unfolding reads_def by (metis ends_simps(1) le_add1)
  then show ?thesis by (simp add: parse_json_def skip_ws_def)
qed


end
