(* ===== verification/Errors.thy ===== *)
theory Errors
  imports Prelude
begin

text \<open>
  The errors of package \<open>api\<close> (\<open>api/errors.go\<close>, the two of \<open>api/connectionstate.go\<close>, and
  \<open>PairingValidationError\<close> of \<open>api/shippairing.go\<close>). A sentinel is an \<open>errors.New\<close> value,
  compared by identity; \<open>Wrapped\<close> is a \<open>fmt.Errorf\<close> with a \<open>%w\<close> verb, with its full text;
  \<open>Opaque\<close> is any other error value, an error of the platform included.
\<close>

datatype (plugins only: code size) sentinel
  = ErrConnectionNotInitialized
  | ErrConnectionClosed
  | ErrConnectionTimeout
  | ErrBufferFull
  | ErrHubAlreadyStarted
  | ErrInvalidCertificate
  | ErrInvalidSKI
  | ErrServiceNil
  | ErrNotPaired
  | ErrInvalidHandshake
  | ErrInvalidProtocolMessage
  | ErrUnsupportedPinState
  | ErrServiceNotStarted
  | ErrServiceAlreadyStarted
  | ErrServiceNotStopped
  | ErrPairingNotEnabled
  | ErrPairingNoConfig
  | ErrInvalidSecret
  | ErrInvalidTargetSKI
  | ErrInvalidTargetFingerprint
  | ErrPairingAlreadyActive
  | ErrPairingNotActive
  | ErrListenerAlreadyActive
  | ErrAnnouncerAlreadyActive
  | ErrOperationCancelled
  | ErrDeviceAlreadyPaired
  | ErrInvalidHMACDigest
  | ErrReplayAttackDetected
  | ErrInvalidTXTRecord
  | ErrUnsupportedTrustCurve
  | ErrUnsupportedAlgorithm
  | ErrHistoryProviderFailed
  | ErrHistoryProviderNotSet
  | ErrHubProviderNotSet
  | ErrMdnsProviderNotSet
  | ErrCertificateProviderNotSet
  | ErrCryptoProviderNotSet
  | ErrMDNSAnnouncementFailed
  | ErrMDNSSearchFailed
  | ErrNetworkTimeout
  | ErrConnectionEstablishment
  | ErrSecretTooShort
  | ErrSecretTooLong
  | ErrNonceGenerationFailed
  | ErrHMACCalculationFailed
  | ErrTimingAttackDetected
  | ErrServiceNotPaired
  | ErrConnectionNotFound

primrec sentinel_text :: "sentinel \<Rightarrow> string" where
  "sentinel_text ErrConnectionNotInitialized = ''connection not initialized''"
| "sentinel_text ErrConnectionClosed = ''connection closed''"
| "sentinel_text ErrConnectionTimeout = ''connection timeout''"
| "sentinel_text ErrBufferFull = ''buffer full''"
| "sentinel_text ErrHubAlreadyStarted = ''hub already started''"
| "sentinel_text ErrInvalidCertificate = ''invalid certificate''"
| "sentinel_text ErrInvalidSKI = ''invalid SKI''"
| "sentinel_text ErrServiceNil = ''service is not initialized''"
| "sentinel_text ErrNotPaired = ''remote service not paired''"
| "sentinel_text ErrInvalidHandshake = ''invalid handshake''"
| "sentinel_text ErrInvalidProtocolMessage = ''invalid protocol message''"
| "sentinel_text ErrUnsupportedPinState = ''unsupported PIN state''"
| "sentinel_text ErrServiceNotStarted = ''pairing service not started''"
| "sentinel_text ErrServiceAlreadyStarted = ''pairing service already started''"
| "sentinel_text ErrServiceNotStopped = ''pairing service not stopped properly''"
| "sentinel_text ErrPairingNotEnabled = ''pairing service not enabled''"
| "sentinel_text ErrPairingNoConfig = ''pairing service configuration not set''"
| "sentinel_text ErrInvalidSecret = ''invalid pairing secret''"
| "sentinel_text ErrInvalidTargetSKI = ''invalid target SKI''"
| "sentinel_text ErrInvalidTargetFingerprint = ''invalid target fingerprint''"
| "sentinel_text ErrPairingAlreadyActive = ''pairing already active for target''"
| "sentinel_text ErrPairingNotActive = ''no active pairing for target''"
| "sentinel_text ErrListenerAlreadyActive = ''pairing listener already active''"
| "sentinel_text ErrAnnouncerAlreadyActive = ''pairing announcer already active''"
| "sentinel_text ErrOperationCancelled = ''pairing operation cancelled''"
| "sentinel_text ErrDeviceAlreadyPaired = ''device is already paired/trusted''"
| "sentinel_text ErrInvalidHMACDigest = ''invalid HMAC digest''"
| "sentinel_text ErrReplayAttackDetected = ''replay attack detected - digest already seen''"
| "sentinel_text ErrInvalidTXTRecord = ''invalid TXT record structure''"
| "sentinel_text ErrUnsupportedTrustCurve = ''unsupported trust curve''"
| "sentinel_text ErrUnsupportedAlgorithm = ''unsupported HMAC algorithm''"
| "sentinel_text ErrHistoryProviderFailed = ''pairing history provider failed''"
| "sentinel_text ErrHistoryProviderNotSet = ''pairing history provider not configured''"
| "sentinel_text ErrHubProviderNotSet = ''hub provider not configured''"
| "sentinel_text ErrMdnsProviderNotSet = ''mDNS provider not configured''"
| "sentinel_text ErrCertificateProviderNotSet = ''certificate provider not configured''"
| "sentinel_text ErrCryptoProviderNotSet = ''crypto provider not configured''"
| "sentinel_text ErrMDNSAnnouncementFailed = ''mDNS pairing announcement failed''"
| "sentinel_text ErrMDNSSearchFailed = ''mDNS pairing search failed''"
| "sentinel_text ErrNetworkTimeout = ''network operation timeout''"
| "sentinel_text ErrConnectionEstablishment = ''connection establishment failed''"
| "sentinel_text ErrSecretTooShort = ''pairing secret too short (minimum 16 bytes)''"
| "sentinel_text ErrSecretTooLong = ''pairing secret too long (maximum 128 bytes)''"
| "sentinel_text ErrNonceGenerationFailed = ''failed to generate cryptographic nonce''"
| "sentinel_text ErrHMACCalculationFailed = ''HMAC calculation failed''"
| "sentinel_text ErrTimingAttackDetected = ''potential timing attack detected''"
| "sentinel_text ErrServiceNotPaired = ''the provided SKI is not paired''"
| "sentinel_text ErrConnectionNotFound = ''no connection for provided SKI found''"

datatype error =
    Sentinel sentinel
  | ValidationError string string
  | Wrapped string error
  | Opaque string

text \<open>\<open>PairingValidationError.Error\<close> and the \<open>Error\<close> method of the other values\<close>

fun error_text :: "error \<Rightarrow> string" where
  "error_text (Sentinel e) = sentinel_text e"
| "error_text (ValidationError f m) =
     (if f \<noteq> [] then ''pairing validation error ['' @ f @ '']: '' @ m
      else ''pairing validation error: '' @ m)"
| "error_text (Wrapped t e) = t"
| "error_text (Opaque t) = t"

text \<open>\<open>NewPairingValidationError\<close> and \<open>NewPairingFieldValidationError\<close>\<close>

definition NewPairingValidationError :: "string \<Rightarrow> error" where
  "NewPairingValidationError m = ValidationError [] m"

definition NewPairingFieldValidationError :: "string \<Rightarrow> string \<Rightarrow> error" where
  "NewPairingFieldValidationError f m = ValidationError f m"

text \<open>\<open>errors.Is(err, target)\<close> for a non-nil \<open>err\<close>: the chain of wrapped errors is searched for the
  target value. Pointers to \<open>PairingValidationError\<close> and \<open>Opaque\<close> errors are compared as values.\<close>

fun errors_is :: "error \<Rightarrow> error \<Rightarrow> bool" where
  "errors_is (Wrapped t e) target \<longleftrightarrow> Wrapped t e = target \<or> errors_is e target"
| "errors_is e target \<longleftrightarrow> e = target"

text \<open>\<open>errors.Is\<close> on possibly nil errors: a nil error is only a nil target.\<close>

definition errors_is_opt :: "error option \<Rightarrow> error option \<Rightarrow> bool" where
  "errors_is_opt e target = (case e of None \<Rightarrow> target = None
     | Some x \<Rightarrow> (case target of None \<Rightarrow> False | Some t \<Rightarrow> errors_is x t))"

lemma errors_is_refl [simp]: "errors_is e e"
  by (cases e) auto

lemma errors_is_opt_refl [simp]: "errors_is_opt e e"
  by (cases e) (auto simp: errors_is_opt_def)

lemma errors_is_trans: "errors_is a b \<Longrightarrow> errors_is b c \<Longrightarrow> errors_is a c"
  by (induction a b rule: errors_is.induct) auto

end
