(* ===== verification/ShipModel.thy ===== *)
theory ShipModel
  imports Json Errors
begin

text \<open>
  Package \<open>model\<close>: the states of the SHIP message exchange (\<open>model/types.go\<close>) and the messages of
  the protocol with their JSON form (\<open>model/model.go\<close>). The \<open>json\<close> struct tags give the keys of
  \<open>to_json\<close> (\<open>json.Marshal\<close>, fields in declaration order, \<open>omitempty\<close> dropping nil pointers) and of
  the decoders (\<open>json.Unmarshal\<close>); an enumeration type over \<open>string\<close> is a string with the
  package's constants.
\<close>

section \<open>States\<close>

datatype (plugins only: code size) sme_state
  = CmiStateInitStart
  | CmiStateClientSend
  | CmiStateClientWait
  | CmiStateClientEvaluate
  | CmiStateServerWait
  | CmiStateServerEvaluate
  | SmeHelloState
  | SmeHelloStateReadyInit
  | SmeHelloStateReadyListen
  | SmeHelloStateReadyTimeout
  | SmeHelloStatePendingInit
  | SmeHelloStatePendingListen
  | SmeHelloStatePendingTimeout
  | SmeHelloStateOk
  | SmeHelloStateAbort
  | SmeHelloStateAbortDone
  | SmeHelloStateRemoteAbortDone
  | SmeHelloStateRejected
  | SmeProtHStateServerInit
  | SmeProtHStateClientInit
  | SmeProtHStateServerListenProposal
  | SmeProtHStateServerListenConfirm
  | SmeProtHStateClientListenChoice
  | SmeProtHStateTimeout
  | SmeProtHStateClientOk
  | SmeProtHStateServerOk
  | SmePinStateCheckInit
  | SmePinStateCheckListen
  | SmePinStateCheckError
  | SmePinStateCheckBusyInit
  | SmePinStateCheckBusyWait
  | SmePinStateCheckOk
  | SmePinStateAskInit
  | SmePinStateAskProcess
  | SmePinStateAskRestricted
  | SmePinStateAskOk
  | SmeAccessMethodsRequest
  | SmeStateApproved
  | SmeStateComplete
  | SmeStateError

text \<open>The value of the constant (\<open>\<open>%v\<close>\<close> prints it)\<close>

primrec state_value :: "sme_state \<Rightarrow> nat" where
  "state_value CmiStateInitStart = 0"
| "state_value CmiStateClientSend = 1"
| "state_value CmiStateClientWait = 2"
| "state_value CmiStateClientEvaluate = 3"
| "state_value CmiStateServerWait = 4"
| "state_value CmiStateServerEvaluate = 5"
| "state_value SmeHelloState = 6"
| "state_value SmeHelloStateReadyInit = 7"
| "state_value SmeHelloStateReadyListen = 8"
| "state_value SmeHelloStateReadyTimeout = 9"
| "state_value SmeHelloStatePendingInit = 10"
| "state_value SmeHelloStatePendingListen = 11"
| "state_value SmeHelloStatePendingTimeout = 12"
| "state_value SmeHelloStateOk = 13"
| "state_value SmeHelloStateAbort = 14"
| "state_value SmeHelloStateAbortDone = 15"
| "state_value SmeHelloStateRemoteAbortDone = 16"
| "state_value SmeHelloStateRejected = 17"
| "state_value SmeProtHStateServerInit = 18"
| "state_value SmeProtHStateClientInit = 19"
| "state_value SmeProtHStateServerListenProposal = 20"
| "state_value SmeProtHStateServerListenConfirm = 21"
| "state_value SmeProtHStateClientListenChoice = 22"
| "state_value SmeProtHStateTimeout = 23"
| "state_value SmeProtHStateClientOk = 24"
| "state_value SmeProtHStateServerOk = 25"
| "state_value SmePinStateCheckInit = 26"
| "state_value SmePinStateCheckListen = 27"
| "state_value SmePinStateCheckError = 28"
| "state_value SmePinStateCheckBusyInit = 29"
| "state_value SmePinStateCheckBusyWait = 30"
| "state_value SmePinStateCheckOk = 31"
| "state_value SmePinStateAskInit = 32"
| "state_value SmePinStateAskProcess = 33"
| "state_value SmePinStateAskRestricted = 34"
| "state_value SmePinStateAskOk = 35"
| "state_value SmeAccessMethodsRequest = 36"
| "state_value SmeStateApproved = 37"
| "state_value SmeStateComplete = 38"
| "state_value SmeStateError = 39"

section \<open>Message types\<close>

definition MsgTypeInit :: char where "MsgTypeInit = char_of (0::nat)"
definition MsgTypeControl :: char where "MsgTypeControl = char_of (1::nat)"
definition MsgTypeData :: char where "MsgTypeData = char_of (2::nat)"
definition MsgTypeEnd :: char where "MsgTypeEnd = char_of (3::nat)"

definition ShipInit :: bytes where "ShipInit = [MsgTypeInit, char_of (0::nat)]"

definition ShipProtocolId :: string where "ShipProtocolId = ''ee1.0''"

abbreviation PhasePending :: string where "PhasePending \<equiv> ''pending''"
abbreviation PhaseReady :: string where "PhaseReady \<equiv> ''ready''"
abbreviation PhaseAborted :: string where "PhaseAborted \<equiv> ''aborted''"

text \<open>\<open>ConnectionHelloType\<close>; \<open>uint\<close> is 64 bits wide.\<close>

record hello =
  Phase :: string
  Waiting :: "nat option"
  ProlongationRequest :: "bool option"

abbreviation FormatUTF8 :: string where "FormatUTF8 \<equiv> ''JSON-UTF8''"
abbreviation AnnounceMax :: string where "AnnounceMax \<equiv> ''announceMax''"
abbreviation Select :: string where "Select \<equiv> ''select''"

record version =
  Major :: nat
  Minor :: nat

text \<open>\<open>MessageProtocolHandshakeType\<close>; the slice of formats may be nil (\<open>None\<close>).\<close>

record protocol_handshake =
  HandshakeType :: string
  Version :: version
  Formats :: "string list option"

datatype handshake_error = ErrRFU | ErrTimeout | ErrUnexpectedMessage | ErrSelectionMismatch

fun handshake_error_value :: "handshake_error \<Rightarrow> nat" where
  "handshake_error_value ErrRFU = 0"
| "handshake_error_value ErrTimeout = 1"
| "handshake_error_value ErrUnexpectedMessage = 2"
| "handshake_error_value ErrSelectionMismatch = 3"

abbreviation PinRequired :: string where "PinRequired \<equiv> ''required''"
abbreviation PinOptional :: string where "PinOptional \<equiv> ''optional''"
abbreviation PinOk :: string where "PinOk \<equiv> ''pinOk''"
abbreviation PinNone :: string where "PinNone \<equiv> ''none''"

record pin_state =
  PinState :: string
  InputPermission :: "string option"

abbreviation CloseAnnounce :: string where "CloseAnnounce \<equiv> ''announce''"
abbreviation CloseConfirm :: string where "CloseConfirm \<equiv> ''confirm''"
abbreviation ReasonUnspecific :: string where "ReasonUnspecific \<equiv> ''unspecific''"
abbreviation ReasonRemoved :: string where "ReasonRemoved \<equiv> ''removedConnection''"

record connection_close =
  ClosePhase :: string
  MaxTime :: "nat option"
  Reason :: "string option"

text \<open>\<open>AccessMethodsType\<close>: the id, and whether the optional DNS members are present.\<close>

record access_methods =
  Id :: "string option"
  DnsSdMDns :: "unit option"
  DnsUri :: "string option"

section \<open>Marshalling\<close>

definition omit :: "string \<Rightarrow> ('a \<Rightarrow> json) \<Rightarrow> 'a option \<Rightarrow> (string \<times> json) list" where
  "omit k f v = (case v of None \<Rightarrow> [] | Some x \<Rightarrow> [(k, f x)])"

definition jnat :: "nat \<Rightarrow> json" where "jnat n = JNum (Itoa n)"

definition hello_to_json :: "hello \<Rightarrow> json" where
  "hello_to_json h = JObj [(''connectionHello'',
     JObj ((''phase'', JStr (Phase h)) # omit ''waiting'' jnat (Waiting h)
       @ omit ''prolongationRequest'' JBool (ProlongationRequest h)))]"

definition handshake_to_json :: "protocol_handshake \<Rightarrow> json" where
  "handshake_to_json p = JObj [(''messageProtocolHandshake'',
     JObj [(''handshakeType'', JStr (HandshakeType p)),
           (''version'', JObj [(''major'', jnat (Major (Version p))), (''minor'', jnat (Minor (Version p)))]),
           (''formats'', JObj [(''format'',
              (case Formats p of None \<Rightarrow> JNull | Some fs \<Rightarrow> JArr (map JStr fs)))])])]"

definition handshake_error_to_json :: "handshake_error \<Rightarrow> json" where
  "handshake_error_to_json e = JObj [(''error'', jnat (handshake_error_value e))]"

definition pin_to_json :: "pin_state \<Rightarrow> json" where
  "pin_to_json p = JObj [(''connectionPinState'',
     JObj ((''pinState'', JStr (PinState p)) # omit ''inputPermission'' JStr (InputPermission p)))]"

definition close_to_json :: "connection_close \<Rightarrow> json" where
  "close_to_json c = JObj [(''connectionClose'',
     JObj ((''phase'', JStr (ClosePhase c)) # omit ''maxTime'' jnat (MaxTime c)
       @ omit ''reason'' JStr (Reason c)))]"

definition access_request_to_json :: json where
  "access_request_to_json = JObj [(''accessMethodsRequest'', JObj [])]"

definition access_to_json :: "access_methods \<Rightarrow> json" where
  "access_to_json a = JObj [(''accessMethods'',
     JObj ((''id'', (case Id a of None \<Rightarrow> JNull | Some i \<Rightarrow> JStr i))
       # omit ''dnsSd_mDns'' (\<lambda>_. JObj []) (DnsSdMDns a)
       @ omit ''dns'' (\<lambda>u. JObj [(''uri'', JStr u)]) (DnsUri a)))]"

text \<open>\<open>ShipData\<close> around a payload, which is raw JSON\<close>

definition data_to_json :: "json \<Rightarrow> json" where
  "data_to_json payload = JObj [(''data'',
     JObj [(''header'', JObj [(''protocolId'', JStr ShipProtocolId)]), (''payload'', payload)])]"

section \<open>Unmarshalling\<close>

definition dec_hello :: "json \<Rightarrow> hello \<Rightarrow> hello option" where
  "dec_hello = dec_struct [''connectionHello''] (\<lambda>_. dec_struct
     [''phase'', ''waiting'', ''prolongationRequest'']
     (\<lambda>f j h.
        if f = ''phase'' then map_option (\<lambda>x. h\<lparr>Phase := x\<rparr>) (dec_string j (Phase h))
        else if f = ''waiting''
        then map_option (\<lambda>x. h\<lparr>Waiting := x\<rparr>) (dec_ptr (dec_uint 64) 0 j (Waiting h))
        else map_option (\<lambda>x. h\<lparr>ProlongationRequest := x\<rparr>)
               (dec_ptr dec_bool False j (ProlongationRequest h))))"

definition dec_version :: "json \<Rightarrow> version \<Rightarrow> version option" where
  "dec_version = dec_struct [''major'', ''minor'']
     (\<lambda>f j v. if f = ''major'' then map_option (\<lambda>x. v\<lparr>Major := x\<rparr>) (dec_uint 8 j (Major v))
              else map_option (\<lambda>x. v\<lparr>Minor := x\<rparr>) (dec_uint 8 j (Minor v)))"

definition dec_handshake :: "json \<Rightarrow> protocol_handshake \<Rightarrow> protocol_handshake option" where
  "dec_handshake = dec_struct [''messageProtocolHandshake''] (\<lambda>_. dec_struct
     [''handshakeType'', ''version'', ''formats'']
     (\<lambda>f j p.
        if f = ''handshakeType''
        then map_option (\<lambda>x. p\<lparr>HandshakeType := x\<rparr>) (dec_string j (HandshakeType p))
        else if f = ''version'' then map_option (\<lambda>x. p\<lparr>Version := x\<rparr>) (dec_version j (Version p))
        else dec_struct [''format''] (\<lambda>_ j' q. map_option (\<lambda>x. q\<lparr>Formats := x\<rparr>)
               (dec_slice dec_string [] j' (Formats q))) j p))"

definition dec_pin :: "json \<Rightarrow> pin_state \<Rightarrow> pin_state option" where
  "dec_pin = dec_struct [''connectionPinState''] (\<lambda>_. dec_struct [''pinState'', ''inputPermission'']
     (\<lambda>f j p. if f = ''pinState'' then map_option (\<lambda>x. p\<lparr>PinState := x\<rparr>) (dec_string j (PinState p))
              else map_option (\<lambda>x. p\<lparr>InputPermission := x\<rparr>)
                     (dec_ptr dec_string [] j (InputPermission p))))"

definition dec_close :: "json \<Rightarrow> connection_close \<Rightarrow> connection_close option" where
  "dec_close = dec_struct [''connectionClose''] (\<lambda>_. dec_struct [''phase'', ''maxTime'', ''reason'']
     (\<lambda>f j c.
        if f = ''phase'' then map_option (\<lambda>x. c\<lparr>ClosePhase := x\<rparr>) (dec_string j (ClosePhase c))
        else if f = ''maxTime''
        then map_option (\<lambda>x. c\<lparr>MaxTime := x\<rparr>) (dec_ptr (dec_uint 64) 0 j (MaxTime c))
        else map_option (\<lambda>x. c\<lparr>Reason := x\<rparr>) (dec_ptr dec_string [] j (Reason c))))"

definition dec_unit :: "json \<Rightarrow> unit \<Rightarrow> unit option" where
  "dec_unit = dec_struct [] (\<lambda>_ _ u. Some u)"

definition dec_access :: "json \<Rightarrow> access_methods \<Rightarrow> access_methods option" where
  "dec_access = dec_struct [''accessMethods''] (\<lambda>_. dec_struct [''id'', ''dnsSd_mDns'', ''dns'']
     (\<lambda>f j a.
        if f = ''id'' then map_option (\<lambda>x. a\<lparr>Id := x\<rparr>) (dec_ptr dec_string [] j (Id a))
        else if f = ''dnsSd_mDns''
        then map_option (\<lambda>x. a\<lparr>DnsSdMDns := x\<rparr>) (dec_ptr dec_unit () j (DnsSdMDns a))
        else map_option (\<lambda>x. a\<lparr>DnsUri := x\<rparr>)
               (dec_ptr (dec_struct [''uri''] (\<lambda>_. dec_string)) [] j (DnsUri a))))"

definition zero_hello :: hello where
  "zero_hello = \<lparr>Phase = [], Waiting = None, ProlongationRequest = None\<rparr>"

definition zero_handshake :: protocol_handshake where
  "zero_handshake = \<lparr>HandshakeType = [], Version = \<lparr>Major = 0, Minor = 0\<rparr>, Formats = None\<rparr>"

definition zero_pin :: pin_state where
  "zero_pin = \<lparr>PinState = [], InputPermission = None\<rparr>"

definition zero_close :: connection_close where
  "zero_close = \<lparr>ClosePhase = [], MaxTime = None, Reason = None\<rparr>"

definition zero_access :: access_methods where
  "zero_access = \<lparr>Id = None, DnsSdMDns = None, DnsUri = None\<rparr>"

text \<open>\<open>ShipData\<close>: the raw text of \<open>data.payload\<close> (\<open>None\<close> for a nil \<open>json.RawMessage\<close>), \<open>Inl\<close> when a
  member has the wrong type. The header and the extension are decoded for their types only.\<close>

definition dec_extension :: "json \<Rightarrow> unit \<Rightarrow> unit option" where
  "dec_extension = dec_struct [''extensionId'', ''binary'', ''string'']
     (\<lambda>f j u. if f = ''binary'' then map_option (\<lambda>_. ()) (dec_ptr (dec_uint 8) 0 j None)
              else map_option (\<lambda>_. ()) (dec_ptr dec_string [] j None))"

definition dec_header :: "json \<Rightarrow> unit \<Rightarrow> unit option" where
  "dec_header = dec_struct [''protocolId''] (\<lambda>_ j u. map_option (\<lambda>_. ()) (dec_string j []))"

fun data_members :: "(string \<times> string) list \<Rightarrow> bytes option \<Rightarrow> bytes option option" where
  "data_members [] p = Some p"
| "data_members ((k, raw) # mems) p =
     (case go_field [''header'', ''payload'', ''extension''] k of
        None \<Rightarrow> data_members mems p
      | Some f \<Rightarrow>
          if f = ''payload'' then data_members mems (Some raw)
          else if f = ''header'' then
            (case Unmarshal dec_header () raw of None \<Rightarrow> None | Some _ \<Rightarrow> data_members mems p)
          else
            (case Unmarshal (dec_ptr dec_extension ()) None raw of
               None \<Rightarrow> None | Some _ \<Rightarrow> data_members mems p))"

fun ship_data_members :: "(string \<times> string) list \<Rightarrow> bytes option \<Rightarrow> bytes option option" where
  "ship_data_members [] p = Some p"
| "ship_data_members ((k, raw) # mems) p =
     (if go_field [''data''] k = None then ship_data_members mems p
      else case raw_object raw of
             None \<Rightarrow> None
           | Some mems' \<Rightarrow> (case data_members mems' p of
                           None \<Rightarrow> None | Some p' \<Rightarrow> ship_data_members mems p'))"

definition dec_ship_data :: "string \<Rightarrow> bytes option option" where
  "dec_ship_data s = (case raw_object s of None \<Rightarrow> None | Some mems \<Rightarrow> ship_data_members mems None)"

end
