(* ===== verification/EebusJson.thy ===== *)
theory EebusJson
  imports Json Errors
begin

text \<open>
  \<open>ship/helper.go\<close>: the EEBUS flavour of JSON, in which an object is an array with one
  single-member object per field, so that the fields keep their order.

  \<open>OrderedMap.UnmarshalJSON\<close> of \<open>gitlab.com/c0b/go-ordered-json\<close> is not part of the repository: it is
  the parameter \<open>om\<close>, which reads an object text into its members in their order.
\<close>

text \<open>\<open>process_eebus_json_hierarchie_level\<close>\<close>

fun process_eebus :: "json \<Rightarrow> json" where
  "process_eebus (JObj kvs) = JArr (map (\<lambda>(k, v). JObj [(k, process_eebus v)]) kvs)"
| "process_eebus (JArr vs) = JArr (map process_eebus vs)"
| "process_eebus j = j"

definition JsonIntoEEBUSJson :: "(bytes \<Rightarrow> json option) \<Rightarrow> bytes \<Rightarrow> error + bytes" where
  "JsonIntoEEBUSJson om d = (case om d of
     None \<Rightarrow> Inl (Opaque ''invalid JSON'')
   | Some temp \<Rightarrow> Inr (TrimSuffix (TrimPrefix (print_json (process_eebus temp)) ''['') '']''))"

definition zero_byte :: "char \<Rightarrow> bool" where "zero_byte c \<longleftrightarrow> code c = 0"

definition eebus_replace :: "bytes \<Rightarrow> bytes" where
  "eebus_replace d =
     ReplaceAll ''[]'' ''{}''
       (ReplaceAll ''}]'' ''}''
         (ReplaceAll ''},{'' '',''
           (ReplaceAll ''[{'' ''{'' d)))"

definition JsonFromEEBUSJson :: "bytes \<Rightarrow> bytes" where
  "JsonFromEEBUSJson d =
     (let trimmed = trim_where zero_byte d;
          compacted = (case Compact trimmed of Some c \<Rightarrow> c | None \<Rightarrow> trimmed)
      in eebus_replace compacted)"

text \<open>What the sources rely on of the ordered map: printed objects whose keys do not repeat are
  read back with their members in order.\<close>

fun distinct_keys :: "json \<Rightarrow> bool" where
  "distinct_keys (JObj kvs) \<longleftrightarrow> distinct (map fst kvs) \<and> (\<forall>p \<in> set kvs. distinct_keys (snd p))"
| "distinct_keys (JArr vs) \<longleftrightarrow> (\<forall>v \<in> set vs. distinct_keys v)"
| "distinct_keys _ \<longleftrightarrow> True"

definition ordered_map_ok :: "(bytes \<Rightarrow> json option) \<Rightarrow> bool" where
  "ordered_map_ok om \<longleftrightarrow> (\<forall>kvs. wf_json (JObj kvs) \<longrightarrow> distinct_keys (JObj kvs) \<longrightarrow>
     om (print_json (JObj kvs)) = Some (JObj kvs))"

text \<open>A concrete ordered map: the object parsed with its members in order.\<close>

definition ordered_map_ref :: "bytes \<Rightarrow> json option" where
  "ordered_map_ref d = (case parse_json d of Some (JObj kvs) \<Rightarrow> Some (JObj kvs) | _ \<Rightarrow> None)"

lemma ordered_map_ref_ok: "ordered_map_ok ordered_map_ref"
proof -
  have "ordered_map_ref (print_json (JObj kvs)) = Some (JObj kvs)" if "wf_json (JObj kvs)" for kvs
    using parse_print_json [OF that] by (simp only: ordered_map_ref_def option.case json.case)
  then show ?thesis unfolding ordered_map_ok_def by blast
qed

end
