(* ===== verification/HandshakeTimer.thy ===== *)
theory HandshakeTimer
  imports Prelude
begin

text \<open>
  The handshake timer of \<open>ship/handshake.go\<close> (lines 258-364) with the runtime timers it creates.
  \<open>time.AfterFunc\<close> gives every timer an identity; a timer is armed until it is stopped or fires;
  once it has fired its callback waits for \<open>handshakeTimerMux\<close> (\<open>fired\<close>) and then runs.
  \<open>handshakeTimer\<close> is the identity of the current timer or nil. A done channel carries the identity
  of its timer; \<open>doneClosed\<close> lists the closed ones, a second entry being a second close.
\<close>

datatype timer_type = WaitForReady | SendProlongationRequest | ProlongRequestReply

record hs_timer =
  handshakeTimer :: "nat option"
  handshakeTimerType :: timer_type
  handshakeTimerRunning :: bool
  handshakeTimerDone :: nat
  armed :: "(nat \<times> duration) list"
  fired :: "nat list"
  doneClosed :: "nat list"
  nextTimer :: nat

definition new_timer :: hs_timer where
  "new_timer = \<lparr>handshakeTimer = None, handshakeTimerType = WaitForReady,
     handshakeTimerRunning = False, handshakeTimerDone = 0, armed = [], fired = [],
     doneClosed = [], nextTimer = 1\<rparr>"

text \<open>\<open>(*time.Timer).Stop\<close>: true when the timer had neither fired nor been stopped.\<close>

definition rt_stop :: "nat \<Rightarrow> hs_timer \<Rightarrow> bool \<times> hs_timer" where
  "rt_stop i t = (i \<in> fst ` set (armed t), t\<lparr>armed := filter (\<lambda>p. fst p \<noteq> i) (armed t)\<rparr>)"

text \<open>\<open>stopHandshakeTimer\<close>; the result is the channel the caller may wait on, \<open>None\<close> for the closed
  one it gets when no timer runs.\<close>

definition stopHandshakeTimer :: "hs_timer \<Rightarrow> nat option \<times> hs_timer" where
  "stopHandshakeTimer t = (case handshakeTimer t of
     None \<Rightarrow> (None, t)
   | Some i \<Rightarrow>
       (let (stopped, t1) = rt_stop i t;
            done = handshakeTimerDone t1;
            t2 = t1\<lparr>handshakeTimer := None, handshakeTimerRunning := False\<rparr>
        in (Some done, if stopped then t2\<lparr>doneClosed := done # doneClosed t2\<rparr> else t2)))"

definition setHandshakeTimer :: "timer_type \<Rightarrow> duration \<Rightarrow> hs_timer \<Rightarrow> hs_timer" where
  "setHandshakeTimer ty d t =
     (let t1 = snd (stopHandshakeTimer t); i = nextTimer t1
      in t1\<lparr>handshakeTimerDone := i, handshakeTimerType := ty, handshakeTimerRunning := True,
            handshakeTimer := Some i, armed := (i, d) # armed t1, nextTimer := Suc i\<rparr>)"

definition stopTimerSafe :: "hs_timer \<Rightarrow> bool \<times> hs_timer" where
  "stopTimerSafe t = (let wasRunning = handshakeTimerRunning t in
     (wasRunning, if wasRunning then snd (stopHandshakeTimer t) else t))"

definition getHandshakeTimerRunning :: "hs_timer \<Rightarrow> bool" where
  "getHandshakeTimerRunning t = handshakeTimerRunning t"

definition setHandshakeTimerType :: "timer_type \<Rightarrow> hs_timer \<Rightarrow> hs_timer" where
  "setHandshakeTimerType ty t = t\<lparr>handshakeTimerType := ty\<rparr>"

definition getHandshakeTimerType :: "hs_timer \<Rightarrow> timer_type" where
  "getHandshakeTimerType t = handshakeTimerType t"

definition startHandshakeTimer :: "duration \<Rightarrow> timer_type \<Rightarrow> hs_timer \<Rightarrow> hs_timer" where
  "startHandshakeTimer d ty t = setHandshakeTimer ty d t"

text \<open>The runtime: an armed timer fires and its callback starts.\<close>

definition rt_fire :: "nat \<Rightarrow> hs_timer \<Rightarrow> hs_timer" where
  "rt_fire i t = (if i \<in> fst ` set (armed t)
     then t\<lparr>armed := filter (\<lambda>p. fst p \<noteq> i) (armed t), fired := i # fired t\<rparr> else t)"

text \<open>The callback once it holds the lock: it gives up when the current timer is nil, otherwise it
  clears the current timer and the timeout is handled. \<open>defer close(done)\<close> closes its channel.\<close>

definition timer_callback :: "nat \<Rightarrow> hs_timer \<Rightarrow> bool \<times> hs_timer" where
  "timer_callback i t =
     (if i \<notin> set (fired t) then (False, t)
      else let t1 = t\<lparr>fired := removeAll i (fired t), doneClosed := i # doneClosed t\<rparr> in
        (case handshakeTimer t1 of
           None \<Rightarrow> (False, t1)
         | Some _ \<Rightarrow> (True, t1\<lparr>handshakeTimer := None, handshakeTimerRunning := False\<rparr>)))"

datatype timer_event =
    TSet timer_type duration
  | TStop
  | TStopSafe
  | TFire nat
  | TCallback nat

fun timer_step :: "timer_event \<Rightarrow> hs_timer \<Rightarrow> bool \<times> hs_timer" where
  "timer_step (TSet ty d) t = (False, setHandshakeTimer ty d t)"
| "timer_step TStop t = (False, snd (stopHandshakeTimer t))"
| "timer_step TStopSafe t = (False, snd (stopTimerSafe t))"
| "timer_step (TFire i) t = (False, rt_fire i t)"
| "timer_step (TCallback i) t = timer_callback i t"

text \<open>A run, with the timeouts that were delivered, oldest first\<close>

fun timer_run :: "timer_event list \<Rightarrow> hs_timer \<Rightarrow> bool list \<times> hs_timer" where
  "timer_run [] t = ([], t)"
| "timer_run (e # es) t = (let (b, t1) = timer_step e t; (bs, t2) = timer_run es t1 in (b # bs, t2))"

section \<open>Invariant\<close>

text \<open>
  The running flag says that a current timer is set; the current timer owns the current done channel;
  no timer is both armed and fired; a done channel is closed at most once, and not while its timer can
  still close it.
\<close>

definition timer_ids :: "hs_timer \<Rightarrow> nat list" where
  "timer_ids t = map fst (armed t) @ fired t @ doneClosed t"

definition timer_inv :: "hs_timer \<Rightarrow> bool" where
  "timer_inv t \<longleftrightarrow>
     handshakeTimerRunning t = (handshakeTimer t \<noteq> None) \<and>
     (\<forall>i. handshakeTimer t = Some i \<longrightarrow> handshakeTimerDone t = i \<and> i < nextTimer t) \<and>
     (\<forall>i \<in> set (timer_ids t). i < nextTimer t) \<and>
     distinct (timer_ids t)"

lemma timer_invD:
  assumes "timer_inv t"
  shows "handshakeTimerRunning t = (handshakeTimer t \<noteq> None)"
    "handshakeTimer t = Some i \<Longrightarrow> handshakeTimerDone t = i"
    "handshakeTimer t = Some i \<Longrightarrow> i < nextTimer t"
    "distinct (doneClosed t)"
  using assms by (auto simp: timer_inv_def timer_ids_def)

lemma timer_inv_new [intro, simp]: "timer_inv new_timer"
  by (simp add: timer_inv_def timer_ids_def new_timer_def)

lemma fst_filter_neq: "map fst (filter (\<lambda>p. fst p \<noteq> i) xs) = filter (\<lambda>x. x \<noteq> i) (map fst xs)"
  by (induction xs) auto

lemma stopHandshakeTimer_None:
  "handshakeTimer t = None \<Longrightarrow> stopHandshakeTimer t = (None, t)"
  by (simp add: stopHandshakeTimer_def)

lemma stopHandshakeTimer_Some:
  "handshakeTimer t = Some i \<Longrightarrow> snd (stopHandshakeTimer t) =
     t\<lparr>handshakeTimer := None, handshakeTimerRunning := False,
       armed := filter (\<lambda>p. fst p \<noteq> i) (armed t),
       doneClosed := (if i \<in> set (map fst (armed t))
                      then handshakeTimerDone t # doneClosed t else doneClosed t)\<rparr>"
  by (simp add: stopHandshakeTimer_def rt_stop_def Let_def)

lemma stop_clears [simp]:
  "handshakeTimer (snd (stopHandshakeTimer t)) = None"
  "nextTimer (snd (stopHandshakeTimer t)) = nextTimer t"
  by (cases "handshakeTimer t"; simp add: stopHandshakeTimer_None stopHandshakeTimer_Some)+

lemma timer_inv_stop: "timer_inv t \<Longrightarrow> timer_inv (snd (stopHandshakeTimer t))"
proof (cases "handshakeTimer t")
  case None
  then show "timer_inv t \<Longrightarrow> ?thesis" by (simp add: stopHandshakeTimer_None)
next
  case (Some i)
  assume inv: "timer_inv t"
  from Some inv have d: "handshakeTimerDone t = i" "distinct (timer_ids t)" "i < nextTimer t"
    "\<forall>j \<in> set (timer_ids t). j < nextTimer t"
    by (simp_all add: timer_inv_def)
  show ?thesis
    unfolding timer_inv_def stopHandshakeTimer_Some [OF Some]
    using d by (auto simp: timer_ids_def fst_filter_neq)
qed

lemma timer_inv_start:
  assumes "timer_inv t"
  shows "timer_inv (t\<lparr>handshakeTimerDone := nextTimer t, handshakeTimerType := ty,
    handshakeTimerRunning := True, handshakeTimer := Some (nextTimer t),
    armed := (nextTimer t, d) # armed t, nextTimer := Suc (nextTimer t)\<rparr>)"
proof -
  have "nextTimer t \<notin> set (timer_ids t)" "\<forall>j \<in> set (timer_ids t). j < Suc (nextTimer t)"
    "distinct (timer_ids t)"
    using assms less_Suc_eq by (auto simp only: timer_inv_def)
  then show ?thesis by (simp add: timer_inv_def timer_ids_def)
qed

lemma timer_inv_set: "timer_inv t \<Longrightarrow> timer_inv (setHandshakeTimer ty d t)"
  using timer_inv_start [OF timer_inv_stop, of t]
  by (simp add: setHandshakeTimer_def Let_def)

lemma timer_inv_stopSafe: "timer_inv t \<Longrightarrow> timer_inv (snd (stopTimerSafe t))"
  by (simp add: stopTimerSafe_def Let_def timer_inv_stop)

lemma timer_inv_fire: "timer_inv t \<Longrightarrow> timer_inv (rt_fire i t)"
  by (auto simp: timer_inv_def timer_ids_def rt_fire_def fst_filter_neq)

lemma timer_inv_callback: "timer_inv t \<Longrightarrow> timer_inv (snd (timer_callback i t))"
  by (cases "handshakeTimer t")
     (auto simp: timer_inv_def timer_ids_def timer_callback_def Let_def distinct_removeAll)

lemmas timer_inv_intros =
  timer_inv_stop timer_inv_set timer_inv_stopSafe timer_inv_fire timer_inv_callback

lemma timer_inv_step: "timer_inv t \<Longrightarrow> timer_inv (snd (timer_step e t))"
  by (cases e) (simp_all add: timer_inv_intros)

lemma timer_inv_run: "timer_inv t \<Longrightarrow> timer_inv (snd (timer_run es t))"
  by (induction es arbitrary: t) (auto simp: split_def Let_def dest: timer_inv_step)

section \<open>Late callbacks\<close>

text \<open>A run starts no timer while the callback of an older one is still to take the lock.\<close>

fun timely :: "timer_event list \<Rightarrow> hs_timer \<Rightarrow> bool" where
  "timely [] t \<longleftrightarrow> True"
| "timely (e # es) t \<longleftrightarrow> (case e of TSet ty d \<Rightarrow> fired t = [] | _ \<Rightarrow> True)
     \<and> timely es (snd (timer_step e t))"

definition timer_owned :: "hs_timer \<Rightarrow> bool" where
  "timer_owned t \<longleftrightarrow> (\<forall>i \<in> set (map fst (armed t)). handshakeTimer t = Some i) \<and>
     (\<forall>i \<in> set (fired t). handshakeTimer t = Some i \<or> handshakeTimer t = None)"

lemma timer_owned_stop: "timer_owned t \<Longrightarrow> timer_owned (snd (stopHandshakeTimer t))"
  by (cases "handshakeTimer t")
     (auto simp: timer_owned_def stopHandshakeTimer_None stopHandshakeTimer_Some)

lemma fired_stop [simp]: "fired (snd (stopHandshakeTimer t)) = fired t"
  by (cases "handshakeTimer t") (simp_all add: stopHandshakeTimer_None stopHandshakeTimer_Some)

lemma timer_owned_armed: "timer_owned t \<Longrightarrow> handshakeTimer t = None \<Longrightarrow> armed t = []"
  by (cases "armed t") (auto simp: timer_owned_def)

lemma timer_owned_set:
  "timer_owned t \<Longrightarrow> fired t = [] \<Longrightarrow> timer_owned (setHandshakeTimer ty d t)"
  using timer_owned_armed [OF timer_owned_stop [of t]]
  by (simp add: setHandshakeTimer_def Let_def timer_owned_def)

lemma timer_owned_step:
  assumes "timer_owned t" "timer_inv t" "case e of TSet ty d \<Rightarrow> fired t = [] | _ \<Rightarrow> True"
  shows "timer_owned (snd (timer_step e t))"
proof (cases e)
  case (TSet ty d)
  then show ?thesis using assms by (simp add: timer_owned_set)
next
  case (TFire i)
  then show ?thesis using assms by (auto simp: timer_owned_def rt_fire_def fst_filter_neq)
next
  case (TCallback i)
  have "set (map fst (armed t)) \<inter> set (fired t) = {}"
    using assms(2) by (auto simp: timer_inv_def timer_ids_def)
  with TCallback show ?thesis using assms(1) timer_owned_armed [OF assms(1)]
    by (cases "handshakeTimer t") (auto simp: timer_owned_def timer_callback_def Let_def)
qed (use assms in \<open>simp_all add: timer_owned_stop stopTimerSafe_def Let_def\<close>)

lemma timer_owned_run:
  "timer_owned t \<Longrightarrow> timer_inv t \<Longrightarrow> timely es t \<Longrightarrow> timer_owned (snd (timer_run es t))"
proof (induction es arbitrary: t)
  case Nil
  then show ?case by simp
next
  case (Cons e es)
  then have "timer_owned (snd (timer_step e t))" by (simp add: timer_owned_step)
  with Cons timer_inv_step [of t e] show ?case by (simp add: split_def Let_def)
qed

lemma timer_owned_new: "timer_owned new_timer"
  by (simp add: timer_owned_def new_timer_def)

lemma timer_callback_owned:
  "timer_owned t \<Longrightarrow> fst (timer_callback i t) \<longleftrightarrow> i \<in> set (fired t) \<and> handshakeTimer t = Some i"
  by (auto simp: timer_owned_def timer_callback_def Let_def split: option.splits)

text \<open>
  However the timer is started, stopped and fires, and however late its callbacks run, no done
  channel is closed twice and the running flag agrees with the current timer.
\<close>

theorem timer_done_closed_once:
  "distinct (doneClosed (snd (timer_run es new_timer)))
   \<and> getHandshakeTimerRunning (snd (timer_run es new_timer))
     = (handshakeTimer (snd (timer_run es new_timer)) \<noteq> None)"
  using timer_invD(1,4) [OF timer_inv_run [OF timer_inv_new, of es]]
  by (simp add: getHandshakeTimerRunning_def)

text \<open>
  When no timer is started while an older callback is still waiting for the lock, a callback
  delivers a timeout exactly when its own timer is the current one, and no other timer is armed.
\<close>

theorem timer_callback_is_current:
  assumes "timely es new_timer" and "t = snd (timer_run es new_timer)"
  shows "fst (timer_callback i t) = (i \<in> set (fired t) \<and> handshakeTimer t = Some i)
    \<and> set (map fst (armed t)) \<subseteq> set_option (handshakeTimer t)"
proof -
  have "timer_owned t"
    using timer_owned_run [OF timer_owned_new timer_inv_new assms(1)] assms(2) by simp
  then show ?thesis using timer_callback_owned by (auto simp: timer_owned_def)
qed

theorem timer_callback_is_current_witness:
  "let t = snd (timer_run [TSet WaitForReady (sec 60), TFire 1] new_timer)
   in fst (timer_callback 1 t) = (1 \<in> set (fired t) \<and> handshakeTimer t = Some 1)
    \<and> set (map fst (armed t)) \<subseteq> set_option (handshakeTimer t) \<and> fst (timer_callback 1 t)"
  unfolding Let_def
  using timer_callback_is_current [of "[TSet WaitForReady (sec 60), TFire 1]" _ 1, OF _ refl]
  by (simp add: new_timer_def setHandshakeTimer_def stopHandshakeTimer_def rt_fire_def
      timer_callback_def Let_def)

text \<open>
  The callback only tests that some timer is current, not that it is its own: when a new timer is
  started after the old one fired and before its callback has the lock, the late callback delivers a
  timeout to the new phase and forgets the new timer, which stays armed and can no longer be stopped.
\<close>

theorem timer_stale_callback:
  "let (ts, t) = timer_run [TSet WaitForReady (sec 60), TFire 1, TSet SendProlongationRequest (sec 30),
                            TCallback 1, TStop] new_timer
   in ts = [False, False, False, True, False] \<and> handshakeTimer t = None \<and> armed t = [(2, sec 30)]"
  by (simp add: new_timer_def setHandshakeTimer_def stopHandshakeTimer_def rt_stop_def rt_fire_def
      timer_callback_def Let_def)

end
