(* ===== verification/Ws.thy ===== *)
theory Ws
  imports Errors
begin

text \<open>
  Package \<open>ws\<close> (\<open>ws/websocket.go\<close>): the websocket connection, its close flag and error, the write
  channel of 256 messages and the two pumps. The socket of \<open>gorilla/websocket\<close> is outside the
  repository: what it answers to a read or a write is an argument of the step (\<open>None\<close> for success),
  and what was written to it is recorded in \<open>frames\<close>. The calls the pumps make into their
  \<open>dataProcessing\<close> are returned, in their order. A connection is made with a socket, as the hub
  does: writing to a nil socket, which would be a nil pointer panic, is not modelled.
\<close>

definition DefaultWriteBufferSize :: nat where "DefaultWriteBufferSize = 256"
definition MaxMessageSize :: nat where "MaxMessageSize = 100 * 1024"
definition writeWait :: duration where "writeWait = sec 10"
definition pongWait :: duration where "pongWait = sec 60"
definition pingPeriod :: duration where "pingPeriod = sec 50"

datatype frame = BinaryFrame bytes | CloseFrame "(int \<times> string) option" | PingFrame

datatype ws_call = HandleIncoming bytes | ReportError error

record ws =
  wsRemoteSki :: string
  wsConn :: bool               \<comment> \<open>the socket is set\<close>
  connectionClosed :: bool
  connectionClosedError :: "error option"
  shipWriteChannel :: "bytes list"
  channelClosed :: bool        \<comment> \<open>\<open>close(shipWriteChannel)\<close>\<close>
  closeSignalled :: bool       \<comment> \<open>\<open>close(closeChannel)\<close>\<close>
  socketClosed :: bool
  wsShutdown :: bool           \<comment> \<open>\<open>shutdownOnce\<close> is done\<close>
  wsStarted :: bool            \<comment> \<open>the channels were made and the pumps started\<close>
  readerUp :: bool
  writerUp :: bool
  frames :: "frame list"

definition NewWebsocketConnection :: "bool \<Rightarrow> string \<Rightarrow> ws" where
  "NewWebsocketConnection c ski = \<lparr>wsRemoteSki = ski, wsConn = c, connectionClosed = False,
     connectionClosedError = None, shipWriteChannel = [], channelClosed = False,
     closeSignalled = False, socketClosed = False, wsShutdown = False, wsStarted = False,
     readerUp = False, writerUp = False, frames = []\<rparr>"

definition run_pumps :: "ws \<Rightarrow> ws" where
  "run_pumps w = w\<lparr>shipWriteChannel := [], channelClosed := False, closeSignalled := False,
     wsStarted := True, readerUp := True, writerUp := True\<rparr>"

definition InitDataProcessing :: "ws \<Rightarrow> ws" where
  "InitDataProcessing w = run_pumps w"

definition setConnClosedError :: "error option \<Rightarrow> ws \<Rightarrow> ws" where
  "setConnClosedError err w =
     (let w1 = w\<lparr>connectionClosed := True\<rparr>
      in case err of None \<Rightarrow> w1 | Some e \<Rightarrow> w1\<lparr>connectionClosedError := Some e\<rparr>)"

definition connClosedError :: "ws \<Rightarrow> error option" where
  "connClosedError w = connectionClosedError w"

definition isConnClosed :: "ws \<Rightarrow> bool" where
  "isConnClosed w = connectionClosed w"

definition closed_error :: "string \<Rightarrow> error" where
  "closed_error ski =
     Wrapped (sentinel_text ErrConnectionClosed @ '' for remote SKI '' @ ski) (Sentinel ErrConnectionClosed)"

definition IsDataConnectionClosed :: "ws \<Rightarrow> bool \<times> error option" where
  "IsDataConnectionClosed w =
     (let isClosed = isConnClosed w; err = connClosedError w
      in (isClosed, if isClosed \<and> err = None then Some (closed_error (wsRemoteSki w)) else err))"

text \<open>\<open>WriteMessageToWebsocketConnection\<close>. A send on a closed channel is a panic, \<open>WPanic\<close>.\<close>

datatype write_result = WOk | WErr error | WPanic

definition WriteMessageToWebsocketConnection :: "bytes \<Rightarrow> ws \<Rightarrow> write_result \<times> ws" where
  "WriteMessageToWebsocketConnection m w =
     (if isConnClosed w \<or> \<not> wsStarted w then (WErr (closed_error (wsRemoteSki w)), w)
      else if channelClosed w then (WPanic, w)
      else if length (shipWriteChannel w) < DefaultWriteBufferSize
      then (WOk, w\<lparr>shipWriteChannel := shipWriteChannel w @ [m]\<rparr>)
      else (WErr (Wrapped (sentinel_text ErrBufferFull @ '': websocket message for remote SKI ''
              @ wsRemoteSki w @ '' (buffer size: '' @ Itoa DefaultWriteBufferSize @ '')'')
              (Sentinel ErrBufferFull)), w))"

definition writeMessageWithoutErrorHandling ::
  "frame \<Rightarrow> error option \<Rightarrow> ws \<Rightarrow> error option \<times> ws" where
  "writeMessageWithoutErrorHandling f ans w =
     (if isConnClosed w then (Some (closed_error (wsRemoteSki w)), w)
      else case ans of
             Some e \<Rightarrow> (Some e, w)
           | None \<Rightarrow> (None, w\<lparr>frames := frames w @ [f]\<rparr>))"

definition closeWithError :: "error \<Rightarrow> ws \<Rightarrow> ws_call list \<times> ws" where
  "closeWithError err w = ([ReportError err], setConnClosedError (Some err) w)"

definition writeMessage :: "frame \<Rightarrow> error option \<Rightarrow> ws \<Rightarrow> bool \<times> ws_call list \<times> ws" where
  "writeMessage f ans w =
     (if isConnClosed w then (False, [], w)
      else case writeMessageWithoutErrorHandling f ans w of
             (None, w1) \<Rightarrow> (True, [], w1)
           | (Some err, w1) \<Rightarrow> (False, closeWithError err w1))"

definition handlePing :: "error option \<Rightarrow> ws \<Rightarrow> ws_call list \<times> ws" where
  "handlePing ans w = (if isConnClosed w then ([], w) else snd (writeMessage PingFrame ans w))"

definition ws_close :: "ws \<Rightarrow> ws" where
  "ws_close w =
     (if wsShutdown w then w
      else let w0 = w\<lparr>wsShutdown := True\<rparr> in
        if isConnClosed w0 then w0
        else let w1 = setConnClosedError None w0;
                 w2 = (if wsConn w1 then w1\<lparr>socketClosed := True\<rparr> else w1)
             in w2\<lparr>closeSignalled := True\<rparr>)"

definition CloseDataConnection :: "int \<Rightarrow> string \<Rightarrow> error option \<Rightarrow> ws \<Rightarrow> ws" where
  "CloseDataConnection closeCode reason ans w =
     ws_close (if reason \<noteq> []
       then snd (writeMessageWithoutErrorHandling (CloseFrame (Some (closeCode, reason))) ans w) else w)"

definition closeShipWriteChannel :: "ws \<Rightarrow> ws" where
  "closeShipWriteChannel w = w\<lparr>channelClosed := True\<rparr>"

text \<open>The message types are those of \<open>gorilla/websocket\<close>.\<close>

definition BinaryMessage :: int where "BinaryMessage = 2"

definition checkWebsocketMessage :: "int \<Rightarrow> bytes \<Rightarrow> ws \<Rightarrow> error option" where
  "checkWebsocketMessage msgType d w =
     (if msgType \<noteq> BinaryMessage
      then Some (Opaque (''websocket message from '' @ wsRemoteSki w @ '' is not binary (type: ''
             @ ItoaInt msgType @ '')''))
      else if length d < 2
      then Some (Opaque (''websocket message from '' @ wsRemoteSki w @ '' too short: ''
             @ Itoa (length d) @ '' bytes (minimum 2)''))
      else None)"

definition readWebsocketMessage :: "error + int \<times> bytes \<Rightarrow> ws \<Rightarrow> error + bytes" where
  "readWebsocketMessage rd w =
     (if \<not> wsConn w then Inl (Wrapped (sentinel_text ErrConnectionNotInitialized @ '' for remote SKI ''
          @ wsRemoteSki w) (Sentinel ErrConnectionNotInitialized))
      else case rd of
             Inl e \<Rightarrow> Inl e
           | Inr (ty, b) \<Rightarrow> (case checkWebsocketMessage ty b w of Some e \<Rightarrow> Inl e | None \<Rightarrow> Inr b))"

text \<open>\<open>textFromMessage\<close>: the text that is logged\<close>

definition textFromMessage :: "bytes \<Rightarrow> string" where
  "textFromMessage m =
     (if length m > 2 then tl m
      else if m = [char_of (0::nat), char_of (0::nat)] then ''ship init'' else ''unknown single byte'')"

section \<open>The pumps\<close>

text \<open>
  One turn of \<open>readShipPump\<close>: \<open>closed\<close> says whether the connection was closed by another goroutine
  while the read was blocked. \<open>recovered\<close> is the turn in which the data processing panicked.
\<close>

definition read_turn :: "error + int \<times> bytes \<Rightarrow> ws \<Rightarrow> ws_call list \<times> ws" where
  "read_turn rd w =
     (if \<not> readerUp w then ([], w)
      else if isConnClosed w then ([], w\<lparr>readerUp := False\<rparr>)
      else case readWebsocketMessage rd w of
             Inl err \<Rightarrow>
               (let w1 = ws_close w; w2 = setConnClosedError (Some err) w1
                in ([ReportError err], w2\<lparr>readerUp := False\<rparr>))
           | Inr m \<Rightarrow> ([HandleIncoming m], w))"

definition read_recover :: "ws \<Rightarrow> ws" where
  "read_recover w = (if readerUp w then (ws_close w)\<lparr>readerUp := False\<rparr> else w)"

text \<open>The end of \<open>writeShipPump\<close>: its deferred functions\<close>

definition write_exit :: "ws \<Rightarrow> ws" where
  "write_exit w = (closeShipWriteChannel w)\<lparr>writerUp := False\<rparr>"

text \<open>The cases of the \<open>select\<close> of \<open>writeShipPump\<close>; each is possible only when its channel is ready.\<close>

definition write_closed :: "ws \<Rightarrow> ws_call list \<times> ws" where
  "write_closed w = (if writerUp w \<and> closeSignalled w then ([], write_exit w) else ([], w))"

definition write_message :: "error option \<Rightarrow> ws \<Rightarrow> ws_call list \<times> ws" where
  "write_message ans w =
     (if \<not> writerUp w then ([], w)
      else case shipWriteChannel w of
             [] \<Rightarrow> ([], w)
           | m # rest \<Rightarrow>
               (let w1 = w\<lparr>shipWriteChannel := rest\<rparr> in
                if isConnClosed w1 then ([], write_exit w1)
                else let (ok, calls, w2) = writeMessage (BinaryFrame m) ans w1
                     in (calls, if ok then w2 else write_exit w2)))"

definition write_tick :: "error option \<Rightarrow> ws \<Rightarrow> ws_call list \<times> ws" where
  "write_tick ans w = (if writerUp w then handlePing ans w else ([], w))"

datatype ws_event =
    WsWrite bytes
  | WsClose int string "error option"
  | WsRead "error + int \<times> bytes"
  | WsReadPanic
  | WsPumpClosed
  | WsPumpMessage "error option"
  | WsPumpTick "error option"

fun ws_step :: "ws_event \<Rightarrow> ws \<Rightarrow> ws" where
  "ws_step (WsWrite m) w = snd (WriteMessageToWebsocketConnection m w)"
| "ws_step (WsClose c r ans) w = CloseDataConnection c r ans w"
| "ws_step (WsRead rd) w = snd (read_turn rd w)"
| "ws_step WsReadPanic w = read_recover w"
| "ws_step WsPumpClosed w = snd (write_closed w)"
| "ws_step (WsPumpMessage ans) w = snd (write_message ans w)"
| "ws_step (WsPumpTick ans) w = snd (write_tick ans w)"

definition ws_run :: "ws_event list \<Rightarrow> ws \<Rightarrow> ws" where
  "ws_run es w = fold ws_step es w"

lemmas ws_defs = setConnClosedError_def isConnClosed_def connClosedError_def
  WriteMessageToWebsocketConnection_def writeMessageWithoutErrorHandling_def closeWithError_def
  writeMessage_def handlePing_def ws_close_def CloseDataConnection_def closeShipWriteChannel_def
  readWebsocketMessage_def read_turn_def read_recover_def write_exit_def write_closed_def
  write_message_def write_tick_def Let_def

section \<open>Invariant\<close>

definition ws_inv :: "ws \<Rightarrow> bool" where
  "ws_inv w \<longleftrightarrow>
     (channelClosed w \<longrightarrow> connectionClosed w) \<and>
     (channelClosed w \<longleftrightarrow> wsStarted w \<and> \<not> writerUp w) \<and>
     (closeSignalled w \<longrightarrow> connectionClosed w \<and> wsShutdown w) \<and>
     (wsConn w \<longrightarrow> socketClosed w = closeSignalled w) \<and>
     length (shipWriteChannel w) \<le> DefaultWriteBufferSize"

lemma ws_inv_start: "ws_inv (InitDataProcessing (NewWebsocketConnection c ski))"
  by (simp add: ws_inv_def InitDataProcessing_def run_pumps_def NewWebsocketConnection_def)

lemma ws_inv_setClosed: "ws_inv w \<Longrightarrow> ws_inv (setConnClosedError e w)"
  by (auto simp: ws_inv_def setConnClosedError_def Let_def split: option.split)

lemma ws_inv_close: "ws_inv w \<Longrightarrow> ws_inv (ws_close w)"
  by (auto simp: ws_inv_def ws_close_def isConnClosed_def setConnClosedError_def Let_def)

lemma ws_inv_write: "ws_inv w \<Longrightarrow> ws_inv (snd (WriteMessageToWebsocketConnection m w))"
  by (simp add: ws_inv_def WriteMessageToWebsocketConnection_def)

lemma ws_inv_raw: "ws_inv w \<Longrightarrow> ws_inv (snd (writeMessageWithoutErrorHandling f a w))"
  by (simp add: ws_inv_def writeMessageWithoutErrorHandling_def split: option.split)

lemma ws_inv_writeMessage: "ws_inv w \<Longrightarrow> ws_inv (snd (snd (writeMessage f a w)))"
  using ws_inv_raw [of w f a]
  by (auto simp: writeMessage_def closeWithError_def ws_inv_setClosed split: prod.splits option.splits)

lemma ws_inv_CloseDataConnection: "ws_inv w \<Longrightarrow> ws_inv (CloseDataConnection c r a w)"
  by (simp add: CloseDataConnection_def ws_inv_close ws_inv_raw)

lemma writeMessage_failed:
  "\<not> fst (writeMessage f a w) \<Longrightarrow> connectionClosed (snd (snd (writeMessage f a w)))"
  by (auto simp: writeMessage_def closeWithError_def setConnClosedError_def isConnClosed_def Let_def
      split: prod.splits option.splits)

lemma writeMessage_started [proj, simp]:
  "wsStarted (snd (snd (writeMessage f a w))) = wsStarted w"
  "writerUp (snd (snd (writeMessage f a w))) = writerUp w"
  by (auto simp: writeMessage_def writeMessageWithoutErrorHandling_def closeWithError_def
      setConnClosedError_def Let_def split: prod.splits option.splits)

lemma ws_inv_exit: "ws_inv w \<Longrightarrow> connectionClosed w \<Longrightarrow> wsStarted w \<Longrightarrow> ws_inv (write_exit w)"
  by (simp add: ws_inv_def write_exit_def closeShipWriteChannel_def)

lemma ws_inv_started: "ws_inv w \<Longrightarrow> closeSignalled w \<Longrightarrow> connectionClosed w"
  by (simp add: ws_inv_def)

lemma ws_inv_pop: "ws_inv w \<Longrightarrow> shipWriteChannel w = m # rest \<Longrightarrow> ws_inv (w\<lparr>shipWriteChannel := rest\<rparr>)"
  by (simp add: ws_inv_def)

lemma ws_inv_write_message:
  assumes "ws_inv w" "wsStarted w"
  shows "ws_inv (snd (write_message a w))"
proof (cases "writerUp w \<and> shipWriteChannel w \<noteq> []")
  case False
  then show ?thesis using assms by (auto simp: write_message_def split: list.split)
next
  case True
  then obtain m rest where ch: "shipWriteChannel w = m # rest" "writerUp w" by (cases "shipWriteChannel w") auto
  let ?w = "w\<lparr>shipWriteChannel := rest\<rparr>"
  have inv: "ws_inv ?w" using assms(1) ch(1) by (rule ws_inv_pop)
  obtain ok cs w2 where wm: "writeMessage (BinaryFrame m) a ?w = (ok, cs, w2)" by (cases "writeMessage (BinaryFrame m) a ?w") auto
  have w2: "ws_inv w2" "wsStarted w2" "ok \<or> connectionClosed w2"
    using ws_inv_writeMessage [OF inv, of "BinaryFrame m" a]
      writeMessage_started(1) [of "BinaryFrame m" a ?w]
      writeMessage_failed [of "BinaryFrame m" a ?w] wm assms(2) by auto
  show ?thesis using ch inv w2 wm assms(2)
    by (auto simp: write_message_def Let_def isConnClosed_def ws_inv_exit)
qed

lemma ws_inv_step: "ws_inv w \<Longrightarrow> wsStarted w \<Longrightarrow> ws_inv (ws_step e w)"
proof (cases e)
  case (WsRead rd)
  assume "ws_inv w"
  then have "ws_inv (setConnClosedError (Some err) (ws_close w))" for err
    by (simp add: ws_inv_setClosed ws_inv_close)
  with WsRead \<open>ws_inv w\<close> show ?thesis
    by (auto simp: read_turn_def Let_def ws_inv_def split: sum.split)
next
  case WsReadPanic
  assume i: "ws_inv w"
  have "ws_inv (ws_close w)" by (rule ws_inv_close [OF i])
  with WsReadPanic i show ?thesis by (auto simp: read_recover_def ws_inv_def)
next
  case (WsPumpTick a)
  assume "ws_inv w"
  with WsPumpTick show ?thesis
    by (simp add: write_tick_def handlePing_def ws_inv_writeMessage)
qed (simp_all add: ws_inv_write ws_inv_CloseDataConnection ws_inv_write_message write_closed_def
      ws_inv_exit ws_inv_started)

lemma ws_close_proj [proj, simp]:
  "wsStarted (ws_close w) = wsStarted w" "shipWriteChannel (ws_close w) = shipWriteChannel w"
  "frames (ws_close w) = frames w" "readerUp (ws_close w) = readerUp w"
  "writerUp (ws_close w) = writerUp w" "connectionClosed (ws_close w) = (connectionClosed w \<or> \<not> wsShutdown w)"
  by (simp_all add: ws_close_def setConnClosedError_def isConnClosed_def Let_def)

lemma setConnClosedError_proj [proj, simp]:
  "wsStarted (setConnClosedError e w) = wsStarted w"
  "shipWriteChannel (setConnClosedError e w) = shipWriteChannel w"
  "frames (setConnClosedError e w) = frames w" "connectionClosed (setConnClosedError e w)"
  "wsShutdown (setConnClosedError e w) = wsShutdown w"
  by (auto simp: setConnClosedError_def Let_def split: option.split)

lemma wsStarted_step [proj, simp]: "wsStarted (ws_step e w) = wsStarted w"
  by (cases e) (auto simp: WriteMessageToWebsocketConnection_def CloseDataConnection_def
      writeMessageWithoutErrorHandling_def read_turn_def read_recover_def write_closed_def write_exit_def
      closeShipWriteChannel_def write_message_def write_tick_def handlePing_def Let_def
      split: option.split sum.split list.split prod.split dest: arg_cong [of _ _ "\<lambda>p. wsStarted (snd (snd p))"])

lemma ws_inv_run: "ws_inv w \<Longrightarrow> wsStarted w \<Longrightarrow> ws_inv (ws_run es w) \<and> wsStarted (ws_run es w)"
  unfolding ws_run_def by (induction es arbitrary: w) (simp_all add: ws_inv_step)

abbreviation ws_start :: "string \<Rightarrow> ws" where
  "ws_start ski \<equiv> InitDataProcessing (NewWebsocketConnection True ski)"

lemma wsStarted_start [simp]: "wsStarted (InitDataProcessing w)"
  by (simp add: InitDataProcessing_def run_pumps_def)

section \<open>The data writer the SHIP connection uses\<close>

text \<open>
  \<open>api.WebsocketDataWriterInterface\<close>: the contract the SHIP connection relies on. A closed writer has
  an error to report, refuses messages and never opens again, whatever it does by itself.
\<close>

locale data_writer =
  fixes is_closed :: "'w \<Rightarrow> bool \<times> error option"
    and write_to :: "bytes \<Rightarrow> 'w \<Rightarrow> write_result \<times> 'w"
    and step :: "'e \<Rightarrow> 'w \<Rightarrow> 'w"
  assumes closed_error_given: "fst (is_closed w) \<Longrightarrow> snd (is_closed w) \<noteq> None"
    and closed_refuses: "fst (is_closed w) \<Longrightarrow> \<exists>e. write_to m w = (WErr e, w)"
    and closed_stays: "fst (is_closed w) \<Longrightarrow> fst (is_closed (step e w))"
begin

lemma closed_forever: "fst (is_closed w) \<Longrightarrow> fst (is_closed (fold step es w))"
  by (induction es arbitrary: w) (auto dest: closed_stays)

lemma refuses_forever:
  "fst (is_closed w) \<Longrightarrow> \<exists>e. write_to m (fold step es w) = (WErr e, fold step es w)"
  by (rule closed_refuses [OF closed_forever])

end

lemma fst_IsDataConnectionClosed [simp]: "fst (IsDataConnectionClosed w) = connectionClosed w"
  by (simp add: IsDataConnectionClosed_def isConnClosed_def Let_def)

lemma closed_write:
  "connectionClosed w \<Longrightarrow>
   WriteMessageToWebsocketConnection m w = (WErr (closed_error (wsRemoteSki w)), w)"
  by (simp add: WriteMessageToWebsocketConnection_def isConnClosed_def)

lemma raw_closed [simp]:
  "connectionClosed (snd (writeMessageWithoutErrorHandling f a w)) = connectionClosed w"
  by (simp add: writeMessageWithoutErrorHandling_def split: option.split)

lemma closed_writeMessage: "connectionClosed w \<Longrightarrow> writeMessage f a w = (False, [], w)"
  by (simp add: writeMessage_def isConnClosed_def)

lemma closed_step: "connectionClosed w \<Longrightarrow> connectionClosed (ws_step e w)"
  by (cases e) (auto simp: closed_write CloseDataConnection_def read_turn_def isConnClosed_def
      read_recover_def write_closed_def write_exit_def closeShipWriteChannel_def write_message_def
      write_tick_def handlePing_def split: list.split)

interpretation writer: data_writer IsDataConnectionClosed WriteMessageToWebsocketConnection ws_step
proof unfold_locales
  fix w m e
  assume c: "fst (IsDataConnectionClosed w)"
  then show "snd (IsDataConnectionClosed w) \<noteq> None"
    by (simp add: IsDataConnectionClosed_def isConnClosed_def Let_def)
  from c show "\<exists>e. WriteMessageToWebsocketConnection m w = (WErr e, w)" by (simp add: closed_write)
  from c show "fst (IsDataConnectionClosed (ws_step e w))" by (simp add: closed_step)
qed

section \<open>Properties\<close>

text \<open>
  C11. The write channel is never sent to after it was closed: whatever the pumps, the peer and the
  callers do to a connection, \<open>WriteMessageToWebsocketConnection\<close> does not panic.
\<close>

theorem ws_write_never_panics:
  "fst (WriteMessageToWebsocketConnection m (ws_run es (ws_start ski))) \<noteq> WPanic"
proof -
  have "ws_inv (ws_run es (ws_start ski))"
    using ws_inv_run [OF ws_inv_start wsStarted_start] by simp
  then show ?thesis by (auto simp: ws_inv_def WriteMessageToWebsocketConnection_def isConnClosed_def)
qed

text \<open>The messages the connection took, and those that were written to the socket\<close>

fun ws_accepted :: "ws_event list \<Rightarrow> ws \<Rightarrow> bytes list" where
  "ws_accepted [] w = []"
| "ws_accepted (e # es) w =
     (case e of WsWrite m \<Rightarrow> if fst (WriteMessageToWebsocketConnection m w) = WOk then [m] else []
      | _ \<Rightarrow> []) @ ws_accepted es (ws_step e w)"

definition sent_messages :: "ws \<Rightarrow> bytes list" where
  "sent_messages w = concat (map (\<lambda>f. case f of BinaryFrame m \<Rightarrow> [m] | _ \<Rightarrow> []) (frames w))"

definition fifo :: "bytes list \<Rightarrow> ws \<Rightarrow> bool" where
  "fifo acc w \<longleftrightarrow> (\<exists>rest. acc = sent_messages w @ rest
     \<and> (\<not> connectionClosed w \<longrightarrow> rest = shipWriteChannel w))"

lemma fifo_same:
  "fifo acc w \<Longrightarrow> frames w' = frames w \<Longrightarrow> shipWriteChannel w' = shipWriteChannel w \<Longrightarrow>
   (connectionClosed w \<longrightarrow> connectionClosed w') \<Longrightarrow> fifo acc w'"
  by (auto simp: fifo_def sent_messages_def)

lemma fifo_closed:
  "fifo acc w \<Longrightarrow> frames w' = frames w \<Longrightarrow> connectionClosed w' \<Longrightarrow> fifo acc w'"
  by (auto simp: fifo_def sent_messages_def)

lemma fifo_control:
  "fifo acc w \<Longrightarrow> (\<forall>m. f \<noteq> BinaryFrame m) \<Longrightarrow>
   fifo acc (snd (writeMessageWithoutErrorHandling f a w))"
  by (cases f) (auto simp: fifo_def sent_messages_def writeMessageWithoutErrorHandling_def
      split: option.split)

lemma fifo_close: "fifo acc w \<Longrightarrow> fifo acc (ws_close w)"
  by (erule fifo_same) simp_all

lemma fifo_ping: "fifo acc w \<Longrightarrow> fifo acc (snd (handlePing a w))"
  by (auto simp: handlePing_def writeMessage_def writeMessageWithoutErrorHandling_def isConnClosed_def
      closeWithError_def fifo_def sent_messages_def split: option.split)

lemma fifo_exit: "fifo acc w \<Longrightarrow> fifo acc (write_exit w)"
  by (erule fifo_same) (simp_all add: write_exit_def closeShipWriteChannel_def)

lemma fifo_pump: "fifo acc w \<Longrightarrow> fifo acc (snd (write_message a w))"
proof (cases "writerUp w \<and> shipWriteChannel w \<noteq> []")
  case False
  then show "fifo acc w \<Longrightarrow> ?thesis" by (auto simp: write_message_def split: list.split)
next
  case True
  assume f: "fifo acc w"
  from True obtain m rest where ch: "shipWriteChannel w = m # rest" by (cases "shipWriteChannel w") auto
  show ?thesis
  proof (cases "connectionClosed w")
    case c: True
    then have "fifo acc (w\<lparr>shipWriteChannel := rest\<rparr>)" using f by (simp add: fifo_def sent_messages_def)
    with c ch True show ?thesis by (simp add: write_message_def isConnClosed_def fifo_exit)
  next
    case False
    then have acc: "acc = sent_messages w @ m # rest" using f ch by (auto simp: fifo_def)
    show ?thesis
    proof (cases a)
      case None
      with False ch True acc show ?thesis
        by (simp add: write_message_def writeMessage_def writeMessageWithoutErrorHandling_def
            isConnClosed_def fifo_def sent_messages_def)
    next
      case (Some e)
      have "fifo acc (setConnClosedError (Some e) (w\<lparr>shipWriteChannel := rest\<rparr>))"
        using acc by (simp add: fifo_def sent_messages_def)
      with Some False ch True show ?thesis
        by (simp add: write_message_def writeMessage_def writeMessageWithoutErrorHandling_def
            isConnClosed_def closeWithError_def fifo_exit)
    qed
  qed
qed

lemma fifo_step:
  assumes "fifo acc w" "wsStarted w"
  shows "fifo (acc @ (case e of
      WsWrite m \<Rightarrow> if fst (WriteMessageToWebsocketConnection m w) = WOk then [m] else []
    | _ \<Rightarrow> [])) (ws_step e w)"
proof (cases e)
  case (WsWrite m)
  with assms show ?thesis
    by (auto simp: WriteMessageToWebsocketConnection_def fifo_def sent_messages_def isConnClosed_def)
next
  case (WsRead rd)
  with assms(1) show ?thesis
    by (auto simp: read_turn_def Let_def split: sum.split intro: fifo_same fifo_closed)
next
  case WsReadPanic
  with assms(1) show ?thesis by (auto simp: read_recover_def intro: fifo_same)
qed (use assms in \<open>auto simp: CloseDataConnection_def write_closed_def write_tick_def
       intro: fifo_close fifo_control fifo_exit fifo_pump fifo_ping\<close>)

lemma fifo_run: "fifo acc w \<Longrightarrow> wsStarted w \<Longrightarrow> fifo (acc @ ws_accepted es w) (ws_run es w)"
proof (induction es arbitrary: acc w)
  case Nil
  then show ?case by (simp add: ws_run_def)
next
  case (Cons e es)
  note Cons.IH [OF fifo_step [OF Cons.prems, of e]]
  then show ?case using Cons.prems(2) by (simp add: ws_run_def)
qed

text \<open>
  C12. Messages are written to the socket in the order they were taken, none twice: the written ones
  are a prefix of the accepted ones, and while the connection is open the rest is in the channel.
\<close>

theorem ws_messages_in_order:
  "\<exists>rest. ws_accepted es (ws_start ski) = sent_messages (ws_run es (ws_start ski)) @ rest \<and>
     (connectionClosed (ws_run es (ws_start ski))
      \<or> rest = shipWriteChannel (ws_run es (ws_start ski)))"
proof -
  have "fifo [] (ws_start ski)"
    by (simp add: fifo_def sent_messages_def InitDataProcessing_def run_pumps_def NewWebsocketConnection_def)
  from fifo_run [OF this wsStarted_start, of es] show ?thesis by (auto simp: fifo_def)
qed

text \<open>
  Once the connection is closed, every later write is refused with an error and changes nothing.
\<close>

theorem ws_closed_refuses:
  assumes "fst (IsDataConnectionClosed w)"
  shows "\<exists>e. WriteMessageToWebsocketConnection m (ws_run es w) = (WErr e, ws_run es w)"
  unfolding ws_run_def by (rule writer.refuses_forever [OF assms])

theorem ws_closed_refuses_witness:
  "\<exists>e. WriteMessageToWebsocketConnection ''x''
     (ws_run [WsPumpTick None] (ws_close (ws_start ''a'')))
     = (WErr e, ws_run [WsPumpTick None] (ws_close (ws_start ''a'')))"
  by (rule ws_closed_refuses)
     (simp add: InitDataProcessing_def run_pumps_def NewWebsocketConnection_def)

lemma leak_step:
  assumes "connectionClosed w" "\<not> closeSignalled w" "\<not> socketClosed w" "shipWriteChannel w = []"
  shows "connectionClosed (ws_step e w) \<and> \<not> closeSignalled (ws_step e w)
    \<and> \<not> socketClosed (ws_step e w) \<and> shipWriteChannel (ws_step e w) = []
    \<and> writerUp (ws_step e w) = writerUp w"
  using assms
  by (cases e) (auto simp: closed_write CloseDataConnection_def ws_close_def isConnClosed_def
      writeMessageWithoutErrorHandling_def read_turn_def read_recover_def write_closed_def
      write_message_def write_tick_def handlePing_def Let_def)

text \<open>
  A failed ping or write marks the connection closed without closing the socket, and from then on
  \<open>close\<close> does nothing: with an empty channel, the socket is never closed and the write pump never
  ends, whatever is done with the connection later.
\<close>

theorem ws_failed_ping_leaks:
  assumes "writerUp w" "\<not> connectionClosed w" "\<not> closeSignalled w" "\<not> socketClosed w"
    and "shipWriteChannel w = []"
  shows "\<not> socketClosed (ws_run es (ws_step (WsPumpTick (Some err)) w))
    \<and> writerUp (ws_run es (ws_step (WsPumpTick (Some err)) w))"
proof -
  let ?w = "ws_step (WsPumpTick (Some err)) w"
  have start: "connectionClosed ?w" "\<not> closeSignalled ?w" "\<not> socketClosed ?w" "shipWriteChannel ?w = []"
    "writerUp ?w"
    using assms by (simp_all add: write_tick_def handlePing_def writeMessage_def
        writeMessageWithoutErrorHandling_def isConnClosed_def closeWithError_def setConnClosedError_def)
  have "\<not> socketClosed (ws_run es v) \<and> writerUp (ws_run es v)"
    if "connectionClosed v" "\<not> closeSignalled v" "\<not> socketClosed v" "shipWriteChannel v = []" "writerUp v"
    for v
    using that
  proof (induction es arbitrary: v)
    case Nil
    then show ?case by (simp add: ws_run_def)
  next
    case (Cons e es)
    with leak_step [of v e] show ?case by (simp add: ws_run_def)
  qed
  with start show ?thesis by blast
qed

theorem ws_failed_ping_leaks_witness:
  "let w = ws_run [WsClose 4001 ''close'' None, WsPumpClosed]
             (ws_step (WsPumpTick (Some (Opaque ''broken pipe''))) (ws_start ''a''))
   in \<not> socketClosed w \<and> writerUp w"
  unfolding Let_def
  by (rule ws_failed_ping_leaks)
     (simp_all add: InitDataProcessing_def run_pumps_def NewWebsocketConnection_def)

end
