(* ===== verification/ShipConn.thy ===== *)
theory ShipConn
  imports ShipModel EebusJson HandshakeTimer Ws
begin

text \<open>
  \<open>ship/connection.go\<close>, \<open>connection_lifecycle.go\<close>, \<open>connection_serialization.go\<close>, and the state and
  termination parts of \<open>ship/handshake.go\<close>: the SHIP connection record, the sending and parsing of
  messages, \<open>setState\<close> with its timers, and the closing of the connection.

  A method of \<open>ShipConnection\<close> is a function on the record \<open>ship_conn\<close>. Calls into the info provider
  (the hub) and into the SPINE data reader are recorded in \<open>eff\<close>, oldest first; the provider's answers
  are the fields of \<open>info\<close>. The websocket below is the model of theory \<open>Ws\<close>; what its pumps and its
  peer do between two calls of the connection is the environment's choice \<open>net\<close>, a list of websocket
  events for every call. Goroutines that wait are \<open>tasks\<close>. \<open>stuck\<close> counts the goroutines that block
  forever in \<open>shutdownOnce.Do\<close>; \<open>SetupRemoteService\<close> answers with a reader; \<open>panicked\<close> says that the reading goroutine died of a panic.
\<close>

section \<open>The connection\<close>

datatype ship_role = ShipRoleServer | ShipRoleClient

definition cmiTimeout :: duration where "cmiTimeout = sec 10"
definition tHelloInit :: duration where "tHelloInit = sec 60"
definition tHelloProlongMin :: duration where "tHelloProlongMin = sec 1"
definition tHelloProlongThrInc :: duration where "tHelloProlongThrInc = sec 30"

definition getHelloInitTimeout :: duration where "getHelloInitTimeout = tHelloInit"
definition getCmiTimeout :: duration where "getCmiTimeout = cmiTimeout"

datatype once = OnceFresh | OnceRunning | OnceDone

datatype effect =
    StateUpdate sme_state "error option"   \<comment> \<open>\<open>HandleShipHandshakeStateUpdate\<close>\<close>
  | ConnectionClosed bool                  \<comment> \<open>\<open>HandleConnectionClosed\<close>\<close>
  | ReportShipID string                    \<comment> \<open>\<open>ReportServiceShipID\<close>\<close>
  | SetupRemote                            \<comment> \<open>\<open>SetupRemoteService\<close>\<close>
  | Payload bytes                          \<comment> \<open>\<open>HandleShipPayloadMessage\<close>\<close>

datatype task =
    TaskAbortDelay                  \<comment> \<open>close after \<open>tAbortDelay\<close>\<close>
  | TaskCloseAnnounced bool         \<comment> \<open>close 100 ms after the announce was sent\<close>
  | TaskApprove                     \<comment> \<open>\<open>ApproveIfPending\<close> from its validation on\<close>
  | TaskConfirmSent                 \<comment> \<open>the reader waits 500 ms after the confirm was sent\<close>

record provider =
  paired :: bool              \<comment> \<open>\<open>IsRemoteServiceForSKIPaired\<close>\<close>
  autoAccept :: bool          \<comment> \<open>\<open>IsAutoAcceptEnabled\<close>\<close>
  allowWaiting :: bool        \<comment> \<open>\<open>AllowWaitingForTrust\<close>\<close>

record ship_conn =
  role :: ship_role
  remoteSKI :: string
  remoteShipID :: string
  localShipID :: string
  info :: provider
  dataReader :: bool
  dataWriter :: ws
  net :: "nat \<Rightarrow> ws_event list"
  netClock :: nat
  orderedMap :: "bytes \<Rightarrow> json option"
  smeState :: sme_state
  smeError :: "error option"
  timer :: hs_timer
  lastReceivedWaitingValue :: duration
  shutdownOnce :: once
  stuck :: nat
  spineBuffer :: "bytes list"
  tasks :: "task list"
  panicked :: bool
  outOfFuel :: bool
  eff :: "effect list"

definition NewConnectionHandler ::
  "provider \<Rightarrow> ws \<Rightarrow> (nat \<Rightarrow> ws_event list) \<Rightarrow> (bytes \<Rightarrow> json option) \<Rightarrow> ship_role \<Rightarrow> string \<Rightarrow> string \<Rightarrow> string
   \<Rightarrow> ship_conn" where
  "NewConnectionHandler p w n om r localId ski shipId =
     \<lparr>role = r, remoteSKI = ski, remoteShipID = shipId, localShipID = localId, info = p,
      dataReader = False, dataWriter = InitDataProcessing w, net = n, netClock = 0, orderedMap = om,
      smeState = CmiStateInitStart, smeError = None, timer = new_timer, lastReceivedWaitingValue = 0,
      shutdownOnce = OnceFresh, stuck = 0, spineBuffer = [], tasks = [], panicked = False,
      outOfFuel = False, eff = []\<rparr>"

definition emit :: "effect \<Rightarrow> ship_conn \<Rightarrow> ship_conn" where
  "emit e s = s\<lparr>eff := eff s @ [e]\<rparr>"

definition RemoteSKI :: "ship_conn \<Rightarrow> string" where "RemoteSKI s = remoteSKI s"

definition DataHandler :: "ship_conn \<Rightarrow> ws" where "DataHandler s = dataWriter s"

definition ShipHandshakeState :: "ship_conn \<Rightarrow> sme_state \<times> error option" where
  "ShipHandshakeState s = (smeState s, smeError s)"

definition getState :: "ship_conn \<Rightarrow> sme_state" where "getState s = smeState s"

section \<open>The websocket below\<close>

definition net_tick :: "ship_conn \<Rightarrow> ship_conn" where
  "net_tick s = s\<lparr>dataWriter := ws_run (net s (netClock s)) (dataWriter s), netClock := Suc (netClock s)\<rparr>"

definition is_data_connection_closed :: "ship_conn \<Rightarrow> (bool \<times> error option) \<times> ship_conn" where
  "is_data_connection_closed s = (let s1 = net_tick s in (IsDataConnectionClosed (dataWriter s1), s1))"

definition write_websocket :: "bytes \<Rightarrow> ship_conn \<Rightarrow> error option \<times> ship_conn" where
  "write_websocket m s =
     (let s1 = net_tick s; (r, w) = WriteMessageToWebsocketConnection m (dataWriter s1);
          s2 = s1\<lparr>dataWriter := w\<rparr>
      in case r of WOk \<Rightarrow> (None, s2) | WErr e \<Rightarrow> (Some e, s2)
         | WPanic \<Rightarrow> (Some (Opaque ''send on closed channel''), s2\<lparr>panicked := True\<rparr>))"

definition close_data_connection :: "int \<Rightarrow> string \<Rightarrow> ship_conn \<Rightarrow> ship_conn" where
  "close_data_connection c reason s =
     (let s1 = net_tick s in s1\<lparr>dataWriter := CloseDataConnection c reason None (dataWriter s1)\<rparr>)"

section \<open>Timers and state\<close>

definition set_timer :: "timer_type \<Rightarrow> duration \<Rightarrow> ship_conn \<Rightarrow> ship_conn" where
  "set_timer ty d s = s\<lparr>timer := setHandshakeTimer ty d (timer s)\<rparr>"

definition stop_timer_safe :: "ship_conn \<Rightarrow> ship_conn" where
  "stop_timer_safe s = s\<lparr>timer := snd (stopTimerSafe (timer s))\<rparr>"

definition stop_timer :: "ship_conn \<Rightarrow> ship_conn" where
  "stop_timer s = s\<lparr>timer := snd (stopHandshakeTimer (timer s))\<rparr>"

text \<open>The timer operation \<open>setState\<close> chooses for the new state\<close>

definition timerOp :: "sme_state \<Rightarrow> ship_conn \<Rightarrow> ship_conn" where
  "timerOp new s =
     (if new = SmeHelloStateReadyInit \<or> new = SmeHelloStatePendingInit
      then set_timer WaitForReady getHelloInitTimeout s
      else if new = SmeHelloStateOk \<or> new = SmeHelloStateAbort \<or> new = SmeHelloStateAbortDone
           \<or> new = SmeHelloStateRemoteAbortDone \<or> new = SmeHelloStateRejected
      then stop_timer_safe s
      else if new = SmeProtHStateClientListenChoice then set_timer WaitForReady getCmiTimeout s
      else if new = SmeProtHStateClientOk then stop_timer_safe s
      else s)"

definition setState :: "sme_state \<Rightarrow> error option \<Rightarrow> ship_conn \<Rightarrow> ship_conn" where
  "setState new err s =
     (let changed = smeState s \<noteq> new;
          s1 = timerOp new (s\<lparr>smeState := new, smeError := (if changed then err else None)\<rparr>)
      in if changed then emit (StateUpdate new err) s1 else s1)"

section \<open>Closing\<close>

definition validCloseReason :: "string \<Rightarrow> string" where
  "validCloseReason reason =
     (if reason = ReasonUnspecific \<or> reason = ReasonRemoved then reason else ReasonUnspecific)"

definition handshake_ended :: "sme_state \<Rightarrow> bool" where
  "handshake_ended st \<longleftrightarrow> st = SmeStateComplete \<or> st = SmeHelloStateAbortDone
     \<or> st = SmeHelloStateRemoteAbortDone \<or> st = SmeHelloStateRejected"

definition announce_close :: "string \<Rightarrow> connection_close" where
  "announce_close reason = \<lparr>ClosePhase = CloseAnnounce, MaxTime = Some 500,
     Reason = Some (validCloseReason reason)\<rparr>"

text \<open>
  \<open>CloseConnection\<close> and \<open>sendShipModel\<close> call each other: the close announcement is sent by \<open>send\<close>, and
  a send on a closed websocket closes the connection with \<open>safe = false\<close>, in which case nothing is
  sent. \<open>sync.Once.Do\<close> blocks a caller while the function runs, so a call from within the function
  never returns.
\<close>

definition CloseConnection_with ::
  "(char \<Rightarrow> json \<Rightarrow> ship_conn \<Rightarrow> ship_conn) \<Rightarrow> bool \<Rightarrow> int \<Rightarrow> string \<Rightarrow> ship_conn \<Rightarrow> ship_conn" where
  "CloseConnection_with send safe c reason s =
     (case shutdownOnce s of
        OnceDone \<Rightarrow> s
      | OnceRunning \<Rightarrow> s\<lparr>stuck := Suc (stuck s)\<rparr>
      | OnceFresh \<Rightarrow>
          (let s0 = stop_timer (s\<lparr>shutdownOnce := OnceRunning\<rparr>);
               state = getState s0;
               handshakeEnd = handshake_ended state
           in if safe \<and> state = SmeStateComplete then
                (let s1 = send MsgTypeEnd (close_to_json (announce_close reason)) s0
                 in if stuck s0 < stuck s1 then s1
                    else s1\<lparr>tasks := tasks s1 @ [TaskCloseAnnounced handshakeEnd],
                            shutdownOnce := OnceDone\<rparr>)
              else
                (let closeCode = (if c \<noteq> 0 then c else 4001);
                     s1 = close_data_connection closeCode reason s0;
                     s2 = emit (ConnectionClosed handshakeEnd) s1
                 in s2\<lparr>shutdownOnce := OnceDone\<rparr>)))"

definition close_unsafe :: "int \<Rightarrow> string \<Rightarrow> ship_conn \<Rightarrow> ship_conn" where
  "close_unsafe = CloseConnection_with (\<lambda>_ _ s. s) False"

text \<open>\<open>shipMessage\<close> and \<open>sendShipModel\<close>; a nil model is \<open>None\<close>.\<close>

definition shipMessage :: "char \<Rightarrow> json option \<Rightarrow> ship_conn \<Rightarrow> (error + bytes) \<times> ship_conn" where
  "shipMessage typ m s =
     (let ((isClosed, err), s1) = is_data_connection_closed s in
      if isClosed then (Inl (the err), close_unsafe 0 [] s1)
      else case m of
             None \<Rightarrow> (Inl (Wrapped (sentinel_text ErrInvalidProtocolMessage @ '' from remote SKI ''
                       @ remoteSKI s1 @ '': model is nil'') (Sentinel ErrInvalidProtocolMessage)), s1)
           | Some j \<Rightarrow> (case JsonIntoEEBUSJson (orderedMap s1) (print_json j) of
                          Inl e \<Rightarrow> (Inl e, s1)
                        | Inr eebusMsg \<Rightarrow> (Inr (typ # eebusMsg), s1)))"

definition sendShipModel :: "char \<Rightarrow> json \<Rightarrow> ship_conn \<Rightarrow> error option \<times> ship_conn" where
  "sendShipModel typ m s = (case shipMessage typ (Some m) s of
     (Inl e, s1) \<Rightarrow> (Some e, s1)
   | (Inr msg, s1) \<Rightarrow> write_websocket msg s1)"

definition CloseConnection :: "bool \<Rightarrow> int \<Rightarrow> string \<Rightarrow> ship_conn \<Rightarrow> ship_conn" where
  "CloseConnection = CloseConnection_with (\<lambda>typ m s. snd (sendShipModel typ m s))"

lemma CloseConnection_unsafe: "CloseConnection False c r s = close_unsafe c r s"
  by (simp add: CloseConnection_def close_unsafe_def CloseConnection_with_def Let_def split: once.split)

section \<open>Messages\<close>

text \<open>\<open>parseMessage\<close>: the header byte and the message\<close>

definition parseMessage :: "bytes \<Rightarrow> bool \<Rightarrow> char \<times> bytes" where
  "parseMessage msg jsonFormat = (case msg of
     [] \<Rightarrow> (char_of (0::nat), [])
   | h # rest \<Rightarrow> (h, if jsonFormat then JsonFromEEBUSJson rest else rest))"

definition processShipJsonMessage :: "(json \<Rightarrow> 'a \<Rightarrow> 'a option) \<Rightarrow> 'a \<Rightarrow> bytes \<Rightarrow> 'a option" where
  "processShipJsonMessage dec zero message = Unmarshal dec zero (snd (parseMessage message True))"

definition payloadPlaceholder :: string where
  "payloadPlaceholder = print_json (JObj [(''place'', JStr ''holder'')])"

definition transformSpineDataIntoShipJson :: "(bytes \<Rightarrow> json option) \<Rightarrow> bytes \<Rightarrow> error + bytes" where
  "transformSpineDataIntoShipJson om d =
     (case JsonIntoEEBUSJson om d of
        Inl e \<Rightarrow> Inl e
      | Inr payload \<Rightarrow>
          (case JsonIntoEEBUSJson om
                  (print_json (data_to_json (JObj [(''place'', JStr ''holder'')]))) of
             Inl e \<Rightarrow> Inl e
           | Inr eebusMsg \<Rightarrow>
               Inr (ReplaceAll (''['' @ payloadPlaceholder @ '']'') payload eebusMsg)))"

definition sendSpineData :: "bytes \<Rightarrow> ship_conn \<Rightarrow> error option \<times> ship_conn" where
  "sendSpineData d s =
     (case transformSpineDataIntoShipJson (orderedMap s) d of
        Inl e \<Rightarrow> (Some e, s)
      | Inr eebusMsg \<Rightarrow>
          (let ((isClosed, err), s1) = is_data_connection_closed s in
           if isClosed then (err, CloseConnection False 0 [] s1)
           else case write_websocket (MsgTypeData # eebusMsg) s1 of
                  (None, s2) \<Rightarrow> (None, s2)
                | (Some e, s2) \<Rightarrow> (Some e, CloseConnection False 0 [] s2)))"

definition WriteShipMessageWithPayload :: "bytes \<Rightarrow> ship_conn \<Rightarrow> ship_conn" where
  "WriteShipMessageWithPayload m s = snd (sendSpineData m s)"

definition shipModelFromMessage :: "bytes \<Rightarrow> error + bytes" where
  "shipModelFromMessage message =
     (case dec_ship_data (snd (parseMessage message True)) of
        None \<Rightarrow> Inl (Opaque ''error unmarshalling message'')
      | Some None \<Rightarrow> Inl (Opaque ''received no valid payload'')
      | Some (Some payload) \<Rightarrow> Inr payload)"

definition hasSpineDatagram :: "bytes \<Rightarrow> bool" where
  "hasSpineDatagram message = Contains message ''datagram''"

text \<open>\<open>processBufferedSpineMessages\<close>\<close>

definition processBufferedSpineMessages :: "ship_conn \<Rightarrow> ship_conn" where
  "processBufferedSpineMessages s =
     (fold (\<lambda>item. emit (Payload item)) (spineBuffer s) s)\<lparr>spineBuffer := []\<rparr>"

section \<open>Ending the handshake\<close>

definition approveHandshake :: "ship_conn \<Rightarrow> ship_conn" where
  "approveHandshake s =
     (let s1 = (emit SetupRemote s)\<lparr>dataReader := True\<rparr>;
          s2 = stop_timer_safe s1;
          s3 = setState SmeStateComplete None s2
      in processBufferedSpineMessages s3)"

definition endHandshakeWithError :: "error \<Rightarrow> ship_conn \<Rightarrow> ship_conn" where
  "endHandshakeWithError err s =
     (let s1 = stop_timer_safe s;
          s2 = setState SmeStateError (Some err) s1;
          s3 = CloseConnection True 0 (error_text err) s2
      in emit (StateUpdate SmeStateError (Some err)) s3)"

definition abortProtocolHandshake :: "handshake_error \<Rightarrow> ship_conn \<Rightarrow> ship_conn" where
  "abortProtocolHandshake e s =
     (let s1 = stop_timer_safe s;
          s2 = snd (sendShipModel MsgTypeControl (handshake_error_to_json e) s1);
          s3 = setState SmeStateError (Some (Wrapped (sentinel_text ErrInvalidHandshake
                 @ '' with remote SKI '' @ remoteSKI s2 @ '': '' @ Itoa (handshake_error_value e))
                 (Sentinel ErrInvalidHandshake))) s2
      in CloseConnection False 0 [] s3)"

definition ReportConnectionError :: "error option \<Rightarrow> ship_conn \<Rightarrow> ship_conn" where
  "ReportConnectionError err s =
     (let currentState = getState s in
      if currentState = SmeHelloStateReadyListen
      then CloseConnection False 0 [] (setState SmeHelloStateRejected None s)
      else if currentState = SmeHelloStateRemoteAbortDone then CloseConnection False 0 [] s
      else if currentState = SmeHelloStateAbort \<or> currentState = SmeHelloStateAbortDone
      then CloseConnection False 4452 ''Node rejected by application'' s
      else
        (let s1 = setState SmeStateError err s;
             s2 = CloseConnection False 0 [] s1
         in if stuck s1 < stuck s2 then s2 else emit (StateUpdate SmeStateError err) s2))"

section \<open>What the operations leave alone\<close>

lemma net_tick_proj [proj, simp]:
  "role (net_tick s) = role s"
  "remoteSKI (net_tick s) = remoteSKI s"
  "remoteShipID (net_tick s) = remoteShipID s"
  "localShipID (net_tick s) = localShipID s"
  "info (net_tick s) = info s"
  "dataReader (net_tick s) = dataReader s"
  "net (net_tick s) = net s"
  "orderedMap (net_tick s) = orderedMap s"
  "lastReceivedWaitingValue (net_tick s) = lastReceivedWaitingValue s"
  "spineBuffer (net_tick s) = spineBuffer s"
  "outOfFuel (net_tick s) = outOfFuel s"
  "smeState (net_tick s) = smeState s"
  "smeError (net_tick s) = smeError s"
  "shutdownOnce (net_tick s) = shutdownOnce s"
  "stuck (net_tick s) = stuck s"
  "tasks (net_tick s) = tasks s"
  "panicked (net_tick s) = panicked s"
  "eff (net_tick s) = eff s"
  "timer (net_tick s) = timer s"
  by (simp_all add: net_tick_def)

lemma is_closed_proj [proj, simp]:
  "role (snd (is_data_connection_closed s)) = role s"
  "remoteSKI (snd (is_data_connection_closed s)) = remoteSKI s"
  "remoteShipID (snd (is_data_connection_closed s)) = remoteShipID s"
  "localShipID (snd (is_data_connection_closed s)) = localShipID s"
  "info (snd (is_data_connection_closed s)) = info s"
  "dataReader (snd (is_data_connection_closed s)) = dataReader s"
  "net (snd (is_data_connection_closed s)) = net s"
  "orderedMap (snd (is_data_connection_closed s)) = orderedMap s"
  "lastReceivedWaitingValue (snd (is_data_connection_closed s)) = lastReceivedWaitingValue s"
  "spineBuffer (snd (is_data_connection_closed s)) = spineBuffer s"
  "outOfFuel (snd (is_data_connection_closed s)) = outOfFuel s"
  "smeState (snd (is_data_connection_closed s)) = smeState s"
  "smeError (snd (is_data_connection_closed s)) = smeError s"
  "shutdownOnce (snd (is_data_connection_closed s)) = shutdownOnce s"
  "stuck (snd (is_data_connection_closed s)) = stuck s"
  "tasks (snd (is_data_connection_closed s)) = tasks s"
  "panicked (snd (is_data_connection_closed s)) = panicked s"
  "eff (snd (is_data_connection_closed s)) = eff s"
  "timer (snd (is_data_connection_closed s)) = timer s"
  by (simp_all add: is_data_connection_closed_def Let_def)

lemma write_proj [proj, simp]:
  "role (snd (write_websocket m s)) = role s"
  "remoteSKI (snd (write_websocket m s)) = remoteSKI s"
  "remoteShipID (snd (write_websocket m s)) = remoteShipID s"
  "localShipID (snd (write_websocket m s)) = localShipID s"
  "info (snd (write_websocket m s)) = info s"
  "dataReader (snd (write_websocket m s)) = dataReader s"
  "net (snd (write_websocket m s)) = net s"
  "orderedMap (snd (write_websocket m s)) = orderedMap s"
  "lastReceivedWaitingValue (snd (write_websocket m s)) = lastReceivedWaitingValue s"
  "spineBuffer (snd (write_websocket m s)) = spineBuffer s"
  "outOfFuel (snd (write_websocket m s)) = outOfFuel s"
  "smeState (snd (write_websocket m s)) = smeState s"
  "smeError (snd (write_websocket m s)) = smeError s"
  "shutdownOnce (snd (write_websocket m s)) = shutdownOnce s"
  "stuck (snd (write_websocket m s)) = stuck s"
  "tasks (snd (write_websocket m s)) = tasks s"
  "eff (snd (write_websocket m s)) = eff s"
  "timer (snd (write_websocket m s)) = timer s"
  by (simp_all add: write_websocket_def Let_def split: prod.split write_result.split)

lemma close_data_proj [proj, simp]:
  "role (close_data_connection c r s) = role s"
  "remoteSKI (close_data_connection c r s) = remoteSKI s"
  "remoteShipID (close_data_connection c r s) = remoteShipID s"
  "localShipID (close_data_connection c r s) = localShipID s"
  "info (close_data_connection c r s) = info s"
  "dataReader (close_data_connection c r s) = dataReader s"
  "net (close_data_connection c r s) = net s"
  "orderedMap (close_data_connection c r s) = orderedMap s"
  "lastReceivedWaitingValue (close_data_connection c r s) = lastReceivedWaitingValue s"
  "spineBuffer (close_data_connection c r s) = spineBuffer s"
  "outOfFuel (close_data_connection c r s) = outOfFuel s"
  "smeState (close_data_connection c r s) = smeState s"
  "smeError (close_data_connection c r s) = smeError s"
  "shutdownOnce (close_data_connection c r s) = shutdownOnce s"
  "stuck (close_data_connection c r s) = stuck s"
  "tasks (close_data_connection c r s) = tasks s"
  "panicked (close_data_connection c r s) = panicked s"
  "eff (close_data_connection c r s) = eff s"
  "timer (close_data_connection c r s) = timer s"
  by (simp_all add: close_data_connection_def Let_def)

lemma set_timer_proj [proj, simp]:
  "role (set_timer ty d s) = role s"
  "remoteSKI (set_timer ty d s) = remoteSKI s"
  "remoteShipID (set_timer ty d s) = remoteShipID s"
  "localShipID (set_timer ty d s) = localShipID s"
  "info (set_timer ty d s) = info s"
  "dataReader (set_timer ty d s) = dataReader s"
  "net (set_timer ty d s) = net s"
  "orderedMap (set_timer ty d s) = orderedMap s"
  "lastReceivedWaitingValue (set_timer ty d s) = lastReceivedWaitingValue s"
  "spineBuffer (set_timer ty d s) = spineBuffer s"
  "outOfFuel (set_timer ty d s) = outOfFuel s"
  "smeState (set_timer ty d s) = smeState s"
  "smeError (set_timer ty d s) = smeError s"
  "shutdownOnce (set_timer ty d s) = shutdownOnce s"
  "stuck (set_timer ty d s) = stuck s"
  "tasks (set_timer ty d s) = tasks s"
  "panicked (set_timer ty d s) = panicked s"
  "eff (set_timer ty d s) = eff s"
  "dataWriter (set_timer ty d s) = dataWriter s"
  "netClock (set_timer ty d s) = netClock s"
  by (simp_all add: set_timer_def)

lemma stop_timer_safe_proj [proj, simp]:
  "role (stop_timer_safe s) = role s"
  "remoteSKI (stop_timer_safe s) = remoteSKI s"
  "remoteShipID (stop_timer_safe s) = remoteShipID s"
  "localShipID (stop_timer_safe s) = localShipID s"
  "info (stop_timer_safe s) = info s"
  "dataReader (stop_timer_safe s) = dataReader s"
  "net (stop_timer_safe s) = net s"
  "orderedMap (stop_timer_safe s) = orderedMap s"
  "lastReceivedWaitingValue (stop_timer_safe s) = lastReceivedWaitingValue s"
  "spineBuffer (stop_timer_safe s) = spineBuffer s"
  "outOfFuel (stop_timer_safe s) = outOfFuel s"
  "smeState (stop_timer_safe s) = smeState s"
  "smeError (stop_timer_safe s) = smeError s"
  "shutdownOnce (stop_timer_safe s) = shutdownOnce s"
  "stuck (stop_timer_safe s) = stuck s"
  "tasks (stop_timer_safe s) = tasks s"
  "panicked (stop_timer_safe s) = panicked s"
  "eff (stop_timer_safe s) = eff s"
  "dataWriter (stop_timer_safe s) = dataWriter s"
  "netClock (stop_timer_safe s) = netClock s"
  by (simp_all add: stop_timer_safe_def)

lemma stop_timer_proj [proj, simp]:
  "role (stop_timer s) = role s"
  "remoteSKI (stop_timer s) = remoteSKI s"
  "remoteShipID (stop_timer s) = remoteShipID s"
  "localShipID (stop_timer s) = localShipID s"
  "info (stop_timer s) = info s"
  "dataReader (stop_timer s) = dataReader s"
  "net (stop_timer s) = net s"
  "orderedMap (stop_timer s) = orderedMap s"
  "lastReceivedWaitingValue (stop_timer s) = lastReceivedWaitingValue s"
  "spineBuffer (stop_timer s) = spineBuffer s"
  "outOfFuel (stop_timer s) = outOfFuel s"
  "smeState (stop_timer s) = smeState s"
  "smeError (stop_timer s) = smeError s"
  "shutdownOnce (stop_timer s) = shutdownOnce s"
  "stuck (stop_timer s) = stuck s"
  "tasks (stop_timer s) = tasks s"
  "panicked (stop_timer s) = panicked s"
  "eff (stop_timer s) = eff s"
  "dataWriter (stop_timer s) = dataWriter s"
  "netClock (stop_timer s) = netClock s"
  by (simp_all add: stop_timer_def)

lemma timerOp_proj [proj, simp]:
  "role (timerOp st s) = role s"
  "remoteSKI (timerOp st s) = remoteSKI s"
  "remoteShipID (timerOp st s) = remoteShipID s"
  "localShipID (timerOp st s) = localShipID s"
  "info (timerOp st s) = info s"
  "dataReader (timerOp st s) = dataReader s"
  "net (timerOp st s) = net s"
  "orderedMap (timerOp st s) = orderedMap s"
  "lastReceivedWaitingValue (timerOp st s) = lastReceivedWaitingValue s"
  "spineBuffer (timerOp st s) = spineBuffer s"
  "outOfFuel (timerOp st s) = outOfFuel s"
  "smeState (timerOp st s) = smeState s"
  "smeError (timerOp st s) = smeError s"
  "shutdownOnce (timerOp st s) = shutdownOnce s"
  "stuck (timerOp st s) = stuck s"
  "tasks (timerOp st s) = tasks s"
  "panicked (timerOp st s) = panicked s"
  "eff (timerOp st s) = eff s"
  "dataWriter (timerOp st s) = dataWriter s"
  "netClock (timerOp st s) = netClock s"
  by (simp_all add: timerOp_def)

lemma emit_proj [proj, simp]:
  "role (emit e s) = role s"
  "remoteSKI (emit e s) = remoteSKI s"
  "remoteShipID (emit e s) = remoteShipID s"
  "localShipID (emit e s) = localShipID s"
  "info (emit e s) = info s"
  "dataReader (emit e s) = dataReader s"
  "net (emit e s) = net s"
  "orderedMap (emit e s) = orderedMap s"
  "lastReceivedWaitingValue (emit e s) = lastReceivedWaitingValue s"
  "spineBuffer (emit e s) = spineBuffer s"
  "outOfFuel (emit e s) = outOfFuel s"
  "smeState (emit e s) = smeState s"
  "smeError (emit e s) = smeError s"
  "shutdownOnce (emit e s) = shutdownOnce s"
  "stuck (emit e s) = stuck s"
  "tasks (emit e s) = tasks s"
  "panicked (emit e s) = panicked s"
  "timer (emit e s) = timer s"
  "dataWriter (emit e s) = dataWriter s"
  "netClock (emit e s) = netClock s"
  "eff (emit e s) = eff s @ [e]"
  by (simp_all add: emit_def)

lemma setState_proj [proj, simp]:
  "role (setState st e s) = role s"
  "remoteSKI (setState st e s) = remoteSKI s"
  "remoteShipID (setState st e s) = remoteShipID s"
  "localShipID (setState st e s) = localShipID s"
  "info (setState st e s) = info s"
  "dataReader (setState st e s) = dataReader s"
  "net (setState st e s) = net s"
  "orderedMap (setState st e s) = orderedMap s"
  "lastReceivedWaitingValue (setState st e s) = lastReceivedWaitingValue s"
  "spineBuffer (setState st e s) = spineBuffer s"
  "outOfFuel (setState st e s) = outOfFuel s"
  "shutdownOnce (setState st e s) = shutdownOnce s"
  "stuck (setState st e s) = stuck s"
  "tasks (setState st e s) = tasks s"
  "panicked (setState st e s) = panicked s"
  "dataWriter (setState st e s) = dataWriter s"
  "netClock (setState st e s) = netClock s"
  "smeState (setState st e s) = st"
  by (simp_all add: setState_def Let_def)

lemma close_unsafe_proj [proj, simp]:
  "role (close_unsafe c r s) = role s"
  "remoteSKI (close_unsafe c r s) = remoteSKI s"
  "remoteShipID (close_unsafe c r s) = remoteShipID s"
  "localShipID (close_unsafe c r s) = localShipID s"
  "info (close_unsafe c r s) = info s"
  "dataReader (close_unsafe c r s) = dataReader s"
  "net (close_unsafe c r s) = net s"
  "orderedMap (close_unsafe c r s) = orderedMap s"
  "lastReceivedWaitingValue (close_unsafe c r s) = lastReceivedWaitingValue s"
  "spineBuffer (close_unsafe c r s) = spineBuffer s"
  "outOfFuel (close_unsafe c r s) = outOfFuel s"
  "smeState (close_unsafe c r s) = smeState s"
  "smeError (close_unsafe c r s) = smeError s"
  "panicked (close_unsafe c r s) = panicked s"
  "tasks (close_unsafe c r s) = tasks s"
  by (simp_all add: close_unsafe_def CloseConnection_with_def Let_def split: once.split)

lemma shipMessage_snd:
  "snd (shipMessage typ m s) =
     (if fst (fst (is_data_connection_closed s)) then close_unsafe 0 [] (snd (is_data_connection_closed s))
      else snd (is_data_connection_closed s))"
  by (auto simp: shipMessage_def Let_def split: prod.split option.split sum.split)

lemma shipMessage_proj [proj, simp]:
  "role (snd (shipMessage typ m s)) = role s"
  "remoteSKI (snd (shipMessage typ m s)) = remoteSKI s"
  "remoteShipID (snd (shipMessage typ m s)) = remoteShipID s"
  "localShipID (snd (shipMessage typ m s)) = localShipID s"
  "info (snd (shipMessage typ m s)) = info s"
  "dataReader (snd (shipMessage typ m s)) = dataReader s"
  "net (snd (shipMessage typ m s)) = net s"
  "orderedMap (snd (shipMessage typ m s)) = orderedMap s"
  "lastReceivedWaitingValue (snd (shipMessage typ m s)) = lastReceivedWaitingValue s"
  "spineBuffer (snd (shipMessage typ m s)) = spineBuffer s"
  "outOfFuel (snd (shipMessage typ m s)) = outOfFuel s"
  "smeState (snd (shipMessage typ m s)) = smeState s"
  "smeError (snd (shipMessage typ m s)) = smeError s"
  "panicked (snd (shipMessage typ m s)) = panicked s"
  "tasks (snd (shipMessage typ m s)) = tasks s"
  by (simp_all add: shipMessage_snd)

lemma send_proj [proj, simp]:
  "role (snd (sendShipModel typ m s)) = role s"
  "remoteSKI (snd (sendShipModel typ m s)) = remoteSKI s"
  "remoteShipID (snd (sendShipModel typ m s)) = remoteShipID s"
  "localShipID (snd (sendShipModel typ m s)) = localShipID s"
  "info (snd (sendShipModel typ m s)) = info s"
  "dataReader (snd (sendShipModel typ m s)) = dataReader s"
  "net (snd (sendShipModel typ m s)) = net s"
  "orderedMap (snd (sendShipModel typ m s)) = orderedMap s"
  "lastReceivedWaitingValue (snd (sendShipModel typ m s)) = lastReceivedWaitingValue s"
  "spineBuffer (snd (sendShipModel typ m s)) = spineBuffer s"
  "outOfFuel (snd (sendShipModel typ m s)) = outOfFuel s"
  "smeState (snd (sendShipModel typ m s)) = smeState s"
  "smeError (snd (sendShipModel typ m s)) = smeError s"
  "tasks (snd (sendShipModel typ m s)) = tasks s"
  by (simp_all add: sendShipModel_def case_prod_beta split: sum.split)

lemma CloseConnection_proj [proj, simp]:
  "role (CloseConnection b c r s) = role s"
  "remoteSKI (CloseConnection b c r s) = remoteSKI s"
  "remoteShipID (CloseConnection b c r s) = remoteShipID s"
  "localShipID (CloseConnection b c r s) = localShipID s"
  "info (CloseConnection b c r s) = info s"
  "dataReader (CloseConnection b c r s) = dataReader s"
  "net (CloseConnection b c r s) = net s"
  "orderedMap (CloseConnection b c r s) = orderedMap s"
  "lastReceivedWaitingValue (CloseConnection b c r s) = lastReceivedWaitingValue s"
  "spineBuffer (CloseConnection b c r s) = spineBuffer s"
  "outOfFuel (CloseConnection b c r s) = outOfFuel s"
  "smeState (CloseConnection b c r s) = smeState s"
  "smeError (CloseConnection b c r s) = smeError s"
  by (simp_all add: CloseConnection_def CloseConnection_with_def Let_def split: once.split)

lemma sendSpineData_proj [proj, simp]:
  "role (snd (sendSpineData d s)) = role s"
  "remoteSKI (snd (sendSpineData d s)) = remoteSKI s"
  "remoteShipID (snd (sendSpineData d s)) = remoteShipID s"
  "localShipID (snd (sendSpineData d s)) = localShipID s"
  "info (snd (sendSpineData d s)) = info s"
  "dataReader (snd (sendSpineData d s)) = dataReader s"
  "net (snd (sendSpineData d s)) = net s"
  "orderedMap (snd (sendSpineData d s)) = orderedMap s"
  "lastReceivedWaitingValue (snd (sendSpineData d s)) = lastReceivedWaitingValue s"
  "spineBuffer (snd (sendSpineData d s)) = spineBuffer s"
  "outOfFuel (snd (sendSpineData d s)) = outOfFuel s"
  "smeState (snd (sendSpineData d s)) = smeState s"
  "smeError (snd (sendSpineData d s)) = smeError s"
  by (simp_all add: sendSpineData_def Let_def case_prod_beta split: sum.split option.split)

lemma endHandshake_proj [proj, simp]:
  "role (endHandshakeWithError err s) = role s"
  "remoteSKI (endHandshakeWithError err s) = remoteSKI s"
  "remoteShipID (endHandshakeWithError err s) = remoteShipID s"
  "localShipID (endHandshakeWithError err s) = localShipID s"
  "info (endHandshakeWithError err s) = info s"
  "dataReader (endHandshakeWithError err s) = dataReader s"
  "net (endHandshakeWithError err s) = net s"
  "orderedMap (endHandshakeWithError err s) = orderedMap s"
  "lastReceivedWaitingValue (endHandshakeWithError err s) = lastReceivedWaitingValue s"
  "spineBuffer (endHandshakeWithError err s) = spineBuffer s"
  "outOfFuel (endHandshakeWithError err s) = outOfFuel s"
  "smeState (endHandshakeWithError err s) = SmeStateError"
  by (simp_all add: endHandshakeWithError_def Let_def)

lemma abortProtocol_proj [proj, simp]:
  "role (abortProtocolHandshake er s) = role s"
  "remoteSKI (abortProtocolHandshake er s) = remoteSKI s"
  "remoteShipID (abortProtocolHandshake er s) = remoteShipID s"
  "localShipID (abortProtocolHandshake er s) = localShipID s"
  "info (abortProtocolHandshake er s) = info s"
  "dataReader (abortProtocolHandshake er s) = dataReader s"
  "net (abortProtocolHandshake er s) = net s"
  "orderedMap (abortProtocolHandshake er s) = orderedMap s"
  "lastReceivedWaitingValue (abortProtocolHandshake er s) = lastReceivedWaitingValue s"
  "spineBuffer (abortProtocolHandshake er s) = spineBuffer s"
  "outOfFuel (abortProtocolHandshake er s) = outOfFuel s"
  "smeState (abortProtocolHandshake er s) = SmeStateError"
  by (simp_all add: abortProtocolHandshake_def Let_def)

lemma eff_setState [simp]:
  "eff (setState st e s) = eff s @ (if smeState s \<noteq> st then [StateUpdate st e] else [])"
  by (simp add: setState_def Let_def)

lemma eff_close_unsafe [simp]:
  "eff (close_unsafe c r s) = eff s @
     (if shutdownOnce s = OnceFresh then [ConnectionClosed (handshake_ended (smeState s))] else [])"
  by (simp add: close_unsafe_def CloseConnection_with_def getState_def Let_def split: once.split)

lemma close_unsafe_running [simp]:
  "shutdownOnce (close_unsafe c r s) = (if shutdownOnce s = OnceFresh then OnceDone else shutdownOnce s)"
  "stuck (close_unsafe c r s) = (if shutdownOnce s = OnceRunning then Suc (stuck s) else stuck s)"
  by (simp_all add: close_unsafe_def CloseConnection_with_def Let_def split: once.split)

text \<open>The once-state, the stuck goroutines and the effects after a send: a send on a closed websocket
  closes the connection.\<close>

abbreviation found_closed :: "ship_conn \<Rightarrow> bool" where
  "found_closed s \<equiv> fst (fst (is_data_connection_closed s))"

lemma send_closing [simp]:
  "shutdownOnce (snd (sendShipModel ty m s)) =
     (if found_closed s \<and> shutdownOnce s = OnceFresh then OnceDone else shutdownOnce s)"
  "stuck (snd (sendShipModel ty m s)) =
     (if found_closed s \<and> shutdownOnce s = OnceRunning then Suc (stuck s) else stuck s)"
  "eff (snd (sendShipModel ty m s)) = eff s @
     (if found_closed s \<and> shutdownOnce s = OnceFresh
      then [ConnectionClosed (handshake_ended (smeState s))] else [])"
proof -
  have closed: "snd (sendShipModel ty m s) = close_unsafe 0 [] (snd (is_data_connection_closed s))"
    if "found_closed s"
    using that by (simp add: sendShipModel_def shipMessage_def Let_def case_prod_beta)
  have sent: "shutdownOnce (snd (sendShipModel ty m s)) = shutdownOnce s
      \<and> stuck (snd (sendShipModel ty m s)) = stuck s \<and> eff (snd (sendShipModel ty m s)) = eff s"
    if "\<not> found_closed s"
    using that by (simp add: sendShipModel_def shipMessage_def Let_def case_prod_beta split: sum.split)
  show "shutdownOnce (snd (sendShipModel ty m s)) =
     (if found_closed s \<and> shutdownOnce s = OnceFresh then OnceDone else shutdownOnce s)"
   "stuck (snd (sendShipModel ty m s)) =
     (if found_closed s \<and> shutdownOnce s = OnceRunning then Suc (stuck s) else stuck s)"
   "eff (snd (sendShipModel ty m s)) = eff s @
     (if found_closed s \<and> shutdownOnce s = OnceFresh
      then [ConnectionClosed (handshake_ended (smeState s))] else [])"
    by (cases "found_closed s"; simp add: closed sent)+
qed

text \<open>A closing connection: what \<open>CloseConnection\<close> does in the one call that counts\<close>

lemma CloseConnection_done: "shutdownOnce s = OnceDone \<Longrightarrow> CloseConnection b c r s = s"
  by (simp add: CloseConnection_def CloseConnection_with_def)

lemma CloseConnection_running:
  "shutdownOnce s = OnceRunning \<Longrightarrow> CloseConnection b c r s = s\<lparr>stuck := Suc (stuck s)\<rparr>"
  by (simp add: CloseConnection_def CloseConnection_with_def)

definition close_tail :: "bool \<Rightarrow> ship_conn \<Rightarrow> ship_conn" where
  "close_tail b s = s\<lparr>tasks := tasks s @ [TaskCloseAnnounced b], shutdownOnce := OnceDone\<rparr>"

lemma CloseConnection_announce:
  assumes "shutdownOnce s = OnceFresh" "smeState s = SmeStateComplete"
  shows "CloseConnection True c r s =
    (let s1 = snd (sendShipModel MsgTypeEnd (close_to_json (announce_close r))
                     (stop_timer (s\<lparr>shutdownOnce := OnceRunning\<rparr>)))
     in if stuck s < stuck s1 then s1 else close_tail True s1)"
  using assms by (simp add: CloseConnection_def CloseConnection_with_def getState_def close_tail_def
      handshake_ended_def Let_def)

lemma CloseConnection_effects:
  "eff (CloseConnection b c r s) = eff s @
     (if shutdownOnce s = OnceFresh \<and> \<not> (b \<and> smeState s = SmeStateComplete)
      then [ConnectionClosed (handshake_ended (smeState s))] else [])"
  by (simp add: CloseConnection_def CloseConnection_with_def getState_def Let_def split: once.split)

lemma CloseConnection_tasks:
  "\<exists>ts. tasks (CloseConnection b c r s) = tasks s @ ts \<and> set ts \<subseteq> {TaskCloseAnnounced True}"
  by (simp add: CloseConnection_def CloseConnection_with_def getState_def handshake_ended_def Let_def
      split: once.split)

end
