(* ===== verification/ShipHandshake.thy ===== *)
theory ShipHandshake
  imports ShipConn
begin

text \<open>
  The handshake: \<open>ship/hs_init.go\<close>, \<open>hs_hello.go\<close>, \<open>hs_prot.go\<close>, \<open>hs_pin.go\<close>, \<open>hs_access.go\<close> and
  \<open>handleState\<close> of \<open>ship/handshake.go\<close>. The handlers and \<open>handleState\<close> call each other; every handler
  takes the \<open>handleState\<close> it calls as its argument \<open>hs\<close> (timeout, message), the knot is tied with fuel,
  and the fuel is shown to be enough: \<open>handleState\<close> satisfies the equation of the source.
\<close>

type_synonym handler = "bool \<Rightarrow> bytes \<Rightarrow> ship_conn \<Rightarrow> ship_conn"

definition setAndHandleState :: "handler \<Rightarrow> sme_state \<Rightarrow> ship_conn \<Rightarrow> ship_conn" where
  "setAndHandleState hs st s = hs False [] (setState st None s)"

section \<open>CMI\<close>

text \<open>\<open>string(b)\<close> of a byte: the UTF-8 encoding of the code point\<close>

definition byte_text :: "char \<Rightarrow> string" where
  "byte_text c = (if code c < 128 then [c]
     else [char_of (192 + code c div 64), char_of (128 + code c mod 64)])"

definition handshakeInit_cmiStateInitStart :: "ship_conn \<Rightarrow> ship_conn" where
  "handshakeInit_cmiStateInitStart s = (case role s of
     ShipRoleClient \<Rightarrow>
       (let s1 = setState CmiStateClientSend None s in
        case write_websocket ShipInit s1 of
          (Some err, s2) \<Rightarrow> endHandshakeWithError err s2
        | (None, s2) \<Rightarrow> set_timer WaitForReady cmiTimeout (setState CmiStateClientWait None s2))
   | ShipRoleServer \<Rightarrow> set_timer WaitForReady cmiTimeout (setState CmiStateServerWait None s))"

definition rejectInvalidCmiMessage :: "ship_conn \<Rightarrow> ship_conn" where
  "rejectInvalidCmiMessage s =
     (if role s \<noteq> ShipRoleServer then s else snd (write_websocket ShipInit s))"

definition handshakeInit_cmiStateEvaluate :: "bytes \<Rightarrow> ship_conn \<Rightarrow> bool \<times> ship_conn" where
  "handshakeInit_cmiStateEvaluate message s =
     (let (msgType, d) = parseMessage message False in
      if msgType \<noteq> MsgTypeInit then
        (False, endHandshakeWithError
           (Opaque (''invalid SHIP MessageType, expected 0 and got '' @ byte_text msgType))
           (rejectInvalidCmiMessage s))
      else if d \<noteq> [] \<and> code (hd d) \<noteq> 0 then
        (False, endHandshakeWithError
           (Opaque (''invalid SHIP MessageValue, expected 0 and got '' @ d))
           (rejectInvalidCmiMessage s))
      else (True, s))"

definition handshakeInit_cmiStateServerWait :: "handler \<Rightarrow> bytes \<Rightarrow> ship_conn \<Rightarrow> ship_conn" where
  "handshakeInit_cmiStateServerWait hs message s =
     (case handshakeInit_cmiStateEvaluate message (setState CmiStateServerEvaluate None s) of
        (False, s1) \<Rightarrow> s1
      | (True, s1) \<Rightarrow>
          (case write_websocket ShipInit s1 of
             (Some err, s2) \<Rightarrow> endHandshakeWithError err s2
           | (None, s2) \<Rightarrow> setAndHandleState hs SmeHelloState s2))"

definition handshakeInit_cmiStateClientWait :: "handler \<Rightarrow> bytes \<Rightarrow> ship_conn \<Rightarrow> ship_conn" where
  "handshakeInit_cmiStateClientWait hs message s =
     (case handshakeInit_cmiStateEvaluate message (setState CmiStateClientEvaluate None s) of
        (False, s1) \<Rightarrow> s1
      | (True, s1) \<Rightarrow> setAndHandleState hs SmeHelloState s1)"

section \<open>Hello\<close>

definition hello_message :: "string \<Rightarrow> duration \<Rightarrow> bool \<Rightarrow> hello" where
  "hello_message phase waiting prolongation =
     \<lparr>Phase = phase,
      Waiting = (if waiting > 0 then Some (nat (waiting div ms 1)) else None),
      ProlongationRequest = (if prolongation then Some True else None)\<rparr>"

definition handshakeHelloSend ::
  "string \<Rightarrow> duration \<Rightarrow> bool \<Rightarrow> ship_conn \<Rightarrow> error option \<times> ship_conn" where
  "handshakeHelloSend phase waiting prolongation s =
     sendShipModel MsgTypeControl (hello_to_json (hello_message phase waiting prolongation)) s"

definition handshakeHello_Init :: "handler \<Rightarrow> ship_conn \<Rightarrow> ship_conn" where
  "handshakeHello_Init hs s =
     (case handshakeHelloSend PhaseReady getHelloInitTimeout False s of
        (Some _, s1) \<Rightarrow> setAndHandleState hs SmeHelloStateAbort s1
      | (None, s1) \<Rightarrow> setState SmeHelloStateReadyListen None s1)"

definition handshakeHello_ReadyTimeout :: "handler \<Rightarrow> ship_conn \<Rightarrow> ship_conn" where
  "handshakeHello_ReadyTimeout hs s = setAndHandleState hs SmeHelloStateAbort s"

definition end_on_error :: "error option \<times> ship_conn \<Rightarrow> ship_conn" where
  "end_on_error r = (case r of (Some err, s) \<Rightarrow> endHandshakeWithError err s | (None, s) \<Rightarrow> s)"

definition handshakeHello_ReadyListen :: "handler \<Rightarrow> bool \<Rightarrow> bytes \<Rightarrow> ship_conn \<Rightarrow> ship_conn" where
  "handshakeHello_ReadyListen hs timeout message s =
     (if timeout then handshakeHello_ReadyTimeout hs s
      else case processShipJsonMessage dec_hello zero_hello message of
        None \<Rightarrow> setAndHandleState hs SmeHelloStateAbort s
      | Some h \<Rightarrow>
          if Phase h = PhaseReady then hs False [] (setState SmeHelloStateOk None s)
          else if Phase h = PhasePending then
            (case ProlongationRequest h of
               None \<Rightarrow> s
             | Some True \<Rightarrow>
                 (let s1 = (if allowWaiting (info s)
                            then set_timer WaitForReady getHelloInitTimeout s else s)
                  in end_on_error (handshakeHelloSend PhaseReady getHelloInitTimeout False s1))
             | Some False \<Rightarrow> s)
          else if Phase h = PhaseAborted then setAndHandleState hs SmeHelloStateRemoteAbortDone s
          else setAndHandleState hs SmeHelloStateAbort s)"

definition handshakeHello_Abort :: "handler \<Rightarrow> ship_conn \<Rightarrow> ship_conn" where
  "handshakeHello_Abort hs s =
     (case handshakeHelloSend PhaseAborted 0 False (stop_timer_safe s) of
        (Some err, s1) \<Rightarrow> endHandshakeWithError err s1
      | (None, s1) \<Rightarrow> setAndHandleState hs SmeHelloStateAbortDone s1)"

definition handshakeHello_PendingInit :: "handler \<Rightarrow> ship_conn \<Rightarrow> ship_conn" where
  "handshakeHello_PendingInit hs s =
     (case handshakeHelloSend PhasePending getHelloInitTimeout False s of
        (Some err, s1) \<Rightarrow> endHandshakeWithError err s1
      | (None, s1) \<Rightarrow>
          (let s2 = setState SmeHelloStatePendingListen None s1 in
           if \<not> allowWaiting (info s2) then setAndHandleState hs SmeHelloStateAbort s2 else s2))"

definition handshakeHello_PendingProlongationRequest :: "ship_conn \<Rightarrow> ship_conn" where
  "handshakeHello_PendingProlongationRequest s =
     (case handshakeHelloSend PhasePending 0 True s of
        (Some err, s1) \<Rightarrow> endHandshakeWithError err s1
      | (None, s1) \<Rightarrow>
          (let timeout = lastReceivedWaitingValue s1;
               timeout' = (if timeout = 0 then getHelloInitTimeout else timeout)
           in set_timer ProlongRequestReply timeout' s1))"

text \<open>\<open>time.Duration(float64(ms) * 1.1)\<close>: the number of milliseconds becomes nanoseconds. The product
  is 66000.00000000001, which the conversion truncates.\<close>

definition prolong_fallback :: duration where
  "prolong_fallback = (getHelloInitTimeout div ms 1) * 11 div 10"

definition handshakeHello_PendingTimeout :: "handler \<Rightarrow> ship_conn \<Rightarrow> ship_conn" where
  "handshakeHello_PendingTimeout hs s =
     (if getHandshakeTimerType (timer s) \<noteq> SendProlongationRequest
      then setAndHandleState hs SmeHelloStateAbort s
      else case handshakeHelloSend PhasePending 0 True s of
        (Some err, s1) \<Rightarrow> endHandshakeWithError err s1
      | (None, s1) \<Rightarrow>
          (let s2 = (if lastReceivedWaitingValue s1 = 0
                     then s1\<lparr>lastReceivedWaitingValue := prolong_fallback\<rparr> else s1)
           in set_timer ProlongRequestReply (lastReceivedWaitingValue s2) s2))"

text \<open>\<open>time.Duration(waiting) * time.Millisecond\<close> on 64 bits\<close>

definition waiting_duration :: "nat \<Rightarrow> duration" where
  "waiting_duration w = sint (word_of_nat w * 1000000 :: 64 word)"

text \<open>The treatment of a waiting value that both branches of \<open>PendingListen\<close> share: the new state, and
  whether the handler has returned.\<close>

definition pending_waiting :: "handler \<Rightarrow> duration \<Rightarrow> ship_conn \<Rightarrow> bool \<times> ship_conn" where
  "pending_waiting hs newDuration s =
     (if newDuration \<ge> tHelloProlongThrInc \<and> newDuration \<ge> tHelloProlongMin
      then (True, set_timer SendProlongationRequest (newDuration - tHelloProlongThrInc) s)
      else if newDuration < tHelloProlongMin
      then (False, setAndHandleState hs SmeHelloStateAbort s)
      else (False, s))"

definition handshakeHello_PendingListen :: "handler \<Rightarrow> bool \<Rightarrow> bytes \<Rightarrow> ship_conn \<Rightarrow> ship_conn" where
  "handshakeHello_PendingListen hs timeout message s =
     (if timeout then
        (if \<not> allowWaiting (info s) then handshakeHello_PendingTimeout hs s
         else handshakeHello_PendingProlongationRequest s)
      else case processShipJsonMessage dec_hello zero_hello message of
        None \<Rightarrow> setAndHandleState hs SmeHelloStateAbort s
      | Some h \<Rightarrow>
          if Phase h = PhaseReady then
            (case Waiting h of
               None \<Rightarrow> setAndHandleState hs SmeHelloStateAbort s
             | Some w \<Rightarrow>
                 (case pending_waiting hs (waiting_duration w) (stop_timer_safe s) of
                    (True, s1) \<Rightarrow> s1
                  | (False, s1) \<Rightarrow> hs False [] s1))
          else if Phase h = PhasePending then
            (if Waiting h \<noteq> None \<and> ProlongationRequest h = None then
               (let d = waiting_duration (the (Waiting h))
                in snd (pending_waiting hs d ((stop_timer_safe s)\<lparr>lastReceivedWaitingValue := d\<rparr>)))
             else if Waiting h = None \<and> ProlongationRequest h = Some True then
               end_on_error (handshakeHelloSend PhasePending getHelloInitTimeout False s)
             else hs False [] (setAndHandleState hs SmeHelloStateAbort s))
          else if Phase h = PhaseAborted then setAndHandleState hs SmeHelloStateRemoteAbortDone s
          else setAndHandleState hs SmeHelloStateAbort s)"

section \<open>Protocol handshake\<close>

definition protocolHandshake :: "string \<Rightarrow> protocol_handshake" where
  "protocolHandshake ty = \<lparr>HandshakeType = ty, Version = \<lparr>Major = 1, Minor = 0\<rparr>,
     Formats = Some [FormatUTF8]\<rparr>"

definition handshakeProtocol_smeProtHStateClientInit :: "ship_conn \<Rightarrow> ship_conn" where
  "handshakeProtocol_smeProtHStateClientInit s =
     (case sendShipModel MsgTypeControl (handshake_to_json (protocolHandshake AnnounceMax))
             (setState SmeProtHStateClientInit None s) of
        (Some err, s1) \<Rightarrow> endHandshakeWithError err s1
      | (None, s1) \<Rightarrow> setState SmeProtHStateClientListenChoice None s1)"

definition handshakeProtocol_Init :: "ship_conn \<Rightarrow> ship_conn" where
  "handshakeProtocol_Init s = (case role s of
     ShipRoleServer \<Rightarrow>
       setState SmeProtHStateServerListenProposal None
         (set_timer WaitForReady cmiTimeout (setState SmeProtHStateServerInit None s))
   | ShipRoleClient \<Rightarrow>
       handshakeProtocol_smeProtHStateClientInit (setState SmeProtHStateClientInit None s))"

definition handshakeProtocol_smeProtHStateServerListenProposal :: "bytes \<Rightarrow> ship_conn \<Rightarrow> ship_conn" where
  "handshakeProtocol_smeProtHStateServerListenProposal message s =
     (case processShipJsonMessage dec_handshake zero_handshake message of
        None \<Rightarrow> abortProtocolHandshake ErrUnexpectedMessage s
      | Some m \<Rightarrow>
          if HandshakeType m \<noteq> AnnounceMax then abortProtocolHandshake ErrUnexpectedMessage s
          else case sendShipModel MsgTypeControl (handshake_to_json (protocolHandshake Select))
                      (stop_timer_safe s) of
                 (Some err, s1) \<Rightarrow> endHandshakeWithError err s1
               | (None, s1) \<Rightarrow>
                   setState SmeProtHStateServerListenConfirm None (set_timer WaitForReady cmiTimeout s1))"

definition handshakeProtocol_smeProtHStateServerListenConfirm ::
  "handler \<Rightarrow> bytes \<Rightarrow> ship_conn \<Rightarrow> ship_conn" where
  "handshakeProtocol_smeProtHStateServerListenConfirm hs message s =
     (case processShipJsonMessage dec_handshake zero_handshake message of
        None \<Rightarrow> abortProtocolHandshake ErrUnexpectedMessage s
      | Some m \<Rightarrow>
          if HandshakeType m \<noteq> Select then abortProtocolHandshake ErrSelectionMismatch s
          else setAndHandleState hs SmeProtHStateServerOk (stop_timer_safe s))"

text \<open>The format check indexes the first element of a non-nil slice, which may be empty: a panic.\<close>

definition handshakeProtocol_smeProtHStateClientListenChoice ::
  "handler \<Rightarrow> bytes \<Rightarrow> ship_conn \<Rightarrow> ship_conn" where
  "handshakeProtocol_smeProtHStateClientListenChoice hs message s =
     (case processShipJsonMessage dec_handshake zero_handshake message of
        None \<Rightarrow> abortProtocolHandshake ErrUnexpectedMessage s
      | Some m \<Rightarrow>
          if HandshakeType m \<noteq> Select then abortProtocolHandshake ErrUnexpectedMessage s
          else if Formats m = Some [] then s\<lparr>panicked := True\<rparr>
          else
            (let fs = (case Formats m of None \<Rightarrow> [] | Some fs \<Rightarrow> fs);
                 abort = (Major (Version m) \<noteq> 1 \<or> Minor (Version m) \<noteq> 0 \<or> length fs = 0
                          \<or> length fs \<noteq> 1 \<or> (Formats m \<noteq> None \<and> fs ! 0 \<noteq> FormatUTF8))
             in if abort then abortProtocolHandshake ErrSelectionMismatch s
                else case sendShipModel MsgTypeControl (handshake_to_json (protocolHandshake Select))
                            (stop_timer_safe s) of
                       (Some err, s1) \<Rightarrow> endHandshakeWithError err s1
                     | (None, s1) \<Rightarrow> setAndHandleState hs SmeProtHStateClientOk s1))"

section \<open>PIN\<close>

definition handshakePin_Init :: "ship_conn \<Rightarrow> ship_conn" where
  "handshakePin_Init s =
     (case sendShipModel MsgTypeControl (pin_to_json \<lparr>PinState = PinNone, InputPermission = None\<rparr>)
             (setState SmePinStateCheckInit None s) of
        (Some err, s1) \<Rightarrow> endHandshakeWithError err s1
      | (None, s1) \<Rightarrow> setState SmePinStateCheckListen None s1)"

definition unsupported_pin :: "string \<Rightarrow> error" where
  "unsupported_pin t = Wrapped (sentinel_text ErrUnsupportedPinState @ t) (Sentinel ErrUnsupportedPinState)"

definition handshakePin_smePinStateCheckListen :: "handler \<Rightarrow> bytes \<Rightarrow> ship_conn \<Rightarrow> ship_conn" where
  "handshakePin_smePinStateCheckListen hs message s =
     (case processShipJsonMessage dec_pin zero_pin message of
        None \<Rightarrow> endHandshakeWithError (Opaque ''invalid PIN message'') s
      | Some p \<Rightarrow>
          if PinState p = PinNone then setAndHandleState hs SmePinStateCheckOk s
          else if PinState p = PinRequired
          then endHandshakeWithError (unsupported_pin ('': 'required' for remote SKI '' @ remoteSKI s)) s
          else if PinState p = PinOptional
          then endHandshakeWithError (unsupported_pin ('': 'optional' for remote SKI '' @ remoteSKI s)) s
          else if PinState p = PinOk
          then endHandshakeWithError (unsupported_pin ('': 'ok' for remote SKI '' @ remoteSKI s)) s
          else endHandshakeWithError (unsupported_pin ('': ''@ [CHR 0x27] @ PinState p
                 @ [CHR 0x27] @ '' from remote SKI '' @ remoteSKI s)) s)"

section \<open>Access methods\<close>

definition handshakeAccessMethods_Init :: "ship_conn \<Rightarrow> ship_conn" where
  "handshakeAccessMethods_Init s =
     (case sendShipModel MsgTypeControl access_request_to_json s of
        (Some err, s1) \<Rightarrow> endHandshakeWithError err s1
      | (None, s1) \<Rightarrow> setState SmeAccessMethodsRequest None (set_timer WaitForReady cmiTimeout s1))"

datatype access_message = AccessRequest | AccessMethods

definition detectAccessMethodsMessageType :: "bytes \<Rightarrow> error + access_message" where
  "detectAccessMethodsMessageType d = (case raw_object d of
     None \<Rightarrow> Inl (Opaque ''invalid JSON'')
   | Some detector \<Rightarrow>
       if ''accessMethodsRequest'' \<in> set (map fst detector) then Inr AccessRequest
       else if ''accessMethods'' \<in> set (map fst detector) then Inr AccessMethods
       else Inl (Opaque ''unknown access message type: expected accessMethodsRequest or accessMethods''))"

definition handleAccessMethodsRequest :: "ship_conn \<Rightarrow> error option \<times> ship_conn" where
  "handleAccessMethodsRequest s =
     sendShipModel MsgTypeControl
       (access_to_json \<lparr>Id = Some (localShipID s), DnsSdMDns = None, DnsUri = None\<rparr>) s"

definition handleAccessMethodsResponse :: "access_methods \<Rightarrow> ship_conn \<Rightarrow> error option \<times> ship_conn" where
  "handleAccessMethodsResponse a s = (case Id a of
     None \<Rightarrow> (Some (Opaque (''access methods response from remote SKI '' @ remoteSKI s
               @ '' does not contain SHIP ID'')), s)
   | Some remoteID \<Rightarrow>
       if remoteShipID s \<noteq> [] \<and> remoteShipID s \<noteq> remoteID
       then (Some (Opaque (''SHIP ID mismatch for remote SKI '' @ remoteSKI s @ '': expected '' @ [CHR 0x27]
               @ remoteShipID s @ [CHR 0x27] @ '', got '' @ [CHR 0x27] @ remoteID @ [CHR 0x27])), s)
       else if remoteShipID s = []
       then (None, emit (ReportShipID remoteID) (s\<lparr>remoteShipID := remoteID\<rparr>))
       else (None, s))"

definition handshakeAccessMethods_Request :: "bytes \<Rightarrow> ship_conn \<Rightarrow> ship_conn" where
  "handshakeAccessMethods_Request message s =
     (let d = snd (parseMessage message True) in
      case detectAccessMethodsMessageType d of
        Inl err \<Rightarrow> endHandshakeWithError err s
      | Inr AccessRequest \<Rightarrow> end_on_error (handleAccessMethodsRequest s)
      | Inr AccessMethods \<Rightarrow>
          (case Unmarshal dec_access zero_access d of
             None \<Rightarrow> endHandshakeWithError (Opaque ''invalid access methods message'') s
           | Some a \<Rightarrow>
               (case handleAccessMethodsResponse a s of
                  (Some err, s1) \<Rightarrow> endHandshakeWithError err s1
                | (None, s1) \<Rightarrow> approveHandshake (setState SmeStateApproved None s1))))"

section \<open>The state machine\<close>

definition cmi_timeout_error :: "string \<Rightarrow> sme_state \<Rightarrow> ship_conn \<Rightarrow> error" where
  "cmi_timeout_error r st s =
     Wrapped (sentinel_text ErrConnectionTimeout @ '': SHIP '' @ r @ '' handshake with remote SKI ''
       @ remoteSKI s @ '' (state: '' @ Itoa (state_value st) @ '')'') (Sentinel ErrConnectionTimeout)"

definition handleState_step :: "handler \<Rightarrow> handler" where
  "handleState_step hs timeout message s =
     (let st = getState s in
      if st = SmeStateError then s
      else if st = CmiStateInitStart then handshakeInit_cmiStateInitStart s
      else if st = CmiStateClientWait then
        (if timeout then endHandshakeWithError (cmi_timeout_error ''client'' CmiStateClientWait s) s
         else handshakeInit_cmiStateClientWait hs message s)
      else if st = CmiStateServerWait then
        (if timeout then endHandshakeWithError (cmi_timeout_error ''server'' CmiStateServerWait s) s
         else handshakeInit_cmiStateServerWait hs message s)
      else if st = SmeHelloState then
        hs timeout message
          (if paired (info s) \<or> autoAccept (info s) \<or> role s = ShipRoleClient
           then setState SmeHelloStateReadyInit None s
           else setState SmeHelloStatePendingInit None s)
      else if st = SmeHelloStateReadyInit then handshakeHello_Init hs s
      else if st = SmeHelloStateReadyListen then handshakeHello_ReadyListen hs timeout message s
      else if st = SmeHelloStatePendingInit then handshakeHello_PendingInit hs s
      else if st = SmeHelloStatePendingListen then handshakeHello_PendingListen hs timeout message s
      else if st = SmeHelloStateOk then handshakeProtocol_Init s
      else if st = SmeHelloStateAbort then handshakeHello_Abort hs s
      else if st = SmeHelloStateAbortDone \<or> st = SmeHelloStateRemoteAbortDone
      then s\<lparr>tasks := tasks s @ [TaskAbortDelay]\<rparr>
      else if st = SmeProtHStateServerListenProposal then
        (if timeout then abortProtocolHandshake ErrTimeout s
         else handshakeProtocol_smeProtHStateServerListenProposal message s)
      else if st = SmeProtHStateServerListenConfirm then
        (if timeout then abortProtocolHandshake ErrTimeout s
         else handshakeProtocol_smeProtHStateServerListenConfirm hs message s)
      else if st = SmeProtHStateClientListenChoice then
        (if timeout then abortProtocolHandshake ErrTimeout s
         else handshakeProtocol_smeProtHStateClientListenChoice hs message (stop_timer_safe s))
      else if st = SmeProtHStateClientOk then setAndHandleState hs SmePinStateCheckInit s
      else if st = SmeProtHStateServerOk then setAndHandleState hs SmePinStateCheckInit s
      else if st = SmePinStateCheckInit then handshakePin_Init s
      else if st = SmePinStateCheckListen then handshakePin_smePinStateCheckListen hs message s
      else if st = SmePinStateCheckOk then handshakeAccessMethods_Init s
      else if st = SmeAccessMethodsRequest then handshakeAccessMethods_Request message s
      else s)"

primrec handleState_fuel :: "nat \<Rightarrow> handler" where
  "handleState_fuel 0 timeout message s = s\<lparr>outOfFuel := True\<rparr>"
| "handleState_fuel (Suc n) timeout message s = handleState_step (handleState_fuel n) timeout message s"

text \<open>The longest chain of calls: an invalid message in \<open>PendingListen\<close> that aborts with the message
  nil once more, or \<open>SmeHelloState\<close>, \<open>PendingInit\<close>, \<open>Abort\<close>, \<open>AbortDone\<close>.\<close>

definition handleState :: handler where "handleState = handleState_fuel 8"

section \<open>The dispatch, state by state\<close>

lemma handleState_step_simps:
  "smeState s = SmeStateError \<Longrightarrow> handleState_step hs t m s = s"
  "smeState s = CmiStateInitStart \<Longrightarrow> handleState_step hs t m s = handshakeInit_cmiStateInitStart s"
  "smeState s = CmiStateClientWait \<Longrightarrow> handleState_step hs t m s = (if t then endHandshakeWithError (cmi_timeout_error ''client'' CmiStateClientWait s) s else handshakeInit_cmiStateClientWait hs m s)"
  "smeState s = CmiStateServerWait \<Longrightarrow> handleState_step hs t m s = (if t then endHandshakeWithError (cmi_timeout_error ''server'' CmiStateServerWait s) s else handshakeInit_cmiStateServerWait hs m s)"
  "smeState s = SmeHelloState \<Longrightarrow> handleState_step hs t m s = hs t m (if paired (info s) \<or> autoAccept (info s) \<or> role s = ShipRoleClient then setState SmeHelloStateReadyInit None s else setState SmeHelloStatePendingInit None s)"
  "smeState s = SmeHelloStateReadyInit \<Longrightarrow> handleState_step hs t m s = handshakeHello_Init hs s"
  "smeState s = SmeHelloStateReadyListen \<Longrightarrow> handleState_step hs t m s = handshakeHello_ReadyListen hs t m s"
  "smeState s = SmeHelloStatePendingInit \<Longrightarrow> handleState_step hs t m s = handshakeHello_PendingInit hs s"
  "smeState s = SmeHelloStatePendingListen \<Longrightarrow> handleState_step hs t m s = handshakeHello_PendingListen hs t m s"
  "smeState s = SmeHelloStateOk \<Longrightarrow> handleState_step hs t m s = handshakeProtocol_Init s"
  "smeState s = SmeHelloStateAbort \<Longrightarrow> handleState_step hs t m s = handshakeHello_Abort hs s"
  "smeState s = SmeHelloStateAbortDone \<Longrightarrow> handleState_step hs t m s = s\<lparr>tasks := tasks s @ [TaskAbortDelay]\<rparr>"
  "smeState s = SmeHelloStateRemoteAbortDone \<Longrightarrow> handleState_step hs t m s = s\<lparr>tasks := tasks s @ [TaskAbortDelay]\<rparr>"
  "smeState s = SmeProtHStateServerListenProposal \<Longrightarrow> handleState_step hs t m s = (if t then abortProtocolHandshake ErrTimeout s else handshakeProtocol_smeProtHStateServerListenProposal m s)"
  "smeState s = SmeProtHStateServerListenConfirm \<Longrightarrow> handleState_step hs t m s = (if t then abortProtocolHandshake ErrTimeout s else handshakeProtocol_smeProtHStateServerListenConfirm hs m s)"
  "smeState s = SmeProtHStateClientListenChoice \<Longrightarrow> handleState_step hs t m s = (if t then abortProtocolHandshake ErrTimeout s else handshakeProtocol_smeProtHStateClientListenChoice hs m (stop_timer_safe s))"
  "smeState s = SmeProtHStateClientOk \<Longrightarrow> handleState_step hs t m s = setAndHandleState hs SmePinStateCheckInit s"
  "smeState s = SmeProtHStateServerOk \<Longrightarrow> handleState_step hs t m s = setAndHandleState hs SmePinStateCheckInit s"
  "smeState s = SmePinStateCheckInit \<Longrightarrow> handleState_step hs t m s = handshakePin_Init s"
  "smeState s = SmePinStateCheckListen \<Longrightarrow> handleState_step hs t m s = handshakePin_smePinStateCheckListen hs m s"
  "smeState s = SmePinStateCheckOk \<Longrightarrow> handleState_step hs t m s = handshakeAccessMethods_Init s"
  "smeState s = SmeAccessMethodsRequest \<Longrightarrow> handleState_step hs t m s = handshakeAccessMethods_Request m s"
  by (simp_all add: handleState_step_def getState_def)

definition passive_states :: "sme_state list" where
  "passive_states = [CmiStateClientSend,
     CmiStateClientEvaluate,
     CmiStateServerEvaluate,
     SmeHelloStateReadyTimeout,
     SmeHelloStatePendingTimeout,
     SmeHelloStateRejected,
     SmeProtHStateServerInit,
     SmeProtHStateClientInit,
     SmeProtHStateTimeout,
     SmePinStateCheckError,
     SmePinStateCheckBusyInit,
     SmePinStateCheckBusyWait,
     SmePinStateAskInit,
     SmePinStateAskProcess,
     SmePinStateAskRestricted,
     SmePinStateAskOk,
     SmeStateApproved,
     SmeStateComplete]"

lemma handleState_step_passive: "smeState s \<in> set passive_states \<Longrightarrow> handleState_step hs t m s = s"
  by (auto simp: passive_states_def handleState_step_def getState_def)

section \<open>Enough fuel\<close>

text \<open>\<open>settled st k\<close>: in state \<open>st\<close>, fuel \<open>k\<close> is enough, and it does not run out.\<close>

definition settled :: "sme_state \<Rightarrow> nat \<Rightarrow> bool" where
  "settled st k \<longleftrightarrow> (\<forall>n t m s. smeState s = st \<longrightarrow> k \<le> n \<longrightarrow>
     handleState_fuel n t m s = handleState t m s \<and> outOfFuel (handleState t m s) = outOfFuel s)"

lemma settledI:
  assumes "0 < k" "k \<le> 8"
    and step: "\<And>n t m s. smeState s = st \<Longrightarrow> k \<le> Suc n \<Longrightarrow>
      handleState_step (handleState_fuel n) t m s = handleState_step handleState t m s"
    and fuel: "\<And>t m s. smeState s = st \<Longrightarrow>
      outOfFuel (handleState_step handleState t m s) = outOfFuel s"
  shows "settled st k"
proof -
  have "handleState_fuel n t m s = handleState_step handleState t m s" if "smeState s = st" "k \<le> n" for n t m s
    using that assms(1) step [of s "n - 1" t m] by (cases n) simp_all
  then show ?thesis
    using assms(2) fuel by (simp add: settled_def handleState_def [symmetric] del: handleState_fuel.simps)
       (metis handleState_def)
qed

lemma settled_hs:
  "settled st k \<Longrightarrow> smeState s = st \<Longrightarrow> k \<le> n \<Longrightarrow> handleState_fuel n t m s = handleState t m s"
  by (simp add: settled_def del: handleState_fuel.simps)

lemma settled_set:
  "settled st k \<Longrightarrow> k \<le> n \<Longrightarrow>
   setAndHandleState (handleState_fuel n) st s = setAndHandleState handleState st s"
  by (simp add: setAndHandleState_def settled_hs)

lemma settled_hs_fuel: "settled st k \<Longrightarrow> smeState s = st \<Longrightarrow> outOfFuel (handleState t m s) = outOfFuel s"
  unfolding settled_def by blast

lemma settled_set_fuel: "settled st k \<Longrightarrow> outOfFuel (setAndHandleState handleState st s) = outOfFuel s"
  by (simp add: setAndHandleState_def settled_hs_fuel)

lemma outOfFuel_end_on_error: "outOfFuel (end_on_error r) = outOfFuel (snd r)"
  by (simp add: end_on_error_def case_prod_beta split: option.split)

lemma fold_emit_proj: "outOfFuel (fold (\<lambda>i. emit (Payload i)) xs s) = outOfFuel s"
  by (induction xs arbitrary: s) simp_all

lemma outOfFuel_leaves:
  "outOfFuel (handshakeInit_cmiStateInitStart s) = outOfFuel s"
  "outOfFuel (handshakeProtocol_Init s) = outOfFuel s"
  "outOfFuel (handshakeProtocol_smeProtHStateServerListenProposal m s) = outOfFuel s"
  "outOfFuel (handshakePin_Init s) = outOfFuel s"
  "outOfFuel (handshakeAccessMethods_Init s) = outOfFuel s"
  by (simp_all add: handshakeInit_cmiStateInitStart_def handshakeProtocol_Init_def
      handshakeProtocol_smeProtHStateClientInit_def
      handshakeProtocol_smeProtHStateServerListenProposal_def handshakePin_Init_def
      handshakeAccessMethods_Init_def Let_def case_prod_beta split: ship_role.split option.split)

lemma outOfFuel_access: "outOfFuel (handshakeAccessMethods_Request m s) = outOfFuel s"
  by (simp add: handshakeAccessMethods_Request_def handleAccessMethodsRequest_def
      handleAccessMethodsResponse_def approveHandshake_def processBufferedSpineMessages_def
      fold_emit_proj outOfFuel_end_on_error Let_def case_prod_beta
      split: sum.split option.split access_message.split)

lemma settled_leaves:
  "settled SmeStateError 1" "settled CmiStateInitStart 1" "settled SmeHelloStateOk 1"
  "settled SmeHelloStateAbortDone 1" "settled SmeHelloStateRemoteAbortDone 1"
  "settled SmeProtHStateServerListenProposal 1" "settled SmePinStateCheckInit 1"
  "settled SmePinStateCheckOk 1" "settled SmeAccessMethodsRequest 1"
  by (rule settledI; simp add: handleState_step_simps outOfFuel_leaves outOfFuel_access)+

lemma settled_passive: "st \<in> set passive_states \<Longrightarrow> settled st 1"
  by (rule settledI) (simp_all add: handleState_step_passive)

lemmas settled_leaf_rules =
  settled_leaves [THEN settled_set] settled_leaves [THEN settled_set_fuel]

lemma settled_Abort: "settled SmeHelloStateAbort 2"
  by (rule settledI)
     (simp_all add: handleState_step_simps handshakeHello_Abort_def handshakeHelloSend_def
       settled_leaf_rules case_prod_beta split: option.split)

lemmas settled_Abort_rules =
  settled_leaf_rules settled_Abort [THEN settled_set] settled_Abort [THEN settled_set_fuel]

lemma settled_ReadyInit: "settled SmeHelloStateReadyInit 3"
  by (rule settledI)
     (simp_all add: handleState_step_simps handshakeHello_Init_def handshakeHelloSend_def
       settled_Abort_rules case_prod_beta split: option.split)

lemma settled_PendingInit: "settled SmeHelloStatePendingInit 3"
  by (rule settledI)
     (simp_all add: handleState_step_simps handshakeHello_PendingInit_def handshakeHelloSend_def
       settled_Abort_rules Let_def case_prod_beta split: option.split)

lemma settled_ReadyListen: "settled SmeHelloStateReadyListen 3"
  by (rule settledI)
     (simp_all add: handleState_step_simps handshakeHello_ReadyListen_def handshakeHello_ReadyTimeout_def
       handshakeHelloSend_def outOfFuel_end_on_error settled_Abort_rules
       settled_hs [OF settled_leaves(3)] settled_hs_fuel [OF settled_leaves(3)] Let_def
       split: option.split bool.split)

lemma settled_HelloState: "settled SmeHelloState 4"
  by (rule settledI)
     (simp_all add: handleState_step_simps settled_hs [OF settled_ReadyInit]
       settled_hs [OF settled_PendingInit] settled_hs_fuel [OF settled_ReadyInit]
       settled_hs_fuel [OF settled_PendingInit])

lemma outOfFuel_evaluate: "outOfFuel (snd (handshakeInit_cmiStateEvaluate m s)) = outOfFuel s"
  by (simp add: handshakeInit_cmiStateEvaluate_def rejectInvalidCmiMessage_def Let_def case_prod_beta)

lemma settled_Wait: "settled CmiStateServerWait 5" "settled CmiStateClientWait 5"
  by (rule settledI;
      simp add: handleState_step_simps handshakeInit_cmiStateServerWait_def
        handshakeInit_cmiStateClientWait_def settled_HelloState [THEN settled_set]
        settled_HelloState [THEN settled_set_fuel] outOfFuel_evaluate case_prod_beta
        split: option.split bool.split)+

lemma settled_Ok: "settled SmeProtHStateServerOk 2" "settled SmeProtHStateClientOk 2"
  "settled SmePinStateCheckListen 2"
  by (rule settledI;
      simp add: handleState_step_simps handshakePin_smePinStateCheckListen_def settled_leaf_rules
        split: option.split)+

lemma settled_Prot: "settled SmeProtHStateServerListenConfirm 3" "settled SmeProtHStateClientListenChoice 3"
  by (rule settledI;
      simp add: handleState_step_simps handshakeProtocol_smeProtHStateServerListenConfirm_def
        handshakeProtocol_smeProtHStateClientListenChoice_def settled_Ok [THEN settled_set]
        settled_Ok [THEN settled_set_fuel] Let_def case_prod_beta split: option.split)+


lemma process_empty: "processShipJsonMessage dec zero [] = None"
  by (simp add: processShipJsonMessage_def parseMessage_def Unmarshal_def parse_json_def skip_ws_def)

lemma settled_unfold:
  assumes "settled st k" "smeState s = st" "k \<le> 9"
  shows "handleState t m s = handleState_step handleState t m s"
proof -
  have "handleState_fuel (Suc 8) t m s = handleState t m s"
    using assms by (intro settled_hs) auto
  then show ?thesis by (simp only: handleState_fuel.simps handleState_def)
qed

lemma Abort_ends:
  "smeState (setAndHandleState handleState SmeHelloStateAbort s) \<in> {SmeHelloStateAbortDone, SmeStateError}"
proof -
  have ad: "handleState t m s = s\<lparr>tasks := tasks s @ [TaskAbortDelay]\<rparr>"
    if "smeState s = SmeHelloStateAbortDone" for t m s
    using that settled_unfold [OF settled_leaves(4) that, of t m] by (simp add: handleState_step_simps)
  have "handleState t m s = handshakeHello_Abort handleState s" if "smeState s = SmeHelloStateAbort" for t m s
    using that settled_unfold [OF settled_Abort that, of t m] by (simp add: handleState_step_simps)
  then show ?thesis
    by (simp add: setAndHandleState_def handshakeHello_Abort_def ad case_prod_beta split: option.split)
qed

lemma PendingListen_nil:
  assumes "smeState s = SmeHelloStatePendingListen"
  shows "3 \<le> n \<Longrightarrow> handleState_fuel n False [] s = setAndHandleState handleState SmeHelloStateAbort s"
    and "handleState False [] s = setAndHandleState handleState SmeHelloStateAbort s"
proof -
  show *: "3 \<le> n \<Longrightarrow> handleState_fuel n False [] s = setAndHandleState handleState SmeHelloStateAbort s"
    for n using assms
    by (cases n) (simp_all add: handleState_step_simps handshakeHello_PendingListen_def process_empty
        settled_Abort_rules)
  then show "handleState False [] s = setAndHandleState handleState SmeHelloStateAbort s"
    by (simp add: handleState_def del: handleState_fuel.simps)
qed

text \<open>The state after a waiting value was treated, in which the handler calls \<open>handleState\<close> again\<close>

lemma pending_waiting_cases:
  assumes "smeState s = SmeHelloStatePendingListen" "2 \<le> n"
  shows "pending_waiting (handleState_fuel n) d s = pending_waiting handleState d s"
    and "outOfFuel (snd (pending_waiting handleState d s)) = outOfFuel s"
    and "smeState (snd (pending_waiting handleState d s))
      \<in> {SmeHelloStatePendingListen, SmeHelloStateAbortDone, SmeStateError}"
  using assms Abort_ends [of s] by (auto simp: pending_waiting_def settled_Abort_rules)

lemma again:
  assumes "smeState s \<in> {SmeHelloStatePendingListen, SmeHelloStateAbortDone, SmeStateError}"
  shows "3 \<le> n \<Longrightarrow> handleState_fuel n False [] s = handleState False [] s"
    and "outOfFuel (handleState False [] s) = outOfFuel s"
  using assms PendingListen_nil [of s] settled_leaves [THEN settled_hs, of s n]
    settled_leaves [THEN settled_hs_fuel, of s] settled_Abort_rules
  by (auto simp del: handleState_fuel.simps)

lemma settled_PendingListen: "settled SmeHelloStatePendingListen 4"
proof (rule settledI)
  fix n t m and s :: ship_conn
  assume s: "smeState s = SmeHelloStatePendingListen"
  let ?w = "\<lambda>d. snd (pending_waiting handleState d (stop_timer_safe s))"
  have pw: "pending_waiting (handleState_fuel n) d (stop_timer_safe s)
      = pending_waiting handleState d (stop_timer_safe s)"
    "pending_waiting (handleState_fuel n) d (stop_timer_safe s\<lparr>lastReceivedWaitingValue := d\<rparr>)
      = pending_waiting handleState d (stop_timer_safe s\<lparr>lastReceivedWaitingValue := d\<rparr>)" if "2 \<le> n" for d
    using s that by (auto intro: pending_waiting_cases)
  have ag: "handleState_fuel n False [] (?w d) = handleState False [] (?w d)" if "3 \<le> n" for d
    using again(1) [OF pending_waiting_cases(3), of _ 2 n d] s that by simp
  have ab: "handleState_fuel n False [] (setAndHandleState handleState SmeHelloStateAbort s)
      = handleState False [] (setAndHandleState handleState SmeHelloStateAbort s)" if "3 \<le> n"
    using again(1) Abort_ends [of s] that by blast
  show "handleState_step (handleState_fuel n) t m s = handleState_step handleState t m s" if "4 \<le> Suc n"
  proof -
    have n: "2 \<le> n" "3 \<le> n" "1 \<le> n" using that by auto
    show ?thesis
      unfolding handleState_step_simps(9) [OF s] handshakeHello_PendingListen_def handshakeHello_PendingTimeout_def
      using pw [OF n(1)] ag [OF n(2)] ab [OF n(2)] n
      by (simp add: settled_Abort_rules case_prod_beta del: handleState_fuel.simps
          cong: option.case_cong bool.case_cong if_cong)
  qed
  have "outOfFuel (handleState False [] (?w d)) = outOfFuel s" for d
    using again(2) [OF pending_waiting_cases(3), of _ 2 d] pending_waiting_cases(2) [of _ 2 d] s by simp
  moreover have "outOfFuel (handleState False [] (setAndHandleState handleState SmeHelloStateAbort s))
      = outOfFuel s"
    using again(2) Abort_ends [of s] by (metis insertCI insertE settled_Abort_rules(20) empty_iff settled_set_fuel settled_Abort)
  moreover have "outOfFuel (snd (pending_waiting handleState d (stop_timer_safe s\<lparr>lastReceivedWaitingValue := d\<rparr>)))
      = outOfFuel s" for d
    using pending_waiting_cases(2) [of "stop_timer_safe s\<lparr>lastReceivedWaitingValue := d\<rparr>" 2 d] s by simp
  moreover have "outOfFuel (?w d) = outOfFuel s" for d
    using pending_waiting_cases(2) [of "stop_timer_safe s" 2 d] s by simp
  ultimately show "outOfFuel (handleState_step handleState t m s) = outOfFuel s"
    using s
    by (simp add: handleState_step_simps handshakeHello_PendingListen_def handshakeHello_PendingTimeout_def
        handshakeHello_PendingProlongationRequest_def handshakeHelloSend_def outOfFuel_end_on_error
        settled_Abort_rules case_prod_beta Let_def split: option.split bool.split)
qed simp_all

lemma settled_5: "settled st k \<Longrightarrow> k \<le> 5 \<Longrightarrow> settled st 5"
  by (simp add: settled_def del: handleState_fuel.simps)

lemma settled_all: "settled st 5"
  by (cases st) (simp_all add: settled_leaves [THEN settled_5] settled_Abort [THEN settled_5]
      settled_ReadyInit [THEN settled_5] settled_PendingInit [THEN settled_5]
      settled_ReadyListen [THEN settled_5] settled_HelloState [THEN settled_5] settled_Wait
      settled_Ok [THEN settled_5] settled_Prot [THEN settled_5] settled_PendingListen [THEN settled_5]
      settled_passive [THEN settled_5] passive_states_def)

lemma handleState_unfold: "handleState t m s = handleState_step handleState t m s"
  by (rule settled_unfold [OF settled_all refl]) simp

lemma handleState_keeps_fuel: "outOfFuel (handleState t m s) = outOfFuel s"
  by (rule settled_hs_fuel [OF settled_all refl])

text \<open>
  C8. \<open>handleState\<close> and the handlers it calls back into always end: the fuel never runs out, and
  \<open>handleState\<close> is the recursive function of the source.
\<close>

theorem handleState_total:
  "outOfFuel (handleState t m s) = outOfFuel s
   \<and> handleState t m s = handleState_step handleState t m s"
  by (intro conjI handleState_keeps_fuel handleState_unfold)

end
