(* ===== verification/ShipEvents.thy ===== *)
theory ShipEvents
  imports ShipHandshake
begin

text \<open>
  The entry points of a SHIP connection: \<open>handleShipMessage\<close> with the connection termination of SHIP
  13.4.7, \<open>HandleIncomingWebsocketMessage\<close>, \<open>Run\<close>, the approval and the abort of a pending handshake
  (\<open>ship/connection_handshake.go\<close>), and the steps of a connection: what the websocket pumps, the
  timers, the waiting goroutines, the hub and the SPINE side may do, in any order.
\<close>

section \<open>Incoming messages\<close>

definition confirm_close :: connection_close where
  "confirm_close = \<lparr>ClosePhase = CloseConfirm, MaxTime = None, Reason = None\<rparr>"

definition close_and_report :: "ship_conn \<Rightarrow> ship_conn" where
  "close_and_report s =
     (let s1 = close_data_connection 4001 ''close'' s
      in emit (ConnectionClosed (getState s1 = SmeStateComplete)) s1)"

definition handleShipMessage :: "bool \<Rightarrow> bytes \<Rightarrow> ship_conn \<Rightarrow> ship_conn" where
  "handleShipMessage timeout message s =
     (case (if length message > 2 then processShipJsonMessage dec_close zero_close message else None) of
        None \<Rightarrow> handleState timeout message s
      | Some closeMsg \<Rightarrow>
          if ClosePhase closeMsg = [] then handleState timeout message s
          else if ClosePhase closeMsg = CloseAnnounce then
            (let s1 = snd (sendShipModel MsgTypeEnd (close_to_json confirm_close) s)
             in if stuck s < stuck s1 then s1 else s1\<lparr>tasks := tasks s1 @ [TaskConfirmSent]\<rparr>)
          else if ClosePhase closeMsg = CloseConfirm then close_and_report s
          else s)"

definition HandleIncomingWebsocketMessage :: "bytes \<Rightarrow> ship_conn \<Rightarrow> ship_conn" where
  "HandleIncomingWebsocketMessage message s =
     (if \<not> hasSpineDatagram message then handleShipMessage False message s
      else case shipModelFromMessage message of
             Inl _ \<Rightarrow> s
           | Inr payload \<Rightarrow>
               if \<not> dataReader s then s\<lparr>spineBuffer := spineBuffer s @ [payload]\<rparr>
               else emit (Payload payload) s)"

definition Run :: "ship_conn \<Rightarrow> ship_conn" where
  "Run s = handleShipMessage False [] s"

section \<open>Approval and abort\<close>

definition approve_claim :: "ship_conn \<Rightarrow> bool \<times> ship_conn" where
  "approve_claim s =
     (if smeState s \<noteq> SmeHelloStatePendingListen then (False, s)
      else (True, handleState False [] (stop_timer_safe (s\<lparr>smeState := SmeHelloStateReadyInit\<rparr>))))"

definition validateConnectionBeforeApproval :: "ship_conn \<Rightarrow> bool \<times> ship_conn" where
  "validateConnectionBeforeApproval s =
     (let ((isClosed, err), s1) = is_data_connection_closed s
      in (\<not> isClosed \<and> paired (info s1) \<and> allowWaiting (info s1), s1))"

definition approve_finish :: "ship_conn \<Rightarrow> bool \<times> ship_conn" where
  "approve_finish s =
     (let (valid, s1) = validateConnectionBeforeApproval s
      in (valid, setAndHandleState handleState (if valid then SmeHelloStateOk else SmeHelloStateAbort) s1))"

definition ApproveIfPending :: "ship_conn \<Rightarrow> bool \<times> ship_conn" where
  "ApproveIfPending s =
     (let (claimed, s1) = approve_claim s in if claimed then approve_finish s1 else (False, s1))"

definition ApprovePendingHandshake :: "ship_conn \<Rightarrow> ship_conn" where
  "ApprovePendingHandshake s = snd (ApproveIfPending s)"

definition AbortIfPending :: "ship_conn \<Rightarrow> bool \<times> ship_conn" where
  "AbortIfPending s =
     (if smeState s \<noteq> SmeHelloStatePendingListen \<and> smeState s \<noteq> SmeHelloStateReadyListen then (False, s)
      else (True, handleState False [] (stop_timer_safe (s\<lparr>smeState := SmeHelloStateAbort\<rparr>))))"

definition AbortPendingHandshake :: "ship_conn \<Rightarrow> ship_conn" where
  "AbortPendingHandshake s = snd (AbortIfPending s)"

section \<open>Steps\<close>

definition run_task :: "task \<Rightarrow> ship_conn \<Rightarrow> ship_conn" where
  "run_task t s = (case t of
     TaskAbortDelay \<Rightarrow> CloseConnection False 4452 ''Node rejected by application'' s
   | TaskCloseAnnounced handshakeEnd \<Rightarrow>
       emit (ConnectionClosed handshakeEnd) (close_data_connection 4001 ''close'' s)
   | TaskConfirmSent \<Rightarrow> close_and_report s
   | TaskApprove \<Rightarrow> snd (approve_finish s))"

datatype ship_event =
    EvRun
  | EvRead "error + int \<times> bytes"       \<comment> \<open>a turn of the read pump\<close>
  | EvPump ws_event                    \<comment> \<open>a turn of the write pump\<close>
  | EvReport error                     \<comment> \<open>the write pump reports the error it met\<close>
  | EvTimerFires nat
  | EvTimerCallback nat
  | EvApprove                          \<comment> \<open>\<open>ApproveIfPending\<close> up to the validation\<close>
  | EvAbort
  | EvClose bool int string
  | EvTask nat                         \<comment> \<open>a waiting goroutine goes on\<close>
  | EvInfo provider                    \<comment> \<open>the answers of the hub change\<close>
  | EvSpineWrite bytes

definition reader_blocked :: "ship_conn \<Rightarrow> bool" where
  "reader_blocked s \<longleftrightarrow> TaskConfirmSent \<in> set (tasks s) \<or> panicked s"

definition deliver :: "ws_call \<Rightarrow> ship_conn \<Rightarrow> ship_conn" where
  "deliver c s = (case c of
     HandleIncoming m \<Rightarrow> HandleIncomingWebsocketMessage m s
   | ReportError e \<Rightarrow> ReportConnectionError (Some e) s)"

definition is_pump :: "ws_event \<Rightarrow> bool" where
  "is_pump e = (case e of WsPumpClosed \<Rightarrow> True | WsPumpMessage _ \<Rightarrow> True | WsPumpTick _ \<Rightarrow> True | _ \<Rightarrow> False)"

definition ship_step :: "ship_event \<Rightarrow> ship_conn \<Rightarrow> ship_conn" where
  "ship_step e s = (case e of
     EvRun \<Rightarrow> Run s
   | EvRead rd \<Rightarrow>
       if reader_blocked s then s
       else let (calls, w) = read_turn rd (dataWriter s);
                s1 = fold deliver calls (s\<lparr>dataWriter := w\<rparr>)
            in if panicked s1 then s1\<lparr>dataWriter := read_recover (dataWriter s1)\<rparr> else s1
   | EvPump we \<Rightarrow> if is_pump we then s\<lparr>dataWriter := ws_step we (dataWriter s)\<rparr> else s
   | EvReport err \<Rightarrow> if isConnClosed (dataWriter s) then ReportConnectionError (Some err) s else s
   | EvTimerFires i \<Rightarrow> s\<lparr>timer := rt_fire i (timer s)\<rparr>
   | EvTimerCallback i \<Rightarrow>
       let (timeout, t) = timer_callback i (timer s); s1 = s\<lparr>timer := t\<rparr>
       in if timeout then handleState True [] s1 else s1
   | EvApprove \<Rightarrow>
       let (claimed, s1) = approve_claim (s\<lparr>tasks := tasks s @ [TaskApprove]\<rparr>)
       in if claimed then s1 else s
   | EvAbort \<Rightarrow> snd (AbortIfPending s)
   | EvClose safe c reason \<Rightarrow> CloseConnection safe c reason s
   | EvTask k \<Rightarrow>
       if k < length (tasks s)
       then let s1 = run_task (tasks s ! k) s in s1\<lparr>tasks := remove_at k (tasks s1)\<rparr>
       else s
   | EvInfo p \<Rightarrow> s\<lparr>info := p\<rparr>
   | EvSpineWrite d \<Rightarrow> if dataReader s then WriteShipMessageWithPayload d s else s)"

definition ship_run :: "ship_event list \<Rightarrow> ship_conn \<Rightarrow> ship_conn" where
  "ship_run es s = fold ship_step es s"

end
