(* ===== verification/ShipInvariants.thy ===== *)
theory ShipInvariants
  imports ShipEvents
begin

text \<open>
  The state graph of the SHIP message exchange, as the specification of \<open>handleState\<close>, and the proof
  principle for invariants of a connection: a property that the primitive operations keep, where a
  state is only entered along the graph, is kept by every handler (locale \<open>handler_invariant\<close>) and by
  every step of the connection (locale \<open>conn_invariant\<close>).
\<close>

section \<open>The state graph\<close>

definition successors :: "sme_state \<Rightarrow> sme_state list" where
  "successors st =
     (if st = CmiStateInitStart then [CmiStateClientSend, CmiStateServerWait]
      else if st = CmiStateClientSend then [CmiStateClientWait]
      else if st = CmiStateClientWait then [CmiStateClientEvaluate]
      else if st = CmiStateServerWait then [CmiStateServerEvaluate]
      else if st = CmiStateClientEvaluate \<or> st = CmiStateServerEvaluate then [SmeHelloState]
      else if st = SmeHelloState then [SmeHelloStateReadyInit, SmeHelloStatePendingInit]
      else if st = SmeHelloStateReadyInit then [SmeHelloStateReadyListen, SmeHelloStateAbort]
      else if st = SmeHelloStateReadyListen
      then [SmeHelloStateOk, SmeHelloStateAbort, SmeHelloStateRemoteAbortDone, SmeHelloStateRejected]
      else if st = SmeHelloStatePendingInit then [SmeHelloStatePendingListen]
      else if st = SmeHelloStatePendingListen then [SmeHelloStateAbort, SmeHelloStateRemoteAbortDone]
      else if st = SmeHelloStateAbort then [SmeHelloStateAbortDone]
      else if st = SmeHelloStateOk then [SmeProtHStateServerInit, SmeProtHStateClientInit]
      else if st = SmeProtHStateServerInit then [SmeProtHStateServerListenProposal]
      else if st = SmeProtHStateServerListenProposal then [SmeProtHStateServerListenConfirm]
      else if st = SmeProtHStateServerListenConfirm then [SmeProtHStateServerOk]
      else if st = SmeProtHStateClientInit then [SmeProtHStateClientInit, SmeProtHStateClientListenChoice]
      else if st = SmeProtHStateClientListenChoice then [SmeProtHStateClientOk]
      else if st = SmeProtHStateServerOk \<or> st = SmeProtHStateClientOk then [SmePinStateCheckInit]
      else if st = SmePinStateCheckInit then [SmePinStateCheckInit, SmePinStateCheckListen]
      else if st = SmePinStateCheckListen then [SmePinStateCheckOk]
      else if st = SmePinStateCheckOk then [SmeAccessMethodsRequest]
      else if st = SmeAccessMethodsRequest then [SmeStateApproved]
      else if st = SmeStateApproved then [SmeStateComplete]
      else [])"

text \<open>Trust: the hub says the service is paired, or accepts every service, or this node is the client.\<close>

definition trusted :: "ship_conn \<Rightarrow> bool" where
  "trusted s \<longleftrightarrow> paired (info s) \<or> autoAccept (info s) \<or> role s = ShipRoleClient"

definition entry_guard :: "ship_conn \<Rightarrow> sme_state \<Rightarrow> bool" where
  "entry_guard s new =
     (if new = SmeHelloStateReadyInit then trusted s
      else if new = SmeHelloStatePendingInit then \<not> trusted s
      else if new = CmiStateServerWait \<or> new = SmeProtHStateServerInit then role s = ShipRoleServer
      else if new = CmiStateClientSend \<or> new = SmeProtHStateClientInit then role s = ShipRoleClient
      else True)"

definition may_enter :: "ship_conn \<Rightarrow> sme_state \<Rightarrow> bool" where
  "may_enter s new \<longleftrightarrow> new = SmeStateError
     \<or> new \<in> set (successors (smeState s)) \<and> entry_guard s new
     \<or> TaskApprove \<in> set (tasks s) \<and> (new = SmeHelloStateOk \<or> new = SmeHelloStateAbort)"

lemma may_enter_Error [simp]: "may_enter s SmeStateError"
  by (simp add: may_enter_def)

lemma may_enterI: "new \<in> set (successors (smeState s)) \<Longrightarrow> entry_guard s new \<Longrightarrow> may_enter s new"
  by (simp add: may_enter_def)

section \<open>Invariants of the handlers\<close>

lemma CloseConnection_not_complete:
  "smeState s \<noteq> SmeStateComplete \<Longrightarrow> CloseConnection b c r s = close_unsafe c r s"
  by (simp add: CloseConnection_def close_unsafe_def CloseConnection_with_def getState_def Let_def
      split: once.split)

locale handler_invariant =
  fixes I :: "ship_conn \<Rightarrow> bool"
  assumes I_set: "I s \<Longrightarrow> may_enter s st \<Longrightarrow> st \<noteq> SmeStateComplete \<Longrightarrow> I (setState st e s)"
    and I_set_timer: "I s \<Longrightarrow> I (set_timer ty d s)"
    and I_stop_timer: "I s \<Longrightarrow> I (stop_timer_safe s)"
    and I_is_closed: "I s \<Longrightarrow> I (snd (is_data_connection_closed s))"
    and I_write: "I s \<Longrightarrow> I (snd (write_websocket m s))"
    and I_close: "I s \<Longrightarrow> I (close_unsafe c r s)"
    and I_notify: "I s \<Longrightarrow> smeState s = SmeStateError \<Longrightarrow> I (emit (StateUpdate SmeStateError e) s)"
    and I_ship_id: "I s \<Longrightarrow> smeState s = SmeAccessMethodsRequest \<Longrightarrow> remoteShipID s = [] \<Longrightarrow>
      I (emit (ReportShipID i) (s\<lparr>remoteShipID := i\<rparr>))"
    and I_approve: "I s \<Longrightarrow> smeState s = SmeStateApproved \<Longrightarrow> I (approveHandshake s)"
    and I_abort_task: "I s \<Longrightarrow> I (s\<lparr>tasks := tasks s @ [TaskAbortDelay]\<rparr>)"
    and I_waiting: "I s \<Longrightarrow> I (s\<lparr>lastReceivedWaitingValue := d\<rparr>)"
    and I_panic: "I s \<Longrightarrow> I (s\<lparr>panicked := True\<rparr>)"
    and I_fuel: "I s \<Longrightarrow> I (s\<lparr>outOfFuel := True\<rparr>)"
begin

lemma I_send: "I s \<Longrightarrow> I (snd (sendShipModel typ m s))"
proof -
  assume s: "I s"
  then have "I (snd (shipMessage typ (Some m) s))" by (simp add: shipMessage_snd I_is_closed I_close)
  then show ?thesis by (simp add: sendShipModel_def case_prod_beta I_write split: sum.split)
qed

lemma I_hello: "I s \<Longrightarrow> I (snd (handshakeHelloSend p d b s))"
  by (simp add: handshakeHelloSend_def I_send)

lemma I_end: "I s \<Longrightarrow> I (endHandshakeWithError err s)"
  by (simp add: endHandshakeWithError_def Let_def I_notify I_stop_timer I_set I_close
      CloseConnection_not_complete)

lemma I_abort_protocol: "I s \<Longrightarrow> I (abortProtocolHandshake er s)"
  by (simp add: abortProtocolHandshake_def Let_def I_stop_timer I_set I_close I_send
      CloseConnection_not_complete)

lemma I_end_on_error: "I (snd r) \<Longrightarrow> I (end_on_error r)"
  by (simp add: end_on_error_def case_prod_beta I_end split: option.split)

lemma I_enter: "I s \<Longrightarrow> st \<in> set (successors (smeState s)) \<Longrightarrow> entry_guard s st \<Longrightarrow> st \<noteq> SmeStateComplete \<Longrightarrow>
    I (setState st e s)"
  by (simp add: I_set may_enterI)

lemmas I_ops = I_set_timer I_stop_timer I_is_closed I_write I_close I_send I_hello I_end I_abort_protocol
  I_end_on_error I_waiting I_panic I_abort_task

lemma I_go:
  "(\<And>t m s. I s \<Longrightarrow> I (hs t m s)) \<Longrightarrow> I s \<Longrightarrow> st \<in> set (successors (smeState s)) \<Longrightarrow> entry_guard s st \<Longrightarrow>
   st \<noteq> SmeStateComplete \<Longrightarrow> I (setAndHandleState hs st s)"
  by (simp add: setAndHandleState_def I_enter)

lemmas I_graph = successors_def entry_guard_def trusted_def

lemma I_init_start: "I s \<Longrightarrow> smeState s = CmiStateInitStart \<Longrightarrow> I (handshakeInit_cmiStateInitStart s)"
  by (simp add: handshakeInit_cmiStateInitStart_def Let_def case_prod_beta I_ops I_enter I_graph
      split: ship_role.split option.split)

lemma I_evaluate: "I s \<Longrightarrow> I (snd (handshakeInit_cmiStateEvaluate m s))"
  by (simp add: handshakeInit_cmiStateEvaluate_def rejectInvalidCmiMessage_def Let_def case_prod_beta I_ops)

lemma evaluate_state:
  "fst (handshakeInit_cmiStateEvaluate m s) \<Longrightarrow> snd (handshakeInit_cmiStateEvaluate m s) = s"
  by (auto simp: handshakeInit_cmiStateEvaluate_def Let_def case_prod_beta split: if_splits)

lemma I_server_wait:
  assumes hs: "\<And>t m s. I s \<Longrightarrow> I (hs t m s)" and s: "I s" "smeState s = CmiStateServerWait"
  shows "I (handshakeInit_cmiStateServerWait hs m s)"
proof -
  let ?e = "handshakeInit_cmiStateEvaluate m (setState CmiStateServerEvaluate None s)"
  have e: "I (snd ?e)" using s by (simp add: I_evaluate I_enter I_graph)
  show ?thesis
  proof (cases "fst ?e")
    case True
    with s e show ?thesis
      by (simp add: handshakeInit_cmiStateServerWait_def case_prod_beta evaluate_state I_ops
          I_go [of hs, OF hs] I_graph split: option.split)
  next
    case False
    with e show ?thesis by (simp add: handshakeInit_cmiStateServerWait_def case_prod_beta)
  qed
qed

lemma I_client_wait:
  assumes hs: "\<And>t m s. I s \<Longrightarrow> I (hs t m s)" and s: "I s" "smeState s = CmiStateClientWait"
  shows "I (handshakeInit_cmiStateClientWait hs m s)"
proof -
  let ?e = "handshakeInit_cmiStateEvaluate m (setState CmiStateClientEvaluate None s)"
  have e: "I (snd ?e)" using s by (simp add: I_evaluate I_enter I_graph)
  show ?thesis
  proof (cases "fst ?e")
    case True
    with s e show ?thesis
      by (simp add: handshakeInit_cmiStateClientWait_def case_prod_beta evaluate_state
          I_go [of hs, OF hs] I_graph)
  next
    case False
    with e show ?thesis by (simp add: handshakeInit_cmiStateClientWait_def case_prod_beta)
  qed
qed

lemma send_state [simp]:
  "smeState (snd (handshakeHelloSend p d b s)) = smeState s"
  "info (snd (handshakeHelloSend p d b s)) = info s"
  "role (snd (handshakeHelloSend p d b s)) = role s"
  by (simp_all add: handshakeHelloSend_def)

lemma I_ready_init:
  assumes "\<And>t m s. I s \<Longrightarrow> I (hs t m s)" "I s" "smeState s = SmeHelloStateReadyInit"
  shows "I (handshakeHello_Init hs s)"
  using assms(2,3) by (simp add: handshakeHello_Init_def case_prod_beta I_ops I_enter I_graph
      I_go [of hs, OF assms(1)] split: option.split)

lemma I_ready_listen:
  assumes "\<And>t m s. I s \<Longrightarrow> I (hs t m s)" "I s" "smeState s = SmeHelloStateReadyListen"
  shows "I (handshakeHello_ReadyListen hs t m s)"
  using assms(2,3) by (simp add: handshakeHello_ReadyListen_def handshakeHello_ReadyTimeout_def Let_def
      I_ops I_enter I_graph assms(1) I_go [of hs, OF assms(1)] split: option.split bool.split)

lemma I_abort:
  assumes "\<And>t m s. I s \<Longrightarrow> I (hs t m s)" "I s" "smeState s = SmeHelloStateAbort"
  shows "I (handshakeHello_Abort hs s)"
  using assms(2,3) by (simp add: handshakeHello_Abort_def case_prod_beta I_ops I_graph
      I_go [of hs, OF assms(1)] split: option.split)

lemma I_pending_init:
  assumes "\<And>t m s. I s \<Longrightarrow> I (hs t m s)" "I s" "smeState s = SmeHelloStatePendingInit"
  shows "I (handshakeHello_PendingInit hs s)"
  using assms(2,3) by (simp add: handshakeHello_PendingInit_def case_prod_beta I_ops I_enter I_graph Let_def
      I_go [of hs, OF assms(1)] split: option.split)

lemma I_pending_waiting:
  assumes "\<And>t m s. I s \<Longrightarrow> I (hs t m s)" "I s" "smeState s = SmeHelloStatePendingListen"
  shows "I (snd (pending_waiting hs d s))"
  using assms(2,3) by (simp add: pending_waiting_def I_ops I_graph I_go [of hs, OF assms(1)])

lemma I_pending_listen:
  assumes "\<And>t m s. I s \<Longrightarrow> I (hs t m s)" "I s" "smeState s = SmeHelloStatePendingListen"
  shows "I (handshakeHello_PendingListen hs t m s)"
  using assms(2,3) by (simp add: handshakeHello_PendingListen_def handshakeHello_PendingTimeout_def
      handshakeHello_PendingProlongationRequest_def case_prod_beta Let_def I_ops I_graph assms(1)
      I_pending_waiting [of hs, OF assms(1)] I_go [of hs, OF assms(1)]
      split: option.split bool.split)

lemma I_protocol_init: "I s \<Longrightarrow> smeState s = SmeHelloStateOk \<Longrightarrow> I (handshakeProtocol_Init s)"
  by (simp add: handshakeProtocol_Init_def handshakeProtocol_smeProtHStateClientInit_def case_prod_beta
      I_ops I_enter I_graph split: ship_role.split option.split)

lemma I_proposal:
  "I s \<Longrightarrow> smeState s = SmeProtHStateServerListenProposal \<Longrightarrow>
   I (handshakeProtocol_smeProtHStateServerListenProposal m s)"
  by (simp add: handshakeProtocol_smeProtHStateServerListenProposal_def case_prod_beta
      I_ops I_enter I_graph split: option.split)

lemma I_confirm:
  assumes "\<And>t m s. I s \<Longrightarrow> I (hs t m s)" "I s" "smeState s = SmeProtHStateServerListenConfirm"
  shows "I (handshakeProtocol_smeProtHStateServerListenConfirm hs m s)"
  using assms(2,3) by (simp add: handshakeProtocol_smeProtHStateServerListenConfirm_def I_ops I_graph
      I_go [of hs, OF assms(1)] split: option.split)

lemma I_choice:
  assumes "\<And>t m s. I s \<Longrightarrow> I (hs t m s)" "I s" "smeState s = SmeProtHStateClientListenChoice"
  shows "I (handshakeProtocol_smeProtHStateClientListenChoice hs m s)"
  using assms(2,3) by (simp add: handshakeProtocol_smeProtHStateClientListenChoice_def case_prod_beta Let_def
      I_ops I_graph I_go [of hs, OF assms(1)] split: option.split)

lemma I_pin_init: "I s \<Longrightarrow> smeState s = SmePinStateCheckInit \<Longrightarrow> I (handshakePin_Init s)"
  by (simp add: handshakePin_Init_def case_prod_beta I_ops I_enter I_graph split: option.split)

lemma I_pin_listen:
  assumes "\<And>t m s. I s \<Longrightarrow> I (hs t m s)" "I s" "smeState s = SmePinStateCheckListen"
  shows "I (handshakePin_smePinStateCheckListen hs m s)"
  using assms(2,3) by (simp add: handshakePin_smePinStateCheckListen_def I_ops I_graph
      I_go [of hs, OF assms(1)] split: option.split)

lemma I_access_init: "I s \<Longrightarrow> smeState s = SmePinStateCheckOk \<Longrightarrow> I (handshakeAccessMethods_Init s)"
  by (simp add: handshakeAccessMethods_Init_def case_prod_beta I_ops I_enter I_graph split: option.split)

lemma I_access_response:
  "I s \<Longrightarrow> smeState s = SmeAccessMethodsRequest \<Longrightarrow> I (snd (handleAccessMethodsResponse a s))"
  by (simp add: handleAccessMethodsResponse_def I_ship_id split: option.split)

lemma access_response_state [simp]: "smeState (snd (handleAccessMethodsResponse a s)) = smeState s"
  by (simp add: handleAccessMethodsResponse_def split: option.split)

lemma I_access:
  "I s \<Longrightarrow> smeState s = SmeAccessMethodsRequest \<Longrightarrow> I (handshakeAccessMethods_Request m s)"
  by (simp add: handshakeAccessMethods_Request_def handleAccessMethodsRequest_def case_prod_beta Let_def
      I_ops I_enter I_graph I_approve I_access_response split: sum.split option.split access_message.split)

lemma I_step:
  assumes "\<And>t m s. I s \<Longrightarrow> I (hs t m s)" "I s"
  shows "I (handleState_step hs t m s)"
  using assms(2)
  by (cases "smeState s")
     (simp_all add: handleState_step_simps handleState_step_passive passive_states_def
       I_ops I_graph I_enter assms(1) I_init_start I_server_wait [of hs, OF assms(1)]
       I_client_wait [of hs, OF assms(1)] I_ready_init [of hs, OF assms(1)]
       I_ready_listen [of hs, OF assms(1)] I_abort [of hs, OF assms(1)]
       I_pending_init [of hs, OF assms(1)] I_pending_listen [of hs, OF assms(1)]
       I_protocol_init I_proposal I_confirm [of hs, OF assms(1)] I_choice [of hs, OF assms(1)]
       I_pin_init I_pin_listen [of hs, OF assms(1)] I_access_init I_access I_go [of hs, OF assms(1)])

lemma I_handleState_fuel: "I s \<Longrightarrow> I (handleState_fuel n t m s)"
  by (induction n arbitrary: t m s) (simp_all add: I_fuel I_step)

lemma I_handleState: "I s \<Longrightarrow> I (handleState t m s)"
  unfolding handleState_def by (rule I_handleState_fuel)

end

section \<open>Invariants of the connection\<close>

locale step_invariant = handler_invariant I for I :: "ship_conn \<Rightarrow> bool" +
  fixes allowed :: "ship_event \<Rightarrow> bool"
  assumes I_CloseConnection: "I s \<Longrightarrow> I (CloseConnection b c r s)"
    and I_read: "I s \<Longrightarrow> I (s\<lparr>dataWriter := snd (read_turn rd (dataWriter s))\<rparr>)"
    and I_recover: "I s \<Longrightarrow> I (s\<lparr>dataWriter := read_recover (dataWriter s)\<rparr>)"
    and I_pump: "I s \<Longrightarrow> is_pump e \<Longrightarrow> I (s\<lparr>dataWriter := ws_step e (dataWriter s)\<rparr>)"
    and I_fire: "I s \<Longrightarrow> I (s\<lparr>timer := rt_fire i (timer s)\<rparr>)"
    and I_callback: "I s \<Longrightarrow> I (s\<lparr>timer := snd (timer_callback i (timer s))\<rparr>)"
    and I_claim: "allowed EvApprove \<Longrightarrow> I s \<Longrightarrow> smeState s = SmeHelloStatePendingListen \<Longrightarrow>
      I (s\<lparr>tasks := tasks s @ [TaskApprove], smeState := SmeHelloStateReadyInit\<rparr>)"
    and I_abort_claim: "allowed EvAbort \<Longrightarrow> I s \<Longrightarrow>
      smeState s \<in> {SmeHelloStatePendingListen, SmeHelloStateReadyListen} \<Longrightarrow>
      I (s\<lparr>smeState := SmeHelloStateAbort\<rparr>)"
    and I_info: "allowed (EvInfo p) \<Longrightarrow> I s \<Longrightarrow> I (s\<lparr>info := p\<rparr>)"
    and I_closed: "I s \<Longrightarrow> I (emit (ConnectionClosed b) (close_data_connection 4001 r s))"
    and I_confirm_task: "I s \<Longrightarrow> I (s\<lparr>tasks := tasks s @ [TaskConfirmSent]\<rparr>)"
    and I_task_done: "I s \<Longrightarrow> I (s\<lparr>tasks := remove_at k (tasks s)\<rparr>)"
begin

lemma I_close_and_report: "I s \<Longrightarrow> I (close_and_report s)"
  by (simp add: close_and_report_def Let_def I_closed)

lemma I_confirm_sent:
  "I s \<Longrightarrow> I (snd (sendShipModel typ m s)\<lparr>tasks := tasks s @ [TaskConfirmSent]\<rparr>)"
  using I_confirm_task [OF I_send, of s] by simp

lemma I_handleShipMessage: "I s \<Longrightarrow> I (handleShipMessage t m s)"
  by (simp add: handleShipMessage_def Let_def I_handleState I_send I_confirm_sent I_close_and_report
      split: option.split)

lemma I_report: "I s \<Longrightarrow> I (ReportConnectionError e s)"
  by (simp add: ReportConnectionError_def getState_def Let_def I_CloseConnection I_set I_enter I_graph
      I_notify)

lemma I_approve_claim:
  assumes "allowed EvApprove" "I s"
  shows "fst (approve_claim (s\<lparr>tasks := tasks s @ [TaskApprove]\<rparr>)) \<Longrightarrow>
    I (snd (approve_claim (s\<lparr>tasks := tasks s @ [TaskApprove]\<rparr>)))"
  using I_claim [OF assms]
  by (simp add: approve_claim_def I_handleState I_stop_timer split: if_splits)

lemma I_approve_finish: "I s \<Longrightarrow> TaskApprove \<in> set (tasks s) \<Longrightarrow> I (snd (approve_finish s))"
  by (simp add: approve_finish_def validateConnectionBeforeApproval_def setAndHandleState_def Let_def
      case_prod_beta I_handleState I_set I_is_closed may_enter_def)

lemma I_abort_pending: "allowed EvAbort \<Longrightarrow> I s \<Longrightarrow> I (snd (AbortIfPending s))"
  using I_abort_claim [of s]
  by (simp add: AbortIfPending_def I_handleState I_stop_timer)

lemma I_run_task: "I s \<Longrightarrow> t \<in> set (tasks s) \<Longrightarrow> I (run_task t s)"
  by (auto simp add: run_task_def I_CloseConnection I_closed I_close_and_report I_approve_finish
      split: task.split)

lemma I_sendSpine: "I s \<Longrightarrow> I (snd (sendSpineData d s))"
  by (simp add: sendSpineData_def Let_def case_prod_beta I_is_closed I_write I_CloseConnection
      split: sum.split option.split)

lemma I_quiet_step: "allowed e \<Longrightarrow> I s \<Longrightarrow> \<forall>rd. e \<noteq> EvRead rd \<Longrightarrow> I (ship_step e s)"
proof (cases e)
  case EvApprove
  assume "allowed e" "I s"
  with EvApprove I_approve_claim [of s] show ?thesis by (simp add: ship_step_def Let_def case_prod_beta)
qed (simp_all add: ship_step_def Run_def Let_def case_prod_beta I_handleShipMessage I_pump I_report
      I_fire I_callback I_handleState I_abort_pending I_CloseConnection I_run_task I_task_done I_info
      WriteShipMessageWithPayload_def I_sendSpine)

end

text \<open>An invariant that the arrival of SPINE payloads keeps, too\<close>

locale conn_invariant = step_invariant I allowed for I and allowed +
  assumes I_buffer: "I s \<Longrightarrow> \<not> dataReader s \<Longrightarrow> I (s\<lparr>spineBuffer := spineBuffer s @ [d]\<rparr>)"
    and I_payload: "I s \<Longrightarrow> dataReader s \<Longrightarrow> I (emit (Payload d) s)"
begin

lemma I_incoming: "I s \<Longrightarrow> I (HandleIncomingWebsocketMessage m s)"
  by (simp add: HandleIncomingWebsocketMessage_def I_handleShipMessage I_buffer I_payload split: sum.split)

lemma I_deliver: "I s \<Longrightarrow> I (deliver c s)"
  by (simp add: deliver_def I_incoming I_report split: ws_call.split)

lemma I_deliver_all: "I s \<Longrightarrow> I (fold deliver cs s)"
  by (induction cs arbitrary: s) (simp_all add: I_deliver)

lemma I_ship_step: "allowed e \<Longrightarrow> I s \<Longrightarrow> I (ship_step e s)"
proof (cases "\<exists>rd. e = EvRead rd")
  case True
  then obtain rd where e: "e = EvRead rd" by blast
  assume "I s"
  then have "I (fold deliver (fst (read_turn rd (dataWriter s))) (s\<lparr>dataWriter := snd (read_turn rd (dataWriter s))\<rparr>))"
    by (simp add: I_deliver_all I_read)
  with e \<open>I s\<close> show ?thesis by (simp add: ship_step_def Let_def case_prod_beta I_recover)
next
  case False
  assume "allowed e" "I s"
  with False show ?thesis by (simp add: I_quiet_step)
qed

lemma I_ship_run: "list_all allowed es \<Longrightarrow> I s \<Longrightarrow> I (ship_run es s)"
  unfolding ship_run_def by (induction es arbitrary: s) (simp_all add: I_ship_step)

end

end
