(* ===== verification/ShipProps.thy ===== *)
theory ShipProps
  imports ShipInvariants
begin

text \<open>
  Properties of the SHIP connection as a whole: what is kept by every step of the hub, the peer, the
  pumps and the timers, in any order. Each is an interpretation of \<open>conn_invariant\<close>.
\<close>

lemma approve_proj [simp]:
  "role (approveHandshake s) = role s" "info (approveHandshake s) = info s"
  "remoteShipID (approveHandshake s) = remoteShipID s" "tasks (approveHandshake s) = tasks s"
  "smeState (approveHandshake s) = SmeStateComplete" "dataReader (approveHandshake s)"
  "spineBuffer (approveHandshake s) = []" "shutdownOnce (approveHandshake s) = shutdownOnce s"
  "stuck (approveHandshake s) = stuck s"
proof -
  have f: "role (fold (\<lambda>i. emit (Payload i)) xs s) = role s \<and>
      info (fold (\<lambda>i. emit (Payload i)) xs s) = info s \<and>
      remoteShipID (fold (\<lambda>i. emit (Payload i)) xs s) = remoteShipID s \<and>
      tasks (fold (\<lambda>i. emit (Payload i)) xs s) = tasks s \<and>
      smeState (fold (\<lambda>i. emit (Payload i)) xs s) = smeState s \<and>
      dataReader (fold (\<lambda>i. emit (Payload i)) xs s) = dataReader s \<and>
      shutdownOnce (fold (\<lambda>i. emit (Payload i)) xs s) = shutdownOnce s \<and>
      stuck (fold (\<lambda>i. emit (Payload i)) xs s) = stuck s" for xs and s :: ship_conn
    by (induction xs arbitrary: s) simp_all
  show "role (approveHandshake s) = role s" "info (approveHandshake s) = info s"
  "remoteShipID (approveHandshake s) = remoteShipID s" "tasks (approveHandshake s) = tasks s"
  "smeState (approveHandshake s) = SmeStateComplete" "dataReader (approveHandshake s)"
  "spineBuffer (approveHandshake s) = []" "shutdownOnce (approveHandshake s) = shutdownOnce s"
  "stuck (approveHandshake s) = stuck s"
    by (simp_all add: approveHandshake_def processBufferedSpineMessages_def f Let_def)
qed

lemma eff_fold_payload: "eff (fold (\<lambda>i. emit (Payload i)) xs s) = eff s @ map Payload xs"
  by (induction xs arbitrary: s) simp_all

lemma eff_approve:
  "eff (approveHandshake s) = eff s @ SetupRemote
     # (if smeState s \<noteq> SmeStateComplete then [StateUpdate SmeStateComplete None] else [])
     @ map Payload (spineBuffer s)"
  by (simp add: approveHandshake_def processBufferedSpineMessages_def eff_fold_payload Let_def)

section \<open>Trust\<close>

text \<open>The states a connection can be in before the remote service is trusted\<close>

definition pre_trust :: "sme_state list" where
  "pre_trust = [CmiStateInitStart, CmiStateServerWait, CmiStateServerEvaluate, SmeHelloState,
     SmeHelloStatePendingInit, SmeHelloStatePendingListen, SmeHelloStateAbort, SmeHelloStateAbortDone,
     SmeHelloStateRemoteAbortDone, SmeStateError]"

definition pre_trust_effect :: "effect \<Rightarrow> bool" where
  "pre_trust_effect e = (case e of StateUpdate st _ \<Rightarrow> st \<in> set pre_trust
     | ConnectionClosed _ \<Rightarrow> True | _ \<Rightarrow> False)"

definition untrusted :: "ship_conn \<Rightarrow> bool" where
  "untrusted s \<longleftrightarrow> role s = ShipRoleServer \<and> \<not> paired (info s) \<and> \<not> autoAccept (info s)
     \<and> smeState s \<in> set pre_trust \<and> \<not> dataReader s \<and> TaskApprove \<notin> set (tasks s)
     \<and> list_all pre_trust_effect (eff s)"

lemma pre_trust_effect_simps [simp]:
  "pre_trust_effect (StateUpdate st e) = (st \<in> set pre_trust)" "pre_trust_effect (ConnectionClosed b)"
  "\<not> pre_trust_effect SetupRemote" "\<not> pre_trust_effect (Payload d)"
  by (simp_all add: pre_trust_effect_def)

text \<open>The user does not approve, and the hub's answers do not become a trust.\<close>

definition without_approval :: "ship_event \<Rightarrow> bool" where
  "without_approval e = (case e of EvApprove \<Rightarrow> False
     | EvInfo p \<Rightarrow> \<not> paired p \<and> \<not> autoAccept p | _ \<Rightarrow> True)"

lemma untrusted_set: "untrusted s \<Longrightarrow> may_enter s st \<Longrightarrow> untrusted (setState st e s)"
  by (auto simp: untrusted_def may_enter_def pre_trust_def successors_def
      entry_guard_def trusted_def split: if_splits)

lemma untrusted_same:
  "untrusted s \<Longrightarrow> role s' = role s \<Longrightarrow> info s' = info s \<Longrightarrow> smeState s' = smeState s \<Longrightarrow>
   dataReader s' = dataReader s \<Longrightarrow> (TaskApprove \<in> set (tasks s') \<longrightarrow> TaskApprove \<in> set (tasks s)) \<Longrightarrow>
   (list_all pre_trust_effect (eff s) \<longrightarrow> list_all pre_trust_effect (eff s')) \<Longrightarrow> untrusted s'"
  unfolding untrusted_def by metis

lemma CloseConnection_TaskApprove [simp]:
  "TaskApprove \<in> set (tasks (CloseConnection b c r s)) \<longleftrightarrow> TaskApprove \<in> set (tasks s)"
  using CloseConnection_tasks [of b c r s] by auto

interpretation trust: conn_invariant untrusted without_approval
proof unfold_locales
  fix s assume "untrusted s" "smeState s = SmeStateApproved"
  then show "untrusted (approveHandshake s)" by (simp add: untrusted_def pre_trust_def)
next
  fix s i assume "untrusted s" "smeState s = SmeAccessMethodsRequest"
  then show "untrusted (emit (ReportShipID i) (s\<lparr>remoteShipID := i\<rparr>))"
    by (simp add: untrusted_def pre_trust_def)
next
  fix s k assume "untrusted s"
  then show "untrusted (s\<lparr>tasks := remove_at k (tasks s)\<rparr>)"
    using set_remove_at [of k "tasks s"] by (auto simp: untrusted_def)
next
  fix s d assume "untrusted s" "dataReader s"
  then show "untrusted (emit (Payload d) s)" by (simp add: untrusted_def)
next
  assume "without_approval EvApprove"
  then show "untrusted (s\<lparr>tasks := tasks s @ [TaskApprove], smeState := SmeHelloStateReadyInit\<rparr>)" for s
    by (simp add: without_approval_def)
next
  fix s assume "untrusted s" "smeState s \<in> {SmeHelloStatePendingListen, SmeHelloStateReadyListen}"
  then show "untrusted (s\<lparr>smeState := SmeHelloStateAbort\<rparr>)" by (auto simp: untrusted_def pre_trust_def)
next
  fix s p assume "without_approval (EvInfo p)" "untrusted s"
  then show "untrusted (s\<lparr>info := p\<rparr>)" by (simp add: untrusted_def without_approval_def)
qed (simp_all add: untrusted_set,
     (erule untrusted_same; simp add: CloseConnection_effects pre_trust_def)+)


text \<open>A server and a client connection with a quiet websocket\<close>

definition test_conn :: "ship_role \<Rightarrow> string \<Rightarrow> ship_conn" where
  "test_conn r shipId = NewConnectionHandler \<lparr>paired = False, autoAccept = False, allowWaiting = True\<rparr>
     (NewWebsocketConnection True ''ab12'') (\<lambda>_. []) ordered_map_ref r ''i:local'' ''ab12'' shipId"

lemma test_conn_simps [simp]:
  "role (test_conn r i) = r" "remoteShipID (test_conn r i) = i" "smeState (test_conn r i) = CmiStateInitStart"
  "info (test_conn r i) = \<lparr>paired = False, autoAccept = False, allowWaiting = True\<rparr>"
  "dataReader (test_conn r i) = False" "tasks (test_conn r i) = []" "eff (test_conn r i) = []"
  "shutdownOnce (test_conn r i) = OnceFresh" "stuck (test_conn r i) = 0" "spineBuffer (test_conn r i) = []"
  "timer (test_conn r i) = new_timer" "panicked (test_conn r i) = False" "remoteSKI (test_conn r i) = ''ab12''"
  "dataWriter (test_conn r i) = InitDataProcessing (NewWebsocketConnection True ''ab12'')"
  "net (test_conn r i) = (\<lambda>_. [])" "orderedMap (test_conn r i) = ordered_map_ref"
  "lastReceivedWaitingValue (test_conn r i) = 0" "localShipID (test_conn r i) = ''i:local''"
  by (simp_all add: test_conn_def NewConnectionHandler_def)


section \<open>The state graph is followed\<close>

definition updates :: "effect list \<Rightarrow> sme_state list" where
  "updates es = concat (map (\<lambda>e. case e of StateUpdate st _ \<Rightarrow> [st] | _ \<Rightarrow> []) es)"

lemma updates_simps [simp]:
  "updates [] = []" "updates (xs @ ys) = updates xs @ updates ys"
  "updates (e # es) = (case e of StateUpdate st _ \<Rightarrow> [st] | _ \<Rightarrow> []) @ updates es"
  "updates (map Payload ps) = []"
  by (simp_all add: updates_def comp_def)

fun follows :: "sme_state \<Rightarrow> sme_state list \<Rightarrow> bool" where
  "follows a [] \<longleftrightarrow> True"
| "follows a (b # bs) \<longleftrightarrow> (b = SmeStateError \<or> b \<in> set (successors a)) \<and> follows b bs"

lemma follows_snoc:
  "follows a (xs @ [b]) \<longleftrightarrow> follows a xs \<and> (b = SmeStateError \<or> b \<in> set (successors (last (a # xs))))"
  by (induction xs arbitrary: a) auto

definition on_graph :: "ship_conn \<Rightarrow> bool" where
  "on_graph s \<longleftrightarrow> follows CmiStateInitStart (updates (eff s))
     \<and> last (CmiStateInitStart # updates (eff s)) = smeState s \<and> TaskApprove \<notin> set (tasks s)"

definition without_user :: "ship_event \<Rightarrow> bool" where
  "without_user e \<longleftrightarrow> e \<noteq> EvApprove \<and> e \<noteq> EvAbort"

lemma on_graph_set: "on_graph s \<Longrightarrow> may_enter s st \<Longrightarrow> on_graph (setState st e s)"
  by (auto simp: on_graph_def may_enter_def follows_snoc)

lemma on_graph_same:
  "on_graph s \<Longrightarrow> updates (eff s') = updates (eff s) \<Longrightarrow> smeState s' = smeState s \<Longrightarrow>
   (TaskApprove \<in> set (tasks s') \<longrightarrow> TaskApprove \<in> set (tasks s)) \<Longrightarrow> on_graph s'"
  by (auto simp: on_graph_def)

lemma on_graph_error: "on_graph s \<Longrightarrow> smeState s = SmeStateError \<Longrightarrow>
    on_graph (emit (StateUpdate SmeStateError e) s)"
  by (simp add: on_graph_def follows_snoc)

lemma on_graph_approve: "on_graph s \<Longrightarrow> smeState s = SmeStateApproved \<Longrightarrow> on_graph (approveHandshake s)"
  by (simp add: on_graph_def eff_approve follows_snoc successors_def)

interpretation graph: conn_invariant on_graph without_user
proof unfold_locales
  fix s k assume "on_graph s"
  then show "on_graph (s\<lparr>tasks := remove_at k (tasks s)\<rparr>)"
    using set_remove_at [of k "tasks s"] by (auto simp: on_graph_def)
qed (simp_all add: on_graph_set on_graph_error on_graph_approve without_user_def,
     (erule on_graph_same; simp add: CloseConnection_effects)+)



end
