(* ===== verification/ShipDelivery.thy ===== *)
theory ShipDelivery
  imports ShipProps
begin

text \<open>
  More properties of the whole connection: the order of the SPINE payloads, the reports of a closed
  connection and the deadlock of a safe close, the SHIP identifier, and the timers and the websocket
  of the connection.
\<close>

section \<open>SPINE payloads\<close>

definition payloads :: "effect list \<Rightarrow> bytes list" where
  "payloads es = concat (map (\<lambda>e. case e of Payload d \<Rightarrow> [d] | _ \<Rightarrow> []) es)"

lemma payloads_simps [simp]:
  "payloads [] = []" "payloads (xs @ ys) = payloads xs @ payloads ys"
  "payloads (e # es) = (case e of Payload d \<Rightarrow> [d] | _ \<Rightarrow> []) @ payloads es"
  "payloads (map Payload ps) = ps"
  by (simp_all add: payloads_def comp_def)

definition spine_inv :: "bytes list \<Rightarrow> ship_conn \<Rightarrow> bool" where
  "spine_inv acc s \<longleftrightarrow> payloads (eff s) @ spineBuffer s = acc
     \<and> (if dataReader s then spineBuffer s = [] else payloads (eff s) = [])"

lemma spine_inv_same:
  "spine_inv acc s \<Longrightarrow> payloads (eff s') = payloads (eff s) \<Longrightarrow> spineBuffer s' = spineBuffer s \<Longrightarrow>
   dataReader s' = dataReader s \<Longrightarrow> spine_inv acc s'"
  by (simp add: spine_inv_def)

interpretation spine: step_invariant "spine_inv acc" "\<lambda>_. True" for acc
proof unfold_locales
  fix s assume "spine_inv acc s"
  then show "spine_inv acc (approveHandshake s)"
    by (simp add: spine_inv_def eff_approve split: if_splits)
qed (erule spine_inv_same; simp add: CloseConnection_effects)+

text \<open>The SPINE payloads the read pump hands over\<close>

definition spine_message :: "bytes \<Rightarrow> bytes list" where
  "spine_message m = (if hasSpineDatagram m
     then (case shipModelFromMessage m of Inl _ \<Rightarrow> [] | Inr p \<Rightarrow> [p]) else [])"

fun spine_received :: "ship_event list \<Rightarrow> ship_conn \<Rightarrow> bytes list" where
  "spine_received [] s = []"
| "spine_received (e # es) s =
     (case e of
        EvRead rd \<Rightarrow>
          if reader_blocked s then []
          else concat (map (\<lambda>c. case c of HandleIncoming m \<Rightarrow> spine_message m | _ \<Rightarrow> [])
                 (fst (read_turn rd (dataWriter s))))
      | _ \<Rightarrow> []) @ spine_received es (ship_step e s)"

lemma spine_inv_incoming:
  "spine_inv acc s \<Longrightarrow> spine_inv (acc @ spine_message m) (HandleIncomingWebsocketMessage m s)"
proof (cases "hasSpineDatagram m")
  case False
  then show "spine_inv acc s \<Longrightarrow> ?thesis"
    by (simp add: HandleIncomingWebsocketMessage_def spine_message_def spine.I_handleShipMessage)
next
  case True
  then show "spine_inv acc s \<Longrightarrow> ?thesis"
    by (auto simp: HandleIncomingWebsocketMessage_def spine_message_def spine_inv_def
        split: sum.split if_splits)
qed

lemma spine_inv_deliver:
  "spine_inv acc s \<Longrightarrow>
   spine_inv (acc @ concat (map (\<lambda>c. case c of HandleIncoming m \<Rightarrow> spine_message m | _ \<Rightarrow> []) cs))
     (fold deliver cs s)"
proof (induction cs arbitrary: acc s)
  case Nil
  then show ?case by simp
next
  case (Cons c cs)
  have "spine_inv (acc @ (case c of HandleIncoming m \<Rightarrow> spine_message m | _ \<Rightarrow> [])) (deliver c s)"
    using Cons.prems by (cases c) (simp_all add: deliver_def spine_inv_incoming spine.I_report)
  from Cons.IH [OF this] show ?case by simp
qed

lemma spine_inv_step:
  "spine_inv acc s \<Longrightarrow> spine_inv (acc @ spine_received [e] s) (ship_step e s)"
proof (cases "\<exists>rd. e = EvRead rd")
  case False
  assume "spine_inv acc s"
  with False have "spine_inv acc (ship_step e s)" by (simp add: spine.I_quiet_step)
  then show ?thesis using False by (cases e) simp_all
next
  case True
  then obtain rd where e: "e = EvRead rd" by blast
  assume s: "spine_inv acc s"
  then have "spine_inv acc (s\<lparr>dataWriter := w\<rparr>)" for w by (simp add: spine_inv_def)
  from spine_inv_deliver [OF this] s show ?thesis
    by (simp add: e ship_step_def Let_def case_prod_beta spine.I_recover)
qed

lemma spine_inv_run: "spine_inv acc s \<Longrightarrow> spine_inv (acc @ spine_received es s) (ship_run es s)"
proof (induction es arbitrary: acc s)
  case Nil
  then show ?case by (simp add: ship_run_def)
next
  case (Cons e es)
  from Cons.IH [OF spine_inv_step [OF Cons.prems, of e]] show ?case by (simp add: ship_run_def)
qed

text \<open>
  C3. No SPINE message is lost, reordered or duplicated on its way through the connection, and none is
  delivered before the SPINE reader is set up: the payloads delivered to the reader, followed by the
  buffered ones, are exactly those received; before the set-up all are buffered, after it none is.
\<close>

theorem spine_messages_in_order:
  assumes "dataReader s = False" "spineBuffer s = []" "eff s = []"
  shows "payloads (eff (ship_run es s)) @ spineBuffer (ship_run es s) = spine_received es s
    \<and> (if dataReader (ship_run es s) then spineBuffer (ship_run es s) = []
       else payloads (eff (ship_run es s)) = [])"
proof -
  have "spine_inv [] s" using assms by (simp add: spine_inv_def)
  from spine_inv_run [OF this, of es] show ?thesis by (simp add: spine_inv_def)
qed

theorem spine_messages_in_order_witness:
  "let s = test_conn ShipRoleServer []; es = [EvRun, EvRead (Inr (2, MsgTypeData # ''{datagram}''))]
   in payloads (eff (ship_run es s)) @ spineBuffer (ship_run es s) = spine_received es s
    \<and> (if dataReader (ship_run es s) then spineBuffer (ship_run es s) = []
       else payloads (eff (ship_run es s)) = [])"
  unfolding Let_def by (rule spine_messages_in_order) simp_all

section \<open>The SHIP identifier\<close>

definition has_ship_id :: "string \<Rightarrow> ship_conn \<Rightarrow> bool" where
  "has_ship_id i s \<longleftrightarrow> i \<noteq> [] \<and> remoteShipID s = i"

interpretation ship_id: conn_invariant "has_ship_id i" "\<lambda>_. True" for i
  by unfold_locales (auto simp: has_ship_id_def)

text \<open>
  C9. A SHIP identifier that is known is never replaced, in any run of the connection.
\<close>

theorem ship_id_never_replaced:
  assumes "remoteShipID s \<noteq> []"
  shows "remoteShipID (ship_run es s) = remoteShipID s"
proof -
  have "has_ship_id (remoteShipID s) s" using assms by (simp add: has_ship_id_def)
  from ship_id.I_ship_run [OF _ this, of es] show ?thesis by (simp add: has_ship_id_def list_all_iff)
qed

theorem ship_id_never_replaced_witness:
  "remoteShipID (ship_run [EvRun, EvRead (Inr (2, ShipInit))] (test_conn ShipRoleClient ''i:remote''))
     = remoteShipID (test_conn ShipRoleClient ''i:remote'')"
  by (rule ship_id_never_replaced) simp

lemma handleState_access:
  "smeState s = SmeAccessMethodsRequest \<Longrightarrow> handleState t m s = handshakeAccessMethods_Request m s"
  by (simp add: handleState_unfold [of t m s] handleState_step_simps)

lemma end_on_error_state:
  "smeState (end_on_error r) = (if fst r = None then smeState (snd r) else SmeStateError)"
  by (simp add: end_on_error_def case_prod_beta split: option.split)



section \<open>Reports of a closed connection\<close>

definition is_closed_report :: "effect \<Rightarrow> bool" where
  "is_closed_report e = (case e of ConnectionClosed _ \<Rightarrow> True | _ \<Rightarrow> False)"

definition is_close_task :: "task \<Rightarrow> bool" where
  "is_close_task t = (case t of TaskCloseAnnounced _ \<Rightarrow> True | TaskConfirmSent \<Rightarrow> True | _ \<Rightarrow> False)"

lemma is_close_simps [simp]:
  "is_closed_report (ConnectionClosed b)" "\<not> is_closed_report (StateUpdate st e)"
  "\<not> is_closed_report (ReportShipID i)" "\<not> is_closed_report SetupRemote" "\<not> is_closed_report (Payload d)"
  "is_close_task (TaskCloseAnnounced b)" "is_close_task TaskConfirmSent" "\<not> is_close_task TaskAbortDelay"
  "\<not> is_close_task TaskApprove"
  by (simp_all add: is_closed_report_def is_close_task_def)

text \<open>The reports made and the ones that waiting goroutines will make\<close>

definition closings :: "ship_conn \<Rightarrow> nat" where
  "closings s = length (filter is_closed_report (eff s)) + length (filter is_close_task (tasks s))"

definition closings_inv :: "nat \<Rightarrow> ship_conn \<Rightarrow> bool" where
  "closings_inv n s \<longleftrightarrow> closings s \<le> (if shutdownOnce s = OnceFresh then 0 else 1) + n"

lemma closings_same:
  "closings_inv n s \<Longrightarrow> closings s' = closings s \<Longrightarrow>
   (shutdownOnce s' = OnceFresh \<longrightarrow> shutdownOnce s = OnceFresh) \<Longrightarrow> closings_inv n s'"
  by (auto simp: closings_inv_def split: if_splits)

lemma filter_map_payload [simp]: "filter is_closed_report (map Payload xs) = []"
  by (induction xs) simp_all

interpretation closing: handler_invariant "closings_inv n" for n
proof unfold_locales
  fix s c r assume "closings_inv n s"
  then show "closings_inv n (close_unsafe c r s)"
    by (auto simp: closings_inv_def closings_def split: if_splits)
qed (erule closings_same; simp add: closings_def eff_approve)+

lemma CloseConnection_cases:
  "shutdownOnce (CloseConnection b c r s) \<noteq> OnceFresh
   \<and> closings (CloseConnection b c r s) \<le> closings s + (if shutdownOnce s = OnceFresh then 1 else 0)"
proof (cases "shutdownOnce s = OnceFresh \<and> b \<and> smeState s = SmeStateComplete")
  case True
  then show ?thesis
    by (auto simp: CloseConnection_announce close_tail_def closings_def Let_def)
next
  case False
  then show ?thesis
    by (auto simp: CloseConnection_def CloseConnection_with_def closings_def getState_def Let_def
        split: once.split)
qed

lemma closings_CloseConnection: "closings_inv n s \<Longrightarrow> closings_inv n (CloseConnection b c r s)"
  using CloseConnection_cases [of b c r s] by (simp add: closings_inv_def split: if_splits)

lemma closings_report: "closings_inv n s \<Longrightarrow> closings_inv n (ReportConnectionError e s)"
proof -
  have set: "closings_inv n (setState st e' s)" if "closings_inv n s" for st e' s
    by (rule closings_same [OF that]) (simp_all add: closings_def)
  have upd: "closings_inv n (emit (StateUpdate st e') s)" if "closings_inv n s" for st e' s
    by (rule closings_same [OF that]) (simp_all add: closings_def)
  show "closings_inv n s \<Longrightarrow> closings_inv n (ReportConnectionError e s)"
    by (simp add: ReportConnectionError_def Let_def closings_CloseConnection set upd)
qed

definition is_close_message :: "bytes \<Rightarrow> bool" where
  "is_close_message m \<longleftrightarrow> \<not> hasSpineDatagram m \<and> length m > 2
     \<and> (case processShipJsonMessage dec_close zero_close m of None \<Rightarrow> False | Some c \<Rightarrow> ClosePhase c \<noteq> [])"

lemma closings_emit_closed:
  "closings_inv n s \<Longrightarrow> closings_inv (Suc n) (emit (ConnectionClosed b) (close_data_connection c r s))"
  by (auto simp: closings_inv_def closings_def split: if_splits)

lemma closings_suc: "closings_inv n s \<Longrightarrow> closings_inv (Suc n) s"
  by (simp add: closings_inv_def split: if_splits)

lemma closings_incoming:
  "closings_inv n s \<Longrightarrow>
   closings_inv (n + (if is_close_message m then 1 else 0)) (HandleIncomingWebsocketMessage m s)"
proof -
  assume s: "closings_inv n s"
  have payload: "closings_inv n (s\<lparr>spineBuffer := b\<rparr>)" "closings_inv n (emit (Payload d) s)" for b d
    by (rule closings_same [OF s]; simp add: closings_def)+
  have confirm: "closings_inv (Suc n) (snd (sendShipModel ty j s)\<lparr>tasks := tasks s @ [TaskConfirmSent]\<rparr>)"
    for ty j using closing.I_send [OF s, of ty j] by (auto simp: closings_inv_def closings_def split: if_splits)
  show ?thesis
    using closing.I_handleState [OF s] closing.I_send [OF s] s payload confirm
      closings_emit_closed [OF s]
    by (auto simp: HandleIncomingWebsocketMessage_def handleShipMessage_def is_close_message_def
        close_and_report_def Let_def closings_suc split: sum.split option.split)
qed

lemma remove_at_count:
  "k < length ts \<Longrightarrow>
   length (filter P (remove_at k ts)) = length (filter P ts) - (if P (ts ! k) then 1 else 0)"
proof -
  assume "k < length ts"
  then have "ts = take k ts @ ts ! k # drop (Suc k) ts" by (simp add: id_take_nth_drop)
  then have "length (filter P ts) = length (filter P (take k ts @ ts ! k # drop (Suc k) ts))" by simp
  then show ?thesis by (simp add: remove_at_def)
qed

lemma remove_at_le: "length (filter P (remove_at k ts)) \<le> length (filter P ts)"
proof -
  have "length (filter P (take k ts @ drop (Suc k) ts)) \<le> length (filter P (take k ts @ drop k ts))"
    by (cases "k < length ts") (simp_all add: Cons_nth_drop_Suc [symmetric])
  then show ?thesis by (simp add: remove_at_def)
qed

lemma closings_task:
  assumes "closings_inv n s" "k < length (tasks s)"
  shows "closings_inv n (ship_step (EvTask k) s)"
proof -
  have drop_task: "closings_inv n (s\<lparr>tasks := remove_at k (tasks s)\<rparr>)" if "closings_inv n s" for s
    using that remove_at_le [of is_close_task k "tasks s"]
    by (simp add: closings_inv_def closings_def split: if_splits)
  have closed: "closings_inv n ((emit (ConnectionClosed b) (close_data_connection c r s))
      \<lparr>tasks := remove_at k (tasks s)\<rparr>)" if "is_close_task (tasks s ! k)" for b c r
  proof -
    have "filter is_close_task (tasks s) \<noteq> []" using that assms(2) by (auto simp: filter_empty_conv)
    then obtain j where "length (filter is_close_task (tasks s)) = Suc j"
      by (cases "filter is_close_task (tasks s)") simp_all
    with that assms show ?thesis
      by (simp add: closings_inv_def closings_def remove_at_count split: if_splits)
  qed
  have go: "closings_inv n (setAndHandleState handleState st t)" if "closings_inv n t" for st t
    unfolding setAndHandleState_def
    by (rule closing.I_handleState) (rule closings_same [OF that]; simp add: closings_def)
  show ?thesis
  proof (cases "tasks s ! k")
    case TaskAbortDelay
    with assms show ?thesis by (simp add: ship_step_def run_task_def Let_def closings_CloseConnection drop_task)
  next
    case TaskApprove
    with assms show ?thesis
      by (simp add: ship_step_def run_task_def approve_finish_def validateConnectionBeforeApproval_def
          Let_def case_prod_beta go drop_task closing.I_is_closed)
  qed (use assms(2) closed in \<open>simp_all add: ship_step_def run_task_def close_and_report_def Let_def\<close>)
qed

lemma closings_data [simp]: "closings_inv n (s\<lparr>dataWriter := w\<rparr>) = closings_inv n s"
  "closings_inv n (s\<lparr>timer := t\<rparr>) = closings_inv n s" "closings_inv n (s\<lparr>info := p\<rparr>) = closings_inv n s"
  "closings_inv n (s\<lparr>smeState := st\<rparr>) = closings_inv n s"
  "closings_inv n (s\<lparr>tasks := tasks s @ [TaskApprove]\<rparr>) = closings_inv n s"
  by (simp_all add: closings_inv_def closings_def)

text \<open>The termination messages of the peer that the read pump hands over\<close>

fun close_messages :: "ship_event list \<Rightarrow> ship_conn \<Rightarrow> nat" where
  "close_messages [] s = 0"
| "close_messages (e # es) s =
     (case e of
        EvRead rd \<Rightarrow>
          if reader_blocked s then 0
          else sum_list (map (\<lambda>c. case c of HandleIncoming m \<Rightarrow> if is_close_message m then 1 else 0 | _ \<Rightarrow> 0)
                 (fst (read_turn rd (dataWriter s))))
      | _ \<Rightarrow> 0) + close_messages es (ship_step e s)"

lemma closings_deliver:
  "closings_inv n s \<Longrightarrow>
   closings_inv (n + sum_list (map (\<lambda>c. case c of HandleIncoming m \<Rightarrow> if is_close_message m then 1 else 0
     | _ \<Rightarrow> 0) cs)) (fold deliver cs s)"
proof (induction cs arbitrary: n s)
  case Nil
  then show ?case by simp
next
  case (Cons c cs)
  have "closings_inv (n + (case c of HandleIncoming m \<Rightarrow> if is_close_message m then 1 else 0 | _ \<Rightarrow> 0))
      (deliver c s)"
    using Cons.prems closings_incoming [of n s] by (cases c) (simp_all add: deliver_def closings_report)
  from Cons.IH [OF this] show ?case by (simp add: add.assoc)
qed

lemma closings_spine: "closings_inv n s \<Longrightarrow> closings_inv n (snd (sendSpineData d s))"
  by (simp add: sendSpineData_def Let_def case_prod_beta closing.I_is_closed closing.I_write
      closings_CloseConnection split: sum.split option.split)

lemma closings_step:
  assumes "closings_inv n s"
  shows "closings_inv (n + close_messages [e] s) (ship_step e s)"
proof (cases e)
  case EvRun
  with assms show ?thesis
    by (simp add: ship_step_def Run_def handleShipMessage_def closing.I_handleState)
next
  case (EvRead rd)
  with assms closings_deliver [of n "s\<lparr>dataWriter := snd (read_turn rd (dataWriter s))\<rparr>"]
  show ?thesis by (simp add: ship_step_def Let_def case_prod_beta)
next
  case (EvTask k)
  with assms closings_task [of n s k] show ?thesis
    by (cases "k < length (tasks s)") (simp_all add: ship_step_def)
qed (use assms in \<open>simp_all add: ship_step_def approve_claim_def AbortIfPending_def
      WriteShipMessageWithPayload_def closings_spine Let_def case_prod_beta closing.I_handleState
      closing.I_stop_timer closings_report closings_CloseConnection\<close>)

lemma closings_run: "closings_inv n s \<Longrightarrow> closings_inv (n + close_messages es s) (ship_run es s)"
proof (induction es arbitrary: n s)
  case Nil
  then show ?case by (simp add: ship_run_def)
next
  case (Cons e es)
  from Cons.IH [OF closings_step [OF Cons.prems, of e]] show ?case
    by (simp add: ship_run_def add.assoc)
qed

text \<open>
  C10. The hub is told at most once that a connection closed, plus once for every termination message
  (announce or confirm) of the peer, which is not guarded by \<open>shutdownOnce\<close>.
\<close>

theorem closed_reported_once:
  assumes "eff s = []" "tasks s = []"
  shows "length (filter is_closed_report (eff (ship_run es s))) \<le> 1 + close_messages es s"
proof -
  have "closings_inv 0 s" using assms by (simp add: closings_inv_def closings_def)
  from closings_run [OF this, of es] show ?thesis
    by (simp add: closings_inv_def closings_def split: if_splits)
qed

theorem closed_reported_once_witness:
  "length (filter is_closed_report (eff (ship_run [EvRun, EvClose False 0 [], EvClose True 0 []]
     (test_conn ShipRoleClient []))))
   \<le> 1 + close_messages [EvRun, EvClose False 0 [], EvClose True 0 []] (test_conn ShipRoleClient [])"
  by (rule closed_reported_once) simp_all

section \<open>The deadlock of a safe close\<close>

lemma closed_after_tick:
  "connectionClosed (dataWriter s) \<Longrightarrow> found_closed s"
proof -
  assume "connectionClosed (dataWriter s)"
  then have "fst (IsDataConnectionClosed (ws_run (net s (netClock s)) (dataWriter s)))"
    unfolding ws_run_def by (intro writer.closed_forever) simp
  then show ?thesis by (simp add: is_data_connection_closed_def net_tick_def Let_def)
qed

text \<open>
  A safe close of a completed connection whose websocket is already closed never returns: the send
  of the announcement finds the websocket closed and calls \<open>CloseConnection\<close> from within
  \<open>shutdownOnce.Do\<close>. The hub is not told of the closing, and every later \<open>CloseConnection\<close> blocks too.
\<close>

theorem safe_close_deadlocks:
  assumes "smeState s = SmeStateComplete" "shutdownOnce s = OnceFresh" "connectionClosed (dataWriter s)"
    and "s' = CloseConnection True c r s"
  shows "stuck s' = Suc (stuck s) \<and> shutdownOnce s' = OnceRunning \<and> eff s' = eff s \<and> tasks s' = tasks s
    \<and> (\<forall>safe c r. CloseConnection safe c r s' = s'\<lparr>stuck := Suc (stuck s')\<rparr>)"
proof -
  let ?t = "stop_timer (s\<lparr>shutdownOnce := OnceRunning\<rparr>)"
  have f: "found_closed ?t" using assms(3) by (intro closed_after_tick) simp
  have s': "s' = snd (sendShipModel MsgTypeEnd (close_to_json (announce_close r)) ?t)"
    using assms f by (simp add: CloseConnection_announce Let_def)
  have "shutdownOnce s' = OnceRunning" using f by (simp add: s')
  with f show ?thesis by (simp add: s' CloseConnection_running)
qed

theorem safe_close_deadlocks_witness:
  "let s = (test_conn ShipRoleClient [])\<lparr>smeState := SmeStateComplete,
             dataWriter := ws_close (dataWriter (test_conn ShipRoleClient []))\<rparr>;
       s' = CloseConnection True 0 [] s
   in stuck s' = Suc (stuck s) \<and> shutdownOnce s' = OnceRunning \<and> eff s' = eff s \<and> tasks s' = tasks s
    \<and> (\<forall>safe c r. CloseConnection safe c r s' = s'\<lparr>stuck := Suc (stuck s')\<rparr>)"
  unfolding Let_def
  by (rule safe_close_deadlocks [OF _ _ _ refl])
     (simp_all add: InitDataProcessing_def run_pumps_def NewWebsocketConnection_def)

section \<open>Timers and websocket of a connection\<close>

definition plumbing :: "ship_conn \<Rightarrow> bool" where
  "plumbing s \<longleftrightarrow> timer_inv (timer s) \<and> ws_inv (dataWriter s) \<and> wsStarted (dataWriter s)"

lemma plumbing_timer: "plumbing s \<Longrightarrow> timer_inv t \<Longrightarrow> dataWriter s' = dataWriter s \<Longrightarrow> timer s' = t \<Longrightarrow> plumbing s'"
  by (simp add: plumbing_def)

lemma plumbing_set_timer: "plumbing s \<Longrightarrow> plumbing (set_timer ty d s)"
  by (simp add: plumbing_def set_timer_def timer_inv_set)

lemma plumbing_stop: "plumbing s \<Longrightarrow> plumbing (stop_timer_safe s)" "plumbing s \<Longrightarrow> plumbing (stop_timer s)"
  by (simp_all add: plumbing_def stop_timer_safe_def stop_timer_def timer_inv_stopSafe timer_inv_stop)

lemma plumbing_timerOp: "plumbing s \<Longrightarrow> plumbing (timerOp st s)"
  by (simp add: timerOp_def plumbing_set_timer plumbing_stop)

lemma plumbing_fields [simp]:
  "plumbing (emit e s) = plumbing s" "plumbing (s\<lparr>smeState := st, smeError := er\<rparr>) = plumbing s"
  "plumbing (s\<lparr>tasks := ts\<rparr>) = plumbing s" "plumbing (s\<lparr>lastReceivedWaitingValue := d\<rparr>) = plumbing s"
  "plumbing (s\<lparr>panicked := b\<rparr>) = plumbing s" "plumbing (s\<lparr>outOfFuel := b\<rparr>) = plumbing s"
  "plumbing (s\<lparr>shutdownOnce := on\<rparr>) = plumbing s" "plumbing (s\<lparr>stuck := k\<rparr>) = plumbing s"
  "plumbing (s\<lparr>remoteShipID := i\<rparr>) = plumbing s" "plumbing (s\<lparr>dataReader := b\<rparr>) = plumbing s"
  "plumbing (s\<lparr>spineBuffer := sb\<rparr>) = plumbing s" "plumbing (s\<lparr>info := p\<rparr>) = plumbing s"
  "plumbing (s\<lparr>smeState := st\<rparr>) = plumbing s"
  by (simp_all add: plumbing_def emit_def)

lemma plumbing_setState: "plumbing s \<Longrightarrow> plumbing (setState st e s)"
  by (simp add: setState_def Let_def plumbing_timerOp)

lemma plumbing_tick: "plumbing s \<Longrightarrow> plumbing (net_tick s)"
  by (simp add: plumbing_def net_tick_def ws_inv_run)

lemma plumbing_is_closed: "plumbing s \<Longrightarrow> plumbing (snd (is_data_connection_closed s))"
  by (simp add: is_data_connection_closed_def Let_def plumbing_tick)

lemma wsStarted_Write [simp]:
  "wsStarted (snd (WriteMessageToWebsocketConnection m w)) = wsStarted w"
  using wsStarted_step [of "WsWrite m" w] by simp

lemma plumbing_write: "plumbing s \<Longrightarrow> plumbing (snd (write_websocket m s))"
  using plumbing_tick [of s]
  by (auto simp: write_websocket_def Let_def case_prod_beta plumbing_def ws_inv_write split: write_result.split)

lemma wsStarted_CloseData [simp]: "wsStarted (CloseDataConnection c r a w) = wsStarted w"
  using wsStarted_step [of "WsClose c r a" w] by simp

lemma plumbing_close_data: "plumbing s \<Longrightarrow> plumbing (close_data_connection c r s)"
  using plumbing_tick [of s]
  by (simp add: close_data_connection_def Let_def plumbing_def ws_inv_CloseDataConnection)

lemma plumbing_close_unsafe: "plumbing s \<Longrightarrow> plumbing (close_unsafe c r s)"
  by (simp add: close_unsafe_def CloseConnection_with_def Let_def plumbing_stop plumbing_close_data
      split: once.split)

lemma plumbing_approve: "plumbing s \<Longrightarrow> plumbing (approveHandshake s)"
proof -
  have "plumbing (fold (\<lambda>i. emit (Payload i)) xs s) = plumbing s" for xs s
    by (induction xs arbitrary: s) simp_all
  then show "plumbing s \<Longrightarrow> ?thesis"
    by (simp add: approveHandshake_def processBufferedSpineMessages_def Let_def plumbing_setState plumbing_stop)
qed

interpretation plumb: handler_invariant plumbing
  by unfold_locales (simp_all add: plumbing_setState plumbing_set_timer plumbing_stop plumbing_is_closed
      plumbing_write plumbing_close_unsafe plumbing_approve)

lemma plumbing_CloseConnection: "plumbing s \<Longrightarrow> plumbing (CloseConnection b c r s)"
  by (simp add: CloseConnection_def CloseConnection_with_def Let_def plumbing_stop plumbing_close_data
      plumb.I_send split: once.split)

interpretation plumb_conn: conn_invariant plumbing "\<lambda>_. True"
proof unfold_locales
  fix s rd assume "plumbing s"
  then show "plumbing (s\<lparr>dataWriter := snd (read_turn rd (dataWriter s))\<rparr>)"
    using ws_inv_step [of "dataWriter s" "WsRead rd"] wsStarted_step [of "WsRead rd" "dataWriter s"]
    by (simp add: plumbing_def)
next
  fix s assume "plumbing s"
  then show "plumbing (s\<lparr>dataWriter := read_recover (dataWriter s)\<rparr>)"
    using ws_inv_step [of "dataWriter s" WsReadPanic] wsStarted_step [of WsReadPanic "dataWriter s"]
    by (simp add: plumbing_def)
next
  fix s e assume "plumbing s"
  then show "plumbing (s\<lparr>dataWriter := ws_step e (dataWriter s)\<rparr>)"
    by (simp add: plumbing_def ws_inv_step)
qed (simp_all add: plumbing_CloseConnection plumbing_close_data,
     simp_all add: plumbing_def timer_inv_fire timer_inv_callback)

text \<open>
  In any run of a connection the handshake timer's done channels are closed at most once and its
  running flag is right, and a message is never sent on the websocket's closed write channel.
\<close>

theorem connection_plumbing_sound:
  assumes "timer s = new_timer" "dataWriter s = InitDataProcessing (NewWebsocketConnection c ski)"
  shows "distinct (doneClosed (timer (ship_run es s)))
    \<and> getHandshakeTimerRunning (timer (ship_run es s)) = (handshakeTimer (timer (ship_run es s)) \<noteq> None)
    \<and> fst (WriteMessageToWebsocketConnection m (dataWriter (ship_run es s))) \<noteq> WPanic"
proof -
  have "plumbing s" using assms by (simp add: plumbing_def ws_inv_start)
  then have "plumbing (ship_run es s)" by (intro plumb_conn.I_ship_run) (simp_all add: list_all_iff)
  then show ?thesis
    using timer_invD(1,4)
    by (auto simp: plumbing_def getHandshakeTimerRunning_def ws_inv_def
        WriteMessageToWebsocketConnection_def isConnClosed_def)
qed

theorem connection_plumbing_sound_witness:
  "let s = ship_run [EvRun, EvTimerFires 1, EvTimerCallback 1, EvReport (Opaque ''reset'')]
             (test_conn ShipRoleServer [])
   in distinct (doneClosed (timer s))
    \<and> getHandshakeTimerRunning (timer s) = (handshakeTimer (timer s) \<noteq> None)
    \<and> fst (WriteMessageToWebsocketConnection ''x'' (dataWriter s)) \<noteq> WPanic"
  unfolding Let_def by (rule connection_plumbing_sound) simp_all

end
