(* ===== verification/EebusRoundtrip.thy ===== *)
theory EebusRoundtrip
  imports EebusJson
begin

text \<open>
  The two conversions of \<open>ship/helper.go\<close> are inverse on the JSON of the protocol: an object sent in
  the EEBUS form is read back as the text it was made from, when its strings hold no bracket or brace
  and it has no empty array. The four textual replacements of \<open>JsonFromEEBUSJson\<close> (and the removal of
  white space before them) are passes over a text: each turns one rendering of the value into the next.
\<close>

section \<open>Renderings\<close>

record style =
  obj_empty :: string
  obj_open :: string
  mem_sep :: string
  obj_close :: string

fun render :: "style \<Rightarrow> json \<Rightarrow> string" where
  "render st (JObj kvs) =
     (if kvs = [] then obj_empty st
      else obj_open st @ join (mem_sep st) (map (\<lambda>(k, v). quote_json k @ CHR '':'' # render st v) kvs)
           @ obj_close st)"
| "render st (JArr vs) = CHR ''['' # join '','' (map (render st) vs) @ '']''"
| "render st j = print_json j"

definition style0 :: style where
  "style0 = \<lparr>obj_empty = ''[]'', obj_open = ''[{'', mem_sep = ''},{'', obj_close = ''}]''\<rparr>"
definition style1 :: style where
  "style1 = \<lparr>obj_empty = ''[]'', obj_open = ''{'', mem_sep = ''},{'', obj_close = ''}]''\<rparr>"
definition style2 :: style where
  "style2 = \<lparr>obj_empty = ''[]'', obj_open = ''{'', mem_sep = '','', obj_close = ''}]''\<rparr>"
definition style3 :: style where
  "style3 = \<lparr>obj_empty = ''[]'', obj_open = ''{'', mem_sep = '','', obj_close = ''}''\<rparr>"
definition style4 :: style where
  "style4 = \<lparr>obj_empty = ''{}'', obj_open = ''{'', mem_sep = '','', obj_close = ''}''\<rparr>"

lemma style_simps [simp]:
  "obj_empty style0 = ''[]''" "obj_open style0 = ''[{''" "mem_sep style0 = ''},{''" "obj_close style0 = ''}]''"
  "obj_empty style1 = ''[]''" "obj_open style1 = ''{''" "mem_sep style1 = ''},{''" "obj_close style1 = ''}]''"
  "obj_empty style2 = ''[]''" "obj_open style2 = ''{''" "mem_sep style2 = '',''" "obj_close style2 = ''}]''"
  "obj_empty style3 = ''[]''" "obj_open style3 = ''{''" "mem_sep style3 = '',''" "obj_close style3 = ''}''"
  "obj_empty style4 = ''{}''" "obj_open style4 = ''{''" "mem_sep style4 = '',''" "obj_close style4 = ''}''"
  by (simp_all add: style0_def style1_def style2_def style3_def style4_def)

definition bracket :: "char \<Rightarrow> bool" where
  "bracket c \<longleftrightarrow> c = CHR ''['' \<or> c = CHR '']'' \<or> c = CHR ''{'' \<or> c = CHR ''}''"

definition bracket_free :: "string \<Rightarrow> bool" where
  "bracket_free s \<longleftrightarrow> (\<forall>c \<in> set s. \<not> bracket c)"

fun plain_json :: "json \<Rightarrow> bool" where
  "plain_json (JStr s) \<longleftrightarrow> bracket_free s"
| "plain_json (JArr vs) \<longleftrightarrow> vs \<noteq> [] \<and> (\<forall>v \<in> set vs. plain_json v)"
| "plain_json (JObj kvs) \<longleftrightarrow> (\<forall>p \<in> set kvs. bracket_free (fst p) \<and> plain_json (snd p))"
| "plain_json _ \<longleftrightarrow> True"

lemma render_style4: "render style4 j = print_json j"
proof (induction j rule: print_json.induct)
  case (6 kvs)
  have "map (\<lambda>(k, v). quote_json k @ CHR '':'' # render style4 v) kvs
      = map (\<lambda>(k, v). quote_json k @ '':'' @ print_json v) kvs"
    using 6 by (auto intro: map_cong)
  then show ?case by (simp del: map_eq_conv)
next
  case (5 vs)
  have "map (render style4) vs = map print_json vs" using 5 by (auto intro: map_cong)
  then show ?case by (simp del: map_eq_conv)
qed simp_all

lemma join_braces:
  "xs \<noteq> [] \<Longrightarrow> join '','' (map (\<lambda>x. CHR ''{'' # x @ ''}'') xs) = CHR ''{'' # join ''},{'' xs @ ''}''"
  by (induction xs) (auto simp: join_Cons)

lemma print_process: "print_json (process_eebus j) = render style0 j"
proof (induction j rule: process_eebus.induct)
  case (1 kvs)
  have eq: "map print_json (map (\<lambda>(k, v). JObj [(k, process_eebus v)]) kvs)
      = map (\<lambda>x. CHR ''{'' # x @ ''}'') (map (\<lambda>(k, v). quote_json k @ CHR '':'' # render style0 v) kvs)"
    using 1 by auto
  show ?case
    by (cases "kvs = []") (simp_all only: process_eebus.simps print_json.simps eq render.simps join_braces
        style_simps map_is_Nil_conv if_False list.map join.simps if_True simp_thms append_Cons append_Nil append.assoc)
next
  case (2 vs)
  have "map (print_json \<circ> process_eebus) vs = map (render style0) vs" using 2 by auto
  then show ?case by (simp del: map_eq_conv)
qed simp_all

section \<open>Passes\<close>

text \<open>A character that no pass looks at\<close>

definition unmarked :: "char \<Rightarrow> bool" where
  "unmarked c \<longleftrightarrow> \<not> bracket c \<and> c \<noteq> CHR 0x22 \<and> \<not> json_space c"

text \<open>
  A pass \<open>F\<close> turns the style \<open>A\<close> into the style \<open>B\<close> wherever the marks of an object occur, and copies
  strings, other characters and the brackets of an array whose first element starts as \<open>starts\<close> says.
\<close>

locale pass =
  fixes F :: "string \<Rightarrow> string" and A B :: style and starts :: "char \<Rightarrow> bool"
  assumes unmarked_copied: "unmarked c \<Longrightarrow> F (c # r) = c # F r"
    and string_copied: "bracket_free s \<Longrightarrow> F (quote_json s @ r) = quote_json s @ F r"
    and array_opened: "starts c \<Longrightarrow> F (CHR ''['' # c # r) = CHR ''['' # F (c # r)"
    and array_closed: "F (CHR '']'' # r) = CHR '']'' # F r"
    and obj_emptied: "F (obj_empty A @ r) = obj_empty B @ F r"
    and obj_opened: "F (obj_open A @ CHR 0x22 # r) = obj_open B @ F (CHR 0x22 # r)"
    and mem_separated: "F (mem_sep A @ CHR 0x22 # r) = mem_sep B @ F (CHR 0x22 # r)"
    and obj_closed: "F (obj_close A @ r) = obj_close B @ F r"
    and starts_value: "unmarked c \<or> c = CHR 0x22 \<or> c = CHR ''['' \<Longrightarrow> starts c"
    and starts_object: "obj_open A = c # cs \<Longrightarrow> starts c"
    and object_marks: "obj_open A \<noteq> []" "\<exists>cs. obj_empty A = CHR ''['' # cs"
begin

lemma unmarked_run: "\<forall>c \<in> set l. unmarked c \<Longrightarrow> F (l @ r) = l @ F r"
  by (induction l) (simp_all add: unmarked_copied)

lemma quote_first: "quote_json s = CHR 0x22 # tl (quote_json s)"
  by (simp add: quote_json_def)

lemma member_first: "\<exists>cs. join sep (map (\<lambda>(k, v). quote_json k @ CHR '':'' # f v) (p # ps)) = CHR 0x22 # cs"
  by (cases p) (simp add: join_Cons quote_json_def)

lemma render_first: "wf_json j \<Longrightarrow> \<exists>c cs. render A j = c # cs \<and> starts c"
proof (cases j)
  case (JNum l)
  assume "wf_json j"
  with JNum obtain c cs where "l = c # cs" "is_numchar c"
    by (cases l) (auto dest: valid_number_nonempty)
  moreover have "unmarked c" using \<open>is_numchar c\<close> numchar_not_mark [of c]
    by (auto simp: unmarked_def bracket_def)
  ultimately show ?thesis using JNum starts_value by auto
next
  case (JObj kvs)
  obtain c cs where o: "obj_open A = c # cs" using object_marks(1) by (cases "obj_open A") auto
  obtain es where e: "obj_empty A = CHR ''['' # es" using object_marks(2) by auto
  show ?thesis using JObj o e starts_object [OF o] starts_value [of "CHR ''[''"] by auto
next
  case (JStr s)
  then show ?thesis using starts_value by (simp add: quote_json_def)
next
  case (JArr vs)
  then show ?thesis using starts_value by simp
qed (use starts_value in \<open>auto simp: unmarked_def bracket_def json_space_def\<close>)

lemma comma_copied: "F (CHR '','' # r) = CHR '','' # F r"
  by (rule unmarked_copied) (simp add: unmarked_def bracket_def json_space_def)

lemma colon_copied: "F (CHR '':'' # r) = CHR '':'' # F r"
  by (rule unmarked_copied) (simp add: unmarked_def bracket_def json_space_def)

lemma elems_pass:
  assumes "\<And>v r. v \<in> set vs \<Longrightarrow> F (render A v @ r) = render B v @ F r" "vs \<noteq> []"
  shows "F (join '','' (map (render A) vs) @ r) = join '','' (map (render B) vs) @ F r"
  using assms
proof (induction vs arbitrary: r)
  case Nil
  then show ?case by simp
next
  case (Cons v vs)
  show ?case
  proof (cases "vs = []")
    case True
    with Cons.prems show ?thesis by simp
  next
    case False
    have "F (join '','' (map (render A) vs) @ r) = join '','' (map (render B) vs) @ F r"
      using Cons False by auto
    with Cons.prems(1) [of v] False show ?thesis by (simp add: join_Cons comma_copied)
  qed
qed

lemma members_pass:
  assumes "\<And>k v r. (k, v) \<in> set kvs \<Longrightarrow> bracket_free k \<and> F (render A v @ r) = render B v @ F r"
    and "kvs \<noteq> []"
  shows "F (join (mem_sep A) (map (\<lambda>(k, v). quote_json k @ CHR '':'' # render A v) kvs) @ r)
    = join (mem_sep B) (map (\<lambda>(k, v). quote_json k @ CHR '':'' # render B v) kvs) @ F r"
  using assms
proof (induction kvs arbitrary: r)
  case Nil
  then show ?case by simp
next
  case (Cons p kvs)
  obtain k v where p: "p = (k, v)" by (cases p)
  have pv: "bracket_free k" "F (render A v @ r') = render B v @ F r'" for r'
    using Cons.prems(1) [of k v] p by auto
  show ?case
  proof (cases kvs)
    case Nil
    with pv p show ?thesis by (simp add: string_copied colon_copied)
  next
    case (Cons q qs)
    let ?J = "join (mem_sep A) (map (\<lambda>(k, v). quote_json k @ CHR '':'' # render A v) kvs)"
    have ih: "F (?J @ r) = join (mem_sep B) (map (\<lambda>(k, v). quote_json k @ CHR '':'' # render B v) kvs) @ F r"
      using Cons.IH [of r] Cons.prems Cons by auto
    obtain cs where J: "?J = CHR 0x22 # cs" using member_first [of "mem_sep A" "render A" q qs] Cons by auto
    have "F (mem_sep A @ ?J @ r) = mem_sep B @ F (?J @ r)" using mem_separated [of "cs @ r"] J by simp
    with ih pv p Cons show ?thesis by (simp add: join_Cons string_copied colon_copied)
  qed
qed

lemma number_copied: "\<forall>c \<in> set l. is_numchar c \<Longrightarrow> F (l @ r) = l @ F r"
  using numchar_not_mark by (intro unmarked_run) (auto simp: unmarked_def bracket_def)

lemma render_pass: "wf_json j \<Longrightarrow> plain_json j \<Longrightarrow> F (render A j @ r) = render B j @ F r"
proof (induction j arbitrary: r rule: process_eebus.induct)
  case (1 kvs)
  have mem: "bracket_free k \<and> F (render A v @ r') = render B v @ F r'" if "(k, v) \<in> set kvs" for k v r'
    using that 1 by fastforce
  show ?case
  proof (cases kvs)
    case Nil
    then show ?thesis by (simp add: obj_emptied)
  next
    case (Cons q qs)
    let ?J = "join (mem_sep A) (map (\<lambda>(k, v). quote_json k @ CHR '':'' # render A v) kvs)"
    obtain cs where J: "?J = CHR 0x22 # cs" using member_first [of "mem_sep A" "render A" q qs] Cons by auto
    have "F (obj_open A @ ?J @ obj_close A @ r) = obj_open B @ F (?J @ obj_close A @ r)"
      using obj_opened [of "cs @ obj_close A @ r"] J by simp
    also have "F (?J @ obj_close A @ r)
        = join (mem_sep B) (map (\<lambda>(k, v). quote_json k @ CHR '':'' # render B v) kvs) @ F (obj_close A @ r)"
      using mem Cons by (intro members_pass) auto
    finally show ?thesis using Cons by (simp add: obj_closed)
  qed
next
  case (2 vs)
  then obtain v vs' where vs: "vs = v # vs'" by (cases vs) auto
  obtain c cs where c: "render A v = c # cs" "starts c" using render_first [of v] 2 vs by auto
  obtain js where J: "join '','' (map (render A) vs) = c # js"
    using c vs by (cases "vs' = []") (auto simp: join_Cons)
  have "F (CHR ''['' # join '','' (map (render A) vs) @ '']'' @ r)
      = CHR ''['' # F (join '','' (map (render A) vs) @ '']'' @ r)"
    using array_opened [OF c(2), of "js @ '']'' @ r"] J by simp
  also have "F (join '','' (map (render A) vs) @ '']'' @ r) = join '','' (map (render B) vs) @ F ('']'' @ r)"
    using 2 vs by (intro elems_pass) auto
  finally show ?case by (simp add: array_closed)
qed (simp_all add: string_copied number_copied unmarked_copied unmarked_def bracket_def
    json_space_def)

lemma object_members_pass:
  assumes "wf_json (JObj kvs)" "plain_json (JObj kvs)" "kvs \<noteq> []"
  shows "F (join (mem_sep A) (map (\<lambda>(k, v). quote_json k @ CHR '':'' # render A v) kvs) @ r)
    = join (mem_sep B) (map (\<lambda>(k, v). quote_json k @ CHR '':'' # render B v) kvs) @ F r"
  using assms by (intro members_pass) (fastforce intro: render_pass)+

end

section \<open>The passes of \<open>JsonFromEEBUSJson\<close>\<close>

lemma ReplaceAll_other: "old \<noteq> [] \<Longrightarrow> c \<noteq> hd old \<Longrightarrow> ReplaceAll old new (c # r) = c # ReplaceAll old new r"
  by (cases old) auto

lemma ReplaceAll_run:
  "old \<noteq> [] \<Longrightarrow> \<forall>c \<in> set l. c \<noteq> hd old \<Longrightarrow> ReplaceAll old new (l @ r) = l @ ReplaceAll old new r"
  by (induction l) (simp_all add: ReplaceAll_other del: ReplaceAll.simps)

lemma escape_char_bracket: "\<not> bracket c \<Longrightarrow> d \<in> set (escape_char c) \<Longrightarrow> \<not> bracket d"
proof -
  have hex: "\<not> bracket (hexdigit_lower n)" if "n < 16" for n
  proof -
    have "code (hexdigit_lower n) = (if n < 10 then 48 + n else 87 + n)"
      using that by (simp add: hexdigit_lower_def code_char_of)
    then show ?thesis using that by (auto simp: bracket_def split: if_splits)
  qed
  define h1 h2 where "h1 = hexdigit_lower (code c div 16)" and "h2 = hexdigit_lower (code c mod 16)"
  have h: "\<not> bracket h1" "\<not> bracket h2"
    using hex nibbles [of c] unfolding h1_def h2_def by blast+
  assume c: "\<not> bracket c" and "d \<in> set (escape_char c)"
  have lits: "\<not> bracket (CHR 0x5C)" "\<not> bracket (CHR 0x22)" "\<not> bracket (CHR ''b'')" "\<not> bracket (CHR ''f'')"
    "\<not> bracket (CHR ''n'')" "\<not> bracket (CHR ''r'')" "\<not> bracket (CHR ''t'')" "\<not> bracket (CHR ''u'')"
    "\<not> bracket (CHR ''0'')" by (simp_all add: bracket_def)
  have "list_all (\<lambda>d. \<not> bracket d) (escape_char c)"
    unfolding escape_char_def h1_def [symmetric] h2_def [symmetric]
    by (simp only: if_split list.pred_inject lits h c simp_thms)
  with \<open>d \<in> set (escape_char c)\<close> show ?thesis by (simp add: list_all_iff)
qed

lemma quote_bracket_free: "bracket_free s \<Longrightarrow> c \<in> set (quote_json s) \<Longrightarrow> \<not> bracket c"
  by (auto simp: quote_json_def bracket_free_def dest: escape_char_bracket) (auto simp: bracket_def)

lemma ReplaceAll_quote:
  "bracket_free s \<Longrightarrow> old \<noteq> [] \<Longrightarrow> bracket (hd old) \<Longrightarrow>
   ReplaceAll old new (quote_json s @ r) = quote_json s @ ReplaceAll old new r"
  by (rule ReplaceAll_run) (auto dest: quote_bracket_free)

lemma ReplaceAll_match: "old \<noteq> [] \<Longrightarrow> ReplaceAll old new (old @ r) = new @ ReplaceAll old new r"
  by (cases old) auto

lemma ReplaceAll_skip: "c \<noteq> b \<Longrightarrow> ReplaceAll (a # b # bs) new (a # c # r) = a # ReplaceAll (a # b # bs) new (c # r)"
  by simp

lemma ReplaceAll_matches:
  "ReplaceAll ''[{'' new (CHR ''['' # CHR ''{'' # r) = new @ ReplaceAll ''[{'' new r"
  "ReplaceAll ''},{'' new (CHR ''}'' # CHR '','' # CHR ''{'' # r) = new @ ReplaceAll ''},{'' new r"
  "ReplaceAll ''}]'' new (CHR ''}'' # CHR '']'' # r) = new @ ReplaceAll ''}]'' new r"
  "ReplaceAll ''[]'' new (CHR ''['' # CHR '']'' # r) = new @ ReplaceAll ''[]'' new r"
  by simp_all

lemma not_unmarked [simp]:
  "\<not> unmarked (CHR ''['')" "\<not> unmarked (CHR '']'')" "\<not> unmarked (CHR ''{'')" "\<not> unmarked (CHR ''}'')"
  by (simp_all add: unmarked_def bracket_def)

lemma unmarked_not: "unmarked c \<Longrightarrow> c \<noteq> CHR ''['' \<and> c \<noteq> CHR '']'' \<and> c \<noteq> CHR ''{'' \<and> c \<noteq> CHR ''}''"
  by auto

lemmas ReplaceAll_rules = ReplaceAll_other ReplaceAll_skip ReplaceAll_quote ReplaceAll_matches

interpretation pass1: pass "ReplaceAll ''[{'' ''{''" style0 style1 "\<lambda>c. c \<noteq> CHR ''{''"
  by unfold_locales (auto simp: ReplaceAll_rules unmarked_not bracket_def simp del: ReplaceAll.simps)

interpretation pass2: pass "ReplaceAll ''},{'' '',''" style1 style2 "\<lambda>_. True"
  by unfold_locales (auto simp: ReplaceAll_rules unmarked_not bracket_def simp del: ReplaceAll.simps)

interpretation pass3: pass "ReplaceAll ''}]'' ''}''" style2 style3 "\<lambda>_. True"
  by unfold_locales (auto simp: ReplaceAll_rules unmarked_not bracket_def simp del: ReplaceAll.simps)

interpretation pass4: pass "ReplaceAll ''[]'' ''{}''" style3 style4 "\<lambda>c. c \<noteq> CHR '']''"
  by unfold_locales (auto simp: ReplaceAll_rules unmarked_not bracket_def simp del: ReplaceAll.simps)

section \<open>White space\<close>

lemma strip_inside: "c \<noteq> CHR 0x5C \<Longrightarrow> c \<noteq> CHR 0x22 \<Longrightarrow> t \<noteq> [] \<Longrightarrow> strip_ws True (c # t) = c # strip_ws True t"
  by (cases t) simp_all

lemma strip_escaped: "t \<noteq> [] \<Longrightarrow> strip_ws True (CHR 0x5C # d # t) = CHR 0x5C # d # strip_ws True t"
  by simp

lemma hexdigit_lower_plain:
  "n < 16 \<Longrightarrow> hexdigit_lower n \<noteq> CHR 0x5C \<and> hexdigit_lower n \<noteq> CHR 0x22"
proof -
  assume n: "n < 16"
  then have "code (hexdigit_lower n) = (if n < 10 then 48 + n else 87 + n)"
    by (simp add: hexdigit_lower_def code_char_of)
  then have "code (hexdigit_lower n) \<noteq> 92 \<and> code (hexdigit_lower n) \<noteq> 34"
    using n by (simp split: if_splits)
  then show ?thesis by auto
qed

lemma strip_escape_char: "t \<noteq> [] \<Longrightarrow> strip_ws True (escape_char c @ t) = escape_char c @ strip_ws True t"
proof -
  assume t: "t \<noteq> []"
  define h1 h2 where "h1 = hexdigit_lower (code c div 16)" and "h2 = hexdigit_lower (code c mod 16)"
  have h: "h1 \<noteq> CHR 0x5C" "h1 \<noteq> CHR 0x22" "h2 \<noteq> CHR 0x5C" "h2 \<noteq> CHR 0x22"
    using hexdigit_lower_plain nibbles [of c] unfolding h1_def h2_def by blast+
  show ?thesis
  proof (cases "c = CHR 0x22 \<or> c = CHR 0x5C")
    case True
    then show ?thesis using t by (auto simp: escape_char_def strip_escaped simp del: strip_ws.simps)
  next
    case False
    then show ?thesis
      unfolding escape_char_def h1_def [symmetric] h2_def [symmetric]
      using t h by (simp add: strip_escaped strip_inside del: strip_ws.simps split: if_split)
  qed
qed

lemma strip_string: "strip_ws True (concat (map escape_char s) @ CHR 0x22 # r)
    = concat (map escape_char s) @ CHR 0x22 # strip_ws False r"
proof (induction s)
  case Nil
  then show ?case by (cases r) simp_all
next
  case (Cons c s)
  then show ?case by (simp add: strip_escape_char del: strip_ws.simps)
qed

lemma strip_other: "\<not> json_space c \<Longrightarrow> c \<noteq> CHR 0x22 \<Longrightarrow> strip_ws False (c # r) = c # strip_ws False r"
  by simp

lemma strip_quote: "strip_ws False (quote_json s @ r) = quote_json s @ strip_ws False r"
proof -
  have "strip_ws False (quote_json s @ r) = CHR 0x22 # strip_ws True (concat (map escape_char s) @ CHR 0x22 # r)"
    by (simp add: quote_json_def json_space_def)
  then show ?thesis by (simp only: strip_string) (simp add: quote_json_def)
qed

interpretation pass0: pass "strip_ws False" style0 style0 "\<lambda>_. True"
  by unfold_locales (auto simp: strip_quote strip_other unmarked_def simp del: strip_ws.simps)

section \<open>Round trip\<close>

lemma trim_where_framed: "\<not> P c \<Longrightarrow> \<not> P d \<Longrightarrow> trim_where P (c # m @ [d]) = c # m @ [d]"
  by (simp add: trim_where_def)

text \<open>The text of a non-empty object as it is sent, without its outermost brackets\<close>

abbreviation members_text :: "style \<Rightarrow> (string \<times> json) list \<Rightarrow> string" where
  "members_text st kvs \<equiv> join (mem_sep st) (map (\<lambda>(k, v). quote_json k @ CHR '':'' # render st v) kvs)"

definition eebus_text :: "json \<Rightarrow> string" where
  "eebus_text j = TrimSuffix (TrimPrefix (print_json (process_eebus j)) ''['') '']''"

lemma eebus_text_obj:
  "kvs \<noteq> [] \<Longrightarrow> eebus_text (JObj kvs) = CHR ''{'' # members_text style0 kvs @ ''}''"
proof -
  assume "kvs \<noteq> []"
  then have "print_json (process_eebus (JObj kvs)) = ''['' @ (CHR ''{'' # members_text style0 kvs @ ''}'') @ '']''"
    unfolding print_process by simp
  then show ?thesis
    unfolding eebus_text_def by (simp only:) (simp add: TrimPrefix_def TrimSuffix_def)
qed

lemma JsonIntoEEBUSJson_text:
  "om (print_json j) = Some j \<Longrightarrow> JsonIntoEEBUSJson om (print_json j) = Inr (eebus_text j)"
  by (simp add: JsonIntoEEBUSJson_def eebus_text_def)

lemma compact_id: "strip_ws False t = t \<Longrightarrow> (case Compact t of None \<Rightarrow> t | Some c \<Rightarrow> c) = t"
  by (simp add: Compact_def)

lemma from_eebus_text:
  assumes "kvs \<noteq> []" "wf_json (JObj kvs)" "plain_json (JObj kvs)"
  shows "JsonFromEEBUSJson (eebus_text (JObj kvs)) = print_json (JObj kvs)"
proof -
  let ?t = "CHR ''{'' # members_text style0 kvs @ ''}''"
  note m = assms(2,3,1)
  have trim: "trim_where zero_byte ?t = ?t"
    by (rule trim_where_framed) (simp_all add: zero_byte_def)
  have strip: "strip_ws False ?t = ?t"
    using pass0.object_members_pass [OF m, of "''}''"]
    by (simp add: strip_other del: strip_ws.simps) (simp add: json_space_def)
  have 1: "ReplaceAll ''[{'' ''{'' ?t = CHR ''{'' # members_text style1 kvs @ ''}''"
    using pass1.object_members_pass [OF m, of "''}''"] by (simp add: ReplaceAll_other)
  have 2: "ReplaceAll ''},{'' '','' (CHR ''{'' # members_text style1 kvs @ ''}'')
      = CHR ''{'' # members_text style2 kvs @ ''}''"
    using pass2.object_members_pass [OF m, of "''}''"] by (simp add: ReplaceAll_other)
  have 3: "ReplaceAll ''}]'' ''}'' (CHR ''{'' # members_text style2 kvs @ ''}'')
      = CHR ''{'' # members_text style3 kvs @ ''}''"
    using pass3.object_members_pass [OF m, of "''}''"] by (simp add: ReplaceAll_other)
  have 4: "ReplaceAll ''[]'' ''{}'' (CHR ''{'' # members_text style3 kvs @ ''}'')
      = CHR ''{'' # members_text style4 kvs @ ''}''"
    using pass4.object_members_pass [OF m, of "''}''"] by (simp add: ReplaceAll_other)
  have "JsonFromEEBUSJson ?t = eebus_replace ?t"
    unfolding JsonFromEEBUSJson_def Let_def trim by (simp only: compact_id [OF strip])
  also have "\<dots> = CHR ''{'' # members_text style4 kvs @ ''}''"
    unfolding eebus_replace_def 1 2 3 4 ..
  also have "\<dots> = print_json (JObj kvs)"
    using render_style4 [of "JObj kvs"] assms(1) by simp
  finally show ?thesis by (simp only: eebus_text_obj [OF assms(1)])
qed


definition sample_members :: "(string \<times> json) list" where
  "sample_members = [(''a'', JObj [(''b'', JNum ''1''), (''c'', JArr [JObj [(''d'', JObj [])], JStr ''x''])]),
     (''e'', JBool True)]"


text \<open>
  The replacements also work inside strings and on empty arrays: an object with the string
  \<open>},{\<close>, or with an empty array, is not read back as it was sent.
\<close>

theorem eebus_corrupts_strings:
  "JsonFromEEBUSJson (eebus_text (JObj [(''a'', JStr ''},{'')])) = print_json (JObj [(''a'', JStr '','')])
   \<and> JsonFromEEBUSJson (eebus_text (JObj [(''a'', JArr [])])) = print_json (JObj [(''a'', JObj [])])"
  by code_simp

end
