(* ===== verification/Numbers.thy ===== *)
theory Numbers
  imports Json
begin

text \<open>
  Decimal numbers: \<open>strconv.ParseUint\<close> reads back what \<open>strconv.Itoa\<close> and \<open>%d\<close> write.
\<close>

lemma digits_value_snoc: "digits_value a (xs @ [d]) = 10 * digits_value a xs + (code d - 48)"
  by (induction xs arbitrary: a) simp_all

lemma digit_code: "n < 10 \<Longrightarrow> code (char_of (48 + n) :: char) = 48 + n"
  by (simp add: code_char_of)

lemma Itoa_digits: "digits_value 0 (Itoa n) = n"
proof (induction n rule: Itoa.induct)
  case (1 n)
  then show ?case by (subst Itoa.simps) (simp add: digits_value_snoc digit_code)
qed

lemma is_digit_digit: "n < 10 \<Longrightarrow> is_digit (char_of (48 + n :: nat))"
  by (simp add: is_digit_def digit_code)

lemma Itoa_is_digit: "\<forall>c \<in> set (Itoa n). is_digit c"
proof (induction n rule: Itoa.induct)
  case (1 n)
  then show ?case by (subst Itoa.simps) (auto simp: is_digit_digit)
qed

lemma Itoa_nonempty [simp]: "Itoa n \<noteq> []"
  by (subst Itoa.simps) simp

lemma Itoa_first: "0 < n \<Longrightarrow> hd (Itoa n) \<noteq> CHR ''0''"
proof (induction n rule: Itoa.induct)
  case (1 n)
  show ?case
  proof (cases "n < 10")
    case True
    have "code (char_of (48 + n) :: char) \<noteq> 48" using True 1 by (simp add: digit_code)
    moreover have "code (CHR ''0'') = (48::nat)" by simp
    ultimately have "char_of (48 + n) \<noteq> CHR ''0''" by metis
    with True show ?thesis by (subst Itoa.simps) simp
  next
    case False
    with 1 show ?thesis by (subst Itoa.simps) (simp add: hd_append)
  qed
qed

lemma ParseUint_Itoa: "n < 2 ^ b \<Longrightarrow> ParseUint b (Itoa n) = Some n"
  using Itoa_is_digit [of n] by (simp add: ParseUint_def Itoa_digits)

end
