(* ===== verification/ShipMessages.thy ===== *)
theory ShipMessages
  imports ShipConn EebusRoundtrip Numbers
begin

text \<open>
  The messages of \<open>model/model.go\<close> on the wire: what \<open>shipMessage\<close> makes of a model,
  \<open>processShipJsonMessage\<close> and \<open>json.Unmarshal\<close> read back as the same model.
\<close>

section \<open>Numbers\<close>

lemma valid_number_Itoa: "valid_number (Itoa n)"
proof (cases "n = 0")
  case True
  have "char_of (48 :: nat) = CHR ''0''" by code_simp
  then have "Itoa 0 = ''0''" by (subst Itoa.simps) simp
  with True show ?thesis
    by (simp add: valid_number_def strip_int_def strip_frac_def strip_exp_def TrimPrefix_def)
next
  case False
  obtain c cs where i: "Itoa n = c # cs" by (cases "Itoa n") simp_all
  have d: "is_digit c" "\<forall>x \<in> set cs. is_digit x" "c \<noteq> CHR ''0''"
    using Itoa_is_digit [of n] Itoa_first [of n] False i by auto
  then have "c \<noteq> CHR ''-''" by (auto simp: is_digit_def)
  then have "TrimPrefix (Itoa n) ''-'' = Itoa n" by (simp add: TrimPrefix_def i)
  moreover have dw: "dropWhile is_digit cs = []" using d(2) by (simp add: dropWhile_eq_Nil_conv)
  ultimately show ?thesis using d i
    by (simp add: dw valid_number_def strip_int_def strip_frac_def strip_exp_def strip_digits_def)
qed

lemma wf_jnat [simp]: "wf_json (jnat n)" "plain_json (jnat n)" "distinct_keys (jnat n)"
  using Itoa_is_digit [of n] by (simp_all add: jnat_def valid_number_Itoa is_numchar_def)

lemma dec_uint_jnat [simp]: "n < 2 ^ b \<Longrightarrow> dec_uint b (jnat n) old = Some n"
  by (simp add: dec_uint_def jnat_def ParseUint_Itoa)

lemma jnat_not_null [simp]: "jnat n \<noteq> JNull"
  by (simp add: jnat_def)

section \<open>Sent and read\<close>

definition sendable :: "json \<Rightarrow> bool" where
  "sendable j \<longleftrightarrow> (\<exists>kvs. j = JObj kvs \<and> kvs \<noteq> []) \<and> wf_json j \<and> plain_json j \<and> distinct_keys j"

lemma read_sent: "sendable j \<Longrightarrow> processShipJsonMessage dec zero (ty # eebus_text j) = dec j zero"
proof -
  assume s: "sendable j"
  then obtain kvs where j: "j = JObj kvs" "kvs \<noteq> []" "wf_json j" "plain_json j" by (auto simp: sendable_def)
  have "JsonFromEEBUSJson (eebus_text j) = print_json j"
    unfolding j(1) by (rule from_eebus_text) (use j in auto)
  then show ?thesis
    by (simp only: processShipJsonMessage_def parseMessage_def list.case snd_conv if_True Unmarshal_def
        parse_print_json [OF j(3)] Option.bind.simps)
qed

lemma made_text: "sendable j \<Longrightarrow> ordered_map_ok om \<Longrightarrow> JsonIntoEEBUSJson om (print_json j) = Inr (eebus_text j)"
  by (rule JsonIntoEEBUSJson_text) (auto simp: sendable_def ordered_map_ok_def simp del: print_json.simps)

lemmas sendable_simps = sendable_def bracket_free_def bracket_def omit_def

lemma fields_found [simp]:
  "go_field names k = Some k" if "k \<in> set names"
  using that by (simp add: go_field_def)

lemma dec_string_str [simp]: "dec_string (JStr s) old = Some s"
  by (simp add: dec_string_def)

lemma dec_bool_bool [simp]: "dec_bool (JBool b) old = Some b"
  by (simp add: dec_bool_def)

definition hello_ok :: "hello \<Rightarrow> bool" where
  "hello_ok h \<longleftrightarrow> bracket_free (Phase h) \<and> (\<forall>w. Waiting h = Some w \<longrightarrow> w < 2 ^ 64)"

lemma sendable_hello: "hello_ok h \<Longrightarrow> sendable (hello_to_json h)"
  by (auto simp: hello_ok_def hello_to_json_def sendable_simps split: option.split)

lemma dec_hello_sent: "hello_ok h \<Longrightarrow> dec_hello (hello_to_json h) zero_hello = Some h"
  by (cases h; cases "Waiting h"; cases "ProlongationRequest h")
     (auto simp: hello_ok_def hello_to_json_def dec_hello_def dec_struct_def dec_ptr_def omit_def zero_hello_def)

definition handshake_ok :: "protocol_handshake \<Rightarrow> bool" where
  "handshake_ok p \<longleftrightarrow> bracket_free (HandshakeType p) \<and> Major (Version p) < 2 ^ 8 \<and> Minor (Version p) < 2 ^ 8
     \<and> (\<forall>fs. Formats p = Some fs \<longrightarrow> fs \<noteq> [] \<and> (\<forall>f \<in> set fs. bracket_free f))"

lemma sendable_handshake: "handshake_ok p \<Longrightarrow> sendable (handshake_to_json p)"
  by (auto simp: handshake_ok_def handshake_to_json_def sendable_simps split: option.split)

lemma dec_all_strings [simp]: "dec_all dec_string [] (map JStr fs) = Some fs"
  by (induction fs) simp_all

lemma dec_handshake_sent: "handshake_ok p \<Longrightarrow> dec_handshake (handshake_to_json p) zero_handshake = Some p"
  by (cases p; cases "Version p"; cases "Formats p")
     (auto simp: handshake_ok_def handshake_to_json_def dec_handshake_def dec_version_def dec_struct_def
       dec_slice_def zero_handshake_def)

definition pin_ok :: "pin_state \<Rightarrow> bool" where
  "pin_ok p \<longleftrightarrow> bracket_free (PinState p) \<and> (\<forall>i. InputPermission p = Some i \<longrightarrow> bracket_free i)"

lemma sendable_pin: "pin_ok p \<Longrightarrow> sendable (pin_to_json p)"
  by (auto simp: pin_ok_def pin_to_json_def sendable_simps split: option.split)

lemma dec_pin_sent: "pin_ok p \<Longrightarrow> dec_pin (pin_to_json p) zero_pin = Some p"
  by (cases p; cases "InputPermission p")
     (auto simp: pin_to_json_def dec_pin_def dec_struct_def dec_ptr_def omit_def zero_pin_def)

definition close_ok :: "connection_close \<Rightarrow> bool" where
  "close_ok c \<longleftrightarrow> bracket_free (ClosePhase c) \<and> (\<forall>m. MaxTime c = Some m \<longrightarrow> m < 2 ^ 64)
     \<and> (\<forall>r. Reason c = Some r \<longrightarrow> bracket_free r)"

lemma sendable_close: "close_ok c \<Longrightarrow> sendable (close_to_json c)"
  by (auto simp: close_ok_def close_to_json_def sendable_simps split: option.split)

lemma dec_close_sent: "close_ok c \<Longrightarrow> dec_close (close_to_json c) zero_close = Some c"
  by (cases c; cases "MaxTime c"; cases "Reason c")
     (auto simp: close_ok_def close_to_json_def dec_close_def dec_struct_def dec_ptr_def omit_def zero_close_def)

definition access_ok :: "access_methods \<Rightarrow> bool" where
  "access_ok a \<longleftrightarrow> (\<forall>i. Id a = Some i \<longrightarrow> bracket_free i) \<and> (\<forall>u. DnsUri a = Some u \<longrightarrow> bracket_free u)"

lemma sendable_access: "access_ok a \<Longrightarrow> sendable (access_to_json a)"
  by (auto simp: access_ok_def access_to_json_def sendable_simps split: option.split)

lemma dec_access_sent: "access_ok a \<Longrightarrow> dec_access (access_to_json a) zero_access = Some a"
  by (cases a; cases "Id a"; cases "DnsSdMDns a"; cases "DnsUri a")
     (auto simp: access_to_json_def dec_access_def dec_struct_def dec_ptr_def dec_unit_def omit_def zero_access_def)

lemma sendable_request [simp]: "sendable access_request_to_json"
  by (simp add: access_request_to_json_def sendable_simps)

lemma sendable_error [simp]: "sendable (handshake_error_to_json e)"
  by (simp add: handshake_error_to_json_def sendable_simps)

text \<open>What \<open>shipMessage\<close> makes of a model, behind the type byte\<close>

lemma sent_read:
  assumes "ordered_map_ok om" "sendable j" "dec j zero = Some x"
  shows "\<exists>t. JsonIntoEEBUSJson om (print_json j) = Inr t \<and> processShipJsonMessage dec zero (ty # t) = Some x"
  using made_text [OF assms(2,1)] read_sent [OF assms(2), of dec zero ty] assms(3) by metis



end
