(* ===== verification/ShipPhases.thy ===== *)
theory ShipPhases
  imports ShipDelivery ShipMessages
begin

text \<open>
  The phases of the handshake one by one: the answers to invalid CMI messages, the selection of the
  protocol, the timing of the hello phase, and a whole handshake of a client and a server.
\<close>

section \<open>A quiet websocket\<close>

text \<open>Nothing happens below between two calls, and the connection is open with room for messages.\<close>

definition quiet :: "ship_conn \<Rightarrow> bool" where
  "quiet s \<longleftrightarrow> (\<forall>k. net s k = []) \<and> wsStarted (dataWriter s) \<and> \<not> connectionClosed (dataWriter s)
     \<and> \<not> channelClosed (dataWriter s)"

definition room :: "nat \<Rightarrow> ship_conn \<Rightarrow> bool" where
  "room n s \<longleftrightarrow> length (shipWriteChannel (dataWriter s)) + n \<le> DefaultWriteBufferSize"

definition outbox :: "ship_conn \<Rightarrow> bytes list" where
  "outbox s = shipWriteChannel (dataWriter s)"

text \<open>\<open>k\<close> calls of the websocket later, with the messages \<open>ms\<close> more in its channel\<close>

definition sent_more :: "nat \<Rightarrow> bytes list \<Rightarrow> ship_conn \<Rightarrow> ship_conn" where
  "sent_more k msgs s = s\<lparr>netClock := netClock s + k,
     dataWriter := (dataWriter s)\<lparr>shipWriteChannel := shipWriteChannel (dataWriter s) @ msgs\<rparr>\<rparr>"

lemma sent_more_proj [simp]:
  "role (sent_more k m s) = role s" "remoteSKI (sent_more k m s) = remoteSKI s"
  "remoteShipID (sent_more k m s) = remoteShipID s" "localShipID (sent_more k m s) = localShipID s"
  "info (sent_more k m s) = info s" "dataReader (sent_more k m s) = dataReader s"
  "net (sent_more k m s) = net s" "orderedMap (sent_more k m s) = orderedMap s"
  "smeState (sent_more k m s) = smeState s" "timer (sent_more k m s) = timer s"
  "lastReceivedWaitingValue (sent_more k m s) = lastReceivedWaitingValue s"
  "shutdownOnce (sent_more k m s) = shutdownOnce s" "stuck (sent_more k m s) = stuck s"
  "spineBuffer (sent_more k m s) = spineBuffer s" "tasks (sent_more k m s) = tasks s"
  "panicked (sent_more k m s) = panicked s" "eff (sent_more k m s) = eff s"
  "outbox (sent_more k m s) = outbox s @ m" "quiet (sent_more k m s) = quiet s"
  by (simp_all add: sent_more_def outbox_def quiet_def)

lemma write_quiet:
  "quiet s \<Longrightarrow> room 1 s \<Longrightarrow> write_websocket m s = (None, sent_more 1 [m] s)"
  by (simp add: quiet_def room_def write_websocket_def net_tick_def ws_run_def sent_more_def
      WriteMessageToWebsocketConnection_def isConnClosed_def Let_def)

lemma is_closed_quiet:
  "quiet s \<Longrightarrow> is_data_connection_closed s = ((False, connectionClosedError (dataWriter s)), sent_more 1 [] s)"
  by (simp add: quiet_def is_data_connection_closed_def net_tick_def ws_run_def sent_more_def
      IsDataConnectionClosed_def isConnClosed_def connClosedError_def Let_def)

lemma sent_more_sent_more: "sent_more k a (sent_more j b s) = sent_more (j + k) (b @ a) s"
  by (simp add: sent_more_def add.assoc)

lemma room_sent_more [simp]: "room n (sent_more k m s) = room (n + length m) s"
  by (simp add: room_def sent_more_def algebra_simps)

lemma send_quiet:
  assumes "quiet s" "room 1 s" "ordered_map_ok (orderedMap s)" "sendable j"
  shows "sendShipModel ty j s = (None, sent_more 2 [ty # eebus_text j] s)"
  using assms
  by (simp add: sendShipModel_def shipMessage_def is_closed_quiet made_text write_quiet
      sent_more_sent_more numeral_2_eq_2 del: print_json.simps)

lemma room_mono: "room n s \<Longrightarrow> m \<le> n \<Longrightarrow> room m s"
  by (simp add: room_def)

lemma quiet_proj [simp]:
  "quiet (set_timer ty d s) = quiet s" "quiet (stop_timer_safe s) = quiet s" "quiet (stop_timer s) = quiet s"
  "quiet (setState st e s) = quiet s" "quiet (emit ef s) = quiet s" "quiet (s\<lparr>timer := t\<rparr>) = quiet s"
  "room n (set_timer ty d s) = room n s" "room n (stop_timer_safe s) = room n s"
  "room n (stop_timer s) = room n s"
  "room n (setState st e s) = room n s" "room n (emit ef s) = room n s"
  "outbox (set_timer ty d s) = outbox s" "outbox (stop_timer_safe s) = outbox s"
  "outbox (stop_timer s) = outbox s"
  "outbox (setState st e s) = outbox s" "outbox (emit ef s) = outbox s"
  "outbox (s\<lparr>shutdownOnce := on\<rparr>) = outbox s" "quiet (s\<lparr>shutdownOnce := on\<rparr>) = quiet s"
  "outbox (s\<lparr>tasks := ts\<rparr>) = outbox s" "quiet (s\<lparr>tasks := ts\<rparr>) = quiet s"
  "outbox (s\<lparr>stuck := st'\<rparr>) = outbox s"
  by (simp_all add: quiet_def room_def outbox_def)

lemmas handleState_at = handleState_step_simps [of _ handleState, folded handleState_unfold]

section \<open>CMI\<close>

lemma outbox_CloseData: "(\<forall>k. net s k = []) \<Longrightarrow> outbox (close_data_connection c r s) = outbox s"
  by (simp add: outbox_def close_data_connection_def net_tick_def ws_run_def CloseDataConnection_def
      writeMessageWithoutErrorHandling_def Let_def split: option.split)

lemma closed_CloseData:
  "\<not> wsShutdown (dataWriter s) \<Longrightarrow> (\<forall>k. net s k = []) \<Longrightarrow> connectionClosed (dataWriter (close_data_connection c r s))"
  by (simp add: close_data_connection_def net_tick_def ws_run_def CloseDataConnection_def
      writeMessageWithoutErrorHandling_def Let_def split: option.split)

lemma outbox_end:
  "(\<forall>k. net s k = []) \<Longrightarrow> outbox (endHandshakeWithError e s) = outbox s"
  by (simp add: endHandshakeWithError_def CloseConnection_not_complete close_unsafe_def CloseConnection_with_def
      getState_def outbox_CloseData Let_def split: once.split)

lemma closed_end:
  "(\<forall>k. net s k = []) \<Longrightarrow> shutdownOnce s = OnceFresh \<Longrightarrow> \<not> wsShutdown (dataWriter s) \<Longrightarrow>
   connectionClosed (dataWriter (endHandshakeWithError e s))"
  by (simp add: endHandshakeWithError_def CloseConnection_not_complete close_unsafe_def CloseConnection_with_def
      getState_def closed_CloseData Let_def)

text \<open>A CMI message with a wrong type or a wrong value\<close>

definition invalid_cmi :: "bytes \<Rightarrow> bool" where
  "invalid_cmi m \<longleftrightarrow> (\<exists>h d. m = h # d \<and> (h \<noteq> MsgTypeInit \<or> d \<noteq> [] \<and> code (hd d) \<noteq> (0::nat)))"

text \<open>
  C13. An invalid CMI message ends the handshake with an error and closes the websocket; a server first
  answers with a CMI message, a client answers nothing.
\<close>

theorem invalid_cmi_rejected:
  assumes "invalid_cmi m" "quiet s" "room 1 s" "shutdownOnce s = OnceFresh" "\<not> wsShutdown (dataWriter s)"
    and "smeState s = (if role s = ShipRoleServer then CmiStateServerWait else CmiStateClientWait)"
  shows "smeState (handleState False m s) = SmeStateError
    \<and> connectionClosed (dataWriter (handleState False m s))
    \<and> outbox (handleState False m s) = outbox s @ (if role s = ShipRoleServer then [ShipInit] else [])"
proof -
  obtain h d where m: "m = h # d" "h \<noteq> MsgTypeInit \<or> d \<noteq> [] \<and> code (hd d) \<noteq> (0::nat)"
    using assms(1) by (auto simp: invalid_cmi_def)
  have net: "\<forall>k. net s k = []" using assms(2) by (simp add: quiet_def)
  show ?thesis
  proof (cases "role s")
    case ShipRoleServer
    let ?s = "setState CmiStateServerEvaluate None s"
    have "handleState False m s = snd (handshakeInit_cmiStateEvaluate m ?s)"
      using assms(6) ShipRoleServer m
      by (simp add: handleState_at handshakeInit_cmiStateServerWait_def
          handshakeInit_cmiStateEvaluate_def parseMessage_def split: bool.split)
    also have "\<dots> = endHandshakeWithError
        (Opaque (if h \<noteq> MsgTypeInit then ''invalid SHIP MessageType, expected 0 and got '' @ byte_text h
                 else ''invalid SHIP MessageValue, expected 0 and got '' @ d))
        (sent_more 1 [ShipInit] ?s)"
      using m assms(2,3) ShipRoleServer
      by (simp add: handshakeInit_cmiStateEvaluate_def parseMessage_def rejectInvalidCmiMessage_def write_quiet)
    finally show ?thesis
      using net assms(4,5) ShipRoleServer by (simp add: outbox_end closed_end) (simp add: sent_more_def closed_end)
  next
    case ShipRoleClient
    let ?s = "setState CmiStateClientEvaluate None s"
    have "handleState False m s = snd (handshakeInit_cmiStateEvaluate m ?s)"
      using assms(6) ShipRoleClient m
      by (simp add: handleState_at handshakeInit_cmiStateClientWait_def
          handshakeInit_cmiStateEvaluate_def parseMessage_def split: bool.split)
    also have "\<dots> = endHandshakeWithError
        (Opaque (if h \<noteq> MsgTypeInit then ''invalid SHIP MessageType, expected 0 and got '' @ byte_text h
                 else ''invalid SHIP MessageValue, expected 0 and got '' @ d)) ?s"
      using m ShipRoleClient
      by (simp add: handshakeInit_cmiStateEvaluate_def parseMessage_def rejectInvalidCmiMessage_def)
    finally show ?thesis using net assms(4,5) ShipRoleClient by (simp add: outbox_end closed_end)
  qed
qed

text \<open>An open server connection in state \<open>st\<close>, for the witnesses\<close>

abbreviation at :: "sme_state \<Rightarrow> ship_conn \<Rightarrow> ship_conn" where
  "at st s \<equiv> s\<lparr>smeState := st\<rparr>"

lemma ws_start_simps [simp]:
  "wsShutdown (ws_start ski) = False" "connectionClosed (ws_start ski) = False"
  "channelClosed (ws_start ski) = False" "shipWriteChannel (ws_start ski) = []"
  "readerUp (ws_start ski)" "writerUp (ws_start ski)" "wsConn (ws_start ski)"
  by (simp_all add: InitDataProcessing_def run_pumps_def NewWebsocketConnection_def)

lemma quiet_at [simp]:
  "quiet (at st s) = quiet s" "room n (at st s) = room n s" "outbox (at st s) = outbox s"
  by (simp_all add: quiet_def room_def outbox_def)

lemma quiet_test [simp]: "quiet (test_conn r i)" "room n (test_conn r i) = (n \<le> 256)"
  "outbox (test_conn r i) = []"
  by (simp_all add: quiet_def room_def outbox_def DefaultWriteBufferSize_def)

theorem invalid_cmi_rejected_witness:
  "let s = at CmiStateServerWait (test_conn ShipRoleServer []); s' = handleState False [MsgTypeControl] s
   in smeState s' = SmeStateError \<and> connectionClosed (dataWriter s')
      \<and> outbox s' = outbox s @ (if role s = ShipRoleServer then [ShipInit] else [])"
  unfolding Let_def
  by (rule invalid_cmi_rejected) (simp_all add: invalid_cmi_def MsgTypeControl_def MsgTypeInit_def)

section \<open>Selection of the protocol\<close>

definition acceptable_select :: "protocol_handshake \<Rightarrow> bool" where
  "acceptable_select p \<longleftrightarrow> HandshakeType p = Select \<and> Version p = \<lparr>Major = 1, Minor = 0\<rparr>
     \<and> Formats p = Some [FormatUTF8]"

lemma pin_none_ok: "sendable (pin_to_json \<lparr>PinState = PinNone, InputPermission = None\<rparr>)"
  by (rule sendable_pin) (simp add: pin_ok_def bracket_free_def bracket_def)

lemma select_sendable: "sendable (handshake_to_json (protocolHandshake Select))"
  "sendable (handshake_to_json (protocolHandshake AnnounceMax))"
  by (rule sendable_handshake; simp add: handshake_ok_def protocolHandshake_def bracket_free_def bracket_def)+

text \<open>What the client sends when it takes the selection\<close>

definition client_confirms :: "bytes list" where
  "client_confirms = [MsgTypeControl # eebus_text (handshake_to_json (protocolHandshake Select)),
     MsgTypeControl # eebus_text (pin_to_json \<lparr>PinState = PinNone, InputPermission = None\<rparr>)]"

lemma handleState_ClientOk:
  "smeState s = SmeProtHStateClientOk \<or> smeState s = SmeProtHStateServerOk \<Longrightarrow>
   handleState t m s = handshakePin_Init (setState SmePinStateCheckInit None s)"
  by (auto simp: handleState_at setAndHandleState_def)

lemma pin_init_quiet:
  assumes "quiet s" "room 1 s" "ordered_map_ok (orderedMap s)"
  shows "handshakePin_Init s = setState SmePinStateCheckListen None
    (sent_more 2 [MsgTypeControl # eebus_text (pin_to_json \<lparr>PinState = PinNone, InputPermission = None\<rparr>)]
       (setState SmePinStateCheckInit None s))"
  using assms by (simp add: handshakePin_Init_def send_quiet pin_none_ok)

lemma pin_init_states:
  "smeState (handshakePin_Init s) = SmePinStateCheckListen \<or> smeState (handshakePin_Init s) = SmeStateError"
  by (simp add: handshakePin_Init_def case_prod_beta split: option.split)

text \<open>
  The client goes on with the handshake only on a selection of version 1.0 with the single format
  JSON-UTF8, whatever else happens on the connection; and on an open connection it does, confirming the
  selection and sending its PIN state.
\<close>

theorem client_accepts_only_1_0:
  assumes "smeState s = SmeProtHStateClientListenChoice"
  shows "(smeState (handleState False m s) = SmePinStateCheckListen \<longrightarrow>
       (\<exists>p. processShipJsonMessage dec_handshake zero_handshake m = Some p \<and> acceptable_select p))
    \<and> (quiet s \<and> room 2 s \<and> ordered_map_ok (orderedMap s)
         \<and> (\<exists>p. processShipJsonMessage dec_handshake zero_handshake m = Some p \<and> acceptable_select p) \<longrightarrow>
       smeState (handleState False m s) = SmePinStateCheckListen
       \<and> outbox (handleState False m s) = outbox s @ client_confirms)"
proof -
  let ?h = "handshakeProtocol_smeProtHStateClientListenChoice handleState m (stop_timer_safe s)"
  have h: "handleState False m s = ?h" using assms by (simp add: handleState_at)
  have "\<exists>p. processShipJsonMessage dec_handshake zero_handshake m = Some p \<and> acceptable_select p"
    if "smeState ?h = SmePinStateCheckListen"
  proof (rule ccontr)
    assume "\<not> ?thesis"
    then have "smeState ?h \<in> {SmeStateError, SmeProtHStateClientListenChoice}"
      using assms
      by (auto simp: handshakeProtocol_smeProtHStateClientListenChoice_def acceptable_select_def Let_def
          length_Suc_conv split: option.splits intro!: version.equality)
    with that show False by auto
  qed
  moreover have "smeState ?h = SmePinStateCheckListen \<and> outbox ?h = outbox s @ client_confirms"
    if "quiet s" "room 2 s" "ordered_map_ok (orderedMap s)"
      "processShipJsonMessage dec_handshake zero_handshake m = Some p" "acceptable_select p" for p
    using that room_mono [of 2 s 1]
    by (simp add: handshakeProtocol_smeProtHStateClientListenChoice_def acceptable_select_def Let_def
        send_quiet select_sendable setAndHandleState_def handleState_ClientOk pin_init_quiet client_confirms_def
        numeral_2_eq_2)
  ultimately show ?thesis unfolding h by blast
qed

theorem client_accepts_only_1_0_witness:
  "let s = at SmeProtHStateClientListenChoice (test_conn ShipRoleClient []);
       m = MsgTypeControl # eebus_text (handshake_to_json (protocolHandshake Select))
   in smeState (handleState False m s) = SmePinStateCheckListen
      \<and> outbox (handleState False m s) = outbox s @ client_confirms"
proof -
  let ?s = "at SmeProtHStateClientListenChoice (test_conn ShipRoleClient [])"
  let ?m = "MsgTypeControl # eebus_text (handshake_to_json (protocolHandshake Select))"
  have "handshake_ok (protocolHandshake Select)"
    by (simp add: handshake_ok_def protocolHandshake_def bracket_free_def bracket_def)
  then have "processShipJsonMessage dec_handshake zero_handshake ?m = Some (protocolHandshake Select)"
    by (simp only: read_sent select_sendable dec_handshake_sent)
  moreover have "acceptable_select (protocolHandshake Select)"
    by (simp add: acceptable_select_def protocolHandshake_def)
  ultimately show ?thesis
    unfolding Let_def using client_accepts_only_1_0 [of ?s ?m] ordered_map_ref_ok by simp
qed

text \<open>A selection whose list of formats is empty but not nil: it is valid JSON only after the
  replacements, so the space in the list is not removed and \<open>[ ]\<close> is not replaced.\<close>

definition bad_select :: bytes where
  "bad_select = MsgTypeControl # ''[{'' @ quote_json ''messageProtocolHandshake'' @ '':{''
     @ quote_json ''handshakeType'' @ '':'' @ quote_json ''select'' @ '',''
     @ quote_json ''version'' @ '':{'' @ quote_json ''major'' @ '':1,'' @ quote_json ''minor'' @ '':0},''
     @ quote_json ''formats'' @ '':{'' @ quote_json ''format'' @ '':[ ]}}}''"

lemma bad_select_read:
  "processShipJsonMessage dec_handshake zero_handshake bad_select
     = Some \<lparr>HandshakeType = ''select'', Version = \<lparr>Major = 1, Minor = 0\<rparr>, Formats = Some []\<rparr>"
  by code_simp

lemma bad_select_no_close: "map_option ClosePhase (processShipJsonMessage dec_close zero_close bad_select) = Some []"
  by code_simp

lemma bad_select_no_datagram: "\<not> hasSpineDatagram bad_select" "2 < length bad_select"
  by code_simp+

text \<open>
  A selection with an empty format list makes the client index into an empty slice: the reading
  goroutine panics, with the handshake timer already stopped, the state unchanged and nothing sent.
\<close>

theorem empty_formats_panic:
  assumes "smeState s = SmeProtHStateClientListenChoice"
  shows "panicked (HandleIncomingWebsocketMessage bad_select s)
    \<and> smeState (HandleIncomingWebsocketMessage bad_select s) = SmeProtHStateClientListenChoice
    \<and> eff (HandleIncomingWebsocketMessage bad_select s) = eff s
    \<and> timer (HandleIncomingWebsocketMessage bad_select s) = snd (stopTimerSafe (timer s))"
proof -
  obtain c where "processShipJsonMessage dec_close zero_close bad_select = Some c" "ClosePhase c = []"
    using bad_select_no_close by auto
  then have "HandleIncomingWebsocketMessage bad_select s = (stop_timer_safe s)\<lparr>panicked := True\<rparr>"
    using assms bad_select_no_datagram
    by (simp add: HandleIncomingWebsocketMessage_def handleShipMessage_def handleState_at
        handshakeProtocol_smeProtHStateClientListenChoice_def bad_select_read)
  then show ?thesis using assms by (simp add: stop_timer_safe_def)
qed

theorem empty_formats_panic_witness:
  "panicked (HandleIncomingWebsocketMessage bad_select (at SmeProtHStateClientListenChoice (test_conn ShipRoleClient [])))"
  using empty_formats_panic [of "at SmeProtHStateClientListenChoice (test_conn ShipRoleClient [])"] by simp

end
