(* ===== verification/ShipHello.thy ===== *)
theory ShipHello
  imports ShipPhases
begin

text \<open>
  The hello phase (\<open>ship/hs_hello.go\<close>): the waiting values of the peer and the timers they set, the
  timeout of a pending hello, and the approval of a pending handshake.
\<close>

section \<open>Waiting values\<close>

lemma waiting_duration_small:
  assumes "int w * 1000000 < 2 ^ 63"
  shows "waiting_duration w = int w * 1000000"
proof -
  have "(word_of_nat w * 1000000 :: 64 word) = word_of_int (int w * 1000000)" by simp
  then have "waiting_duration w = signed_take_bit 63 (int w * 1000000)"
    unfolding waiting_duration_def by (simp only: signed_of_int) simp
  also have "\<dots> = int w * 1000000"
    using assms by (intro signed_take_bit_int_eq_self) auto
  finally show ?thesis .
qed

lemma handleState_Abort:
  "smeState s = SmeHelloStateAbort \<Longrightarrow> handleState t m s = handshakeHello_Abort handleState s"
  by (simp add: handleState_at)

lemma handleState_PendingListen:
  "smeState s = SmeHelloStatePendingListen \<Longrightarrow> handleState t m s = handshakeHello_PendingListen handleState t m s"
  by (simp add: handleState_at)

lemma armed_set_timer:
  "handshakeTimer (timer (set_timer ty d s)) = Some (nextTimer (timer s))"
  "(nextTimer (timer s), d) \<in> set (armed (timer (set_timer ty d s)))"
  "handshakeTimerType (timer (set_timer ty d s)) = ty"
  by (simp_all add: set_timer_def setHandshakeTimer_def Let_def)

definition current_timer :: "ship_conn \<Rightarrow> timer_type \<Rightarrow> duration \<Rightarrow> bool" where
  "current_timer s ty d \<longleftrightarrow> handshakeTimerType (timer s) = ty
     \<and> (\<exists>i. handshakeTimer (timer s) = Some i \<and> (i, d) \<in> set (armed (timer s)))"

lemma current_set_timer [simp]: "current_timer (set_timer ty d s) ty d"
  unfolding current_timer_def by (metis armed_set_timer)

lemma stop_safe_none:
  "timer_inv (timer s) \<Longrightarrow> handshakeTimer (timer (stop_timer_safe s)) = None"
  by (simp add: timer_inv_def stop_timer_safe_def stopTimerSafe_def Let_def)

text \<open>
  A pending hello with a waiting value of at least 30 seconds sets the timer that asks for a
  prolongation 30 seconds before the value is over, and one below a second aborts. Between one and
  thirty seconds nothing happens but that the running timer is stopped: the connection waits in
  \<open>PendingListen\<close> without any timer.
\<close>

theorem pending_hello_waiting:
  assumes "smeState s = SmeHelloStatePendingListen" "timer_inv (timer s)"
    and "processShipJsonMessage dec_hello zero_hello m = Some h"
    and "Phase h = PhasePending" "Waiting h = Some w" "ProlongationRequest h = None"
    and "int w * 1000000 < 2 ^ 63" and "s' = handleState False m s"
  shows "(30000 \<le> w \<longrightarrow> smeState s' = SmeHelloStatePendingListen
            \<and> current_timer s' SendProlongationRequest (ms (int w) - sec 30))
    \<and> (1000 \<le> w \<and> w < 30000 \<longrightarrow> smeState s' = SmeHelloStatePendingListen
            \<and> handshakeTimer (timer s') = None \<and> eff s' = eff s \<and> outbox s' = outbox s)
    \<and> (w < 1000 \<longrightarrow> smeState s' \<in> {SmeHelloStateAbortDone, SmeStateError})"
proof -
  let ?d = "int w * 1000000"
  let ?s = "(stop_timer_safe s)\<lparr>lastReceivedWaitingValue := ?d\<rparr>"
  have s': "s' = snd (pending_waiting handleState ?d ?s)"
    using assms
    by (simp add: handleState_PendingListen handshakeHello_PendingListen_def waiting_duration_small Let_def)
  have stopped: "handshakeTimer (timer ?s) = None" using stop_safe_none [OF assms(2)] by simp
  have st: "smeState ?s = SmeHelloStatePendingListen" using assms(1) by simp
  have "30000 \<le> w \<Longrightarrow> s' = set_timer SendProlongationRequest (ms (int w) - sec 30) ?s"
    by (simp add: s' pending_waiting_def tHelloProlongThrInc_def tHelloProlongMin_def)
  moreover have "1000 \<le> w \<and> w < 30000 \<Longrightarrow> s' = ?s"
    by (simp add: s' pending_waiting_def tHelloProlongThrInc_def tHelloProlongMin_def)
  moreover have "w < 1000 \<Longrightarrow> s' = setAndHandleState handleState SmeHelloStateAbort ?s"
    by (simp add: s' pending_waiting_def tHelloProlongThrInc_def tHelloProlongMin_def)
  ultimately show ?thesis
    using stopped st Abort_ends [of ?s] by (auto simp: outbox_def)
qed

lemma hello_read:
  "hello_ok h \<Longrightarrow>
   processShipJsonMessage dec_hello zero_hello (MsgTypeControl # eebus_text (hello_to_json h)) = Some h"
  by (simp only: read_sent sendable_hello dec_hello_sent)

theorem pending_hello_waiting_witness:
  "let s = at SmeHelloStatePendingListen (test_conn ShipRoleServer []);
       m = MsgTypeControl # eebus_text (hello_to_json
             \<lparr>Phase = PhasePending, Waiting = Some 10000, ProlongationRequest = None\<rparr>);
       s' = handleState False m s
   in smeState s' = SmeHelloStatePendingListen \<and> handshakeTimer (timer s') = None \<and> outbox s' = outbox s"
proof -
  let ?h = "\<lparr>Phase = PhasePending, Waiting = Some 10000, ProlongationRequest = None\<rparr>"
  have "hello_ok ?h" by (simp add: hello_ok_def bracket_free_def bracket_def)
  note r = hello_read [OF this]
  show ?thesis unfolding Let_def
    using pending_hello_waiting [OF _ _ r, of "at SmeHelloStatePendingListen (test_conn ShipRoleServer [])" 10000]
    by simp
qed

text \<open>
  A ready hello received while pending: with a waiting value of at least 30 seconds the timer for
  the prolongation request is set, with any smaller one the handshake is aborted, also between one and
  thirty seconds, where the message is handled a second time without its text.
\<close>

theorem ready_hello_while_pending:
  assumes "smeState s = SmeHelloStatePendingListen"
    and "processShipJsonMessage dec_hello zero_hello m = Some h"
    and "Phase h = PhaseReady" "Waiting h = Some w"
    and "int w * 1000000 < 2 ^ 63" and "s' = handleState False m s"
  shows "(30000 \<le> w \<longrightarrow> smeState s' = SmeHelloStatePendingListen
            \<and> current_timer s' SendProlongationRequest (ms (int w) - sec 30))
    \<and> (w < 30000 \<longrightarrow> smeState s' \<in> {SmeHelloStateAbortDone, SmeStateError})"
proof -
  let ?d = "int w * 1000000" and ?s = "stop_timer_safe s"
  have s': "s' = (case pending_waiting handleState ?d ?s of
      (True, s1) \<Rightarrow> s1 | (False, s1) \<Rightarrow> handleState False [] s1)"
    using assms by (simp add: handleState_PendingListen handshakeHello_PendingListen_def waiting_duration_small)
  have st: "smeState ?s = SmeHelloStatePendingListen" using assms(1) by simp
  have big: "30000 \<le> w \<Longrightarrow> s' = set_timer SendProlongationRequest (ms (int w) - sec 30) ?s"
    by (simp add: s' pending_waiting_def tHelloProlongThrInc_def tHelloProlongMin_def)
  have mid: "1000 \<le> w \<and> w < 30000 \<Longrightarrow> s' = setAndHandleState handleState SmeHelloStateAbort ?s"
    using PendingListen_nil(2) [OF st]
    by (simp add: s' pending_waiting_def tHelloProlongThrInc_def tHelloProlongMin_def)
  have small: "w < 1000 \<Longrightarrow> s' = handleState False [] (setAndHandleState handleState SmeHelloStateAbort ?s)"
    by (simp add: s' pending_waiting_def tHelloProlongThrInc_def tHelloProlongMin_def)
  have again: "smeState (handleState False [] t) = smeState t"
    if "smeState t \<in> {SmeHelloStateAbortDone, SmeStateError}" for t
    using that by (auto simp: handleState_at)
  show ?thesis
    using big mid small st Abort_ends [of ?s] again [OF Abort_ends [of ?s]]
    by (cases "w < 1000"; cases "w < 30000") auto
qed

theorem ready_hello_while_pending_witness:
  "let s = at SmeHelloStatePendingListen (test_conn ShipRoleServer []);
       m = MsgTypeControl # eebus_text (hello_to_json
             \<lparr>Phase = PhaseReady, Waiting = Some 60000, ProlongationRequest = None\<rparr>)
   in current_timer (handleState False m s) SendProlongationRequest (sec 30)"
proof -
  let ?h = "\<lparr>Phase = PhaseReady, Waiting = Some 60000, ProlongationRequest = None\<rparr>"
  have "hello_ok ?h" by (simp add: hello_ok_def bracket_free_def bracket_def)
  note r = hello_read [OF this]
  show ?thesis unfolding Let_def
    using ready_hello_while_pending [OF _ r, of "at SmeHelloStatePendingListen (test_conn ShipRoleServer [])" 60000]
    by simp
qed

text \<open>
  The conversion of the waiting value wraps around: a peer that asks to wait for 9223372036855 ms,
  the first value whose nanoseconds do not fit, has a negative duration, which aborts the handshake.
\<close>

theorem waiting_value_wraps:
  "waiting_duration 9223372036854 = 9223372036854000000
   \<and> waiting_duration 9223372036855 < tHelloProlongMin"
  by (simp add: waiting_duration_def tHelloProlongMin_def signed_take_bit_eq_take_bit_minus) 

section \<open>Timeout of a pending hello\<close>

lemma hello_prolong_ok: "sendable (hello_to_json (hello_message PhasePending 0 True))"
  by (rule sendable_hello) (simp add: hello_ok_def hello_message_def bracket_free_def bracket_def)

text \<open>
  When the user no longer allows waiting and no waiting value of the peer was stored, the timer for
  the reply to the prolongation request is set to 66 microseconds: the milliseconds of the default
  timeout, times 1.1, are taken as nanoseconds.
\<close>

theorem pending_timeout_microseconds:
  assumes "smeState s = SmeHelloStatePendingListen" "\<not> allowWaiting (info s)"
    and "handshakeTimerType (timer s) = SendProlongationRequest" "lastReceivedWaitingValue s = 0"
    and "quiet s" "room 1 s" "ordered_map_ok (orderedMap s)"
  shows "current_timer (handleState True m s) ProlongRequestReply 66000
    \<and> getHelloInitTimeout = sec 60 \<and> smeState (handleState True m s) = SmeHelloStatePendingListen"
proof -
  have "handleState True m s = handshakeHello_PendingTimeout handleState s"
    using assms by (simp add: handleState_PendingListen handshakeHello_PendingListen_def)
  then show ?thesis
    using assms by (simp add: handshakeHello_PendingTimeout_def getHandshakeTimerType_def handshakeHelloSend_def
        send_quiet hello_prolong_ok prolong_fallback_def getHelloInitTimeout_def tHelloInit_def Let_def)
qed

definition late_pending :: ship_conn where
  "late_pending = (set_timer SendProlongationRequest (sec 30)
     (at SmeHelloStatePendingListen (test_conn ShipRoleServer [])))
       \<lparr>info := \<lparr>paired = False, autoAccept = False, allowWaiting = False\<rparr>\<rparr>"

theorem pending_timeout_microseconds_witness:
  "current_timer (handleState True [] late_pending) ProlongRequestReply 66000"
proof -
  have "quiet late_pending" "room 1 late_pending"
    by (simp_all add: late_pending_def quiet_def room_def DefaultWriteBufferSize_def)
  then show ?thesis
    using pending_timeout_microseconds [of late_pending "[]"] ordered_map_ref_ok
    by (simp add: late_pending_def armed_set_timer)
qed

section \<open>Approval\<close>

lemma hello_ready_ok: "sendable (hello_to_json (hello_message PhaseReady getHelloInitTimeout False))"
  "sendable (hello_to_json (hello_message PhaseAborted 0 False))"
  "sendable (hello_to_json (hello_message PhasePending getHelloInitTimeout False))"
  by (rule sendable_hello; simp add: hello_ok_def hello_message_def bracket_free_def bracket_def
      getHelloInitTimeout_def tHelloInit_def)+

abbreviation hello_text :: "string \<Rightarrow> duration \<Rightarrow> bytes" where
  "hello_text phase d \<equiv> MsgTypeControl # eebus_text (hello_to_json (hello_message phase d False))"

lemma ready_init_quiet:
  assumes "smeState s = SmeHelloStateReadyInit" "quiet s" "room 1 s" "ordered_map_ok (orderedMap s)"
  shows "handleState t m s = setState SmeHelloStateReadyListen None
    (sent_more 2 [hello_text PhaseReady getHelloInitTimeout] s)"
  using assms by (simp add: handleState_at handshakeHello_Init_def handshakeHelloSend_def send_quiet hello_ready_ok)

lemma abort_quiet:
  assumes "smeState s = SmeHelloStateAbort" "quiet s" "room 1 s" "ordered_map_ok (orderedMap s)"
  shows "smeState (handleState t m s) = SmeHelloStateAbortDone
    \<and> outbox (handleState t m s) = outbox s @ [hello_text PhaseAborted 0]"
  using assms
  by (simp add: handleState_at handshakeHello_Abort_def handshakeHelloSend_def send_quiet hello_ready_ok
      setAndHandleState_def)

text \<open>
  Approving a pending handshake on an open connection sends the ready hello and, when the service
  is still trusted by the hub, goes on to the protocol handshake; otherwise it aborts and says so. An
  approval in any other state changes nothing.
\<close>

theorem approve_pending_handshake:
  assumes "role s = ShipRoleServer" "quiet s" "room 2 s" "ordered_map_ok (orderedMap s)"
  shows "(smeState s \<noteq> SmeHelloStatePendingListen \<longrightarrow> ApproveIfPending s = (False, s))
    \<and> (smeState s = SmeHelloStatePendingListen \<and> paired (info s) \<and> allowWaiting (info s) \<longrightarrow>
         fst (ApproveIfPending s)
         \<and> smeState (snd (ApproveIfPending s)) = SmeProtHStateServerListenProposal
         \<and> outbox (snd (ApproveIfPending s)) = outbox s @ [hello_text PhaseReady getHelloInitTimeout])
    \<and> (smeState s = SmeHelloStatePendingListen \<and> \<not> (paired (info s) \<and> allowWaiting (info s)) \<longrightarrow>
         \<not> fst (ApproveIfPending s)
         \<and> smeState (snd (ApproveIfPending s)) = SmeHelloStateAbortDone
         \<and> outbox (snd (ApproveIfPending s)) = outbox s
             @ [hello_text PhaseReady getHelloInitTimeout, hello_text PhaseAborted 0])"
proof -
  let ?r = "setState SmeHelloStateReadyListen None
    (sent_more 2 [hello_text PhaseReady getHelloInitTimeout] (stop_timer_safe (at SmeHelloStateReadyInit s)))"
  have r1: "room 1 s" using assms(3) by (rule room_mono) simp
  have claim: "approve_claim s = (True, ?r)" if "smeState s = SmeHelloStatePendingListen"
    using that assms r1 by (simp add: approve_claim_def ready_init_quiet)
  have valid: "validateConnectionBeforeApproval ?r = (paired (info s) \<and> allowWaiting (info s), sent_more 1 [] ?r)"
    using assms by (simp add: validateConnectionBeforeApproval_def is_closed_quiet Let_def)
  let ?v = "sent_more 1 [] ?r"
  have ok: "handleState False [] (setState SmeHelloStateOk None ?v)
      = setState SmeProtHStateServerListenProposal None (set_timer WaitForReady cmiTimeout
          (setState SmeProtHStateServerInit None (setState SmeHelloStateOk None ?v)))"
    using assms(1) by (simp add: handleState_at handshakeProtocol_Init_def)
  have no: "smeState (handleState False [] (setState SmeHelloStateAbort None ?v)) = SmeHelloStateAbortDone
      \<and> outbox (handleState False [] (setState SmeHelloStateAbort None ?v))
        = outbox s @ [hello_text PhaseReady getHelloInitTimeout, hello_text PhaseAborted 0]"
    using abort_quiet [of "setState SmeHelloStateAbort None ?v" False "[]"] assms by (simp add: numeral_2_eq_2)
  show ?thesis
    using claim valid ok no
    by (auto simp: ApproveIfPending_def approve_finish_def setAndHandleState_def approve_claim_def Let_def)
qed

theorem approve_pending_handshake_witness:
  "\<not> fst (ApproveIfPending (at SmeHelloStatePendingListen (test_conn ShipRoleServer [])))"
  using approve_pending_handshake [of "at SmeHelloStatePendingListen (test_conn ShipRoleServer [])"]
    ordered_map_ref_ok by simp

end
