(* ===== verification/ShipSession.thy ===== *)
theory ShipSession
  imports ShipHello
begin

text \<open>
  A whole handshake: a client and a server connection whose websockets carry the messages of one to the
  other, from \<open>Run\<close> to the data exchange.
\<close>

section \<open>Two connections\<close>

text \<open>The oldest message in the write channel of \<open>a\<close> is written by its pump and read by \<open>b\<close>.\<close>

definition transfer :: "ship_conn \<Rightarrow> ship_conn \<Rightarrow> ship_conn \<times> ship_conn" where
  "transfer a b = (case outbox a of
     [] \<Rightarrow> (a, b)
   | m # rest \<Rightarrow> (ship_step (EvPump (WsPumpMessage None)) a, ship_step (EvRead (Inr (BinaryMessage, m))) b))"

definition exchange :: "ship_conn \<times> ship_conn \<Rightarrow> ship_conn \<times> ship_conn" where
  "exchange p = (let (c, s) = p; (c1, s1) = transfer c s; (s2, c2) = transfer s1 c1 in (c2, s2))"

section \<open>One connection\<close>

text \<open>A connection in state \<open>st\<close> with the messages \<open>box\<close> to send, ready to read\<close>

definition node :: "ship_role \<Rightarrow> string \<Rightarrow> string \<Rightarrow> sme_state \<Rightarrow> bytes list \<Rightarrow> ship_conn \<Rightarrow> bool" where
  "node r lid rid st box s \<longleftrightarrow> role s = r \<and> localShipID s = lid \<and> remoteShipID s = rid
     \<and> smeState s = st \<and> outbox s = box \<and> quiet s \<and> ordered_map_ok (orderedMap s) \<and> trusted s
     \<and> readerUp (dataWriter s) \<and> writerUp (dataWriter s) \<and> wsConn (dataWriter s)
     \<and> TaskConfirmSent \<notin> set (tasks s) \<and> \<not> panicked s"

lemma ws_up [simp]:
  "readerUp (dataWriter (sent_more k m s)) = readerUp (dataWriter s)"
  "writerUp (dataWriter (sent_more k m s)) = writerUp (dataWriter s)"
  "wsConn (dataWriter (sent_more k m s)) = wsConn (dataWriter s)"
  by (simp_all add: sent_more_def)

lemma trusted_proj [simp]:
  "trusted (sent_more k m s) = trusted s" "trusted (setState st e s) = trusted s"
  "trusted (set_timer ty d s) = trusted s" "trusted (stop_timer_safe s) = trusted s"
  "trusted (s\<lparr>dataWriter := w\<rparr>) = trusted s"
  by (simp_all add: trusted_def)

lemma localShipID_approve [simp]: "localShipID (approveHandshake s) = localShipID s"
  "dataWriter (approveHandshake s) = dataWriter s" "net (approveHandshake s) = net s"
  "orderedMap (approveHandshake s) = orderedMap s" "panicked (approveHandshake s) = panicked s"
proof -
  have f: "localShipID (fold (\<lambda>i. emit (Payload i)) xs s) = localShipID s \<and>
      dataWriter (fold (\<lambda>i. emit (Payload i)) xs s) = dataWriter s \<and>
      net (fold (\<lambda>i. emit (Payload i)) xs s) = net s \<and>
      orderedMap (fold (\<lambda>i. emit (Payload i)) xs s) = orderedMap s \<and>
      panicked (fold (\<lambda>i. emit (Payload i)) xs s) = panicked s" for xs and s :: ship_conn
    by (induction xs arbitrary: s) simp_all
  show "localShipID (approveHandshake s) = localShipID s"
    "dataWriter (approveHandshake s) = dataWriter s" "net (approveHandshake s) = net s"
    "orderedMap (approveHandshake s) = orderedMap s" "panicked (approveHandshake s) = panicked s"
    by (simp_all add: approveHandshake_def processBufferedSpineMessages_def f Let_def)
qed

text \<open>Reading a message: the read pump hands it over.\<close>

lemma read_node:
  assumes "node r lid rid st box s" "2 \<le> length m"
    and "\<not> panicked (HandleIncomingWebsocketMessage m s)"
  shows "ship_step (EvRead (Inr (BinaryMessage, m))) s = HandleIncomingWebsocketMessage m s"
  using assms
  by (simp add: node_def quiet_def ship_step_def reader_blocked_def read_turn_def isConnClosed_def
      readWebsocketMessage_def checkWebsocketMessage_def BinaryMessage_def deliver_def)

lemma pump_node:
  assumes "node r lid rid st (m # box) s"
  shows "node r lid rid st box (ship_step (EvPump (WsPumpMessage None)) s)"
  using assms
  by (simp add: node_def ship_step_def is_pump_def write_message_def isConnClosed_def writeMessage_def
      writeMessageWithoutErrorHandling_def outbox_def quiet_def)

lemma incoming_control:
  assumes "sendable j" "dec_close j zero_close = Some zero_close"
    and "m = MsgTypeControl # eebus_text j" "\<not> hasSpineDatagram m" "2 < length m"
  shows "HandleIncomingWebsocketMessage m s = handleState False m s"
proof -
  have "processShipJsonMessage dec_close zero_close m = Some zero_close"
    unfolding assms(3) read_sent [OF assms(1)] by (rule assms(2))
  then show ?thesis using assms(4,5)
    by (simp add: HandleIncomingWebsocketMessage_def handleShipMessage_def zero_close_def)
qed

lemma not_close:
  "dec_close (hello_to_json h) zero_close = Some zero_close"
  "dec_close (handshake_to_json p) zero_close = Some zero_close"
  "dec_close (pin_to_json q) zero_close = Some zero_close"
  "dec_close access_request_to_json zero_close = Some zero_close"
  "dec_close (access_to_json a) zero_close = Some zero_close"
  by (simp_all add: dec_close_def dec_struct_def go_field_def EqualFold_def ToLower_def lower_def is_upper_def
      hello_to_json_def handshake_to_json_def pin_to_json_def access_request_to_json_def access_to_json_def)

section \<open>The messages\<close>

definition msg_ready :: bytes where "msg_ready = hello_text PhaseReady getHelloInitTimeout"
definition msg_announce :: bytes where
  "msg_announce = MsgTypeControl # eebus_text (handshake_to_json (protocolHandshake AnnounceMax))"
definition msg_select :: bytes where
  "msg_select = MsgTypeControl # eebus_text (handshake_to_json (protocolHandshake Select))"
definition msg_pin :: bytes where
  "msg_pin = MsgTypeControl # eebus_text (pin_to_json \<lparr>PinState = PinNone, InputPermission = None\<rparr>)"
definition msg_request :: bytes where
  "msg_request = MsgTypeControl # eebus_text access_request_to_json"
definition msg_access :: "string \<Rightarrow> bytes" where
  "msg_access i = MsgTypeControl # eebus_text (access_to_json \<lparr>Id = Some i, DnsSdMDns = None, DnsUri = None\<rparr>)"

lemma char_digits: "char_of (48 :: nat) = CHR ''0''" "char_of (54 :: nat) = CHR ''6''"
  by code_simp+

lemma Itoa_60000: "Itoa 60000 = ''60000''"
  by (simp add: Itoa.simps char_digits)

lemma msg_ready_text: "msg_ready = MsgTypeControl # eebus_text (JObj [(''connectionHello'',
    JObj [(''phase'', JStr PhaseReady), (''waiting'', JNum ''60000'')])])"
  by (simp add: msg_ready_def hello_to_json_def hello_message_def omit_def jnat_def getHelloInitTimeout_def
      tHelloInit_def Itoa_60000)

lemma ready_facts: "\<not> hasSpineDatagram msg_ready \<and> 2 < length msg_ready"
  unfolding msg_ready_text by code_simp

lemma fixed_messages:
  "\<not> hasSpineDatagram msg_announce" "\<not> hasSpineDatagram msg_select"
  "\<not> hasSpineDatagram msg_pin" "\<not> hasSpineDatagram msg_request"
  "2 < length msg_announce" "2 < length msg_select" "2 < length msg_pin"
  "2 < length msg_request" "\<not> hasSpineDatagram ShipInit"
  by code_simp+

text \<open>A SHIP identifier whose access methods message is taken for what it is\<close>

definition good_id :: "string \<Rightarrow> bool" where
  "good_id i \<longleftrightarrow> bracket_free i \<and> \<not> hasSpineDatagram (msg_access i)"

lemma take_ready: "HandleIncomingWebsocketMessage msg_ready s = handleState False msg_ready s"
  by (rule incoming_control [OF hello_ready_ok(1) not_close(1) msg_ready_def ready_facts [THEN conjunct1] ready_facts [THEN conjunct2]])

lemma take_announce: "HandleIncomingWebsocketMessage msg_announce s = handleState False msg_announce s"
  by (rule incoming_control [OF select_sendable(2) not_close(2) msg_announce_def fixed_messages(1,5)])

lemma take_select: "HandleIncomingWebsocketMessage msg_select s = handleState False msg_select s"
  by (rule incoming_control [OF select_sendable(1) not_close(2) msg_select_def fixed_messages(2,6)])

lemma take_pin: "HandleIncomingWebsocketMessage msg_pin s = handleState False msg_pin s"
  by (rule incoming_control [OF pin_none_ok not_close(3) msg_pin_def fixed_messages(3,7)])

lemma take_request: "HandleIncomingWebsocketMessage msg_request s = handleState False msg_request s"
  by (rule incoming_control [OF sendable_request not_close(4) msg_request_def fixed_messages(4,8)])

lemma access_sendable: "bracket_free i \<Longrightarrow> sendable (access_to_json \<lparr>Id = Some i, DnsSdMDns = None, DnsUri = None\<rparr>)"
  by (rule sendable_access) (simp add: access_ok_def)

lemma take_access:
  assumes "good_id i"
  shows "HandleIncomingWebsocketMessage (msg_access i) s = handleState False (msg_access i) s"
proof -
  have s: "sendable (access_to_json \<lparr>Id = Some i, DnsSdMDns = None, DnsUri = None\<rparr>)"
    using assms by (intro access_sendable) (simp add: good_id_def)
  have "2 < length (msg_access i)"
    by (simp add: msg_access_def eebus_text_obj access_to_json_def)
  with assms incoming_control [OF s not_close(5) msg_access_def] show ?thesis by (simp add: good_id_def)
qed

section \<open>The steps of a handshake\<close>

lemma node_room: "node r lid rid st box s \<Longrightarrow> length box + n \<le> 256 \<Longrightarrow> room n s"
  by (auto simp: node_def room_def outbox_def DefaultWriteBufferSize_def)

lemma read_step:
  assumes "node r lid rid st box s" "2 \<le> length m" "node r lid rid' st' box' (HandleIncomingWebsocketMessage m s)"
  shows "node r lid rid' st' box' (ship_step (EvRead (Inr (BinaryMessage, m))) s)"
proof -
  have "\<not> panicked (HandleIncomingWebsocketMessage m s)" using assms(3) by (simp add: node_def)
  from read_node [OF assms(1,2) this] assms(3) show ?thesis by simp
qed

lemma take_init: "HandleIncomingWebsocketMessage ShipInit s = handleState False ShipInit s"
  using fixed_messages(9)
  by (simp add: HandleIncomingWebsocketMessage_def handleShipMessage_def ShipInit_def)

lemma init_valid: "handshakeInit_cmiStateEvaluate ShipInit s = (True, s)"
  by (simp add: handshakeInit_cmiStateEvaluate_def parseMessage_def ShipInit_def MsgTypeInit_def)

lemma handleState_Hello:
  assumes "smeState s = SmeHelloState" "trusted s" "quiet s" "room 1 s" "ordered_map_ok (orderedMap s)"
  shows "handleState t m s = setState SmeHelloStateReadyListen None
    (sent_more 2 [msg_ready] (setState SmeHelloStateReadyInit None s))"
  using assms by (simp add: handleState_at(5) trusted_def ready_init_quiet msg_ready_def)

lemma node_server_init:
  assumes n: "node ShipRoleServer lid rid CmiStateServerWait box s" and l: "length box + 2 \<le> 256"
  shows "node ShipRoleServer lid rid SmeHelloStateReadyListen (box @ [ShipInit, msg_ready])
    (HandleIncomingWebsocketMessage ShipInit s)"
  using n node_room [OF n l] node_room [OF n, of 1] l
  by (simp add: take_init node_def handleState_at(4) handshakeInit_cmiStateServerWait_def init_valid write_quiet
      setAndHandleState_def handleState_Hello numeral_2_eq_2)

lemma node_client_init:
  assumes n: "node ShipRoleClient lid rid CmiStateClientWait box s" and l: "length box + 1 \<le> 256"
  shows "node ShipRoleClient lid rid SmeHelloStateReadyListen (box @ [msg_ready])
    (HandleIncomingWebsocketMessage ShipInit s)"
  using n node_room [OF n l]
  by (simp add: take_init node_def handleState_at(3) handshakeInit_cmiStateClientWait_def init_valid
      setAndHandleState_def handleState_Hello)

lemma read_ready: "processShipJsonMessage dec_hello zero_hello msg_ready
    = Some (hello_message PhaseReady getHelloInitTimeout False)"
  unfolding msg_ready_def
  by (rule hello_read) (simp add: hello_ok_def hello_message_def bracket_free_def bracket_def
      getHelloInitTimeout_def tHelloInit_def)

lemma node_server_ready:
  assumes n: "node ShipRoleServer lid rid SmeHelloStateReadyListen box s"
  shows "node ShipRoleServer lid rid SmeProtHStateServerListenProposal box
    (HandleIncomingWebsocketMessage msg_ready s)"
  using n
  by (simp add: take_ready node_def handleState_at handshakeHello_ReadyListen_def read_ready hello_message_def
      handshakeProtocol_Init_def)

lemma node_client_ready:
  assumes n: "node ShipRoleClient lid rid SmeHelloStateReadyListen box s" and l: "length box + 1 \<le> 256"
  shows "node ShipRoleClient lid rid SmeProtHStateClientListenChoice (box @ [msg_announce])
    (HandleIncomingWebsocketMessage msg_ready s)"
  using n node_room [OF n l]
  by (simp add: take_ready node_def handleState_at handshakeHello_ReadyListen_def read_ready hello_message_def
      handshakeProtocol_Init_def handshakeProtocol_smeProtHStateClientInit_def send_quiet select_sendable
      msg_announce_def)

lemma read_protocol:
  "processShipJsonMessage dec_handshake zero_handshake msg_announce = Some (protocolHandshake AnnounceMax)"
  "processShipJsonMessage dec_handshake zero_handshake msg_select = Some (protocolHandshake Select)"
proof -
  have ok: "handshake_ok (protocolHandshake AnnounceMax)" "handshake_ok (protocolHandshake Select)"
    by (simp_all add: handshake_ok_def protocolHandshake_def bracket_free_def bracket_def)
  show "processShipJsonMessage dec_handshake zero_handshake msg_announce = Some (protocolHandshake AnnounceMax)"
    "processShipJsonMessage dec_handshake zero_handshake msg_select = Some (protocolHandshake Select)"
    unfolding msg_announce_def msg_select_def
    by (simp_all only: read_sent select_sendable dec_handshake_sent [OF ok(1)] dec_handshake_sent [OF ok(2)])
qed

lemma node_server_announce:
  assumes n: "node ShipRoleServer lid rid SmeProtHStateServerListenProposal box s" and l: "length box + 1 \<le> 256"
  shows "node ShipRoleServer lid rid SmeProtHStateServerListenConfirm (box @ [msg_select])
    (HandleIncomingWebsocketMessage msg_announce s)"
  using n node_room [OF n l]
  by (simp add: take_announce node_def handleState_at handshakeProtocol_smeProtHStateServerListenProposal_def
      read_protocol protocolHandshake_def [of AnnounceMax] send_quiet select_sendable msg_select_def)

lemma protocol_fields [simp]:
  "HandshakeType (protocolHandshake ty) = ty" "Version (protocolHandshake ty) = \<lparr>Major = 1, Minor = 0\<rparr>"
  "Formats (protocolHandshake ty) = Some [FormatUTF8]"
  by (simp_all add: protocolHandshake_def)

lemma node_client_select:
  assumes n: "node ShipRoleClient lid rid SmeProtHStateClientListenChoice box s" and l: "length box + 2 \<le> 256"
  shows "node ShipRoleClient lid rid SmePinStateCheckListen (box @ [msg_select, msg_pin])
    (HandleIncomingWebsocketMessage msg_select s)"
  using n node_room [OF n l] node_room [OF n, of 1] l
  by (simp add: take_select node_def handleState_at(16) handshakeProtocol_smeProtHStateClientListenChoice_def
      read_protocol send_quiet select_sendable msg_select_def [symmetric] msg_pin_def [symmetric] Let_def
      setAndHandleState_def handleState_ClientOk pin_init_quiet numeral_2_eq_2)

lemma node_server_select:
  assumes n: "node ShipRoleServer lid rid SmeProtHStateServerListenConfirm box s" and l: "length box + 1 \<le> 256"
  shows "node ShipRoleServer lid rid SmePinStateCheckListen (box @ [msg_pin])
    (HandleIncomingWebsocketMessage msg_select s)"
  using n node_room [OF n l]
  by (simp add: take_select node_def handleState_at(15) handshakeProtocol_smeProtHStateServerListenConfirm_def
      read_protocol protocolHandshake_def [of Select] msg_pin_def
      setAndHandleState_def handleState_ClientOk pin_init_quiet)

lemma read_pin: "processShipJsonMessage dec_pin zero_pin msg_pin = Some \<lparr>PinState = PinNone, InputPermission = None\<rparr>"
  unfolding msg_pin_def
  by (simp only: read_sent pin_none_ok) (rule dec_pin_sent, simp add: pin_ok_def bracket_free_def bracket_def)

lemma node_pin:
  assumes n: "node r lid rid SmePinStateCheckListen box s" and l: "length box + 1 \<le> 256"
  shows "node r lid rid SmeAccessMethodsRequest (box @ [msg_request]) (HandleIncomingWebsocketMessage msg_pin s)"
  using n node_room [OF n l]
  by (simp add: take_pin node_def handleState_at(20,21) handshakePin_smePinStateCheckListen_def read_pin
      setAndHandleState_def handshakeAccessMethods_Init_def send_quiet msg_request_def)

section \<open>Access methods\<close>

lemma raw_single:
  assumes "wf_json v"
  shows "raw_object (print_json (JObj [(k, v)])) = Some [(k, print_json v)]"
proof -
  obtain c cs where v: "print_json v = c # cs" "\<not> json_space c" using print_json_first [OF assms] by auto
  have p: "parse_json (print_json (JObj [(k, v)])) = Some (JObj [(k, v)])"
    using assms by (intro parse_print_json) simp
  let ?t = "print_json v @ ''}''"
  have val: "parse_value (2 * length ?t + 2) ?t = Some (v, ''}'')"
    using reads_wf [OF assms] by (simp add: reads_def del: parse_value.simps)
  have str: "parse_str (tl (quote_json k @ CHR '':'' # ?t)) = Some (k, CHR '':'' # ?t)"
    by (simp add: quote_json_def parse_str_escape)
  obtain n where n: "length (print_json (JObj [(k, v)])) = Suc n" by simp
  have "raw_members (Suc n) (quote_json k @ CHR '':'' # ?t) = Some [(k, print_json v)]"
  proof -
    have sk: "skip_ws (quote_json k @ CHR '':'' # ?t) = quote_json k @ CHR '':'' # ?t"
      by (simp add: quote_json_def)
    have t: "skip_ws (tl (skip_ws (CHR '':'' # ?t))) = ?t" using v by simp
    have e: "take (length ?t - length ''}'') ?t = print_json v" by simp
    show ?thesis
      by (simp only: raw_members.simps sk str option.case prod.case t Let_def val) (simp add: e)
  qed
  moreover have "tl (skip_ws (print_json (JObj [(k, v)]))) = quote_json k @ CHR '':'' # ?t" by simp
  ultimately show ?thesis by (simp only: raw_object_def p option.case json.case list.case n)
qed

lemma parse_sent: "sendable j \<Longrightarrow> snd (parseMessage (ty # eebus_text j) True) = print_json j"
  by (auto simp: sendable_def parseMessage_def from_eebus_text simp del: print_json.simps)

lemma detect_request:
  "detectAccessMethodsMessageType (snd (parseMessage msg_request True)) = Inr AccessRequest"
proof -
  have "raw_object (print_json access_request_to_json) = Some [(''accessMethodsRequest'', print_json (JObj []))]"
    unfolding access_request_to_json_def by (rule raw_single) simp
  then show ?thesis
    unfolding msg_request_def parse_sent [OF sendable_request] detectAccessMethodsMessageType_def by simp
qed

lemma detect_access:
  assumes "bracket_free i"
  shows "detectAccessMethodsMessageType (snd (parseMessage (msg_access i) True)) = Inr AccessMethods"
    and "Unmarshal dec_access zero_access (snd (parseMessage (msg_access i) True))
      = Some \<lparr>Id = Some i, DnsSdMDns = None, DnsUri = None\<rparr>"
proof -
  let ?a = "\<lparr>Id = Some i, DnsSdMDns = None, DnsUri = None\<rparr>"
  have m: "snd (parseMessage (msg_access i) True) = print_json (access_to_json ?a)"
    unfolding msg_access_def by (rule parse_sent [OF access_sendable [OF assms]])
  have wf: "wf_json (access_to_json ?a)" using access_sendable [OF assms] by (simp add: sendable_def)
  then obtain v where v: "access_to_json ?a = JObj [(''accessMethods'', v)]" "wf_json v"
    by (simp add: access_to_json_def)
  show "detectAccessMethodsMessageType (snd (parseMessage (msg_access i) True)) = Inr AccessMethods"
    unfolding m v(1) by (simp only: detectAccessMethodsMessageType_def raw_single [OF v(2)]) simp
  show "Unmarshal dec_access zero_access (snd (parseMessage (msg_access i) True)) = Some ?a"
    unfolding m Unmarshal_def parse_print_json [OF wf] Option.bind.simps
    by (rule dec_access_sent) (use assms in \<open>simp add: access_ok_def\<close>)
qed

lemma node_request:
  assumes n: "node r lid rid SmeAccessMethodsRequest box s" and l: "length box + 1 \<le> 256" and "bracket_free lid"
  shows "node r lid rid SmeAccessMethodsRequest (box @ [msg_access lid]) (HandleIncomingWebsocketMessage msg_request s)"
  using n node_room [OF n l] access_sendable [OF assms(3)]
  by (simp add: take_request node_def handleState_at(22) handshakeAccessMethods_Request_def detect_request
      handleAccessMethodsRequest_def send_quiet end_on_error_def msg_access_def)

lemma node_access:
  assumes n: "node r lid rid SmeAccessMethodsRequest box s" and "good_id i" "rid = [] \<or> rid = i"
  shows "node r lid i SmeStateComplete box (HandleIncomingWebsocketMessage (msg_access i) s)
    \<and> dataReader (HandleIncomingWebsocketMessage (msg_access i) s)"
proof -
  have b: "bracket_free i" using assms(2) by (simp add: good_id_def)
  show ?thesis
    using n assms(3)
    by (auto simp: take_access [OF assms(2)] node_def handleState_at(22) handshakeAccessMethods_Request_def
        detect_access [OF b] handleAccessMethodsResponse_def trusted_def quiet_def outbox_def)
qed

section \<open>The whole handshake\<close>

lemma transfer_node:
  assumes "node r lid rid st (m # box) a" "node r' lid' rid' st' box' b" "2 \<le> length m"
    and "node r' lid' rid'' st'' box'' (HandleIncomingWebsocketMessage m b)"
  shows "\<exists>a' b'. transfer a b = (a', b') \<and> node r lid rid st box a' \<and> node r' lid' rid'' st'' box'' b'
    \<and> b' = HandleIncomingWebsocketMessage m b"
proof -
  have "outbox a = m # box" using assms(1) by (simp add: node_def)
  moreover have np: "\<not> panicked (HandleIncomingWebsocketMessage m b)" using assms(4) by (simp add: node_def)
  ultimately show ?thesis
    using pump_node [OF assms(1)] read_node [OF assms(2,3) np] assms(4) by (simp add: transfer_def)
qed

lemma transfer_empty: "outbox a = [] \<Longrightarrow> transfer a b = (a, b)"
  by (simp add: transfer_def)

lemma exchange_step:
  assumes "node r lid rid st (m # box) c" "node r' lid' rid' st' box' s" "2 \<le> length m"
    and "node r' lid' rid2 st2 (m2 # box2) (HandleIncomingWebsocketMessage m s)"
    and "2 \<le> length m2"
    and "\<And>c. node r lid rid st box c \<Longrightarrow> node r lid rid3 st3 box3 (HandleIncomingWebsocketMessage m2 c)"
  shows "\<exists>c' s'. exchange (c, s) = (c', s') \<and> node r lid rid3 st3 box3 c' \<and> node r' lid' rid2 st2 box2 s'"
proof -
  obtain c1 s1 where 1: "transfer c s = (c1, s1)" "node r lid rid st box c1" "node r' lid' rid2 st2 (m2 # box2) s1"
    using transfer_node [OF assms(1,2,3,4)] by blast
  from transfer_node [OF 1(3) 1(2) assms(5) assms(6) [OF 1(2)]] obtain s2 c2
    where "transfer s1 c1 = (s2, c2)" "node r' lid' rid2 st2 box2 s2" "node r lid rid3 st3 box3 c2" by blast
  with 1(1) show ?thesis by (simp add: exchange_def)
qed

lemma message_lengths:
  "2 \<le> length ShipInit" "2 \<le> length msg_ready" "2 \<le> length msg_announce" "2 \<le> length msg_select"
  "2 \<le> length msg_pin" "2 \<le> length msg_request" "2 \<le> length (msg_access i)"
  using ready_facts fixed_messages(5-8)
  by (auto simp: ShipInit_def msg_access_def eebus_text_obj access_to_json_def)

text \<open>Six exchanges bring both sides up to the last access methods message.\<close>

lemma handshake_up_to_access:
  assumes c: "node ShipRoleClient ci cr CmiStateClientWait [ShipInit] c"
    and s: "node ShipRoleServer si sr CmiStateServerWait [] s"
    and ids: "good_id ci" "good_id si" "cr = [] \<or> cr = si"
  shows "\<exists>c' s'. (exchange ^^ 5) (c, s) = (c', s')
    \<and> node ShipRoleClient ci cr SmeAccessMethodsRequest [msg_request, msg_access ci] c'
    \<and> node ShipRoleServer si sr SmeAccessMethodsRequest [] s'"
proof -
  have b: "bracket_free ci" using ids(1) by (simp add: good_id_def)
  obtain c1 s1 where 1: "exchange (c, s) = (c1, s1)" "node ShipRoleClient ci cr SmeHelloStateReadyListen [msg_ready] c1"
    "node ShipRoleServer si sr SmeHelloStateReadyListen [msg_ready] s1"
    using exchange_step [OF c s message_lengths(1) node_server_init [OF s, simplified] message_lengths(1)
        node_client_init [where box = "[]", simplified]] by blast
  obtain c2 s2 where 2: "exchange (c1, s1) = (c2, s2)"
    "node ShipRoleClient ci cr SmeProtHStateClientListenChoice [msg_announce] c2"
    "node ShipRoleServer si sr SmeProtHStateServerListenProposal [] s2"
    using exchange_step [OF 1(2,3) message_lengths(2) node_server_ready [OF 1(3)] message_lengths(2)
        node_client_ready [where box = "[]", simplified]] by blast
  obtain c3 s3 where 3: "exchange (c2, s2) = (c3, s3)"
    "node ShipRoleClient ci cr SmePinStateCheckListen [msg_select, msg_pin] c3"
    "node ShipRoleServer si sr SmeProtHStateServerListenConfirm [] s3"
    using exchange_step [OF 2(2,3) message_lengths(3) node_server_announce [OF 2(3), simplified] message_lengths(4)
        node_client_select [where box = "[]", simplified]] by blast
  obtain c4 s4 where 4: "exchange (c3, s3) = (c4, s4)"
    "node ShipRoleClient ci cr SmeAccessMethodsRequest [msg_pin, msg_request] c4"
    "node ShipRoleServer si sr SmePinStateCheckListen [] s4"
    using exchange_step [OF 3(2,3) message_lengths(4) node_server_select [OF 3(3), simplified] message_lengths(5)
        node_pin [where box = "[msg_pin]", simplified]] by blast
  obtain c5 s5 where 5: "exchange (c4, s4) = (c5, s5)"
    "node ShipRoleClient ci cr SmeAccessMethodsRequest [msg_request, msg_access ci] c5"
    "node ShipRoleServer si sr SmeAccessMethodsRequest [] s5"
    using exchange_step [OF 4(2,3) message_lengths(5) node_pin [OF 4(3), simplified] message_lengths(6)
        node_request [where box = "[msg_request]", simplified, OF _ b]] by blast
  show ?thesis using 1(1) 2(1) 3(1) 4(1) 5 by (simp add: numeral_eq_Suc)
qed

text \<open>
  C2. A client and a server that trusts it complete the handshake: with the messages carried from one
  to the other, seven exchanges after \<open>Run\<close> both are in \<open>SmeStateComplete\<close>, both have set up their
  SPINE reader, and each knows the other's SHIP identifier, if none or the right one was expected.
\<close>

theorem handshake_completes:
  assumes "node ShipRoleClient ci cr CmiStateClientWait [ShipInit] c"
    and "node ShipRoleServer si sr CmiStateServerWait [] s"
    and "good_id ci" "good_id si" "cr = [] \<or> cr = si" "sr = [] \<or> sr = ci"
    and "(c', s') = (exchange ^^ 7) (c, s)"
  shows "smeState c' = SmeStateComplete \<and> smeState s' = SmeStateComplete
    \<and> dataReader c' \<and> dataReader s' \<and> remoteShipID c' = si \<and> remoteShipID s' = ci"
proof -
  obtain c5 s5 where 5: "(exchange ^^ 5) (c, s) = (c5, s5)"
    "node ShipRoleClient ci cr SmeAccessMethodsRequest [msg_request, msg_access ci] c5"
    "node ShipRoleServer si sr SmeAccessMethodsRequest [] s5"
    using handshake_up_to_access [OF assms(1-5)] by blast
  have bs: "bracket_free si" using assms(4) by (simp add: good_id_def)
  obtain c6 s6 where 6: "transfer c5 s5 = (c6, s6)"
    "node ShipRoleClient ci cr SmeAccessMethodsRequest [msg_access ci] c6"
    "node ShipRoleServer si sr SmeAccessMethodsRequest [msg_access si] s6"
    using transfer_node [OF 5(2,3) message_lengths(6) node_request [OF 5(3) _ bs, simplified]] by blast
  have acc_c: "node ShipRoleClient ci si SmeStateComplete [msg_access ci] (HandleIncomingWebsocketMessage (msg_access si) c6)
      \<and> dataReader (HandleIncomingWebsocketMessage (msg_access si) c6)"
    by (rule node_access [OF 6(2) assms(4,5)])
  obtain c7 s7 where 7: "transfer s6 c6 = (s7, c7)" "node ShipRoleServer si sr SmeAccessMethodsRequest [] s7"
    "node ShipRoleClient ci si SmeStateComplete [msg_access ci] c7" "dataReader c7"
    using transfer_node [OF 6(3,2) message_lengths(7) acc_c [THEN conjunct1]] acc_c by blast
  have acc_s: "node ShipRoleServer si ci SmeStateComplete [] (HandleIncomingWebsocketMessage (msg_access ci) s7)
      \<and> dataReader (HandleIncomingWebsocketMessage (msg_access ci) s7)"
    by (rule node_access [OF 7(2) assms(3,6)])
  obtain c8 s8 where 8: "transfer c7 s7 = (c8, s8)" "node ShipRoleClient ci si SmeStateComplete [] c8"
    "node ShipRoleServer si ci SmeStateComplete [] s8" "dataReader s8"
    using transfer_node [OF 7(3,2) message_lengths(7) acc_s [THEN conjunct1]] acc_s by blast
  have keep: "dataReader (fst (transfer a b)) = dataReader a" for a b
    by (simp add: transfer_def ship_step_def is_pump_def split: list.split)
  have "dataReader c8" using keep [of c7 s7] 7(4) 8(1) by simp
  moreover have "outbox s8 = []" using 8(3) by (simp add: node_def)
  moreover have "(exchange ^^ 7) (c, s) = exchange (exchange ((exchange ^^ 5) (c, s)))"
    by (simp add: numeral_eq_Suc)
  ultimately show ?thesis
    using 5(1) 6(1) 7(1) 8 assms(7) by (simp add: exchange_def transfer_empty node_def)
qed

definition peer_conn :: "ship_role \<Rightarrow> string \<Rightarrow> string \<Rightarrow> string \<Rightarrow> ship_conn" where
  "peer_conn r lid rid ski = Run (NewConnectionHandler \<lparr>paired = True, autoAccept = False, allowWaiting = True\<rparr>
     (NewWebsocketConnection True ski) (\<lambda>_. []) ordered_map_ref r lid ski rid)"

lemma handleState_start:
  "smeState s = CmiStateInitStart \<Longrightarrow> Run s = handshakeInit_cmiStateInitStart s"
  by (simp add: Run_def handleShipMessage_def handleState_at(2))

lemma new_conn_node:
  assumes "s = NewConnectionHandler \<lparr>paired = True, autoAccept = False, allowWaiting = True\<rparr>
     (NewWebsocketConnection True ski) (\<lambda>_. []) ordered_map_ref r lid ski rid"
  shows "node r lid rid CmiStateInitStart [] s"
  unfolding assms NewConnectionHandler_def
  by (simp add: node_def outbox_def quiet_def trusted_def ordered_map_ref_ok)

lemma peer_client: "node ShipRoleClient lid rid CmiStateClientWait [ShipInit] (peer_conn ShipRoleClient lid rid ski)"
proof -
  obtain s where s: "node ShipRoleClient lid rid CmiStateInitStart [] s" "peer_conn ShipRoleClient lid rid ski = Run s"
    using new_conn_node [OF refl] unfolding peer_conn_def by blast
  then show ?thesis using node_room [OF s(1), of 1]
    by (simp add: node_def handleState_start handshakeInit_cmiStateInitStart_def write_quiet)
qed

lemma peer_server: "node ShipRoleServer lid rid CmiStateServerWait [] (peer_conn ShipRoleServer lid rid ski)"
proof -
  obtain s where s: "node ShipRoleServer lid rid CmiStateInitStart [] s" "peer_conn ShipRoleServer lid rid ski = Run s"
    using new_conn_node [OF refl] unfolding peer_conn_def by blast
  then show ?thesis
    by (simp add: node_def handleState_start handshakeInit_cmiStateInitStart_def)
qed

lemma sample_ids: "good_id ''i:EMS_1''" "good_id ''i:EVSE_2''"
proof -
  have "\<not> hasSpineDatagram (msg_access ''i:EMS_1'') \<and> \<not> hasSpineDatagram (msg_access ''i:EVSE_2'')" by code_simp
  then show "good_id ''i:EMS_1''" "good_id ''i:EVSE_2''" by (simp_all add: good_id_def bracket_free_def bracket_def)
qed

theorem handshake_completes_witness:
  "let (c', s') = (exchange ^^ 7) (peer_conn ShipRoleClient ''i:EMS_1'' [] ''ab'',
                                   peer_conn ShipRoleServer ''i:EVSE_2'' ''i:EMS_1'' ''cd'')
   in smeState c' = SmeStateComplete \<and> smeState s' = SmeStateComplete
    \<and> dataReader c' \<and> dataReader s' \<and> remoteShipID c' = ''i:EVSE_2'' \<and> remoteShipID s' = ''i:EMS_1''"
proof -
  obtain c' s' where e: "(c', s') = (exchange ^^ 7) (peer_conn ShipRoleClient ''i:EMS_1'' [] ''ab'',
      peer_conn ShipRoleServer ''i:EVSE_2'' ''i:EMS_1'' ''cd'')"
    by (metis surj_pair)
  show ?thesis
    using handshake_completes [OF peer_client peer_server sample_ids _ _ e] unfolding e [symmetric] by simp
qed

end
