(* ===== verification/Services.thy ===== *)
theory Services
  imports Errors
begin

text \<open>
  Services: \<open>ServiceDetails\<close> and \<open>ConnectionStateDetail\<close>, the hub's record of a service
  (\<open>api/servicedetails.go\<close>, \<open>api/connectionstate.go\<close>), and \<open>ServiceIdentity\<close>, the record that
  applications see (\<open>api/service_identity.go\<close>). The mutexes guard single field accesses, so a method
  is a function on the record. The connection state is a value: the code replaces the pointer.
\<close>

definition NormalizeSKI :: "string \<Rightarrow> string" where
  "NormalizeSKI ski = ToLower (ReplaceAll ''-'' [] (ReplaceAll '' '' [] ski))"

datatype connection_state =
    ConnectionStateNone | ConnectionStateQueued | ConnectionStateInitiated
  | ConnectionStateReceivedPairingRequest | ConnectionStateInProgress | ConnectionStateTrusted
  | ConnectionStatePin | ConnectionStateCompleted | ConnectionStateRemoteDeniedTrust
  | ConnectionStateError

record conn_detail =
  csState :: connection_state
  csError :: "error option"

definition NewConnectionStateDetail :: "connection_state \<Rightarrow> error option \<Rightarrow> conn_detail" where
  "NewConnectionStateDetail st err = \<lparr>csState = st, csError = err\<rparr>"

definition SetState :: "connection_state \<Rightarrow> conn_detail \<Rightarrow> conn_detail" where
  "SetState st d = d\<lparr>csState := st\<rparr>"

definition SetError :: "error option \<Rightarrow> conn_detail \<Rightarrow> conn_detail" where
  "SetError e d = d\<lparr>csError := e\<rparr>"

datatype pairing_type = PairingTypeDefault | PairingTypeAddCu

record service =
  svcFingerprint :: string
  svcSKI :: string
  svcShipID :: string
  svcPairingType :: pairing_type
  svcAutoAccept :: bool
  svcIPv4 :: string
  svcTrusted :: bool
  svcDetail :: conn_detail

record identity =
  idSKI :: string
  idFingerprint :: string
  idShipID :: string
  idPairingType :: pairing_type
  idIPv4 :: string

definition NewServiceDetails :: "string \<Rightarrow> string \<Rightarrow> string \<Rightarrow> error + service" where
  "NewServiceDetails ski fingerprint shipid =
     (if ski = [] \<and> fingerprint = [] then Inl (Opaque ''SKI or fingerprint is required'')
      else if ski = [] \<and> fingerprint \<noteq> [] \<and> shipid = []
      then Inl (Opaque ''SHIP ID or SKI are required when only fingerprint is provided'')
      else Inr \<lparr>svcFingerprint = fingerprint, svcSKI = NormalizeSKI ski, svcShipID = shipid,
                svcPairingType = PairingTypeDefault, svcAutoAccept = False, svcIPv4 = [],
                svcTrusted = False, svcDetail = NewConnectionStateDetail ConnectionStateNone None\<rparr>)"

definition SetFingerprint :: "string \<Rightarrow> service \<Rightarrow> service" where
  "SetFingerprint f s = s\<lparr>svcFingerprint := f\<rparr>"

definition SetSKI :: "string \<Rightarrow> service \<Rightarrow> service" where
  "SetSKI ski s = s\<lparr>svcSKI := NormalizeSKI ski\<rparr>"

definition SetShipID :: "string \<Rightarrow> service \<Rightarrow> service" where
  "SetShipID i s = s\<lparr>svcShipID := i\<rparr>"

definition SetIPv4 :: "string \<Rightarrow> service \<Rightarrow> service" where
  "SetIPv4 ip s = s\<lparr>svcIPv4 := ip\<rparr>"

definition SetAutoAccept :: "bool \<Rightarrow> service \<Rightarrow> service" where
  "SetAutoAccept v s = s\<lparr>svcAutoAccept := v\<rparr>"

definition SetTrusted :: "bool \<Rightarrow> service \<Rightarrow> service" where
  "SetTrusted v s = s\<lparr>svcTrusted := v\<rparr>"

definition SetConnectionStateDetail :: "conn_detail \<Rightarrow> service \<Rightarrow> service" where
  "SetConnectionStateDetail d s = s\<lparr>svcDetail := d\<rparr>"

definition SetPairingType :: "pairing_type \<Rightarrow> service \<Rightarrow> service" where
  "SetPairingType t s = s\<lparr>svcPairingType := t\<rparr>"

lemmas service_setters = SetFingerprint_def SetSKI_def SetShipID_def SetIPv4_def SetAutoAccept_def
  SetTrusted_def SetConnectionStateDetail_def SetPairingType_def

definition Copy :: "service \<Rightarrow> service" where
  "Copy s = \<lparr>svcFingerprint = svcFingerprint s, svcSKI = svcSKI s, svcShipID = svcShipID s,
     svcPairingType = svcPairingType s, svcAutoAccept = svcAutoAccept s, svcIPv4 = svcIPv4 s,
     svcTrusted = svcTrusted s,
     svcDetail = \<lparr>csState = csState (svcDetail s), csError = csError (svcDetail s)\<rparr>\<rparr>"

definition ToServiceIdentity :: "service \<Rightarrow> identity" where
  "ToServiceIdentity s = \<lparr>idSKI = svcSKI s, idFingerprint = svcFingerprint s, idShipID = svcShipID s,
     idPairingType = svcPairingType s, idIPv4 = svcIPv4 s\<rparr>"

definition SKIToServiceIdentity :: "string \<Rightarrow> identity" where
  "SKIToServiceIdentity ski = \<lparr>idSKI = ski, idFingerprint = [], idShipID = [],
     idPairingType = PairingTypeDefault, idIPv4 = []\<rparr>"

definition zero_identity :: identity where
  "zero_identity = \<lparr>idSKI = [], idFingerprint = [], idShipID = [],
     idPairingType = PairingTypeDefault, idIPv4 = []\<rparr>"

definition NewServiceIdentity :: "string \<Rightarrow> string \<Rightarrow> string \<Rightarrow> identity" where
  "NewServiceIdentity ski fingerprint shipid =
     (if ski = [] \<and> fingerprint = [] then zero_identity
      else if ski = [] \<and> fingerprint \<noteq> [] \<and> shipid = [] then zero_identity
      else \<lparr>idSKI = NormalizeSKI ski, idFingerprint = fingerprint, idShipID = shipid,
            idPairingType = PairingTypeDefault, idIPv4 = []\<rparr>)"

definition IsZero :: "identity \<Rightarrow> bool" where
  "IsZero i \<longleftrightarrow> idSKI i = [] \<and> idFingerprint i = [] \<and> idShipID i = []"

definition identity_text :: "identity \<Rightarrow> string" where
  "identity_text i =
     ''ServiceIdentity{'' @ join '' ''
       ((if idSKI i \<noteq> [] then [''SKI:'' @ idSKI i] else [])
        @ (if idShipID i \<noteq> [] then [''ShipID:'' @ idShipID i] else [])
        @ (if length (idFingerprint i) = 64
           then [''Fingerprint:'' @ take 8 (idFingerprint i) @ ''...''] else [])
        @ [''PairingType:'' @ (case idPairingType i of PairingTypeDefault \<Rightarrow> ''default''
                                 | PairingTypeAddCu \<Rightarrow> ''addCu'')])
     @ ''}''"

definition ToServiceDetails :: "identity \<Rightarrow> error + service" where
  "ToServiceDetails i =
     (case NewServiceDetails (idSKI i) (idFingerprint i) (idShipID i) of
        Inl e \<Rightarrow> Inl e
      | Inr s \<Rightarrow> (let s1 = SetPairingType (idPairingType i) s
                  in Inr (if idIPv4 i \<noteq> [] then SetIPv4 (idIPv4 i) s1 else s1)))"

section \<open>Normal form of identifiers\<close>

lemma NormalizeSKI_alt:
  "NormalizeSKI s = map lower (filter (\<lambda>c. c \<noteq> CHR '' '' \<and> c \<noteq> CHR ''-'') s)"
  by (simp add: NormalizeSKI_def ReplaceAll_char_filter ToLower_def conj_commute)

lemma lower_punct: "lower c = CHR '' '' \<longleftrightarrow> c = CHR '' ''" "lower c = CHR ''-'' \<longleftrightarrow> c = CHR ''-''"
proof -
  have "lower c = d \<longleftrightarrow> c = d" if "code d < 65" for d
  proof -
    have "lower c = d \<longleftrightarrow> code (lower c) = code d" by (simp only: code_eq_iff)
    also have "\<dots> \<longleftrightarrow> code c = code d" using that by (auto simp: code_lower is_upper_def)
    finally show ?thesis by (simp only: code_eq_iff)
  qed
  then show "lower c = CHR '' '' \<longleftrightarrow> c = CHR '' ''" "lower c = CHR ''-'' \<longleftrightarrow> c = CHR ''-''" by simp_all
qed

lemma NormalizeSKI_idem [simp]: "NormalizeSKI (NormalizeSKI s) = NormalizeSKI s"
  by (simp add: NormalizeSKI_alt filter_map o_def lower_punct filter_filter conj_commute)

lemma NormalizeSKI_Nil [simp]: "NormalizeSKI [] = []"
  by (simp add: NormalizeSKI_alt)

text \<open>A service the hub may hold: its SKI is in normal form.\<close>

definition normal_service :: "service \<Rightarrow> bool" where
  "normal_service s \<longleftrightarrow> NormalizeSKI (svcSKI s) = svcSKI s"

lemma normal_service_setters [simp]:
  "normal_service (SetSKI k s)"
  "normal_service (SetFingerprint f s) = normal_service s"
  "normal_service (SetShipID i s) = normal_service s"
  "normal_service (SetIPv4 ip s) = normal_service s"
  "normal_service (SetAutoAccept v s) = normal_service s"
  "normal_service (SetTrusted v s) = normal_service s"
  "normal_service (SetConnectionStateDetail d s) = normal_service s"
  "normal_service (SetPairingType t s) = normal_service s"
  by (simp_all add: normal_service_def service_setters)

lemma normal_New: "NewServiceDetails k f i = Inr s \<Longrightarrow> normal_service s"
  by (auto simp: NewServiceDetails_def normal_service_def split: if_splits)

lemma Copy_id [simp]: "Copy s = s"
  by (simp add: Copy_def)

text \<open>
  A service handed to the application and registered again is the same service: the identity made
  from it is turned back into a service with the same identifiers, pairing type and address; only the
  trust, the auto accept flag and the connection state start afresh.
\<close>

theorem service_identity_roundtrip:
  assumes "normal_service s" "svcSKI s \<noteq> [] \<or> (svcFingerprint s \<noteq> [] \<and> svcShipID s \<noteq> [])"
  shows "ToServiceDetails (ToServiceIdentity s) =
     Inr (s\<lparr>svcAutoAccept := False, svcTrusted := False,
            svcDetail := NewConnectionStateDetail ConnectionStateNone None\<rparr>)"
  using assms
  by (cases s) (auto simp: ToServiceDetails_def ToServiceIdentity_def NewServiceDetails_def
      normal_service_def service_setters Let_def)

theorem service_identity_roundtrip_witness:
  "ToServiceDetails (ToServiceIdentity \<lparr>svcFingerprint = ''AB'', svcSKI = [], svcShipID = ''ship'',
      svcPairingType = PairingTypeAddCu, svcAutoAccept = False, svcIPv4 = ''10.0.0.1'',
      svcTrusted = True, svcDetail = NewConnectionStateDetail ConnectionStateNone None\<rparr>) =
   Inr \<lparr>svcFingerprint = ''AB'', svcSKI = [], svcShipID = ''ship'',
      svcPairingType = PairingTypeAddCu, svcAutoAccept = False, svcIPv4 = ''10.0.0.1'',
      svcTrusted = False, svcDetail = NewConnectionStateDetail ConnectionStateNone None\<rparr>"
  by (subst service_identity_roundtrip) (simp_all add: normal_service_def)

end
