(* ===== verification/HubRegistry.thy ===== *)
theory HubRegistry
  imports Services
begin

text \<open>
  The registry of remote services of the hub (\<open>remoteServices\<close> and its methods in \<open>hub/hub.go\<close>).

  The code keeps pointers: the same \<open>ServiceDetails\<close> object is in the slice and in the hands of callers,
  who set its fields and merge it again. A service is therefore an address into \<open>rgHeap\<close>; \<open>rgList\<close> is the
  slice. Every method holds \<open>muxReg\<close> over its whole run.
\<close>

section \<open>State\<close>

type_synonym addr = nat

record registry =
  rgHeap :: "addr \<Rightarrow> service"
  rgFresh :: addr
  rgList :: "addr list"

definition alloc :: "service \<Rightarrow> registry \<Rightarrow> addr \<times> registry" where
  "alloc s r = (rgFresh r, r\<lparr>rgHeap := (rgHeap r)(rgFresh r := s), rgFresh := rgFresh r + 1\<rparr>)"

definition update_service :: "addr \<Rightarrow> (service \<Rightarrow> service) \<Rightarrow> registry \<Rightarrow> registry" where
  "update_service a f r = r\<lparr>rgHeap := (rgHeap r)(a := f (rgHeap r a))\<rparr>"

section \<open>Merging\<close>

definition fold_fields :: "service \<Rightarrow> service \<Rightarrow> service" where
  "fold_fields dst src =
     (let d1 = (if svcSKI dst = [] \<and> svcSKI src \<noteq> [] then SetSKI (svcSKI src) dst else dst);
          d2 = (if svcFingerprint d1 = [] \<and> svcFingerprint src \<noteq> [] then SetFingerprint (svcFingerprint src) d1 else d1);
          d3 = (if svcShipID d2 = [] \<and> svcShipID src \<noteq> [] then SetShipID (svcShipID src) d2 else d2);
          d4 = (if svcIPv4 d3 = [] \<and> svcIPv4 src \<noteq> [] then SetIPv4 (svcIPv4 src) d3 else d3);
          d5 = (if svcTrusted src then SetTrusted True d4 else d4);
          d6 = (if svcAutoAccept src then SetAutoAccept True d5 else d5)
      in if svcPairingType src = PairingTypeAddCu then SetPairingType PairingTypeAddCu d6 else d6)"

definition foldInto :: "addr \<Rightarrow> addr \<Rightarrow> registry \<Rightarrow> registry" where
  "foldInto dst src r =
     (if dst = src then r else update_service dst (\<lambda>d. fold_fields d (rgHeap r src)) r)"

definition same_identifier :: "string \<Rightarrow> string \<Rightarrow> string \<Rightarrow> service \<Rightarrow> bool" where
  "same_identifier ski fp ship s \<longleftrightarrow>
     (ski \<noteq> [] \<and> svcSKI s = ski) \<or> (fp \<noteq> [] \<and> ToUpper (svcFingerprint s) = fp) \<or> (ship \<noteq> [] \<and> svcShipID s = ship)"

definition checkConflict :: "string \<Rightarrow> string \<Rightarrow> string \<Rightarrow> error option" where
  "checkConflict label a b =
     (if a \<noteq> [] \<and> b \<noteq> [] \<and> \<not> EqualFold a b
      then Some (Opaque (''identifier conflict on '' @ label)) else None)"

fun merge_conflict :: "string \<Rightarrow> string \<Rightarrow> string \<Rightarrow> service list \<Rightarrow> error option" where
  "merge_conflict mergedSKI mergedFP mergedShip [] = None"
| "merge_conflict mergedSKI mergedFP mergedShip (m # hits) =
     (case checkConflict ''SKI'' mergedSKI (svcSKI m) of Some e \<Rightarrow> Some e
      | None \<Rightarrow> (case checkConflict ''fingerprint'' mergedFP (ToUpper (svcFingerprint m)) of Some e \<Rightarrow> Some e
      | None \<Rightarrow> (case checkConflict ''shipID'' mergedShip (svcShipID m) of Some e \<Rightarrow> Some e
      | None \<Rightarrow> merge_conflict (if mergedSKI = [] then svcSKI m else mergedSKI)
                  (if mergedFP = [] then ToUpper (svcFingerprint m) else mergedFP)
                  (if mergedShip = [] then svcShipID m else mergedShip) hits)))"

definition matches_of :: "service \<Rightarrow> registry \<Rightarrow> (nat \<times> addr) list" where
  "matches_of c r =
     filter (\<lambda>(i, a). same_identifier (svcSKI c) (ToUpper (svcFingerprint c)) (svcShipID c) (rgHeap r a))
       (enumerate 0 (rgList r))"

definition canonical_of :: "(nat \<times> addr) list \<Rightarrow> registry \<Rightarrow> addr" where
  "canonical_of hits r = (case find (\<lambda>(i, a). svcTrusted (rgHeap r a)) hits of
     Some (i, a) \<Rightarrow> a | None \<Rightarrow> snd (hd hits))"

definition mergeOrAddService :: "addr \<Rightarrow> registry \<Rightarrow> (error + addr) \<times> registry" where
  "mergeOrAddService candidate r =
     (let c = rgHeap r candidate in
      if svcSKI c = [] \<and> ToUpper (svcFingerprint c) = [] \<and> svcShipID c = []
      then (Inl (Opaque ''candidate has no identifiers''), r)
      else let hits = matches_of c r in
        case merge_conflict (svcSKI c) (ToUpper (svcFingerprint c)) (svcShipID c) (map (\<lambda>(i, a). rgHeap r a) hits) of
          Some err \<Rightarrow> (Inl err, r)
        | None \<Rightarrow>
            if hits = [] then (Inr candidate, r\<lparr>rgList := rgList r @ [candidate]\<rparr>)
            else let canonical = canonical_of hits r;
                     r1 = foldInto canonical candidate r;
                     r2 = fold (\<lambda>(i, a) q. if a \<noteq> canonical then foldInto canonical a q else q) hits r1;
                     absorbed = map fst (filter (\<lambda>(i, a). a \<noteq> canonical) hits)
                 in (Inr canonical, r2\<lparr>rgList := fold remove_at (rev (sort absorbed)) (rgList r2)\<rparr>))"

definition addService :: "addr option \<Rightarrow> registry \<Rightarrow> bool \<times> registry" where
  "addService candidate r = (case candidate of None \<Rightarrow> (False, r)
     | Some c \<Rightarrow> (case mergeOrAddService c r of (Inl _, r1) \<Rightarrow> (False, r1) | (Inr _, r1) \<Rightarrow> (True, r1)))"

section \<open>Removing and finding\<close>

definition removeService :: "string \<Rightarrow> string \<Rightarrow> registry \<Rightarrow> registry" where
  "removeService ski0 fingerprint r =
     (let ski = NormalizeSKI ski0 in
      if ski = [] \<and> fingerprint = [] then r
      else case find_index (\<lambda>a. \<not> (ski \<noteq> [] \<and> svcSKI (rgHeap r a) \<noteq> ski)
                  \<and> \<not> (fingerprint \<noteq> [] \<and> \<not> EqualFold (svcFingerprint (rgHeap r a)) fingerprint)) (rgList r) of
             None \<Rightarrow> r
           | Some i \<Rightarrow> r\<lparr>rgList := remove_at i (rgList r)\<rparr>)"

definition removeServiceEntry :: "addr \<Rightarrow> registry \<Rightarrow> registry" where
  "removeServiceEntry target r =
     (case find_index (\<lambda>a. a = target) (rgList r) of
        None \<Rightarrow> r | Some i \<Rightarrow> r\<lparr>rgList := remove_at i (rgList r)\<rparr>)"

definition serviceForTrustedShipID :: "string \<Rightarrow> registry \<Rightarrow> addr option" where
  "serviceForTrustedShipID shipID r =
     find (\<lambda>a. svcTrusted (rgHeap r a) \<and> svcShipID (rgHeap r a) = shipID) (rgList r)"

definition GetTrustedAddCuDevice :: "registry \<Rightarrow> addr option" where
  "GetTrustedAddCuDevice r =
     find (\<lambda>a. svcTrusted (rgHeap r a) \<and> svcPairingType (rgHeap r a) = PairingTypeAddCu
            \<and> svcShipID (rgHeap r a) \<noteq> [] \<and> svcFingerprint (rgHeap r a) \<noteq> []) (rgList r)"

definition numberPairedServices :: "registry \<Rightarrow> nat" where
  "numberPairedServices r = length (filter (\<lambda>a. svcTrusted (rgHeap r a)) (rgList r))"

definition lookup_match :: "string \<Rightarrow> string \<Rightarrow> string \<Rightarrow> service \<Rightarrow> bool" where
  "lookup_match ski fpUpper shipID s \<longleftrightarrow>
     \<not> ((ski \<noteq> [] \<and> svcSKI s \<noteq> [] \<and> svcSKI s \<noteq> ski)
        \<or> (fpUpper \<noteq> [] \<and> ToUpper (svcFingerprint s) \<noteq> [] \<and> ToUpper (svcFingerprint s) \<noteq> fpUpper)
        \<or> (shipID \<noteq> [] \<and> svcShipID s \<noteq> [] \<and> svcShipID s \<noteq> shipID))
     \<and> ((ski \<noteq> [] \<and> svcSKI s = ski) \<or> (fpUpper \<noteq> [] \<and> ToUpper (svcFingerprint s) = fpUpper)
        \<or> (shipID \<noteq> [] \<and> svcShipID s = shipID))"

fun lookup_loop :: "(service \<Rightarrow> bool) \<Rightarrow> (addr \<Rightarrow> service) \<Rightarrow> addr option \<Rightarrow> addr list \<Rightarrow> addr option" where
  "lookup_loop P h firstMatch [] = firstMatch"
| "lookup_loop P h firstMatch (a # as) =
     (if \<not> P (h a) then lookup_loop P h firstMatch as
      else if svcTrusted (h a) then Some a
      else lookup_loop P h (if firstMatch = None then Some a else firstMatch) as)"

definition ServiceForIdentifierFull :: "string \<Rightarrow> string \<Rightarrow> string \<Rightarrow> registry \<Rightarrow> addr option" where
  "ServiceForIdentifierFull ski fingerprint shipID r =
     lookup_loop (lookup_match (NormalizeSKI ski) (ToUpper fingerprint) shipID) (rgHeap r) None (rgList r)"

definition ServiceForIdentifier :: "string \<Rightarrow> string \<Rightarrow> registry \<Rightarrow> addr option" where
  "ServiceForIdentifier ski fingerprint r = ServiceForIdentifierFull ski fingerprint [] r"

definition ServiceFor :: "identity \<Rightarrow> registry \<Rightarrow> addr option" where
  "ServiceFor i r = ServiceForIdentifierFull (idSKI i) (idFingerprint i) (idShipID i) r"

section \<open>Lookup\<close>

text \<open>The loop is a search for a trusted match, then for any match.\<close>

lemma lookup_loop_eq:
  "lookup_loop P h f as =
     (case find (\<lambda>a. P (h a) \<and> svcTrusted (h a)) as of
        Some a \<Rightarrow> Some a
      | None \<Rightarrow> (case f of Some a \<Rightarrow> Some a | None \<Rightarrow> find (\<lambda>a. P (h a)) as))"
  by (induction as arbitrary: f) (auto split: option.splits)

lemma find_Some_set: "find P as = Some a \<Longrightarrow> a \<in> set as \<and> P a"
  by (rule find_Some_in)

lemma find_unique:
  assumes "a \<in> set as" "P a" "\<And>b. b \<in> set as \<Longrightarrow> P b \<Longrightarrow> b = a"
  shows "find P as = Some a"
proof (cases "find P as")
  case None
  then show ?thesis using assms(1,2) by (auto simp: find_None_iff)
next
  case (Some b)
  then show ?thesis using assms(3) by (blast dest: find_Some_set)
qed

lemma lookup_loop_unique:
  assumes "a \<in> set as" "P (h a)" "\<And>b. b \<in> set as \<Longrightarrow> P (h b) \<Longrightarrow> b = a"
  shows "lookup_loop P h None as = Some a"
proof (cases "find (\<lambda>a. P (h a) \<and> svcTrusted (h a)) as")
  case None
  have "find (\<lambda>a. P (h a)) as = Some a" using assms by (intro find_unique)
  with None show ?thesis by (simp add: lookup_loop_eq)
next
  case (Some b)
  then have "b = a" using assms(3) by (blast dest: find_Some_set)
  with Some show ?thesis by (simp add: lookup_loop_eq)
qed

lemma lookup_loop_Some: "lookup_loop P h None as = Some a \<Longrightarrow> a \<in> set as \<and> P (h a)"
  by (auto simp: lookup_loop_eq split: option.splits dest: find_Some_set)

section \<open>Folding\<close>

lemma if_update:
  "svcSKI (if c then d else e) = (if c then svcSKI d else svcSKI e)"
  "svcFingerprint (if c then d else e) = (if c then svcFingerprint d else svcFingerprint e)"
  "svcShipID (if c then d else e) = (if c then svcShipID d else svcShipID e)"
  "svcIPv4 (if c then d else e) = (if c then svcIPv4 d else svcIPv4 e)"
  "svcTrusted (if c then d else e) = (if c then svcTrusted d else svcTrusted e)"
  "svcAutoAccept (if c then d else e) = (if c then svcAutoAccept d else svcAutoAccept e)"
  "svcPairingType (if c then d else e) = (if c then svcPairingType d else svcPairingType e)"
  "svcDetail (if c then d else e) = (if c then svcDetail d else svcDetail e)"
  by simp_all

lemma fold_fields_simps [simp]:
  "svcSKI (fold_fields d s) = (if svcSKI d = [] then NormalizeSKI (svcSKI s) else svcSKI d)"
  "svcFingerprint (fold_fields d s) = (if svcFingerprint d = [] then svcFingerprint s else svcFingerprint d)"
  "svcShipID (fold_fields d s) = (if svcShipID d = [] then svcShipID s else svcShipID d)"
  "svcTrusted (fold_fields d s) = (svcTrusted d \<or> svcTrusted s)"
  "svcAutoAccept (fold_fields d s) = (svcAutoAccept d \<or> svcAutoAccept s)"
  "svcDetail (fold_fields d s) = svcDetail d"
  "svcPairingType (fold_fields d s) = (if svcPairingType s = PairingTypeAddCu then PairingTypeAddCu else svcPairingType d)"
  unfolding fold_fields_def Let_def service_setters
  by (simp_all add: if_update cong: if_cong split del: if_split) simp_all

lemma normal_fold [simp]: "normal_service d \<Longrightarrow> normal_service (fold_fields d s)"
  by (simp add: normal_service_def)

section \<open>What a merge does\<close>

definition gather :: "service list \<Rightarrow> service \<Rightarrow> service" where
  "gather ss d = fold (\<lambda>s d. fold_fields d s) ss d"

lemma gather_simps [simp]: "gather [] d = d" "gather (s # ss) d = gather ss (fold_fields d s)"
  by (simp_all add: gather_def)

lemma gather_trusted: "svcTrusted (gather ss d) \<longleftrightarrow> svcTrusted d \<or> (\<exists>s \<in> set ss. svcTrusted s)"
  by (induction ss arbitrary: d) auto

lemma gather_normal: "normal_service d \<Longrightarrow> normal_service (gather ss d)"
  by (induction ss arbitrary: d) auto

text \<open>An identifier of the gathered service is that of one of the services, and none is lost.\<close>

lemma gather_ski:
  "normal_service d \<Longrightarrow> \<forall>s \<in> set ss. normal_service s \<Longrightarrow>
   \<exists>s \<in> insert d (set ss). svcSKI (gather ss d) = svcSKI s \<and> (svcSKI s = [] \<longrightarrow> (\<forall>t \<in> insert d (set ss). svcSKI t = []))"
proof (induction ss arbitrary: d)
  case (Cons s ss)
  then have "normal_service (fold_fields d s)" by simp
  from Cons.IH [OF this] Cons.prems show ?case
    by (auto simp: normal_service_def split: if_splits)
qed simp

lemma gather_fp:
  "\<exists>s \<in> insert d (set ss). svcFingerprint (gather ss d) = svcFingerprint s
     \<and> (svcFingerprint s = [] \<longrightarrow> (\<forall>t \<in> insert d (set ss). svcFingerprint t = []))"
proof (induction ss arbitrary: d)
  case (Cons s ss)
  from Cons.IH [of "fold_fields d s"] show ?case by (auto split: if_splits)
qed simp

lemma gather_ship:
  "\<exists>s \<in> insert d (set ss). svcShipID (gather ss d) = svcShipID s
     \<and> (svcShipID s = [] \<longrightarrow> (\<forall>t \<in> insert d (set ss). svcShipID t = []))"
proof (induction ss arbitrary: d)
  case (Cons s ss)
  from Cons.IH [of "fold_fields d s"] show ?case by (auto split: if_splits)
qed simp

lemma remove_at_middle: "remove_at (length ys) (ys @ x # xs) = ys @ xs"
  by (simp add: remove_at_def)

lemma remove_matches:
  "foldr remove_at (map fst (filter (\<lambda>(i, a). Q a) (enumerate (length ys) xs))) (ys @ xs) = ys @ filter (\<lambda>a. \<not> Q a) xs"
proof (induction xs arbitrary: ys)
  case (Cons x xs)
  have "foldr remove_at (map fst (filter (\<lambda>(i, a). Q a) (enumerate (Suc (length ys)) xs))) (ys @ x # xs)
      = ys @ x # filter (\<lambda>a. \<not> Q a) xs"
    using Cons.IH [of "ys @ [x]"] by simp
  then show ?case by (simp add: remove_at_middle)
qed simp

lemma remove_absorbed:
  "fold remove_at (rev (sort (map fst (filter (\<lambda>(i, a). Q a) (enumerate 0 xs))))) xs = filter (\<lambda>a. \<not> Q a) xs"
proof -
  have "sorted (map fst (filter (\<lambda>(i, a). Q a) (enumerate 0 xs)))"
    by (rule sorted_filter) (simp add: enumerate_eq_zip)
  then show ?thesis using remove_matches [of Q "[]" xs] by (simp add: sorted_sort_id foldr_conv_fold)
qed

definition matched :: "service \<Rightarrow> registry \<Rightarrow> addr list" where
  "matched c r = filter (\<lambda>a. same_identifier (svcSKI c) (ToUpper (svcFingerprint c)) (svcShipID c) (rgHeap r a)) (rgList r)"

lemma map_snd_filter: "map snd (filter (\<lambda>(i, a). P a) (enumerate n xs)) = filter P xs"
  by (induction xs arbitrary: n) auto

lemma matches_matched: "map snd (matches_of c r) = matched c r"
  by (simp add: matches_of_def matched_def map_snd_filter)

lemma matches_Nil: "matches_of c r = [] \<longleftrightarrow> matched c r = []"
  using matches_matched [of c r] by (metis map_is_Nil_conv)

lemma canonical_matched: "hits \<noteq> [] \<Longrightarrow> canonical_of hits r \<in> set (map snd hits)"
proof (cases "find (\<lambda>(i, a). svcTrusted (rgHeap r a)) hits")
  case None
  assume "hits \<noteq> []"
  then have "snd (hd hits) \<in> set (map snd hits)" by (simp add: image_iff) (metis hd_in_set)
  with None show ?thesis by (simp add: canonical_of_def)
next
  case (Some x)
  then have "x \<in> set hits" by (blast dest: find_Some_set)
  with Some show ?thesis by (simp add: canonical_of_def case_prod_beta)
qed

lemma canonical_trusted:
  "\<exists>a \<in> set (map snd hits). svcTrusted (rgHeap r a) \<Longrightarrow> svcTrusted (rgHeap r (canonical_of hits r))"
  by (auto simp: canonical_of_def find_None_iff split: option.split dest!: find_Some_set)

lemma foldInto_simps [simp]:
  "rgList (foldInto d s r) = rgList r" "rgFresh (foldInto d s r) = rgFresh r"
  "a \<noteq> d \<Longrightarrow> rgHeap (foldInto d s r) a = rgHeap r a"
  "rgHeap (foldInto d s r) d = (if d = s then rgHeap r d else fold_fields (rgHeap r d) (rgHeap r s))"
  by (simp_all add: foldInto_def update_service_def)

lemma fold_matches:
  "(let q = fold (\<lambda>(i, a) q. if a \<noteq> can then foldInto can a q else q) hits r
    in rgList q = rgList r \<and> rgFresh q = rgFresh r
     \<and> rgHeap q = (rgHeap r)(can := gather (map (rgHeap r) (filter (\<lambda>a. a \<noteq> can) (map snd hits))) (rgHeap r can)))"
proof (induction hits arbitrary: r)
  case (Cons x hits)
  obtain i a where x: "x = (i, a)" by (cases x)
  show ?case
  proof (cases "a = can")
    case True
    then show ?thesis using Cons.IH [of r] x by (simp add: Let_def)
  next
    case False
    have m: "map (rgHeap (foldInto can a r)) (filter (\<lambda>a. a \<noteq> can) (map snd hits))
        = map (rgHeap r) (filter (\<lambda>a. a \<noteq> can) (map snd hits))" by simp
    show ?thesis using Cons.IH [of "foldInto can a r"] False x
      by (simp add: Let_def m) (auto simp: fun_eq_iff)
  qed
qed simp

lemma filter_filter_pair:
  "filter (\<lambda>(i, a). Q a) (filter (\<lambda>(i, a). P a) xs) = filter (\<lambda>(i, a). Q a \<and> P a) xs"
  by (induction xs) auto

lemma absorbed_positions:
  "filter (\<lambda>(i, a). a \<noteq> can) (matches_of c r)
   = filter (\<lambda>(i, a). a \<noteq> can \<and> same_identifier (svcSKI c) (ToUpper (svcFingerprint c)) (svcShipID c) (rgHeap r a))
       (enumerate 0 (rgList r))"
  unfolding matches_of_def by (rule filter_filter_pair)

text \<open>The outcome of a merge: an error and no change, a new entry, or one entry that gathers the others.\<close>

definition absorbed_services :: "addr \<Rightarrow> addr \<Rightarrow> registry \<Rightarrow> service list" where
  "absorbed_services candidate can r =
     (if candidate = can then [] else [rgHeap r candidate])
     @ map (rgHeap r) (filter (\<lambda>a. a \<noteq> can) (matched (rgHeap r candidate) r))"

lemma merge_error: "mergeOrAddService candidate r = (Inl e, r') \<Longrightarrow> r' = r"
  by (auto simp: mergeOrAddService_def Let_def split: if_splits option.splits)

lemma merge_cases:
  assumes "mergeOrAddService candidate r = (Inr can, r')"
  obtains (added) "matched (rgHeap r candidate) r = []" "can = candidate" "r' = r\<lparr>rgList := rgList r @ [candidate]\<rparr>"
  | (merged) "can \<in> set (matched (rgHeap r candidate) r)"
      "rgList r' = filter (\<lambda>a. a = can \<or> a \<notin> set (matched (rgHeap r candidate) r)) (rgList r)"
      "rgHeap r' = (rgHeap r)(can := gather (absorbed_services candidate can r) (rgHeap r can))"
      "rgFresh r' = rgFresh r"
      "merge_conflict (svcSKI (rgHeap r candidate)) (ToUpper (svcFingerprint (rgHeap r candidate)))
         (svcShipID (rgHeap r candidate)) (map (rgHeap r) (matched (rgHeap r candidate) r)) = None"
      "\<exists>a \<in> set (matched (rgHeap r candidate) r). svcTrusted (rgHeap r a) \<Longrightarrow> svcTrusted (rgHeap r can)"
proof -
  let ?c = "rgHeap r candidate" and ?hits = "matches_of (rgHeap r candidate) r"
  have mm: "map (\<lambda>(i, a). rgHeap r a) ?hits = map (rgHeap r) (matched ?c r)"
    unfolding matches_matched [symmetric] by (simp add: case_prod_beta)
  show thesis
  proof (cases "?hits = []")
    case True
    then have "matched ?c r = []" by (simp add: matches_Nil)
    moreover have "can = candidate \<and> r' = r\<lparr>rgList := rgList r @ [candidate]\<rparr>"
      using assms True by (auto simp: mergeOrAddService_def Let_def split: if_splits option.splits)
    ultimately show thesis by (intro that(1)) simp_all
  next
    case False
    let ?can = "canonical_of ?hits r"
    let ?r1 = "foldInto ?can candidate r"
    let ?r2 = "fold (\<lambda>(i, a) q. if a \<noteq> ?can then foldInto ?can a q else q) ?hits ?r1"
    let ?ab = "map fst (filter (\<lambda>(i, a). a \<noteq> ?can) ?hits)"
    have e: "can = ?can" "r' = ?r2\<lparr>rgList := fold remove_at (rev (sort ?ab)) (rgList ?r2)\<rparr>"
      and nc: "merge_conflict (svcSKI ?c) (ToUpper (svcFingerprint ?c)) (svcShipID ?c) (map (rgHeap r) (matched ?c r)) = None"
      using assms False mm by (auto simp: mergeOrAddService_def Let_def split: if_splits option.splits)
    have r2: "rgList ?r2 = rgList r" "rgFresh ?r2 = rgFresh r"
      "rgHeap ?r2 = (rgHeap ?r1)(?can := gather (map (rgHeap ?r1) (filter (\<lambda>a. a \<noteq> ?can) (matched ?c r))) (rgHeap ?r1 ?can))"
      using fold_matches [of ?can ?hits ?r1] by (simp_all add: Let_def matches_matched)
    have m1: "map (rgHeap ?r1) (filter (\<lambda>a. a \<noteq> ?can) (matched ?c r)) = map (rgHeap r) (filter (\<lambda>a. a \<noteq> ?can) (matched ?c r))"
      by simp
    have heap: "rgHeap ?r2 = (rgHeap r)(?can := gather (absorbed_services candidate ?can r) (rgHeap r ?can))"
      unfolding r2(3) m1 by (auto simp: absorbed_services_def fun_eq_iff)
    let ?P = "\<lambda>a. same_identifier (svcSKI ?c) (ToUpper (svcFingerprint ?c)) (svcShipID ?c) (rgHeap r a)"
    have ab: "?ab = map fst (filter (\<lambda>(i, a). a \<noteq> ?can \<and> ?P a) (enumerate 0 (rgList r)))"
      by (simp only: absorbed_positions)
    have "rgList r' = filter (\<lambda>a. \<not> (a \<noteq> ?can \<and> ?P a)) (rgList r)"
      using remove_absorbed [of "\<lambda>a. a \<noteq> ?can \<and> ?P a" "rgList r"] unfolding e ab r2(1) by simp
    also have "\<dots> = filter (\<lambda>a. a = can \<or> a \<notin> set (matched ?c r)) (rgList r)"
      by (rule filter_cong) (auto simp: e(1) matched_def)
    finally have l: "rgList r' = filter (\<lambda>a. a = can \<or> a \<notin> set (matched ?c r)) (rgList r)" .
    show thesis
    proof (rule that(2) [OF _ l _ _ nc])
      show "can \<in> set (matched ?c r)" using canonical_matched [OF False, of r] e(1) by (simp add: matches_matched)
      show "rgHeap r' = (rgHeap r)(can := gather (absorbed_services candidate can r) (rgHeap r can))"
        using heap e by simp
      show "rgFresh r' = rgFresh r" using e(2) r2(2) by simp
      show "\<exists>a \<in> set (matched ?c r). svcTrusted (rgHeap r a) \<Longrightarrow> svcTrusted (rgHeap r can)"
        using canonical_trusted [of ?hits r] e(1) by (simp add: matches_matched)
    qed
  qed
qed

section \<open>The registry invariant\<close>

text \<open>Two services share an identifier when a lookup or a merge would take one for the other.\<close>

definition shares :: "service \<Rightarrow> service \<Rightarrow> bool" where
  "shares s t \<longleftrightarrow> (svcSKI s \<noteq> [] \<and> svcSKI t = svcSKI s)
     \<or> (svcFingerprint s \<noteq> [] \<and> ToUpper (svcFingerprint t) = ToUpper (svcFingerprint s))
     \<or> (svcShipID s \<noteq> [] \<and> svcShipID t = svcShipID s)"

definition registry_ok :: "registry \<Rightarrow> bool" where
  "registry_ok r \<longleftrightarrow> distinct (rgList r)
     \<and> (\<forall>a \<in> set (rgList r). a < rgFresh r \<and> normal_service (rgHeap r a))
     \<and> (\<forall>a \<in> set (rgList r). \<forall>b \<in> set (rgList r). a \<noteq> b \<longrightarrow> \<not> shares (rgHeap r a) (rgHeap r b))"

lemma shares_sym: "shares s t \<Longrightarrow> shares t s"
proof -
  assume "shares s t"
  moreover have "svcFingerprint t \<noteq> []" if "svcFingerprint s \<noteq> []" "ToUpper (svcFingerprint t) = ToUpper (svcFingerprint s)"
    using that ToUpper_Nil by metis
  ultimately show ?thesis unfolding shares_def by metis
qed

lemma matched_iff: "a \<in> set (matched c r) \<longleftrightarrow> a \<in> set (rgList r) \<and> shares c (rgHeap r a)"
  by (auto simp: matched_def shares_def same_identifier_def)

text \<open>What the gathered service shares with another, one of the gathered ones shares with it.\<close>

lemma gather_shares:
  assumes "normal_service d" "\<forall>s \<in> set ss. normal_service s" "shares (gather ss d) t"
  shows "\<exists>s \<in> insert d (set ss). shares s t"
  using assms(3) gather_ski [OF assms(1,2)] gather_fp [of d ss] gather_ship [of d ss]
  unfolding shares_def by metis

lemma registry_normal: "registry_ok r \<Longrightarrow> \<forall>a \<in> set (rgList r). normal_service (rgHeap r a)"
  by (simp add: registry_ok_def)

lemma absorbed_normal:
  assumes "\<forall>a \<in> set (rgList r). normal_service (rgHeap r a)" "normal_service (rgHeap r candidate)"
  shows "\<forall>s \<in> set (absorbed_services candidate can r). normal_service s"
  using assms by (auto simp: absorbed_services_def matched_iff)

lemma absorbed_set:
  "can \<in> set (matched (rgHeap r candidate) r) \<Longrightarrow>
   insert (rgHeap r can) (set (absorbed_services candidate can r))
   = insert (rgHeap r candidate) (rgHeap r ` set (matched (rgHeap r candidate) r))"
  by (auto simp: absorbed_services_def)

lemma self_match:
  assumes "mergeOrAddService candidate r = (Inr can, r')"
  shows "shares (rgHeap r candidate) (rgHeap r candidate)"
  using assms by (auto simp: mergeOrAddService_def shares_def Let_def split: if_splits)

lemma merge_new_entry:
  assumes ok: "registry_ok r" and c: "candidate < rgFresh r" "normal_service (rgHeap r candidate)"
    and m: "mergeOrAddService candidate r = (Inr can, r')"
    and nm: "matched (rgHeap r candidate) r = []"
  shows "registry_ok (r\<lparr>rgList := rgList r @ [candidate]\<rparr>)"
proof -
  have n: "\<not> shares (rgHeap r candidate) (rgHeap r a)" if "a \<in> set (rgList r)" for a
    using that nm matched_iff [of a "rgHeap r candidate" r] by simp
  with self_match [OF m] have "candidate \<notin> set (rgList r)" by blast
  with ok c n show ?thesis by (auto simp: registry_ok_def dest: shares_sym)
qed

lemma merge_registry:
  assumes ok: "registry_ok r" and c: "candidate < rgFresh r" "normal_service (rgHeap r candidate)"
    and m: "mergeOrAddService candidate r = (Inr can, r')"
  shows "registry_ok r' \<and> can \<in> set (rgList r')
     \<and> (\<forall>b \<in> set (rgList r'). shares (rgHeap r candidate) (rgHeap r' b) \<longrightarrow> b = can)"
  using m
proof (cases rule: merge_cases)
  case added
  with merge_new_entry [OF ok c m] show ?thesis using matched_iff [of _ "rgHeap r candidate" r] by auto
next
  case merged
  let ?c = "rgHeap r candidate"
  let ?M = "set (matched ?c r)"
  have inl: "b \<in> set (rgList r')" "b \<noteq> can" if "b \<in> set (rgList r)" "b \<notin> ?M" for b
    using that merged(1,2) by auto
  have old: "b \<in> set (rgList r) \<and> b \<notin> ?M \<and> rgHeap r' b = rgHeap r b" if "b \<in> set (rgList r')" "b \<noteq> can" for b
    using that merged(2,3) by auto
  have cr: "can \<in> set (rgList r)" using merged(1) by (simp add: matched_iff)
  have ncan: "normal_service (rgHeap r can)" using cr ok by (simp add: registry_ok_def)
  have apart: "\<not> shares (rgHeap r' can) (rgHeap r b)" if b: "b \<in> set (rgList r)" "b \<notin> ?M" for b
  proof
    assume "shares (rgHeap r' can) (rgHeap r b)"
    then have "shares (gather (absorbed_services candidate can r) (rgHeap r can)) (rgHeap r b)"
      using merged(3) by simp
    from gather_shares [OF ncan absorbed_normal [OF registry_normal [OF ok] c(2)] this]
    obtain s where "s \<in> insert ?c (rgHeap r ` ?M)" "shares s (rgHeap r b)"
      unfolding absorbed_set [OF merged(1)] by blast
    then show False using b ok unfolding registry_ok_def by (auto simp: matched_iff) metis
  qed
  have "registry_ok r'" unfolding registry_ok_def
  proof (intro conjI ballI impI)
    show "distinct (rgList r')" using ok merged(2) by (simp add: registry_ok_def)
    fix a assume a: "a \<in> set (rgList r')"
    then show "a < rgFresh r'" using ok merged(2,4) by (auto simp: registry_ok_def)
    show "normal_service (rgHeap r' a)"
      using a ok merged(2,3) by (cases "a = can") (auto simp: registry_ok_def intro: gather_normal [OF ncan])
    fix b assume b: "b \<in> set (rgList r')" "a \<noteq> b"
    show "\<not> shares (rgHeap r' a) (rgHeap r' b)"
    proof (cases "a = can \<or> b = can")
      case True
      with a b old [of a] old [of b] apart shares_sym show ?thesis by metis
    next
      case False
      with a b old [of a] old [of b] ok show ?thesis by (simp add: registry_ok_def)
    qed
  qed
  moreover have "can \<in> set (rgList r')" using cr merged(2) by simp
  moreover have "b = can" if "b \<in> set (rgList r')" "shares ?c (rgHeap r' b)" for b
    using old [of b] that matched_iff [of b ?c r] by metis
  ultimately show ?thesis by blast
qed


lemma merge_conflict_free:
  "merge_conflict k f p hits = None \<Longrightarrow> m \<in> set hits \<Longrightarrow>
   (k = [] \<or> svcSKI m = [] \<or> EqualFold k (svcSKI m))
   \<and> (f = [] \<or> svcFingerprint m = [] \<or> EqualFold f (ToUpper (svcFingerprint m)))
   \<and> (p = [] \<or> svcShipID m = [] \<or> EqualFold p (svcShipID m))"
proof (induction hits arbitrary: k f p)
  case (Cons x hits)
  then have "k = [] \<or> svcSKI x = [] \<or> EqualFold k (svcSKI x)"
    "f = [] \<or> svcFingerprint x = [] \<or> EqualFold f (ToUpper (svcFingerprint x))"
    "p = [] \<or> svcShipID x = [] \<or> EqualFold p (svcShipID x)"
    and rest: "merge_conflict (if k = [] then svcSKI x else k) (if f = [] then ToUpper (svcFingerprint x) else f)
        (if p = [] then svcShipID x else p) hits = None"
    by (auto simp: checkConflict_def split: if_splits option.splits)
  then show ?case using Cons.IH [OF rest] Cons.prems(2) by (auto split: if_splits)
qed simp

lemma EqualFold_normal:
  assumes "NormalizeSKI a = a" "NormalizeSKI b = b" "EqualFold a b"
  shows "a = b"
proof -
  have "ToLower s = s" if "NormalizeSKI s = s" for s
  proof -
    have "ToLower (NormalizeSKI s) = NormalizeSKI s"
      by (simp add: NormalizeSKI_def ToLower_def)
    with that show ?thesis by simp
  qed
  with assms show ?thesis by (simp add: EqualFold_def)
qed

text \<open>The entry that a merge returns has the SKI and the fingerprint of the candidate, where it has them.\<close>

lemma merge_identifiers:
  assumes n: "\<forall>a \<in> set (rgList r). normal_service (rgHeap r a)" and c: "normal_service (rgHeap r candidate)"
    and m: "mergeOrAddService candidate r = (Inr can, r')"
  shows "svcSKI (rgHeap r candidate) \<noteq> [] \<Longrightarrow> svcSKI (rgHeap r' can) = svcSKI (rgHeap r candidate)"
    and "svcFingerprint (rgHeap r candidate) \<noteq> [] \<Longrightarrow>
      ToUpper (svcFingerprint (rgHeap r' can)) = ToUpper (svcFingerprint (rgHeap r candidate))"
proof -
  let ?c = "rgHeap r candidate"
  have "(svcSKI ?c \<noteq> [] \<longrightarrow> svcSKI (rgHeap r' can) = svcSKI ?c)
    \<and> (svcFingerprint ?c \<noteq> [] \<longrightarrow> ToUpper (svcFingerprint (rgHeap r' can)) = ToUpper (svcFingerprint ?c))"
    using m
  proof (cases rule: merge_cases)
    case added
    then show ?thesis by simp
  next
    case merged
    let ?S = "insert ?c (rgHeap r ` set (matched ?c r))"
    have ncan: "normal_service (rgHeap r can)"
      using merged(1) n by (simp add: matched_iff)
    have nS: "normal_service s" if "s \<in> ?S" for s
      using that c n by (auto simp: matched_iff)
    have agree: "(svcSKI ?c = [] \<or> svcSKI s = [] \<or> EqualFold (svcSKI ?c) (svcSKI s))
        \<and> (svcFingerprint ?c = [] \<or> svcFingerprint s = [] \<or> ToUpper (svcFingerprint s) = ToUpper (svcFingerprint ?c))"
      if "s \<in> ?S" for s
      using that merge_conflict_free [OF merged(5)] by (fastforce simp: EqualFold_ToUpper)
    from gather_ski [OF ncan absorbed_normal [OF n c, of can]]
    obtain s where s: "s \<in> ?S" "svcSKI (rgHeap r' can) = svcSKI s" "svcSKI s = [] \<Longrightarrow> svcSKI ?c = []"
      unfolding absorbed_set [OF merged(1)] using merged(3) by auto
    from gather_fp [of "rgHeap r can" "absorbed_services candidate can r"]
    obtain t where t: "t \<in> ?S" "svcFingerprint (rgHeap r' can) = svcFingerprint t"
      "svcFingerprint t = [] \<Longrightarrow> svcFingerprint ?c = []"
      unfolding absorbed_set [OF merged(1)] using merged(3) by auto
    have "svcSKI ?c \<noteq> [] \<longrightarrow> svcSKI s = svcSKI ?c"
      using agree [OF s(1)] s(3) EqualFold_normal [of "svcSKI ?c" "svcSKI s"] nS [OF s(1)] c
      by (auto simp: normal_service_def)
    with agree [OF t(1)] t s(2) show ?thesis by auto
  qed
  then show "svcSKI ?c \<noteq> [] \<Longrightarrow> svcSKI (rgHeap r' can) = svcSKI ?c"
    "svcFingerprint ?c \<noteq> [] \<Longrightarrow> ToUpper (svcFingerprint (rgHeap r' can)) = ToUpper (svcFingerprint ?c)"
    by simp_all
qed

lemma merge_trust_of:
  assumes "mergeOrAddService candidate r = (Inr can, r')"
  shows "svcTrusted (rgHeap r' can) \<longleftrightarrow> svcTrusted (rgHeap r candidate)
     \<or> (\<exists>a \<in> set (matched (rgHeap r candidate) r). svcTrusted (rgHeap r a))"
  using assms
proof (cases rule: merge_cases)
  case merged
  have "svcTrusted (rgHeap r' can)
      \<longleftrightarrow> (\<exists>s \<in> insert (rgHeap r can) (set (absorbed_services candidate can r)). svcTrusted s)"
    using merged(3) by (simp add: gather_trusted)
  then show ?thesis unfolding absorbed_set [OF merged(1)] by auto
qed simp

text \<open>
  Merging neither invents nor loses trust: the returned entry is trusted exactly if the candidate is, or
  an entry that shares an identifier with it; every other entry is the object it was and is still registered.
\<close>

theorem merge_trust:
  assumes m: "mergeOrAddService candidate r = (Inr can, r')"
  shows "(svcTrusted (rgHeap r' can) \<longleftrightarrow> svcTrusted (rgHeap r candidate)
            \<or> (\<exists>a \<in> set (rgList r). shares (rgHeap r candidate) (rgHeap r a) \<and> svcTrusted (rgHeap r a)))
     \<and> (\<forall>b. b \<noteq> can \<longrightarrow> rgHeap r' b = rgHeap r b)
     \<and> (\<forall>b \<in> set (rgList r). \<not> shares (rgHeap r candidate) (rgHeap r b) \<longrightarrow> b \<in> set (rgList r'))"
proof -
  have "(\<forall>b. b \<noteq> can \<longrightarrow> rgHeap r' b = rgHeap r b)
     \<and> (\<forall>b \<in> set (rgList r). \<not> shares (rgHeap r candidate) (rgHeap r b) \<longrightarrow> b \<in> set (rgList r'))"
    using m by (cases rule: merge_cases) (auto simp: matched_iff)
  with merge_trust_of [OF m] show ?thesis by (auto simp: matched_iff)
qed

text \<open>
  A device is found again: after a successful merge the lookup by the identifiers of the candidate
  returns the entry the merge returned, provided the SHIP ID of the candidate is empty or is that of
  the entry to the letter.
\<close>

theorem merge_then_lookup:
  assumes ok: "registry_ok r" and c: "candidate < rgFresh r" "normal_service (rgHeap r candidate)"
    and m: "mergeOrAddService candidate r = (Inr can, r')"
    and ship: "svcShipID (rgHeap r candidate) = [] \<or> svcShipID (rgHeap r' can) = svcShipID (rgHeap r candidate)"
  shows "ServiceFor (ToServiceIdentity (rgHeap r candidate)) r' = Some can"
proof -
  let ?c = "rgHeap r candidate"
  have n: "NormalizeSKI (svcSKI ?c) = svcSKI ?c" using c(2) by (simp add: normal_service_def)
  have k: "can \<in> set (rgList r')" "\<And>b. b \<in> set (rgList r') \<Longrightarrow> shares ?c (rgHeap r' b) \<Longrightarrow> b = can"
    using merge_registry [OF ok c m] by auto
  have "lookup_match (svcSKI ?c) (ToUpper (svcFingerprint ?c)) (svcShipID ?c) (rgHeap r' can)"
    using merge_identifiers [OF registry_normal [OF ok] c(2) m] ship self_match [OF m]
    by (auto simp: lookup_match_def shares_def)
  moreover have "shares ?c s" if "lookup_match (svcSKI ?c) (ToUpper (svcFingerprint ?c)) (svcShipID ?c) s" for s
    using that by (auto simp: lookup_match_def shares_def)
  ultimately have "lookup_loop (lookup_match (svcSKI ?c) (ToUpper (svcFingerprint ?c)) (svcShipID ?c))
      (rgHeap r') None (rgList r') = Some can"
    using k by (intro lookup_loop_unique) blast+
  then show ?thesis by (simp add: ServiceFor_def ServiceForIdentifierFull_def ToServiceIdentity_def n)
qed

section \<open>Examples\<close>

definition plain_service :: "string \<Rightarrow> string \<Rightarrow> string \<Rightarrow> bool \<Rightarrow> service" where
  "plain_service ski fp ship trust = \<lparr>svcFingerprint = fp, svcSKI = ski, svcShipID = ship,
     svcPairingType = PairingTypeDefault, svcAutoAccept = False, svcIPv4 = [], svcTrusted = trust,
     svcDetail = NewConnectionStateDetail ConnectionStateNone None\<rparr>"

text \<open>A trusted entry without an SKI, an entry found by mDNS, and the candidate that joins them.\<close>

definition split_registry :: registry where
  "split_registry =
     \<lparr>rgHeap = (\<lambda>_. plain_service ''ab'' ''A1'' ''ship'' False)
        (0 := plain_service ''ab'' [] [] False, 1 := plain_service [] ''a1'' ''ship'' True),
      rgFresh = 3, rgList = [0, 1]\<rparr>"

lemma split_registry_ok: "registry_ok split_registry"
  by code_simp

lemma split_merge:
  "fst (mergeOrAddService 2 split_registry) = Inr 1
   \<and> rgList (snd (mergeOrAddService 2 split_registry)) = [1]
   \<and> svcShipID (rgHeap (snd (mergeOrAddService 2 split_registry)) 1) = ''ship''"
  by code_simp

lemma split_merge_eq: "mergeOrAddService 2 split_registry = (Inr 1, snd (mergeOrAddService 2 split_registry))"
  using split_merge by (metis prod.collapse)

lemma split_candidate:
  "2 < rgFresh split_registry" "normal_service (rgHeap split_registry 2)"
  "svcShipID (rgHeap split_registry 2) = ''ship''"
  by code_simp+


theorem merge_trust_witness: "svcTrusted (rgHeap (snd (mergeOrAddService 2 split_registry)) 1)"
proof -
  have "1 \<in> set (rgList split_registry) \<and> shares (rgHeap split_registry 2) (rgHeap split_registry 1)
      \<and> svcTrusted (rgHeap split_registry 1)"
    by code_simp
  with merge_trust [OF split_merge_eq] show ?thesis by blast
qed

theorem merge_then_lookup_witness:
  "ServiceFor (ToServiceIdentity (rgHeap split_registry 2)) (snd (mergeOrAddService 2 split_registry)) = Some 1"
  using merge_then_lookup [OF split_registry_ok split_candidate(1,2) split_merge_eq] split_merge split_candidate(3)
  by simp

text \<open>
  The condition on the SHIP ID is needed: the conflict check ignores the case of SHIP IDs and the lookup does
  not, so a merge may return an entry that a lookup by the same identifiers then rejects.
\<close>

definition case_registry :: registry where
  "case_registry =
     \<lparr>rgHeap = (\<lambda>_. plain_service ''ab'' [] ''SHIP'' False)(0 := plain_service ''ab'' [] ''ship'' True),
      rgFresh = 2, rgList = [0]\<rparr>"

theorem merge_ship_case:
  "fst (mergeOrAddService 1 case_registry) = Inr 0
   \<and> ServiceFor (ToServiceIdentity (rgHeap case_registry 1)) (snd (mergeOrAddService 1 case_registry)) = None"
  by code_simp

text \<open>
  An entry that a merge absorbs keeps its trust mark. A connection attempt that was started for it merges it
  again when it completes: if the user has removed the device in between, the device is then registered and
  trusted again.
\<close>

definition twin_registry :: registry where
  "twin_registry =
     \<lparr>rgHeap = (\<lambda>_. plain_service ''ab'' ''A1'' [] False)
        (0 := plain_service [] ''A1'' ''ship'' True, 1 := plain_service ''ab'' [] [] True),
      rgFresh = 3, rgList = [0, 1]\<rparr>"

definition removed_registry :: registry where
  "removed_registry = removeServiceEntry 0 (update_service 0 (SetTrusted False) (snd (mergeOrAddService 2 twin_registry)))"

theorem absorbed_entry_comes_back:
  "rgList removed_registry = []
   \<and> rgList (snd (mergeOrAddService 1 removed_registry)) = [1]
   \<and> svcTrusted (rgHeap (snd (mergeOrAddService 1 removed_registry)) 1)"
  by code_simp

end
