(* ===== verification/Trackers.thy ===== *)
theory Trackers
  imports Prelude "HOL-Library.AList"
begin

text \<open>
  The two timer tables of the hub, both keyed by SHIP ID: \<open>AddCuReplacementTracker\<close>
  (\<open>hub/addcu_replacement_tracker.go\<close>), which tracks one device, and \<open>AnnouncementLifetimeTracker\<close>
  (\<open>hub/announcement_lifetime_tracker.go\<close>), which tracks one timer for each device.

  \<open>time.AfterFunc\<close> gives every timer an identity. A timer is armed until it is stopped or fires; once it
  has fired its callback waits for the mutex of its tracker and can no longer be stopped. Every method
  and the locked part of a callback run under that mutex.
\<close>

section \<open>Runtime timers\<close>

record 'a go_timers =
  tmFresh :: nat
  tmArmed :: "(nat \<times> 'a) list"
  tmFired :: "(nat \<times> 'a) list"

definition no_timers :: "'a go_timers" where
  "no_timers = \<lparr>tmFresh = 0, tmArmed = [], tmFired = []\<rparr>"

definition AfterFunc :: "'a \<Rightarrow> 'a go_timers \<Rightarrow> nat \<times> 'a go_timers" where
  "AfterFunc x t = (tmFresh t, t\<lparr>tmFresh := tmFresh t + 1, tmArmed := tmArmed t @ [(tmFresh t, x)]\<rparr>)"

definition timer_Stop :: "nat \<Rightarrow> 'a go_timers \<Rightarrow> bool \<times> 'a go_timers" where
  "timer_Stop i t = (i \<in> fst ` set (tmArmed t), t\<lparr>tmArmed := filter (\<lambda>p. fst p \<noteq> i) (tmArmed t)\<rparr>)"

text \<open>The duration of timer \<open>i\<close> has passed; and its callback gets the mutex.\<close>

definition timer_fire :: "nat \<Rightarrow> 'a go_timers \<Rightarrow> 'a go_timers" where
  "timer_fire i t = t\<lparr>tmArmed := filter (\<lambda>p. fst p \<noteq> i) (tmArmed t),
     tmFired := tmFired t @ filter (\<lambda>p. fst p = i) (tmArmed t)\<rparr>"

definition timer_take :: "nat \<Rightarrow> 'a go_timers \<Rightarrow> 'a option \<times> 'a go_timers" where
  "timer_take i t = (map_of (tmFired t) i, t\<lparr>tmFired := filter (\<lambda>p. fst p \<noteq> i) (tmFired t)\<rparr>)"

section \<open>The replacement tracker\<close>

text \<open>A callback remembers the SHIP ID and whether there is a function to call.\<close>

type_synonym ship_timers = "(string \<times> bool) go_timers"

record replacement_tracker =
  rtTimeout :: duration
  rtShipID :: string
  rtDisconnection :: int
  rtTimer :: "nat option"
  rtTimers :: ship_timers

definition NewAddCuReplacementTrackerWithTimeout :: "duration \<Rightarrow> replacement_tracker" where
  "NewAddCuReplacementTrackerWithTimeout d =
     \<lparr>rtTimeout = d, rtShipID = [], rtDisconnection = 0, rtTimer = None, rtTimers = no_timers\<rparr>"

definition NewAddCuReplacementTracker :: replacement_tracker where
  "NewAddCuReplacementTracker = NewAddCuReplacementTrackerWithTimeout (sec (15 * 60))"

definition stop_current :: "replacement_tracker \<Rightarrow> ship_timers" where
  "stop_current t = (case rtTimer t of None \<Rightarrow> rtTimers t | Some i \<Rightarrow> snd (timer_Stop i (rtTimers t)))"

definition StartTimer :: "int \<Rightarrow> string \<Rightarrow> bool \<Rightarrow> replacement_tracker \<Rightarrow> replacement_tracker" where
  "StartTimer now shipID notify t =
     (let (i, ts) = AfterFunc (shipID, notify) (stop_current t)
      in t\<lparr>rtShipID := shipID, rtDisconnection := now, rtTimer := Some i, rtTimers := ts\<rparr>)"

definition StopTimer :: "string \<Rightarrow> replacement_tracker \<Rightarrow> replacement_tracker" where
  "StopTimer shipID t =
     (if rtShipID t \<noteq> shipID then t
      else t\<lparr>rtTimers := stop_current t, rtShipID := [], rtDisconnection := 0, rtTimer := None\<rparr>)"

definition StopAll_replacement :: "replacement_tracker \<Rightarrow> replacement_tracker" where
  "StopAll_replacement t =
     t\<lparr>rtTimers := stop_current t, rtShipID := [], rtDisconnection := 0, rtTimer := None\<rparr>"

definition IsTracking :: "string \<Rightarrow> replacement_tracker \<Rightarrow> bool" where
  "IsTracking shipID t \<longleftrightarrow> shipID \<noteq> [] \<and> rtShipID t = shipID"

definition IsInReplacementWindow :: "replacement_tracker \<Rightarrow> bool" where
  "IsInReplacementWindow t \<longleftrightarrow> rtShipID t \<noteq> [] \<and> rtTimer t \<noteq> None"

definition replacement_fire :: "nat \<Rightarrow> replacement_tracker \<Rightarrow> replacement_tracker" where
  "replacement_fire i t = t\<lparr>rtTimers := timer_fire i (rtTimers t)\<rparr>"

text \<open>The callback of \<open>StartTimer\<close>; the result is the SHIP ID that \<open>onTimeout\<close> is called with.\<close>

definition replacement_callback :: "nat \<Rightarrow> replacement_tracker \<Rightarrow> string option \<times> replacement_tracker" where
  "replacement_callback i t =
     (case timer_take i (rtTimers t) of
        (None, _) \<Rightarrow> (None, t)
      | (Some (expiredShipID, notify), ts) \<Rightarrow>
          (if notify then Some expiredShipID else None,
           t\<lparr>rtShipID := [], rtDisconnection := 0, rtTimer := None, rtTimers := ts\<rparr>))"

section \<open>The lifetime tracker\<close>

record lifetime_tracker =
  ltTimeout :: duration
  ltTable :: "(string \<times> nat) list"
  ltTimers :: ship_timers

definition NewAnnouncementLifetimeTracker :: "duration \<Rightarrow> lifetime_tracker" where
  "NewAnnouncementLifetimeTracker timeout =
     \<lparr>ltTimeout = (if timeout < sec 60 \<or> timeout > sec (15 * 60) then sec (15 * 60) else timeout),
      ltTable = [], ltTimers = no_timers\<rparr>"

definition removeLifetimeTimer :: "string \<Rightarrow> lifetime_tracker \<Rightarrow> lifetime_tracker" where
  "removeLifetimeTimer shipID t =
     (case map_of (ltTable t) shipID of
        None \<Rightarrow> t
      | Some i \<Rightarrow> t\<lparr>ltTimers := snd (timer_Stop i (ltTimers t)), ltTable := AList.delete shipID (ltTable t)\<rparr>)"

definition StartLifetimeTimer :: "string \<Rightarrow> bool \<Rightarrow> lifetime_tracker \<Rightarrow> lifetime_tracker" where
  "StartLifetimeTimer shipID notify t =
     (let t1 = removeLifetimeTimer shipID t; (i, ts) = AfterFunc (shipID, notify) (ltTimers t1)
      in t1\<lparr>ltTable := AList.update shipID i (ltTable t1), ltTimers := ts\<rparr>)"

definition CancelLifetimeTimer :: "string \<Rightarrow> lifetime_tracker \<Rightarrow> lifetime_tracker" where
  "CancelLifetimeTimer shipID t = removeLifetimeTimer shipID t"

definition IsTimerActive :: "string \<Rightarrow> lifetime_tracker \<Rightarrow> bool" where
  "IsTimerActive shipID t \<longleftrightarrow> shipID \<noteq> [] \<and> map_of (ltTable t) shipID \<noteq> None"

definition StopAll_lifetime :: "lifetime_tracker \<Rightarrow> lifetime_tracker" where
  "StopAll_lifetime t = (fold removeLifetimeTimer (map fst (ltTable t)) t)\<lparr>ltTable := []\<rparr>"

definition lifetime_fire :: "nat \<Rightarrow> lifetime_tracker \<Rightarrow> lifetime_tracker" where
  "lifetime_fire i t = t\<lparr>ltTimers := timer_fire i (ltTimers t)\<rparr>"

definition lifetime_callback :: "nat \<Rightarrow> lifetime_tracker \<Rightarrow> string option \<times> lifetime_tracker" where
  "lifetime_callback i t =
     (case timer_take i (ltTimers t) of
        (None, _) \<Rightarrow> (None, t)
      | (Some (expiredShipID, notify), ts) \<Rightarrow>
          (if notify then Some expiredShipID else None, removeLifetimeTimer expiredShipID (t\<lparr>ltTimers := ts\<rparr>)))"

section \<open>The contract of both\<close>

text \<open>
  \<open>quiet\<close>: no callback is waiting for the mutex, and every armed timer is the one the table has for its
  SHIP ID. A timer that fires in a quiet state and runs its callback at once is an expiry.
\<close>

definition quiet_timers :: "(string \<Rightarrow> nat option) \<Rightarrow> ship_timers \<Rightarrow> bool" where
  "quiet_timers table ts \<longleftrightarrow> tmFired ts = [] \<and> distinct (map fst (tmArmed ts))
     \<and> (\<forall>p \<in> set (tmArmed ts). fst p < tmFresh ts)
     \<and> (\<forall>ship i. table ship = Some i \<longleftrightarrow> (\<exists>b. (i, ship, b) \<in> set (tmArmed ts)))"

datatype tracker_event = TStart int string bool | TStop string | TStopAll | TExpire nat

fun tracker_step ::
  "(int \<Rightarrow> string \<Rightarrow> bool \<Rightarrow> 's \<Rightarrow> 's) \<Rightarrow> (string \<Rightarrow> 's \<Rightarrow> 's) \<Rightarrow> ('s \<Rightarrow> 's) \<Rightarrow> (nat \<Rightarrow> 's \<Rightarrow> string option \<times> 's)
    \<Rightarrow> tracker_event \<Rightarrow> 's \<Rightarrow> string option \<times> 's" where
  "tracker_step start stop stop_all expire (TStart now ship b) s = (None, start now ship b s)"
| "tracker_step start stop stop_all expire (TStop ship) s = (None, stop ship s)"
| "tracker_step start stop stop_all expire TStopAll s = (None, stop_all s)"
| "tracker_step start stop stop_all expire (TExpire i) s = expire i s"

fun tracker_run ::
  "(tracker_event \<Rightarrow> 's \<Rightarrow> string option \<times> 's) \<Rightarrow> tracker_event list \<Rightarrow> 's \<Rightarrow> string list \<times> 's" where
  "tracker_run step [] s = ([], s)"
| "tracker_run step (e # es) s =
     (let (c, s1) = step e s; (cs, s2) = tracker_run step es s1
      in ((case c of None \<Rightarrow> cs | Some x \<Rightarrow> x # cs), s2))"

definition starts_ship :: "string \<Rightarrow> tracker_event \<Rightarrow> bool" where
  "starts_ship ship e \<longleftrightarrow> (case e of TStart now x b \<Rightarrow> x = ship | _ \<Rightarrow> False)"

locale ship_tracker =
  fixes table :: "'s \<Rightarrow> string \<Rightarrow> nat option" and timers :: "'s \<Rightarrow> ship_timers"
    and start :: "int \<Rightarrow> string \<Rightarrow> bool \<Rightarrow> 's \<Rightarrow> 's" and stop :: "string \<Rightarrow> 's \<Rightarrow> 's"
    and stop_all :: "'s \<Rightarrow> 's" and expire :: "nat \<Rightarrow> 's \<Rightarrow> string option \<times> 's"
  assumes start_quiet: "quiet_timers (table s) (timers s) \<Longrightarrow>
      quiet_timers (table (start now ship b s)) (timers (start now ship b s))"
    and start_other: "x \<noteq> ship \<Longrightarrow> table s x = None \<Longrightarrow> table (start now ship b s) x = None"
    and stop_quiet: "quiet_timers (table s) (timers s) \<Longrightarrow> quiet_timers (table (stop ship s)) (timers (stop ship s))"
    and stop_table: "table (stop ship s) x = (if x = ship then None else table s x)"
    and stop_all_quiet: "quiet_timers (table s) (timers s) \<Longrightarrow> quiet_timers (table (stop_all s)) (timers (stop_all s))"
    and stop_all_table: "table (stop_all s) x = None"
    and expire_quiet: "quiet_timers (table s) (timers s) \<Longrightarrow>
      quiet_timers (table (snd (expire i s))) (timers (snd (expire i s)))"
    and expire_call: "quiet_timers (table s) (timers s) \<Longrightarrow> fst (expire i s) = Some x \<Longrightarrow> table s x = Some i"
    and expire_other: "quiet_timers (table s) (timers s) \<Longrightarrow> table s x = None \<Longrightarrow> table (snd (expire i s)) x = None"
begin

abbreviation run_step :: "tracker_event \<Rightarrow> 's \<Rightarrow> string option \<times> 's" where
  "run_step \<equiv> tracker_step start stop stop_all expire"

lemma step_quiet:
  "quiet_timers (table s) (timers s) \<Longrightarrow> quiet_timers (table (snd (run_step e s))) (timers (snd (run_step e s)))"
  by (cases e) (simp_all add: start_quiet stop_quiet stop_all_quiet expire_quiet)

lemma step_untracked:
  "quiet_timers (table s) (timers s) \<Longrightarrow> table s ship = None \<Longrightarrow> \<not> starts_ship ship e \<Longrightarrow>
   table (snd (run_step e s)) ship = None \<and> fst (run_step e s) \<noteq> Some ship"
  by (cases e) (auto simp: starts_ship_def start_other stop_table stop_all_table expire_other dest: expire_call)

lemma run_quiet:
  "quiet_timers (table s) (timers s) \<Longrightarrow>
   quiet_timers (table (snd (tracker_run run_step es s))) (timers (snd (tracker_run run_step es s)))"
  by (induction es arbitrary: s) (auto simp: Let_def case_prod_beta step_quiet)

lemma run_untracked:
  "quiet_timers (table s) (timers s) \<Longrightarrow> table s ship = None \<Longrightarrow> \<forall>e \<in> set es. \<not> starts_ship ship e \<Longrightarrow>
   ship \<notin> set (fst (tracker_run run_step es s))"
proof (induction es arbitrary: s)
  case (Cons e es)
  have "table (snd (run_step e s)) ship = None \<and> fst (run_step e s) \<noteq> Some ship"
    using Cons.prems by (intro step_untracked) auto
  then show ?case
    using Cons.IH [of "snd (run_step e s)"] Cons.prems step_quiet [of s e]
    by (auto simp: Let_def case_prod_beta split: option.split)
qed simp

lemma stopped_not_called:
  assumes "quiet_timers (table s) (timers s)" "\<forall>e \<in> set es. \<not> starts_ship ship e"
  shows "ship \<notin> set (fst (tracker_run run_step es (stop ship s)))"
    and "ship \<notin> set (fst (tracker_run run_step es (stop_all s)))"
  using assms by (simp_all add: run_untracked stop_quiet stop_all_quiet stop_table stop_all_table)

end

section \<open>The trackers keep the contract\<close>

lemma quiet_table: "quiet_timers tab ts \<Longrightarrow> tab ship = Some i \<longleftrightarrow> (\<exists>b. (i, ship, b) \<in> set (tmArmed ts))"
  by (simp add: quiet_timers_def)

lemma quiet_AfterFunc:
  assumes "quiet_timers tab ts" "tab ship = None"
  shows "quiet_timers (tab(ship \<mapsto> fst (AfterFunc (ship, b) ts))) (snd (AfterFunc (ship, b) ts))"
proof -
  have "tmFresh ts \<noteq> fst p" if "p \<in> set (tmArmed ts)" for p using assms(1) that by (auto simp: quiet_timers_def)
  moreover have "(i, ship, c) \<notin> set (tmArmed ts)" for i c
    using assms by (metis quiet_timers_def option.distinct(1))
  ultimately show ?thesis
    using assms(1) by (auto simp: quiet_timers_def AfterFunc_def less_SucI image_iff)
qed

lemma quiet_Stop:
  assumes "quiet_timers tab ts" "tab ship = Some i"
  shows "quiet_timers (tab(ship := None)) (snd (timer_Stop i ts))"
proof -
  have same: "x = ship" if "(i, x, b) \<in> set (tmArmed ts)" for x b
  proof -
    obtain c where "(i, ship, c) \<in> set (tmArmed ts)" using assms by (auto simp: quiet_timers_def)
    with that assms(1) show ?thesis by (auto simp: quiet_timers_def dest: eq_key_imp_eq_value)
  qed
  have other: "j = i" if "(j, ship, b) \<in> set (tmArmed ts)" for j b
    using that assms by (metis quiet_timers_def option.inject)
  have "(tab(ship := None)) x = Some j \<longleftrightarrow> (\<exists>b. (j, x, b) \<in> set (tmArmed (snd (timer_Stop i ts))))" for x j
  proof (cases "x = ship")
    case True
    then show ?thesis using other by (auto simp: timer_Stop_def)
  next
    case False
    with same have "j \<noteq> i" if "(j, x, b) \<in> set (tmArmed ts)" for b using that by metis
    then have "(\<exists>b. (j, x, b) \<in> set (tmArmed (snd (timer_Stop i ts)))) \<longleftrightarrow> (\<exists>b. (j, x, b) \<in> set (tmArmed ts))"
      by (simp add: timer_Stop_def) metis
    with False quiet_table [OF assms(1), of x j] show ?thesis by simp
  qed
  moreover have "tmFired (snd (timer_Stop i ts)) = []" "distinct (map fst (tmArmed (snd (timer_Stop i ts))))"
    "\<forall>p \<in> set (tmArmed (snd (timer_Stop i ts))). fst p < tmFresh (snd (timer_Stop i ts))"
    using assms(1) by (simp_all add: quiet_timers_def timer_Stop_def distinct_map_filter)
  ultimately show ?thesis unfolding quiet_timers_def by blast
qed

lemma fire_missing: "i \<notin> fst ` set (tmArmed ts) \<Longrightarrow> timer_fire i ts = ts"
proof -
  assume "i \<notin> fst ` set (tmArmed ts)"
  then have "filter (\<lambda>p. fst p \<noteq> i) (tmArmed ts) = tmArmed ts" "filter (\<lambda>p. fst p = i) (tmArmed ts) = []"
    by (auto simp: filter_empty_conv intro!: filter_True)
  then show ?thesis by (simp add: timer_fire_def)
qed

lemma quiet_expire_missing:
  "quiet_timers tab ts \<Longrightarrow> i \<notin> fst ` set (tmArmed ts) \<Longrightarrow> timer_take i (timer_fire i ts) = (None, ts)"
  by (simp add: fire_missing timer_take_def quiet_timers_def)

lemma filter_unique_key: "distinct (map fst xs) \<Longrightarrow> (i, v) \<in> set xs \<Longrightarrow> filter (\<lambda>p. fst p = i) xs = [(i, v)]"
proof (induction xs)
  case (Cons p xs)
  have "filter (\<lambda>p. fst p = i) xs = []" if "i \<notin> fst ` set xs"
    using that by (auto simp: filter_empty_conv)
  with Cons show ?case by force
qed simp

lemma quiet_expire:
  assumes "quiet_timers tab ts" "(i, ship, b) \<in> set (tmArmed ts)"
  shows "timer_take i (timer_fire i ts) = (Some (ship, b), snd (timer_Stop i ts))"
  using assms by (auto simp: timer_take_def timer_fire_def timer_Stop_def quiet_timers_def filter_unique_key)

lemma armed_cases:
  obtains (missing) "i \<notin> fst ` set (tmArmed ts)" | (armed) ship b where "(i, ship, b) \<in> set (tmArmed ts)"
  by force

definition replacement_table :: "replacement_tracker \<Rightarrow> string \<Rightarrow> nat option" where
  "replacement_table t = (case rtTimer t of None \<Rightarrow> Map.empty | Some i \<Rightarrow> [rtShipID t \<mapsto> i])"

definition replacement_expire :: "nat \<Rightarrow> replacement_tracker \<Rightarrow> string option \<times> replacement_tracker" where
  "replacement_expire i t = replacement_callback i (replacement_fire i t)"

definition lifetime_expire :: "nat \<Rightarrow> lifetime_tracker \<Rightarrow> string option \<times> lifetime_tracker" where
  "lifetime_expire i t = lifetime_callback i (lifetime_fire i t)"

lemma quiet_stop_current:
  "quiet_timers (replacement_table t) (rtTimers t) \<Longrightarrow> quiet_timers Map.empty (stop_current t)"
  using quiet_Stop [of "replacement_table t" "rtTimers t" "rtShipID t"]
  by (auto simp: replacement_table_def stop_current_def split: option.splits)

lemma replacement_expire_cases:
  assumes "quiet_timers (replacement_table t) (rtTimers t)"
  shows "replacement_expire i t = (None, t)
    \<or> (\<exists>b. rtTimer t = Some i \<and> (i, rtShipID t, b) \<in> set (tmArmed (rtTimers t))
        \<and> replacement_expire i t = (if b then Some (rtShipID t) else None, StopAll_replacement t))"
proof (cases i "rtTimers t" rule: armed_cases)
  case missing
  then show ?thesis
    using assms quiet_expire_missing [OF assms missing]
    by (simp add: replacement_expire_def replacement_callback_def replacement_fire_def fire_missing)
next
  case (armed ship b)
  then have "replacement_table t ship = Some i" by (auto simp: quiet_table [OF assms])
  then have "rtTimer t = Some i" "ship = rtShipID t"
    by (auto simp: replacement_table_def split: option.splits if_splits)
  moreover from this have "replacement_expire i t = (if b then Some (rtShipID t) else None, StopAll_replacement t)"
    using quiet_expire [OF assms armed]
    by (simp add: replacement_expire_def replacement_callback_def replacement_fire_def StopAll_replacement_def
        stop_current_def)
  ultimately show ?thesis using armed by blast
qed

interpretation rt: ship_tracker replacement_table rtTimers StartTimer StopTimer StopAll_replacement replacement_expire
proof
  fix s :: replacement_tracker and now and ship x :: string and b i
  assume q: "quiet_timers (replacement_table s) (rtTimers s)"
  show "quiet_timers (replacement_table (StartTimer now ship b s)) (rtTimers (StartTimer now ship b s))"
    using quiet_AfterFunc [OF quiet_stop_current [OF q], of ship b]
    by (simp add: StartTimer_def replacement_table_def case_prod_beta)
  show "quiet_timers (replacement_table (StopTimer ship s)) (rtTimers (StopTimer ship s))"
    using q quiet_stop_current [OF q] by (simp add: StopTimer_def replacement_table_def)
  show all: "quiet_timers (replacement_table (StopAll_replacement s)) (rtTimers (StopAll_replacement s))"
    using quiet_stop_current [OF q] by (simp add: StopAll_replacement_def replacement_table_def)
  show "quiet_timers (replacement_table (snd (replacement_expire i s))) (rtTimers (snd (replacement_expire i s)))"
    using replacement_expire_cases [OF q, of i] q all by auto
  show "replacement_table s x = Some i" if "fst (replacement_expire i s) = Some x"
    using replacement_expire_cases [OF q, of i] that by (auto simp: replacement_table_def split: if_splits)
  show "replacement_table (snd (replacement_expire i s)) x = None" if "replacement_table s x = None"
    using replacement_expire_cases [OF q, of i]
  proof (elim disjE exE conjE)
    assume "replacement_expire i s = (None, s)"
    with that show ?thesis by simp
  qed (simp add: replacement_table_def StopAll_replacement_def)
qed (auto simp: replacement_table_def StartTimer_def StopTimer_def StopAll_replacement_def case_prod_beta
    split: option.split)

lemma lifetime_remove_table:
  "map_of (ltTable (removeLifetimeTimer ship t)) = (map_of (ltTable t))(ship := None)"
  by (auto simp: removeLifetimeTimer_def delete_conv' split: option.split)

lemma lifetime_remove_quiet:
  "quiet_timers (map_of (ltTable t)) (ltTimers t) \<Longrightarrow>
   quiet_timers (map_of (ltTable (removeLifetimeTimer ship t))) (ltTimers (removeLifetimeTimer ship t))"
  using quiet_Stop [of "map_of (ltTable t)" "ltTimers t" ship]
  by (auto simp: removeLifetimeTimer_def delete_conv' split: option.split)

lemma lifetime_fold_remove:
  "quiet_timers (map_of (ltTable t)) (ltTimers t) \<Longrightarrow>
   quiet_timers (map_of (ltTable (fold removeLifetimeTimer xs t))) (ltTimers (fold removeLifetimeTimer xs t))
   \<and> map_of (ltTable (fold removeLifetimeTimer xs t)) = (\<lambda>x. if x \<in> set xs then None else map_of (ltTable t) x)"
proof (induction xs arbitrary: t)
  case (Cons x xs)
  from Cons.IH [OF lifetime_remove_quiet [OF Cons.prems, of x]] show ?case
    by (auto simp: lifetime_remove_table)
qed simp

lemma lifetime_fold_all:
  "quiet_timers (map_of (ltTable t)) (ltTimers t) \<Longrightarrow>
   quiet_timers Map.empty (ltTimers (fold removeLifetimeTimer (map fst (ltTable t)) t))"
proof -
  assume q: "quiet_timers (map_of (ltTable t)) (ltTimers t)"
  have "(\<lambda>x. if x \<in> set (map fst (ltTable t)) then None else map_of (ltTable t) x) = Map.empty"
    by (auto simp: fun_eq_iff map_of_eq_None_iff)
  with lifetime_fold_remove [OF q, of "map fst (ltTable t)"] show ?thesis by metis
qed

lemma lifetime_expire_cases:
  assumes "quiet_timers (map_of (ltTable t)) (ltTimers t)"
  shows "lifetime_expire i t = (None, t)
    \<or> (\<exists>ship b. map_of (ltTable t) ship = Some i
        \<and> lifetime_expire i t = (if b then Some ship else None, removeLifetimeTimer ship t))"
proof (cases i "ltTimers t" rule: armed_cases)
  case missing
  then show ?thesis
    using assms quiet_expire_missing [OF assms missing]
    by (simp add: lifetime_expire_def lifetime_callback_def lifetime_fire_def fire_missing)
next
  case (armed ship b)
  then have m: "map_of (ltTable t) ship = Some i" by (auto simp: quiet_table [OF assms])
  have "snd (timer_Stop i (snd (timer_Stop i (ltTimers t)))) = snd (timer_Stop i (ltTimers t))"
    by (simp add: timer_Stop_def)
  with m have "removeLifetimeTimer ship (t\<lparr>ltTimers := snd (timer_Stop i (ltTimers t))\<rparr>) = removeLifetimeTimer ship t"
    by (simp add: removeLifetimeTimer_def)
  then show ?thesis using m quiet_expire [OF assms armed]
    by (auto simp: lifetime_expire_def lifetime_callback_def lifetime_fire_def)
qed

interpretation lt: ship_tracker "\<lambda>t. map_of (ltTable t)" ltTimers "\<lambda>now. StartLifetimeTimer" CancelLifetimeTimer
  StopAll_lifetime lifetime_expire
proof
  fix s :: lifetime_tracker and ship x :: string and b i
  assume q: "quiet_timers (map_of (ltTable s)) (ltTimers s)"
  show "quiet_timers (map_of (ltTable (StartLifetimeTimer ship b s))) (ltTimers (StartLifetimeTimer ship b s))"
    using quiet_AfterFunc [OF lifetime_remove_quiet [OF q, of ship], of ship b]
    by (simp add: StartLifetimeTimer_def Let_def case_prod_beta lifetime_remove_table update_conv')
  show "quiet_timers (map_of (ltTable (CancelLifetimeTimer ship s))) (ltTimers (CancelLifetimeTimer ship s))"
    unfolding CancelLifetimeTimer_def by (rule lifetime_remove_quiet [OF q])
  show "quiet_timers (map_of (ltTable (StopAll_lifetime s))) (ltTimers (StopAll_lifetime s))"
    using lifetime_fold_all [OF q] by (simp add: StopAll_lifetime_def)
  show "quiet_timers (map_of (ltTable (snd (lifetime_expire i s)))) (ltTimers (snd (lifetime_expire i s)))"
    using lifetime_expire_cases [OF q, of i] q lifetime_remove_quiet [OF q] by auto
  show "map_of (ltTable s) x = Some i" if "fst (lifetime_expire i s) = Some x"
    using lifetime_expire_cases [OF q, of i] that by (auto split: if_splits)
  show "map_of (ltTable (snd (lifetime_expire i s))) x = None" if "map_of (ltTable s) x = None"
    using lifetime_expire_cases [OF q, of i] that by (auto simp: lifetime_remove_table)
qed (simp_all add: StartLifetimeTimer_def CancelLifetimeTimer_def StopAll_lifetime_def lifetime_remove_table
    update_conv' Let_def case_prod_beta)

section \<open>Properties\<close>

abbreviation replacement_run :: "tracker_event list \<Rightarrow> replacement_tracker \<Rightarrow> string list \<times> replacement_tracker" where
  "replacement_run \<equiv> tracker_run (tracker_step StartTimer StopTimer StopAll_replacement replacement_expire)"

abbreviation lifetime_run :: "tracker_event list \<Rightarrow> lifetime_tracker \<Rightarrow> string list \<times> lifetime_tracker" where
  "lifetime_run \<equiv> tracker_run (tracker_step (\<lambda>now. StartLifetimeTimer) CancelLifetimeTimer StopAll_lifetime lifetime_expire)"

lemma quiet_new_replacement:
  "quiet_timers (replacement_table (NewAddCuReplacementTrackerWithTimeout d)) (rtTimers (NewAddCuReplacementTrackerWithTimeout d))"
  by (simp add: quiet_timers_def NewAddCuReplacementTrackerWithTimeout_def no_timers_def replacement_table_def)

lemma quiet_new_lifetime:
  "quiet_timers (map_of (ltTable (NewAnnouncementLifetimeTracker d))) (ltTimers (NewAnnouncementLifetimeTracker d))"
  by (simp add: quiet_timers_def NewAnnouncementLifetimeTracker_def no_timers_def)



text \<open>The replacement window is open exactly as long as a timer is armed.\<close>

lemma window_armed:
  assumes "\<forall>e \<in> set es. \<not> starts_ship [] e"
  shows "IsInReplacementWindow (snd (replacement_run es (NewAddCuReplacementTrackerWithTimeout d)))
    \<longleftrightarrow> tmArmed (rtTimers (snd (replacement_run es (NewAddCuReplacementTrackerWithTimeout d)))) \<noteq> []"
proof -
  let ?t = "snd (replacement_run es (NewAddCuReplacementTrackerWithTimeout d))"
  have q: "quiet_timers (replacement_table ?t) (rtTimers ?t)" by (rule rt.run_quiet [OF quiet_new_replacement])
  have e: "replacement_table t [] = None \<Longrightarrow> quiet_timers (replacement_table t) (rtTimers t) \<Longrightarrow>
      \<forall>e \<in> set es. \<not> starts_ship [] e \<Longrightarrow> replacement_table (snd (replacement_run es t)) [] = None" for t
  proof (induction es arbitrary: t)
    case (Cons e es)
    let ?s = "snd (rt.run_step e t)"
    from Cons.IH [of ?s] Cons.prems rt.step_untracked [of t "[]" e] rt.step_quiet [of t e]
    show ?case by (simp add: Let_def case_prod_beta)
  qed simp
  have "replacement_table ?t [] = None"
    using e [of "NewAddCuReplacementTrackerWithTimeout d"] quiet_new_replacement assms
    by (simp add: replacement_table_def NewAddCuReplacementTrackerWithTimeout_def)
  then have "IsInReplacementWindow ?t \<longleftrightarrow> rtTimer ?t \<noteq> None"
    by (auto simp: IsInReplacementWindow_def replacement_table_def split: option.splits)
  also have "\<dots> \<longleftrightarrow> (\<exists>x i. replacement_table ?t x = Some i)"
    by (auto simp: replacement_table_def split: option.split)
  also have "\<dots> \<longleftrightarrow> tmArmed (rtTimers ?t) \<noteq> []"
    using q unfolding quiet_timers_def by (metis list.set_intros(1) list.exhaust list.distinct(1) prod.collapse empty_iff empty_set)
  finally show ?thesis .
qed

text \<open>
  When a callback has to wait for the mutex, the promise of \<open>StopTimer\<close> fails: the callback of an old timer
  clears the entry of the device tracked meanwhile, the window is closed although its timer is armed, and
  stopping that timer is no longer possible.
\<close>

definition stale_callback :: replacement_tracker where
  "stale_callback = snd (replacement_callback 0 (StartTimer 2 ''b'' True (replacement_fire 0
     (StartTimer 1 ''a'' True NewAddCuReplacementTracker))))"

theorem stale_callback_clears_new_device:
  "\<not> IsInReplacementWindow stale_callback \<and> tmArmed (rtTimers stale_callback) = [(1, ''b'', True)]
   \<and> fst (replacement_callback 1 (replacement_fire 1 (StopTimer ''b'' stale_callback))) = Some ''b''"
  by code_simp

end
