(* ===== verification/PairingTxt.thy ===== *)
theory PairingTxt
  imports Errors
begin

text \<open>
  The data of the SHIP Pairing Service (\<open>api/shippairing.go\<close>, \<open>api/pairing_config.go\<close>): the TXT
  record of an announcement with its conversion to and from the key/value map of mDNS, its format
  validation, the pairing secret, the target of an announcement and the configuration. A Go
  \<open>map[string]string\<close> is a partial function; reading a missing key gives the empty string.
\<close>

section \<open>Secret, target, configuration\<close>

type_synonym pairing_secret = bytes

definition Clear_secret :: "pairing_secret \<Rightarrow> pairing_secret" where
  "Clear_secret s = map (\<lambda>_. char_of (0::nat)) s"

definition String_secret :: "pairing_secret \<Rightarrow> string" where
  "String_secret s = ''[REDACTED]''"

definition byte_xor :: "char \<Rightarrow> char \<Rightarrow> 8 word" where
  "byte_xor a b = xor (word_of_nat (code a)) (word_of_nat (code b))"

definition Equal_secret :: "pairing_secret \<Rightarrow> pairing_secret \<Rightarrow> bool" where
  "Equal_secret s t =
     (if length s \<noteq> length t then False
      else fold (\<lambda>(a, b) r. or r (byte_xor a b)) (zip s t) 0 = 0)"

definition IsValidLength :: "pairing_secret \<Rightarrow> bool" where
  "IsValidLength s \<longleftrightarrow> length s = 16"

text \<open>
  The secret of a target is a slice that other values share, such as the configuration of the announcer
  and the caller's own target: it is a reference into the memory \<open>slices\<close>.
\<close>

type_synonym slices = "nat \<Rightarrow> bytes"

record pairing_target =
  TargetSKI :: string
  TargetFingerprint :: string
  TargetShipID :: string
  TargetSecret :: nat

definition Clear_target :: "pairing_target \<Rightarrow> slices \<Rightarrow> pairing_target \<times> slices" where
  "Clear_target p mem =
     (\<lparr>TargetSKI = [], TargetFingerprint = [], TargetShipID = [], TargetSecret = TargetSecret p\<rparr>,
      mem(TargetSecret p := map (\<lambda>_. char_of (0::nat)) (mem (TargetSecret p))))"

definition IsEmpty_target :: "pairing_target \<Rightarrow> slices \<Rightarrow> bool" where
  "IsEmpty_target p mem \<longleftrightarrow> length (TargetSKI p) = 0 \<or> length (TargetFingerprint p) = 0
     \<or> length (TargetShipID p) = 0 \<or> length (mem (TargetSecret p)) = 0"

datatype pairing_mode = PairingModeOff | PairingModeListener | PairingModeAnnouncer | PairingModeBoth

record pairing_config =
  Mode :: pairing_mode
  Secret :: pairing_secret
  AnnouncementLifetimeTimeout :: duration

definition NewPairingConfig :: "pairing_mode \<Rightarrow> pairing_secret \<Rightarrow> pairing_config" where
  "NewPairingConfig m s = \<lparr>Mode = m, Secret = s, AnnouncementLifetimeTimeout = 0\<rparr>"

definition Validate_config :: "pairing_config option \<Rightarrow> error option" where
  "Validate_config c = (case c of None \<Rightarrow> None
     | Some cfg \<Rightarrow> if Mode cfg \<noteq> PairingModeOff \<and> length (Secret cfg) > 0 \<and> \<not> IsValidLength (Secret cfg)
                  then Some (Sentinel ErrInvalidSecret) else None)"

section \<open>The TXT record\<close>

definition AlgorithmHMACSHA256 :: string where "AlgorithmHMACSHA256 = ''hmacSha256''"
definition ParTypeFPSHA256 :: string where "ParTypeFPSHA256 = ''fpSha256''"
definition CommandTypeAddCU :: string where "CommandTypeAddCU = ''addCu''"
definition CurveSecp256r1 :: string where "CurveSecp256r1 = ''secp256r1''"
definition CurveBrainpoolP256r1 :: string where "CurveBrainpoolP256r1 = ''brainpoolP256r1''"
definition CurveBrainpoolP384r1 :: string where "CurveBrainpoolP384r1 = ''brainpoolP384r1''"

lemmas txt_consts = AlgorithmHMACSHA256_def ParTypeFPSHA256_def CommandTypeAddCU_def
  CurveSecp256r1_def CurveBrainpoolP256r1_def CurveBrainpoolP384r1_def

record ship_pairing_txt =
  TxtVers :: string
  ParType :: string
  ForId :: string
  ForPar :: string
  TrustId :: string
  TrustPar :: string
  TrustCurve :: string
  CmdType :: string
  TrustNonce :: string
  Alg :: string
  Digest :: string

definition ToMap :: "ship_pairing_txt \<Rightarrow> (string \<rightharpoonup> string)" where
  "ToMap sp = [''txtvers'' \<mapsto> TxtVers sp, ''parType'' \<mapsto> ParType sp, ''forId'' \<mapsto> ForId sp,
     ''forPar'' \<mapsto> ForPar sp, ''trustId'' \<mapsto> TrustId sp, ''trustPar'' \<mapsto> TrustPar sp,
     ''trustCurve'' \<mapsto> TrustCurve sp, ''type'' \<mapsto> CmdType sp, ''trustNonce'' \<mapsto> TrustNonce sp,
     ''alg'' \<mapsto> Alg sp, ''digest'' \<mapsto> Digest sp]"

definition required_fields :: "string list" where
  "required_fields = [''txtvers'', ''parType'', ''forId'', ''forPar'', ''trustId'', ''trustPar'',
     ''trustCurve'', ''type'', ''trustNonce'', ''alg'', ''digest'']"

definition lookup_txt :: "(string \<rightharpoonup> string) \<Rightarrow> string \<Rightarrow> string" where
  "lookup_txt m k = (case m k of Some v \<Rightarrow> v | None \<Rightarrow> [])"

definition invalid_version :: string where
  "invalid_version = ''invalid txtvers, expected '' @ [CHR 0x27] @ ''1'' @ [CHR 0x27]"

definition FromMap :: "(string \<rightharpoonup> string) \<Rightarrow> ship_pairing_txt \<Rightarrow> error option \<times> ship_pairing_txt" where
  "FromMap m sp =
     (case find (\<lambda>f. m f = None) required_fields of
        Some f \<Rightarrow> (Some (NewPairingValidationError (''missing required TXT field: '' @ f)), sp)
      | None \<Rightarrow>
          if lookup_txt m ''txtvers'' \<noteq> ''1''
          then (Some (NewPairingValidationError invalid_version), sp)
          else (None, \<lparr>TxtVers = lookup_txt m ''txtvers'', ParType = lookup_txt m ''parType'',
                 ForId = lookup_txt m ''forId'', ForPar = lookup_txt m ''forPar'',
                 TrustId = lookup_txt m ''trustId'', TrustPar = lookup_txt m ''trustPar'',
                 TrustCurve = lookup_txt m ''trustCurve'', CmdType = lookup_txt m ''type'',
                 TrustNonce = lookup_txt m ''trustNonce'', Alg = lookup_txt m ''alg'',
                 Digest = lookup_txt m ''digest''\<rparr>))"

definition isUppercaseHex :: "string \<Rightarrow> nat \<Rightarrow> bool" where
  "isUppercaseHex s n = (if length s \<noteq> n then False else list_all is_upper_hex s)"

definition Validate :: "ship_pairing_txt \<Rightarrow> error option" where
  "Validate sp =
     (if TxtVers sp \<noteq> ''1'' then
        Some (NewPairingFieldValidationError ''txtvers'' invalid_version)
      else if Alg sp \<noteq> AlgorithmHMACSHA256 then
        Some (NewPairingValidationError (''unsupported algorithm: '' @ Alg sp))
      else if ParType sp \<noteq> ParTypeFPSHA256 then
        Some (NewPairingValidationError (''unsupported parameter type: '' @ ParType sp))
      else if CmdType sp \<noteq> CommandTypeAddCU then
        Some (NewPairingValidationError (''unsupported command type: '' @ CmdType sp))
      else if TrustCurve sp \<notin> set [CurveSecp256r1, CurveBrainpoolP256r1, CurveBrainpoolP384r1] then
        Some (NewPairingValidationError (''unsupported trust curve: '' @ TrustCurve sp))
      else if TrimSpace (ForId sp) = [] then
        Some (NewPairingFieldValidationError ''forId'' ''value must not be empty'')
      else if TrimSpace (TrustId sp) = [] then
        Some (NewPairingFieldValidationError ''trustId'' ''value must not be empty'')
      else if \<not> isUppercaseHex (ForPar sp) 64 then
        Some (NewPairingFieldValidationError ''forPar'' ''value must be 64 uppercase hexadecimal digits'')
      else if \<not> isUppercaseHex (TrustPar sp) 64 then
        Some (NewPairingFieldValidationError ''trustPar'' ''value must be 64 uppercase hexadecimal digits'')
      else if \<not> isUppercaseHex (TrustNonce sp) 32 then
        Some (NewPairingFieldValidationError ''trustNonce'' ''value must be 32 uppercase hexadecimal digits'')
      else if \<not> isUppercaseHex (Digest sp) 64 then
        Some (NewPairingFieldValidationError ''digest'' ''value must be 64 uppercase hexadecimal digits'')
      else None)"

section \<open>Comparing secrets\<close>

lemma byte_xor_0: "byte_xor a b = 0 \<longleftrightarrow> a = b"
proof -
  have "byte_xor a b = 0 \<longleftrightarrow> (word_of_nat (code a) :: 8 word) = word_of_nat (code b)"
    by (auto simp: byte_xor_def bit_eq_iff bit_xor_iff)
  also have "\<dots> \<longleftrightarrow> code a = code b"
    using code_less_256 [of a] code_less_256 [of b] by (simp add: word_of_nat_eq_iff take_bit_eq_mod)
  finally show ?thesis by (simp only: code_eq_iff)
qed

lemma or_fold_0:
  "fold (\<lambda>(a, b) r. or r (byte_xor a b)) ps r = 0 \<longleftrightarrow> r = 0 \<and> (\<forall>(a, b) \<in> set ps. a = b)"
  by (induction ps arbitrary: r) (auto simp: or_eq_0_iff byte_xor_0)

lemma Equal_secret_iff: "Equal_secret s t \<longleftrightarrow> s = t"
proof (cases "length s = length t")
  case True
  then have "(\<forall>(a, b) \<in> set (zip s t). a = b) \<longleftrightarrow> s = t"
    by (induction s t rule: list_induct2) auto
  with True show ?thesis by (simp add: Equal_secret_def or_fold_0)
qed (auto simp: Equal_secret_def)

section \<open>Reading and validating a record\<close>

lemma lookup_ToMap:
  "f \<in> set required_fields \<Longrightarrow> ToMap sp f \<noteq> None"
  by (auto simp: ToMap_def required_fields_def)

lemma FromMap_complete:
  assumes "\<forall>f \<in> set required_fields. m f \<noteq> None" "m ''txtvers'' = Some ''1''"
  shows "fst (FromMap m sp) = None \<and> ToMap (snd (FromMap m sp)) = m |` set required_fields"
proof -
  have f: "find (\<lambda>f. m f = None) required_fields = None"
    using assms(1) by (simp add: find_None_iff)
  have "ToMap (snd (FromMap m sp)) = m |` set required_fields"
  proof
    fix k
    show "ToMap (snd (FromMap m sp)) k = (m |` set required_fields) k"
      using assms f by (auto simp: FromMap_def lookup_txt_def ToMap_def required_fields_def restrict_map_def)
  qed
  with f assms(2) show ?thesis by (simp add: FromMap_def lookup_txt_def)
qed

lemma FromMap_ToMap:
  assumes "TxtVers sp = ''1''"
  shows "FromMap (ToMap sp) sp0 = (None, sp)"
proof -
  have f: "find (\<lambda>f. ToMap sp f = None) required_fields = None"
    using lookup_ToMap by (auto simp: find_None_iff)
  have v: "lookup_txt (ToMap sp) ''txtvers'' = ''1''"
    using assms by (simp add: lookup_txt_def ToMap_def)
  show ?thesis unfolding FromMap_def f using v assms
    by (simp add: lookup_txt_def ToMap_def)
qed

text \<open>
  The TXT record survives the mDNS map: the map made by \<open>ToMap\<close> is read back by \<open>FromMap\<close>
  as the same record, whatever the record held that is read into.
\<close>

theorem txt_record_roundtrip:
  assumes "TxtVers sp = ''1''"
  shows "FromMap (ToMap sp) sp0 = (None, sp)"
  using assms by (rule FromMap_ToMap)

definition sample_txt :: ship_pairing_txt where
  "sample_txt = \<lparr>TxtVers = ''1'', ParType = ParTypeFPSHA256, ForId = ''devA'',
     ForPar = replicate 64 CHR ''A'', TrustId = ''devZ'', TrustPar = replicate 64 CHR ''B'',
     TrustCurve = CurveSecp256r1, CmdType = CommandTypeAddCU, TrustNonce = replicate 32 CHR ''0'',
     Alg = AlgorithmHMACSHA256, Digest = replicate 64 CHR ''C''\<rparr>"

theorem txt_record_roundtrip_witness:
  "FromMap (ToMap sample_txt) (sample_txt\<lparr>ForId := ''x''\<rparr>) = (None, sample_txt)"
  by (rule txt_record_roundtrip) (simp add: sample_txt_def)

lemma Validate_iff:
  "Validate sp = None \<longleftrightarrow>
     TxtVers sp = ''1'' \<and> Alg sp = ''hmacSha256'' \<and> ParType sp = ''fpSha256'' \<and> CmdType sp = ''addCu''
     \<and> TrustCurve sp \<in> {''secp256r1'', ''brainpoolP256r1'', ''brainpoolP384r1''}
     \<and> (\<exists>c \<in> set (ForId sp). \<not> is_space c) \<and> (\<exists>c \<in> set (TrustId sp). \<not> is_space c)
     \<and> (length (ForPar sp) = 64 \<and> list_all is_upper_hex (ForPar sp))
     \<and> (length (TrustPar sp) = 64 \<and> list_all is_upper_hex (TrustPar sp))
     \<and> (length (TrustNonce sp) = 32 \<and> list_all is_upper_hex (TrustNonce sp))
     \<and> (length (Digest sp) = 64 \<and> list_all is_upper_hex (Digest sp))"
proof -
  have t: "TrimSpace s = [] \<longleftrightarrow> (\<forall>c \<in> set s. is_space c)" for s
  proof -
    have "TrimSpace s = [] \<longleftrightarrow> (\<forall>c \<in> set (dropWhile is_space s). is_space c)"
      by (simp add: TrimSpace_def trim_where_def dropWhile_eq_Nil_conv)
    also have "\<dots> \<longleftrightarrow> dropWhile is_space s = []"
      by (metis hd_dropWhile hd_in_set list.set(1) empty_iff)
    finally show ?thesis by (simp add: dropWhile_eq_Nil_conv)
  qed
  show ?thesis
    unfolding Validate_def isUppercaseHex_def t by (auto simp: txt_consts)
qed


lemma validate_with_ids:
  "Validate (sample_txt\<lparr>ForId := i, TrustId := j, Digest := replicate 64 d\<rparr>) = None \<longleftrightarrow>
   (\<exists>c \<in> set i. \<not> is_space c) \<and> (\<exists>c \<in> set j. \<not> is_space c) \<and> is_upper_hex d"
  by (simp add: Validate_iff sample_txt_def txt_consts list_all_iff is_upper_hex_def is_digit_def)

end
