(* ===== verification/PairingCrypto.thy ===== *)
theory PairingCrypto
  imports PairingTxt
begin

text \<open>
  The digest of a pairing announcement (\<open>pairing/hmac.go\<close>) and the fingerprint of a certificate
  (\<open>cert/fingerprint.go\<close>). HMAC-SHA256 and SHA-256 are library code: they are the parameters \<open>hmac\<close>
  (key and message) and \<open>sha\<close>; a certificate is its DER encoding, a nil pointer is \<open>None\<close>. The random
  nonce is the parameter \<open>random\<close>, \<open>None\<close> when \<open>rand.Read\<close> fails.
\<close>

section \<open>HMAC\<close>

definition GenerateNonce :: "bytes option \<Rightarrow> error + bytes" where
  "GenerateNonce random = (case random of None \<Rightarrow> Inl (Sentinel ErrNonceGenerationFailed)
     | Some nonce \<Rightarrow> Inr nonce)"

record hmac_params =
  Algorithm :: string
  Nonce :: bytes
  TxtRecord :: "ship_pairing_txt option"

definition constructKey :: "pairing_secret \<Rightarrow> bytes \<Rightarrow> bytes" where
  "constructKey secret nonce = secret @ nonce"

definition constructMessage :: "ship_pairing_txt \<Rightarrow> string" where
  "constructMessage t =
     ''txtvers='' @ TxtVers t @ '';parType='' @ ParType t @ '';forId='' @ ForId t
     @ '';forPar='' @ ForPar t @ '';trustId='' @ TrustId t @ '';trustPar='' @ TrustPar t
     @ '';trustCurve='' @ TrustCurve t @ '';type='' @ CmdType t @ '';trustNonce='' @ TrustNonce t
     @ '';alg='' @ Alg t @ '';''"

definition CalculateDigest ::
  "(bytes \<Rightarrow> bytes \<Rightarrow> bytes) \<Rightarrow> pairing_secret \<Rightarrow> hmac_params \<Rightarrow> error + bytes" where
  "CalculateDigest hmac secret params =
     (if length secret = 0 then Inl (Sentinel ErrInvalidSecret)
      else if Algorithm params \<noteq> AlgorithmHMACSHA256 then Inl (Sentinel ErrUnsupportedAlgorithm)
      else case TxtRecord params of
        None \<Rightarrow> Inl (Sentinel ErrHMACCalculationFailed)
      | Some t \<Rightarrow> Inr (hmac (constructKey secret (Nonce params)) (constructMessage t)))"

text \<open>\<open>subtle.ConstantTimeCompare\<close>: 1 when lengths and contents agree, 0 otherwise\<close>

definition ConstantTimeCompare :: "bytes \<Rightarrow> bytes \<Rightarrow> int" where
  "ConstantTimeCompare a b = (if a = b then 1 else 0)"

definition ValidateDigest ::
  "(bytes \<Rightarrow> bytes \<Rightarrow> bytes) \<Rightarrow> pairing_secret \<Rightarrow> hmac_params \<Rightarrow> bytes \<Rightarrow> error option" where
  "ValidateDigest hmac secret params expected =
     (case CalculateDigest hmac secret params of
        Inl e \<Rightarrow> Some e
      | Inr d \<Rightarrow> if ConstantTimeCompare d expected \<noteq> 1 then Some (Sentinel ErrInvalidHMACDigest) else None)"

section \<open>Fingerprints\<close>

type_synonym certificate = bytes

definition FingerprintFromCertificate ::
  "(bytes \<Rightarrow> bytes) \<Rightarrow> certificate option \<Rightarrow> error + string" where
  "FingerprintFromCertificate sha c =
     (case c of None \<Rightarrow> Inl (Sentinel ErrInvalidCertificate)
      | Some raw \<Rightarrow> Inr (ToUpper (EncodeHexLower (sha raw))))"

definition IsFingerprintFormatValid :: "string \<Rightarrow> bool" where
  "IsFingerprintFormatValid f = (if length f \<noteq> 64 then False else list_all is_upper_hex f)"

definition ValidateFingerprint ::
  "(bytes \<Rightarrow> bytes) \<Rightarrow> certificate option \<Rightarrow> string \<Rightarrow> error option" where
  "ValidateFingerprint sha c expected =
     (if c = None then Some (Sentinel ErrInvalidCertificate)
      else if expected = [] then Some (Sentinel ErrInvalidTargetFingerprint)
      else if \<not> IsFingerprintFormatValid expected then Some (Sentinel ErrInvalidTargetFingerprint)
      else case FingerprintFromCertificate sha c of
        Inl e \<Rightarrow> Some e
      | Inr actual \<Rightarrow> if actual \<noteq> expected then Some (Sentinel ErrInvalidTargetFingerprint) else None)"

section \<open>Hexadecimal text of digests\<close>

lemma upper_hexdigit_lower: "n < 16 \<Longrightarrow> upper (hexdigit_lower n) = hexdigit n"
  by (auto simp: hexdigit_lower_def hexdigit_def upper_def is_lower_def code_char_of)

lemma ToUpper_EncodeHexLower: "ToUpper (EncodeHexLower b) = EncodeHexUpper b"
proof (induction b)
  case Nil
  then show ?case by (simp add: EncodeHexLower_def EncodeHexUpper_def ToUpper_def)
next
  case (Cons c b)
  then show ?case using nibbles [of c]
    by (simp add: EncodeHexLower_def EncodeHexUpper_def ToUpper_def upper_hexdigit_lower)
qed

lemma isUppercaseHex_Encode: "length b = n \<Longrightarrow> isUppercaseHex (EncodeHexUpper b) (2 * n)"
  using EncodeHexUpper_upper_hex [of _ b]
  by (auto simp: isUppercaseHex_def length_EncodeHexUpper list_all_iff)

lemma fingerprint_valid:
  "length (sha raw) = 32 \<Longrightarrow> FingerprintFromCertificate sha (Some raw) = Inr f \<Longrightarrow>
   IsFingerprintFormatValid f \<and> isUppercaseHex f 64 \<and> ValidateFingerprint sha (Some raw) f = None"
  using isUppercaseHex_Encode [of "sha raw" 32]
  by (auto simp: FingerprintFromCertificate_def IsFingerprintFormatValid_def isUppercaseHex_def
      ToUpper_EncodeHexLower ValidateFingerprint_def split: if_splits)

lemma fingerprint_accepts_iff:
  assumes "length (sha raw) = 32"
  shows "ValidateFingerprint sha (Some raw) f = None \<longleftrightarrow> f = EncodeHexUpper (sha raw)"
  using fingerprint_valid [of sha raw "EncodeHexUpper (sha raw)"] assms
  by (auto simp: ValidateFingerprint_def FingerprintFromCertificate_def ToUpper_EncodeHexLower
      split: if_splits)

section \<open>What the digest binds\<close>

lemma separated [simp]:
  "c \<notin> set a \<Longrightarrow> c \<notin> set a' \<Longrightarrow> a @ c # b = a' @ c # b' \<longleftrightarrow> a = a' \<and> b = b'"
  by (induction a arbitrary: a') (case_tac a'; auto)+

lemma no_separator_hex: "isUppercaseHex s n \<Longrightarrow> CHR '';'' \<notin> set s"
  by (auto simp: isUppercaseHex_def list_all_iff is_upper_hex_def is_digit_def split: if_splits)

lemma no_separator_valid:
  assumes "Validate t = None"
  shows "CHR '';'' \<notin> set (TxtVers t)" "CHR '';'' \<notin> set (ParType t)" "CHR '';'' \<notin> set (ForPar t)"
    "CHR '';'' \<notin> set (TrustPar t)" "CHR '';'' \<notin> set (TrustCurve t)" "CHR '';'' \<notin> set (CmdType t)"
    "CHR '';'' \<notin> set (TrustNonce t)" "CHR '';'' \<notin> set (Alg t)"
  using assms no_separator_hex
  by (auto simp: Validate_def txt_consts split: if_splits)

text \<open>
  C16. The digest of an announcement binds every field: when key and message of two valid records agree,
  with secrets of the valid length and SHIP identifiers without a semicolon, then secret, nonce and all
  fields other than the digest itself agree.
\<close>

theorem digest_binds_fields:
  assumes "Validate t = None" "Validate u = None"
    and "CHR '';'' \<notin> set (ForId t) \<union> set (TrustId t) \<union> set (ForId u) \<union> set (TrustId u)"
    and "IsValidLength s" "IsValidLength s'"
    and "constructKey s n = constructKey s' n'" "constructMessage t = constructMessage u"
  shows "s = s' \<and> n = n' \<and> t = u\<lparr>Digest := Digest t\<rparr>"
proof -
  have "s = s' \<and> n = n'"
    using assms(4,5,6) by (simp add: constructKey_def IsValidLength_def)
  moreover have "t = u\<lparr>Digest := Digest t\<rparr>"
    using assms(7) no_separator_valid [OF assms(1)] no_separator_valid [OF assms(2)] assms(3)
    by (cases t, cases u) (simp add: constructMessage_def)
  ultimately show ?thesis by simp
qed

theorem digest_binds_fields_witness:
  "replicate 16 CHR ''s'' = replicate 16 CHR ''s'' \<and> ''n'' = ''n''
   \<and> sample_txt\<lparr>ForId := ''a'', TrustId := ''b'', Digest := replicate 64 CHR ''1''\<rparr>
     = (sample_txt\<lparr>ForId := ''a'', TrustId := ''b'', Digest := replicate 64 CHR ''0''\<rparr>)
         \<lparr>Digest := Digest (sample_txt\<lparr>ForId := ''a'', TrustId := ''b'', Digest := replicate 64 CHR ''1''\<rparr>)\<rparr>"
  by (rule digest_binds_fields)
    (simp_all add: validate_with_ids is_space_def is_upper_hex_def is_digit_def IsValidLength_def
      constructMessage_def)

text \<open>
  Without the condition on the SHIP identifiers the message is ambiguous: these two valid records
  announce different devices to different listeners and have the same message, hence the same digest.
\<close>

definition ambiguous_txt :: "string \<Rightarrow> string \<Rightarrow> ship_pairing_txt" where
  "ambiguous_txt forid trustid = sample_txt\<lparr>ForId := forid, TrustId := trustid,
     Digest := replicate 64 CHR ''0''\<rparr>"

definition par_A :: string where "par_A = '';forPar='' @ replicate 64 CHR ''A'' @ '';trustId=''"

theorem digest_message_ambiguous:
  "constructMessage (ambiguous_txt ''a'' (''b'' @ par_A @ ''c''))
     = constructMessage (ambiguous_txt (''a'' @ par_A @ ''b'') ''c'')
   \<and> Validate (ambiguous_txt ''a'' (''b'' @ par_A @ ''c'')) = None
   \<and> Validate (ambiguous_txt (''a'' @ par_A @ ''b'') ''c'') = None"
proof -
  have "constructMessage (ambiguous_txt ''a'' (''b'' @ par_A @ ''c''))
     = constructMessage (ambiguous_txt (''a'' @ par_A @ ''b'') ''c'')"
    by (simp add: ambiguous_txt_def par_A_def constructMessage_def sample_txt_def)
  then show ?thesis
    by (simp add: ambiguous_txt_def validate_with_ids is_space_def is_upper_hex_def is_digit_def)
qed

end
