(* ===== verification/RingBuffer.thy ===== *)
theory RingBuffer
  imports Errors
begin

text \<open>
  The replay protection of the pairing listener: \<open>RingBufferHistoryProvider\<close>, a ring buffer of the
  digests of successful pairings (\<open>pairing/ring_buffer.go\<close>).

  The persistence is library code of the application: what \<open>LoadRingBuffer\<close> answers is an argument of the
  constructor, the calls of \<open>SaveRingBuffer\<close> are recorded in \<open>rbSaves\<close>, oldest first; the code ignores
  their errors. \<open>time.Now\<close> is an argument. \<open>rbPanicked\<close> says that an index was out of range.

  The abstract history is a bounded queue, newest digest first: locale \<open>digest_history\<close>; the ring buffer
  is shown to implement it by reading its slots backwards from \<open>next\<close>.
\<close>

section \<open>The history as a bounded queue\<close>

lemma length_take_append: "length ys = n \<Longrightarrow> length (take n (xs @ ys)) = n"
  by (simp only: length_take length_append)

lemma image_nth: "(\<exists>i < length xs. f (xs ! i) = y) \<longleftrightarrow> y \<in> f ` set xs"
  by (metis (no_types, lifting) image_iff in_set_conv_nth)

locale digest_history =
  fixes seen :: "'h \<Rightarrow> string \<Rightarrow> string \<Rightarrow> bool"
    and remember :: "string \<Rightarrow> string \<Rightarrow> int \<Rightarrow> 'h \<Rightarrow> 'h"
    and view :: "'h \<Rightarrow> (string \<times> string) list"
    and good :: "'h \<Rightarrow> bool"
  assumes good_remember: "good h \<Longrightarrow> good (remember a d t h)"
    and view_remember: "good h \<Longrightarrow> view (remember a d t h) = (a, d) # butlast (view h)"
    and view_nonempty: "good h \<Longrightarrow> view h \<noteq> []"
    and seen_view: "good h \<Longrightarrow> seen h a d \<longleftrightarrow> (a, d) \<in> set (view h)"
begin

abbreviation remember_all :: "(string \<times> string \<times> int) list \<Rightarrow> 'h \<Rightarrow> 'h" where
  "remember_all es h \<equiv> fold (\<lambda>(a, d, t). remember a d t) es h"

lemma good_all: "good h \<Longrightarrow> good (remember_all es h)"
  by (induction es arbitrary: h) (auto simp: good_remember)

lemma view_all:
  "good h \<Longrightarrow> view (remember_all es h) =
     take (length (view h)) (rev (map (\<lambda>(a, d, t). (a, d)) es) @ view h)"
proof (induction es arbitrary: h)
  case Nil
  then show ?case by simp
next
  case (Cons e es)
  obtain a d t where e: "e = (a, d, t)" by (cases e)
  let ?h = "remember a d t h" and ?k = "rev (map (\<lambda>(a, d, t). (a, d)) es)"
  have l: "length (view ?h) = length (view h)"
    using view_nonempty [OF Cons.prems] by (simp add: view_remember [OF Cons.prems])
  have b: "(a, d) # butlast (view h) = take (length (view h)) ((a, d) # view h)"
    using view_nonempty [OF Cons.prems] by (simp add: butlast_conv_take take_Cons')
  have "view (remember_all (e # es) h) = take (length (view h)) (?k @ view ?h)"
    using Cons.IH [OF good_remember [OF Cons.prems]] e l by simp
  also have "\<dots> = take (length (view h)) (?k @ (a, d) # view h)"
    by (simp add: view_remember [OF Cons.prems] b del: take_Cons)
  finally show ?case by (simp add: e)
qed

lemma length_view_all: "good h \<Longrightarrow> length (view (remember_all es h)) = length (view h)"
  by (subst view_all, assumption, rule length_take_append) simp

text \<open>A digest is still known while fewer digests than there are places were recorded after it.\<close>

lemma recent_seen:
  assumes "good h" "length es < length (view h)"
  shows "seen (remember_all es (remember a d t h)) a d"
proof -
  let ?h = "remember a d t h"
  have g: "good ?h" using assms(1) by (rule good_remember)
  have l: "length (view ?h) = length (view h)"
    using view_nonempty [OF assms(1)] by (simp add: view_remember [OF assms(1)])
  have "view (remember_all es ?h) ! length es = (a, d)"
    using assms l by (simp add: view_all [OF g] view_remember [OF assms(1)] nth_append)
  moreover have "length es < length (view (remember_all es ?h))"
    using assms(2) l by (simp add: view_all [OF g])
  ultimately have "(a, d) \<in> set (view (remember_all es ?h))" by (metis nth_mem)
  then show ?thesis by (simp add: seen_view [OF good_all [OF g]])
qed

text \<open>No digest is known that was neither recorded nor known before.\<close>

lemma seen_origin:
  assumes "good h" "seen (remember_all es h) a d"
  shows "seen h a d \<or> (a, d) \<in> set (map (\<lambda>(a, d, t). (a, d)) es)"
  using assms by (auto simp: seen_view good_all view_all dest!: in_set_takeD)

end

section \<open>The ring buffer\<close>

record digest_entry =
  deAlgorithm :: string
  deDigest :: string
  deTimestamp :: int

definition zero_entry :: digest_entry where
  "zero_entry = \<lparr>deAlgorithm = [], deDigest = [], deTimestamp = 0\<rparr>"

record ring_buffer =
  rbPersistent :: bool
  rbEntries :: "digest_entry list"
  rbMaxSize :: nat
  rbNext :: nat
  rbSaves :: "(digest_entry list \<times> nat) list"
  rbPanicked :: bool

definition loadFromPersistence ::
  "error + digest_entry list \<times> int \<Rightarrow> ring_buffer \<Rightarrow> error option \<times> ring_buffer" where
  "loadFromPersistence answer r =
     (if \<not> rbPersistent r then (None, r)
      else case answer of
        Inl err \<Rightarrow> (Some (Wrapped (''persistence load failed: '' @ error_text err) err), r)
      | Inr (es, nextIndex) \<Rightarrow>
          if length es = 0 then (None, r)
          else if nextIndex < 0 \<or> nextIndex \<ge> int (length es)
          then (Some (Opaque (''invalid nextIndex '' @ ItoaInt nextIndex @ '' for buffer size ''
                 @ Itoa (length es))), r)
          else if length es \<noteq> rbMaxSize r
          then (let copySize = min (length es) (rbMaxSize r);
                    newEntries = take copySize es @ replicate (rbMaxSize r - copySize) zero_entry;
                    n = nat nextIndex
                in (None, r\<lparr>rbEntries := newEntries,
                            rbNext := (if n \<ge> rbMaxSize r then n mod rbMaxSize r else n)\<rparr>))
          else (None, r\<lparr>rbEntries := es, rbNext := nat nextIndex\<rparr>))"

definition fresh_buffer :: "int \<Rightarrow> bool \<Rightarrow> ring_buffer" where
  "fresh_buffer maxSize persistent =
     (let n = nat (if maxSize < 10 then 10 else maxSize)
      in \<lparr>rbPersistent = persistent, rbEntries = replicate n zero_entry, rbMaxSize = n, rbNext = 0,
          rbSaves = [], rbPanicked = False\<rparr>)"

definition NewRingBufferHistoryProvider ::
  "int \<Rightarrow> (error + digest_entry list \<times> int) option \<Rightarrow> error + ring_buffer" where
  "NewRingBufferHistoryProvider maxSize persistence =
     (case persistence of
        None \<Rightarrow> Inl (Opaque ''persistence cannot be nil'')
      | Some answer \<Rightarrow>
          (case loadFromPersistence answer (fresh_buffer maxSize True) of
             (Some err, _) \<Rightarrow> Inl (Wrapped (''failed to load ring buffer state: '' @ error_text err) err)
           | (None, r) \<Rightarrow> Inr r))"

definition NewRingBufferHistoryProviderLegacy :: "int \<Rightarrow> ring_buffer" where
  "NewRingBufferHistoryProviderLegacy maxSize = fresh_buffer maxSize False"

definition saveToPersistence :: "ring_buffer \<Rightarrow> ring_buffer" where
  "saveToPersistence r =
     (if \<not> rbPersistent r then r else r\<lparr>rbSaves := rbSaves r @ [(rbEntries r, rbNext r)]\<rparr>)"

definition HasSeenDigest :: "ring_buffer \<Rightarrow> string \<Rightarrow> string \<Rightarrow> bool" where
  "HasSeenDigest r alg digest =
     list_ex (\<lambda>i. let entry = rbEntries r ! i in deAlgorithm entry = alg \<and> deDigest entry = digest)
       [0..<rbMaxSize r]"

definition RecordPairing :: "string \<Rightarrow> string \<Rightarrow> int \<Rightarrow> ring_buffer \<Rightarrow> ring_buffer" where
  "RecordPairing alg digest now r =
     (if rbNext r \<ge> length (rbEntries r) then r\<lparr>rbPanicked := True\<rparr>
      else let r1 = r\<lparr>rbEntries := (rbEntries r)[rbNext r :=
                        \<lparr>deAlgorithm = alg, deDigest = digest, deTimestamp = now\<rparr>]\<rparr>;
               n = rbNext r1 + 1;
               r2 = r1\<lparr>rbNext := (if n \<ge> rbMaxSize r1 then 0 else n)\<rparr>
           in saveToPersistence r2)"

definition GetCurrentEntry :: "ring_buffer \<Rightarrow> error + digest_entry" where
  "GetCurrentEntry r =
     (if rbNext r = 0 \<and> deAlgorithm (rbEntries r ! 0) = [] then Inl (Sentinel ErrHistoryProviderNotSet)
      else let current = (if int (rbNext r) - 1 < 0 then rbMaxSize r - 1 else rbNext r - 1);
               entry = rbEntries r ! current
           in if deAlgorithm entry = [] then Inl (Sentinel ErrHistoryProviderNotSet) else Inr entry)"

section \<open>The ring buffer implements the bounded queue\<close>

definition rb_inv :: "ring_buffer \<Rightarrow> bool" where
  "rb_inv r \<longleftrightarrow> length (rbEntries r) = rbMaxSize r \<and> rbNext r < rbMaxSize r \<and> \<not> rbPanicked r"

definition digest_key :: "digest_entry \<Rightarrow> string \<times> string" where
  "digest_key e = (deAlgorithm e, deDigest e)"

definition rb_view :: "ring_buffer \<Rightarrow> (string \<times> string) list" where
  "rb_view r = map digest_key (rev (rotate (rbNext r) (rbEntries r)))"

lemma rotate_small: "n \<le> length xs \<Longrightarrow> rotate n xs = drop n xs @ take n xs"
  by (cases "n = length xs") (auto simp: rotate_drop_take)

lemma rb_fresh: "rb_inv (fresh_buffer m p)"
  by (auto simp: rb_inv_def fresh_buffer_def Let_def)

lemma rb_new: "NewRingBufferHistoryProvider m p = Inr r \<Longrightarrow> rb_inv r"
proof -
  assume n: "NewRingBufferHistoryProvider m p = Inr r"
  then obtain ans where p: "p = Some ans" and l: "loadFromPersistence ans (fresh_buffer m True) = (None, r)"
    by (auto simp: NewRingBufferHistoryProvider_def split: option.splits prod.splits)
  have f: "rb_inv (fresh_buffer m True)" by (rule rb_fresh)
  then have "rbMaxSize (fresh_buffer m True) > 0" by (simp add: rb_inv_def)
  with f l show ?thesis
    by (auto simp: loadFromPersistence_def rb_inv_def Let_def nat_less_iff
        split: if_splits sum.splits prod.splits)
qed

lemma save_simps [simp]:
  "rbEntries (saveToPersistence r) = rbEntries r" "rbNext (saveToPersistence r) = rbNext r"
  "rbMaxSize (saveToPersistence r) = rbMaxSize r" "rbPanicked (saveToPersistence r) = rbPanicked r"
  "rbPersistent (saveToPersistence r) = rbPersistent r"
  by (simp_all add: saveToPersistence_def)

lemma RecordPairing_keep:
  "rbMaxSize (RecordPairing a d t q) = rbMaxSize q" "rbPersistent (RecordPairing a d t q) = rbPersistent q"
  unfolding RecordPairing_def Let_def by (cases "rbNext q \<ge> length (rbEntries q)"; simp only: if_True if_False save_simps; simp)+

lemma RecordPairing_inv: "rb_inv r \<Longrightarrow> rb_inv (RecordPairing a d t r)"
  by (auto simp: rb_inv_def RecordPairing_def Let_def)

lemma view_record_slot:
  assumes "n < length xs"
  shows "rev (rotate (if Suc n \<ge> length xs then 0 else Suc n) (xs[n := e])) = e # butlast (rev (rotate n xs))"
proof -
  have r: "rotate n xs = xs ! n # drop (Suc n) xs @ take n xs"
    using assms by (simp add: rotate_small Cons_nth_drop_Suc)
  have "rotate (if Suc n \<ge> length xs then 0 else Suc n) (xs[n := e]) = drop (Suc n) xs @ take n xs @ [e]"
    using assms by (auto simp: rotate_small upd_conv_take_nth_drop take_Suc_conv_app_nth)
  moreover have "rev (rotate n xs) = (rev (take n xs) @ rev (drop (Suc n) xs)) @ [xs ! n]" by (simp add: r)
  ultimately show ?thesis by (simp only: butlast_snoc) simp
qed

lemma rb_view_record:
  assumes "rb_inv r"
  shows "rb_view (RecordPairing a d t r) = (a, d) # butlast (rb_view r)"
proof -
  let ?e = "\<lparr>deAlgorithm = a, deDigest = d, deTimestamp = t\<rparr>"
  let ?r = "RecordPairing a d t r"
  have i: "length (rbEntries r) = rbMaxSize r" "rbNext r < length (rbEntries r)"
    using assms by (simp_all add: rb_inv_def)
  have n: "rbNext ?r = (if Suc (rbNext r) \<ge> length (rbEntries r) then 0 else Suc (rbNext r))"
    and es: "rbEntries ?r = (rbEntries r)[rbNext r := ?e]"
    using i by (simp_all add: RecordPairing_def Let_def)
  show ?thesis
    unfolding rb_view_def es n view_record_slot [OF i(2)]
    by (simp only: list.map map_butlast digest_key_def digest_entry.simps)
qed

lemma rb_view_seen:
  assumes "rb_inv r"
  shows "HasSeenDigest r a d \<longleftrightarrow> (a, d) \<in> set (rb_view r)"
proof -
  have l: "length (rbEntries r) = rbMaxSize r" using assms by (simp add: rb_inv_def)
  have "HasSeenDigest r a d \<longleftrightarrow> (\<exists>i < rbMaxSize r. digest_key (rbEntries r ! i) = (a, d))"
    by (auto simp: HasSeenDigest_def list_ex_iff digest_key_def Let_def)
  also have "\<dots> \<longleftrightarrow> (a, d) \<in> digest_key ` set (rbEntries r)"
    unfolding l [symmetric] by (rule image_nth)
  finally show ?thesis by (simp add: rb_view_def)
qed

interpretation rb: digest_history HasSeenDigest RecordPairing rb_view rb_inv
proof
  fix h :: ring_buffer and a d t
  assume i: "rb_inv h"
  show "rb_inv (RecordPairing a d t h)" using i by (rule RecordPairing_inv)
  show "rb_view (RecordPairing a d t h) = (a, d) # butlast (rb_view h)" using i by (rule rb_view_record)
  show "rb_view h \<noteq> []" using i by (auto simp: rb_view_def rb_inv_def)
  show "HasSeenDigest h a d \<longleftrightarrow> (a, d) \<in> set (rb_view h)" using i by (rule rb_view_seen)
qed

lemma length_rb_view: "rb_inv r \<Longrightarrow> length (rb_view r) = rbMaxSize r"
  by (simp add: rb_view_def rb_inv_def)

lemma new_config:
  assumes "NewRingBufferHistoryProvider m p = Inr r"
  shows "rbMaxSize r = nat (max 10 m)" "rbPersistent r"
proof -
  obtain ans where l: "loadFromPersistence ans (fresh_buffer m True) = (None, r)"
    using assms by (auto simp: NewRingBufferHistoryProvider_def split: option.splits prod.splits)
  then have "rbMaxSize r = rbMaxSize (fresh_buffer m True) \<and> rbPersistent r = rbPersistent (fresh_buffer m True)"
    by (auto simp: loadFromPersistence_def Let_def split: if_splits sum.splits prod.splits)
  then show "rbMaxSize r = nat (max 10 m)" "rbPersistent r"
    by (simp_all add: fresh_buffer_def Let_def max_def)
qed

lemma load_same_size:
  assumes "length es = nat (max 10 m)" "n < length es"
  shows "NewRingBufferHistoryProvider m (Some (Inr (es, int n))) =
     Inr ((fresh_buffer m True)\<lparr>rbEntries := es, rbNext := n\<rparr>)"
proof -
  have "rbMaxSize (fresh_buffer m True) = length es" "rbPersistent (fresh_buffer m True)"
    using assms by (auto simp: fresh_buffer_def Let_def max_def)
  with assms have "loadFromPersistence (Inr (es, int n)) (fresh_buffer m True) =
      (None, (fresh_buffer m True)\<lparr>rbEntries := es, rbNext := n\<rparr>)"
    by (auto simp: loadFromPersistence_def)
  then show ?thesis by (simp add: NewRingBufferHistoryProvider_def)
qed

definition record_pairings :: "(string \<times> string \<times> int) list \<Rightarrow> ring_buffer \<Rightarrow> ring_buffer" where
  "record_pairings es r = fold (\<lambda>(a, d, t). RecordPairing a d t) es r"

lemma record_pairings_simps [simp]:
  "record_pairings [] r = r"
  "record_pairings ((a, d, t) # es) r = record_pairings es (RecordPairing a d t r)"
  "record_pairings (es @ fs) r = record_pairings fs (record_pairings es r)"
  by (simp_all add: record_pairings_def)

lemma record_pairings_keep:
  "rbMaxSize (record_pairings es r) = rbMaxSize r \<and> rbPersistent (record_pairings es r) = rbPersistent r"
proof (induction es arbitrary: r)
  case (Cons e es)
  then show ?case by (cases e) (simp add: RecordPairing_keep)
qed simp

text \<open>
  C18. A recorded digest is recognised as long as fewer than \<open>maxSize\<close> (at least 10) further pairings are
  recorded, and the buffer never indexes out of range.
\<close>

theorem replay_window:
  assumes "NewRingBufferHistoryProvider m p = Inr r" "int (length later) < max 10 m"
  shows "HasSeenDigest (record_pairings (earlier @ (a, d, t) # later) r) a d
     \<and> \<not> rbPanicked (record_pairings (earlier @ (a, d, t) # later) r)"
proof -
  let ?h = "record_pairings earlier r"
  have i: "rb_inv r" using assms(1) by (rule rb_new)
  then have h: "rb_inv ?h" unfolding record_pairings_def by (rule rb.good_all)
  note new_config(1) [OF assms(1)]
  then have "length (rb_view ?h) = nat (max 10 m)"
    using rb.length_view_all [OF i, of earlier] length_rb_view [OF i] by (simp add: record_pairings_def)
  with assms(2) have "length later < length (rb_view ?h)" by linarith
  from rb.recent_seen [OF h this] rb.good_all [OF RecordPairing_inv [OF h], of later]
  show ?thesis by (simp add: record_pairings_def rb_inv_def)
qed

theorem replay_window_witness:
  "HasSeenDigest (record_pairings ([(''x'', ''1'', 0)] @ (''hmacSha256'', ''AB'', 5) # [(''x'', ''2'', 9)])
     (fresh_buffer 3 True)) ''hmacSha256'' ''AB''
   \<and> \<not> rbPanicked (record_pairings ([(''x'', ''1'', 0)] @ (''hmacSha256'', ''AB'', 5) # [(''x'', ''2'', 9)])
     (fresh_buffer 3 True))"
  by (rule replay_window [of 3 "Some (Inr ([], 0))"])
    (simp_all add: NewRingBufferHistoryProvider_def loadFromPersistence_def fresh_buffer_def)

text \<open>
  Restarting loses nothing: a provider of the same size that loads what was saved last holds the
  entries and the position of the provider that saved it.
\<close>

theorem ring_buffer_restart:
  assumes "NewRingBufferHistoryProvider m p = Inr r" "es \<noteq> []"
    and "rbSaves (record_pairings es r) = saves @ [(entries, n)]"
  shows "\<exists>r'. NewRingBufferHistoryProvider m (Some (Inr (entries, int n))) = Inr r'
     \<and> rbEntries r' = rbEntries (record_pairings es r) \<and> rbNext r' = rbNext (record_pairings es r)
     \<and> rb_view r' = rb_view (record_pairings es r)"
proof -
  let ?r = "record_pairings es r"
  have i: "rb_inv r" using assms(1) by (rule rb_new)
  then have ri: "rb_inv ?r" unfolding record_pairings_def by (rule rb.good_all)
  obtain ys e where es: "es = ys @ [e]" using assms(2) by (cases es rule: rev_cases) auto
  obtain a d t where e: "e = (a, d, t)" by (cases e)
  let ?q = "record_pairings ys r"
  have q: "rb_inv ?q" unfolding record_pairings_def by (rule rb.good_all [OF i])
  have rec: "?r = RecordPairing a d t ?q" by (simp add: es e record_pairings_def)
  have "rbSaves ?r = rbSaves ?q @ [(rbEntries ?r, rbNext ?r)]"
    using q new_config(2) [OF assms(1)] record_pairings_keep [of ys r] unfolding rec
    by (simp add: RecordPairing_def Let_def saveToPersistence_def rb_inv_def)
  with assms(3) have s: "entries = rbEntries ?r" "n = rbNext ?r" by simp_all
  have m: "rbMaxSize ?r = nat (max 10 m)" using record_pairings_keep [of es r] new_config(1) [OF assms(1)] by simp
  have "NewRingBufferHistoryProvider m (Some (Inr (entries, int n))) =
      Inr ((fresh_buffer m True)\<lparr>rbEntries := entries, rbNext := n\<rparr>)"
    by (rule load_same_size) (use ri m in \<open>simp_all add: s rb_inv_def\<close>)
  then show ?thesis by (simp add: s rb_view_def)
qed

theorem ring_buffer_restart_witness:
  "\<exists>r'. NewRingBufferHistoryProvider 10 (Some (Inr (
       (replicate 10 zero_entry)[0 := \<lparr>deAlgorithm = ''h'', deDigest = ''AB'', deTimestamp = 5\<rparr>], int 1)))
     = Inr r'
     \<and> rbEntries r' = rbEntries (record_pairings [(''h'', ''AB'', 5)] (fresh_buffer 10 True))
     \<and> rbNext r' = rbNext (record_pairings [(''h'', ''AB'', 5)] (fresh_buffer 10 True))
     \<and> rb_view r' = rb_view (record_pairings [(''h'', ''AB'', 5)] (fresh_buffer 10 True))"
  by (rule ring_buffer_restart [of 10 "Some (Inr ([], 0))" _ _ "[]"])
    (simp_all add: NewRingBufferHistoryProvider_def loadFromPersistence_def fresh_buffer_def
      record_pairings_def RecordPairing_def saveToPersistence_def)

text \<open>
  Changing the configured size is not a resize of the queue. Shrinking a buffer keeps its first slots,
  whatever their age: the digest recorded last can be forgotten, and with it its replay protection.
  Growing a full buffer whose position is 0 makes \<open>GetCurrentEntry\<close> report that there is no entry.
\<close>

definition numbered :: "nat \<Rightarrow> digest_entry list" where
  "numbered n = map (\<lambda>i. \<lparr>deAlgorithm = ''h'', deDigest = replicate i CHR ''d'', deTimestamp = 0\<rparr>) [0..<n]"

lemma numbered_nth: "i < n \<Longrightarrow> deAlgorithm (numbered n ! i) = ''h'' \<and> deDigest (numbered n ! i) = replicate i CHR ''d''"
  by (simp add: numbered_def)

text \<open>
  Shrinking the buffer keeps its first slots, whatever their age: of 12 digests whose newest is in the
  last slot, a buffer of 10 forgets the newest two and keeps the oldest. Growing a full buffer at position
  0 makes \<open>GetCurrentEntry\<close> report an unconfigured history.
\<close>

theorem ring_buffer_resize_forgets:
  "(case NewRingBufferHistoryProvider 10 (Some (Inr (numbered 12, 0))) of
      Inl _ \<Rightarrow> False
    | Inr r \<Rightarrow> \<not> HasSeenDigest r ''h'' (replicate 11 CHR ''d'') \<and> HasSeenDigest r ''h'' (replicate 0 CHR ''d''))
   \<and> (case NewRingBufferHistoryProvider 12 (Some (Inr (numbered 10, 0))) of
      Inl _ \<Rightarrow> False
    | Inr r \<Rightarrow> GetCurrentEntry r = Inl (Sentinel ErrHistoryProviderNotSet) \<and> rbEntries r ! 9 = numbered 10 ! 9)"
  by (simp add: NewRingBufferHistoryProvider_def loadFromPersistence_def fresh_buffer_def numbered_def
      HasSeenDigest_def GetCurrentEntry_def zero_entry_def upt_rec numeral_eq_Suc)

end
