(* ===== verification/PairingListener.thy ===== *)
theory PairingListener
  imports PairingCrypto RingBuffer Services
begin

text \<open>
  The listener of the SHIP Pairing Service, the device that is paired with (\<open>pairing/listener.go\<close>).

  A method is a function on the record \<open>listener\<close>. Calls into the hub are recorded in \<open>lsCalls\<close>, oldest
  first. The answers of the mDNS interface, the current time and the HMAC function are arguments. Several
  discoveries can be in flight at once: they run on goroutines of the mDNS browser and of
  \<open>evaluateCurrentEntries\<close>, and neither the history nor the secret is locked from check to use. So a
  request is handled in two steps, \<open>pairing_check\<close> up to the test for a replay and \<open>pairing_commit\<close> from
  recording on, with \<open>lsInFlight\<close> the records that are between the two. \<open>lsWatchers\<close> are the goroutines
  that wait for the end of the context given to \<open>StartListening\<close>.
\<close>

section \<open>State\<close>

datatype pairing_call =
    PairingSuccess string string            \<comment> \<open>\<open>OnPairingSuccess\<close>\<close>
  | PairingFailure string string error      \<comment> \<open>\<open>OnPairingFailure\<close>\<close>

record listener =
  lsLocal :: service
  lsHistory :: ring_buffer
  lsListening :: bool
  lsSecret :: "pairing_secret option"
  lsStartTime :: int
  lsRequestsSeen :: int
  lsLastRequest :: int
  lsLastError :: "error option"
  lsWatchers :: "nat list"
  lsEvaluations :: nat
  lsInFlight :: "ship_pairing_txt list"
  lsCalls :: "pairing_call list"

definition NewPairingListener :: "ring_buffer \<Rightarrow> service \<Rightarrow> listener" where
  "NewPairingListener history localService =
     \<lparr>lsLocal = localService, lsHistory = history, lsListening = False, lsSecret = None, lsStartTime = 0,
      lsRequestsSeen = 0, lsLastRequest = 0, lsLastError = None, lsWatchers = [], lsEvaluations = 0,
      lsInFlight = [], lsCalls = []\<rparr>"

section \<open>Starting and stopping\<close>

definition stopListeningInternal :: "listener \<Rightarrow> listener" where
  "stopListeningInternal l = l\<lparr>lsSecret := None, lsListening := False\<rparr>"

definition StartListening ::
  "int \<Rightarrow> nat \<Rightarrow> pairing_secret \<Rightarrow> error option \<Rightarrow> listener \<Rightarrow> error option \<times> listener" where
  "StartListening now ctx secret search l =
     (if \<not> IsValidLength secret then (Some (Sentinel ErrInvalidSecret), l)
      else if lsListening l then (Some (Sentinel ErrListenerAlreadyActive), l)
      else let l1 = l\<lparr>lsSecret := Some secret, lsStartTime := now, lsListening := True,
                       lsWatchers := lsWatchers l @ [ctx]\<rparr>
           in case search of
                Some err \<Rightarrow> (Some err, stopListeningInternal l1)
              | None \<Rightarrow> (None, l1\<lparr>lsEvaluations := lsEvaluations l1 + 1\<rparr>))"

definition StopListening :: "listener \<Rightarrow> error option \<times> listener" where
  "StopListening l =
     (if \<not> lsListening l then (Some (Sentinel ErrPairingNotActive), l)
      else (None, stopListeningInternal l))"

text \<open>The goroutines that \<open>StartListening\<close> leaves behind when the context \<open>ctx\<close> ends\<close>

definition context_done :: "nat \<Rightarrow> listener \<Rightarrow> listener" where
  "context_done ctx l =
     (if ctx \<notin> set (lsWatchers l) then l
      else let l1 = l\<lparr>lsWatchers := filter (\<lambda>c. c \<noteq> ctx) (lsWatchers l)\<rparr>
           in if lsListening l1 then stopListeningInternal l1 else l1)"

record listener_status =
  stActive :: bool
  stStartTime :: int
  stRequestsSeen :: int
  stLastRequest :: int
  stError :: "error option"

definition GetListenerStatus :: "listener \<Rightarrow> listener_status" where
  "GetListenerStatus l = \<lparr>stActive = lsListening l, stStartTime = lsStartTime l,
     stRequestsSeen = lsRequestsSeen l, stLastRequest = lsLastRequest l, stError = lsLastError l\<rparr>"

section \<open>Requests\<close>

definition notifyFailure :: "string \<Rightarrow> string \<Rightarrow> error \<Rightarrow> listener \<Rightarrow> listener" where
  "notifyFailure shipid fingerprint err l =
     l\<lparr>lsLastError := Some err, lsCalls := lsCalls l @ [PairingFailure shipid fingerprint err]\<rparr>"

definition pairing_check ::
  "(bytes \<Rightarrow> bytes \<Rightarrow> bytes) \<Rightarrow> int \<Rightarrow> ship_pairing_txt \<Rightarrow> listener \<Rightarrow> bool \<times> listener" where
  "pairing_check hmac now t l0 =
     (let l = l0\<lparr>lsRequestsSeen := lsRequestsSeen l0 + 1, lsLastRequest := now\<rparr>;
          fail = (\<lambda>err. (False, notifyFailure (TrustId t) (TrustPar t) err l))
      in case Validate t of
           Some err \<Rightarrow> fail err
         | None \<Rightarrow>
             if ForId t \<noteq> svcShipID (lsLocal l) then (False, l)
             else if \<not> EqualFold (TrimSpace (ForPar t)) (TrimSpace (svcFingerprint (lsLocal l)))
             then fail (Sentinel ErrInvalidTXTRecord)
             else if TrustCurve t \<noteq> CurveSecp256r1 then fail (Sentinel ErrUnsupportedTrustCurve)
             else case DecodeHex (TrustNonce t) of
               None \<Rightarrow> fail (Sentinel ErrInvalidTXTRecord)
             | Some nonce \<Rightarrow>
                 (case DecodeHex (Digest t) of
                    None \<Rightarrow> fail (Sentinel ErrInvalidHMACDigest)
                  | Some expectedDigest \<Rightarrow>
                      (let params = \<lparr>Algorithm = Alg t, Nonce = nonce, TxtRecord = Some t\<rparr>;
                           secret = (case lsSecret l of None \<Rightarrow> [] | Some s \<Rightarrow> s)
                       in case ValidateDigest hmac secret params expectedDigest of
                            Some err \<Rightarrow> fail err
                          | None \<Rightarrow>
                              if HasSeenDigest (lsHistory l) (Alg t) (Digest t)
                              then fail (Sentinel ErrReplayAttackDetected)
                              else (True, l))))"

definition pairing_commit :: "int \<Rightarrow> ship_pairing_txt \<Rightarrow> listener \<Rightarrow> listener" where
  "pairing_commit now t l =
     (let l1 = l\<lparr>lsHistory := RecordPairing (Alg t) (Digest t) now (lsHistory l)\<rparr>;
          l2 = l1\<lparr>lsCalls := lsCalls l1 @ [PairingSuccess (TrustId t) (TrustPar t)]\<rparr>
      in stopListeningInternal l2)"

definition handlePairingRequest ::
  "(bytes \<Rightarrow> bytes \<Rightarrow> bytes) \<Rightarrow> int \<Rightarrow> ship_pairing_txt \<Rightarrow> listener \<Rightarrow> bool \<times> listener" where
  "handlePairingRequest hmac now t l =
     (case pairing_check hmac now t l of
        (True, l1) \<Rightarrow> (False, pairing_commit now t l1)
      | (False, l1) \<Rightarrow> (True, l1))"

definition handleMdnsDiscovery ::
  "(bytes \<Rightarrow> bytes \<Rightarrow> bytes) \<Rightarrow> int \<Rightarrow> ship_pairing_txt \<Rightarrow> listener \<Rightarrow> bool \<times> listener" where
  "handleMdnsDiscovery hmac now t l =
     (if \<not> lsListening l then (False, l)
      else if ForId t \<noteq> svcShipID (lsLocal l) then (True, l)
      else handlePairingRequest hmac now t l)"

text \<open>The entries of the map come in the order of Go's map iteration, which is arbitrary: a list.\<close>

fun ProcessPendingEntries ::
  "(bytes \<Rightarrow> bytes \<Rightarrow> bytes) \<Rightarrow> int \<Rightarrow> ship_pairing_txt list \<Rightarrow> listener \<Rightarrow> listener" where
  "ProcessPendingEntries hmac now [] l = l"
| "ProcessPendingEntries hmac now (t # ts) l =
     (case handleMdnsDiscovery hmac now t l of
        (shouldContinue, l1) \<Rightarrow>
          if shouldContinue then ProcessPendingEntries hmac now ts l1 else l1)"

definition evaluateCurrentEntries ::
  "(bytes \<Rightarrow> bytes \<Rightarrow> bytes) \<Rightarrow> int \<Rightarrow> error + ship_pairing_txt list \<Rightarrow> listener \<Rightarrow> listener" where
  "evaluateCurrentEntries hmac now answer l =
     (case answer of Inl err \<Rightarrow> l | Inr entries \<Rightarrow> ProcessPendingEntries hmac now entries l)"

section \<open>Runs\<close>

datatype listener_event =
    LStart int nat pairing_secret "error option"
  | LStop
  | LContextDone nat
  | LEvaluate int "error + ship_pairing_txt list"
  | LDiscover int ship_pairing_txt
  | LBegin int ship_pairing_txt
  | LEnd int nat

text \<open>
  \<open>LDiscover\<close> handles a discovery without interruption; \<open>LBegin\<close> and \<open>LEnd\<close> are the two halves of a
  discovery that others come between.
\<close>

fun listener_step :: "(bytes \<Rightarrow> bytes \<Rightarrow> bytes) \<Rightarrow> listener_event \<Rightarrow> listener \<Rightarrow> listener" where
  "listener_step hmac (LStart now ctx secret search) l = snd (StartListening now ctx secret search l)"
| "listener_step hmac LStop l = snd (StopListening l)"
| "listener_step hmac (LContextDone ctx) l = context_done ctx l"
| "listener_step hmac (LEvaluate now answer) l =
     (if lsEvaluations l = 0 then l
      else evaluateCurrentEntries hmac now answer (l\<lparr>lsEvaluations := lsEvaluations l - 1\<rparr>))"
| "listener_step hmac (LDiscover now t) l = snd (handleMdnsDiscovery hmac now t l)"
| "listener_step hmac (LBegin now t) l =
     (if \<not> lsListening l \<or> ForId t \<noteq> svcShipID (lsLocal l) then l
      else case pairing_check hmac now t l of
        (ok, l1) \<Rightarrow> if ok then l1\<lparr>lsInFlight := lsInFlight l1 @ [t]\<rparr> else l1)"
| "listener_step hmac (LEnd now i) l =
     (if i < length (lsInFlight l)
      then pairing_commit now (lsInFlight l ! i) (l\<lparr>lsInFlight := remove_at i (lsInFlight l)\<rparr>)
      else l)"

definition listener_run :: "(bytes \<Rightarrow> bytes \<Rightarrow> bytes) \<Rightarrow> listener_event list \<Rightarrow> listener \<Rightarrow> listener" where
  "listener_run hmac es l = fold (listener_step hmac) es l"

lemma listener_run_simps [simp]:
  "listener_run hmac [] l = l"
  "listener_run hmac (e # es) l = listener_run hmac es (listener_step hmac e l)"
  "listener_run hmac (es @ fs) l = listener_run hmac fs (listener_run hmac es l)"
  by (simp_all add: listener_run_def)

section \<open>What a request that passes the checks looks like\<close>

definition authentic :: "(bytes \<Rightarrow> bytes \<Rightarrow> bytes) \<Rightarrow> service \<Rightarrow> pairing_secret \<Rightarrow> ship_pairing_txt \<Rightarrow> bool" where
  "authentic hmac svc secret t \<longleftrightarrow>
     Validate t = None \<and> ForId t = svcShipID svc
     \<and> EqualFold (TrimSpace (ForPar t)) (TrimSpace (svcFingerprint svc))
     \<and> TrustCurve t = CurveSecp256r1 \<and> secret \<noteq> []
     \<and> (\<exists>nonce. DecodeHex (TrustNonce t) = Some nonce
          \<and> DecodeHex (Digest t) = Some (hmac (secret @ nonce) (constructMessage t)))"

lemma notifyFailure_simps [simp]:
  "lsLocal (notifyFailure i f e l) = lsLocal l" "lsHistory (notifyFailure i f e l) = lsHistory l"
  "lsListening (notifyFailure i f e l) = lsListening l" "lsSecret (notifyFailure i f e l) = lsSecret l"
  "lsInFlight (notifyFailure i f e l) = lsInFlight l"
  "lsCalls (notifyFailure i f e l) = lsCalls l @ [PairingFailure i f e]"
  "lsEvaluations (notifyFailure i f e l) = lsEvaluations l"
  by (simp_all add: notifyFailure_def)

lemma ValidateDigest_cases:
  "ValidateDigest hmac secret \<lparr>Algorithm = a, Nonce = n, TxtRecord = Some t\<rparr> d =
     (if secret = [] then Some (Sentinel ErrInvalidSecret)
      else if a \<noteq> AlgorithmHMACSHA256 then Some (Sentinel ErrUnsupportedAlgorithm)
      else if d = hmac (secret @ n) (constructMessage t) then None else Some (Sentinel ErrInvalidHMACDigest))"
  by (auto simp: ValidateDigest_def CalculateDigest_def constructKey_def ConstantTimeCompare_def)

lemma pairing_check_keeps [simp]:
  "lsLocal (snd (pairing_check hmac now t l)) = lsLocal l"
  "lsHistory (snd (pairing_check hmac now t l)) = lsHistory l"
  "lsListening (snd (pairing_check hmac now t l)) = lsListening l"
  "lsSecret (snd (pairing_check hmac now t l)) = lsSecret l"
  "lsInFlight (snd (pairing_check hmac now t l)) = lsInFlight l"
  by (simp_all add: pairing_check_def Let_def split: option.split)

lemma pairing_check_calls:
  "\<exists>xs. lsCalls (snd (pairing_check hmac now t l)) = lsCalls l @ xs \<and> (\<forall>c \<in> set xs. \<exists>e. c = PairingFailure (TrustId t) (TrustPar t) e)"
  by (simp add: pairing_check_def Let_def split: option.split)

lemma Validate_Alg: "Validate t = None \<Longrightarrow> Alg t = AlgorithmHMACSHA256"
  by (simp add: Validate_iff txt_consts)

lemma pairing_check_iff:
  "fst (pairing_check hmac now t l) \<longleftrightarrow>
     (\<exists>s. lsSecret l = Some s \<and> authentic hmac (lsLocal l) s t)
     \<and> \<not> HasSeenDigest (lsHistory l) (Alg t) (Digest t)"
  using Validate_Alg [of t]
  by (auto simp: pairing_check_def Let_def authentic_def ValidateDigest_cases split: option.split)

section \<open>Invariants of runs\<close>

text \<open>
  A property of the listener that starting, stopping, a failed or passed check, and the commit of a record
  in flight keep holds in every run. \<open>okTxt\<close> and \<open>okSecret\<close> say which records are discovered and which
  secrets are started with.
\<close>

fun event_ok :: "(ship_pairing_txt \<Rightarrow> bool) \<Rightarrow> (pairing_secret \<Rightarrow> bool) \<Rightarrow> listener_event \<Rightarrow> bool" where
  "event_ok okTxt okSecret (LStart now ctx secret search) = okSecret secret"
| "event_ok okTxt okSecret (LEvaluate now (Inr ts)) = list_all okTxt ts"
| "event_ok okTxt okSecret (LDiscover now t) = okTxt t"
| "event_ok okTxt okSecret (LBegin now t) = okTxt t"
| "event_ok okTxt okSecret _ = True"

lemma remove_at_last: "remove_at (length xs) (xs @ [x]) = xs"
  by (simp add: remove_at_def)

lemma take_drop_nth: "i < length xs \<Longrightarrow> xs ! i \<in> set xs" by simp

locale listener_invariant =
  fixes hmac :: "bytes \<Rightarrow> bytes \<Rightarrow> bytes"
    and okTxt :: "ship_pairing_txt \<Rightarrow> bool" and okSecret :: "pairing_secret \<Rightarrow> bool"
    and I :: "listener \<Rightarrow> bool"
  assumes inv_start: "I l \<Longrightarrow> okSecret secret \<Longrightarrow> I (snd (StartListening now ctx secret search l))"
    and inv_stop: "I l \<Longrightarrow> I (stopListeningInternal l)"
    and inv_watchers: "I l \<Longrightarrow> I (l\<lparr>lsWatchers := w\<rparr>)"
    and inv_evaluations: "I l \<Longrightarrow> I (l\<lparr>lsEvaluations := n\<rparr>)"
    and inv_check: "I l \<Longrightarrow> okTxt t \<Longrightarrow> I (snd (pairing_check hmac now t l))"
    and inv_passed: "I l \<Longrightarrow> okTxt t \<Longrightarrow> fst (pairing_check hmac now t l) \<Longrightarrow>
      I ((snd (pairing_check hmac now t l))\<lparr>lsInFlight := lsInFlight l @ [t]\<rparr>)"
    and inv_commit: "I l \<Longrightarrow> i < length (lsInFlight l) \<Longrightarrow>
      I (pairing_commit now (lsInFlight l ! i) (l\<lparr>lsInFlight := remove_at i (lsInFlight l)\<rparr>))"
begin

lemma inv_request: "I l \<Longrightarrow> okTxt t \<Longrightarrow> I (snd (handlePairingRequest hmac now t l))"
proof -
  assume i: "I l" and t: "okTxt t"
  let ?l = "snd (pairing_check hmac now t l)" and ?ok = "fst (pairing_check hmac now t l)"
  show "I (snd (handlePairingRequest hmac now t l))"
  proof (cases ?ok)
    case True
    have "I (?l\<lparr>lsInFlight := lsInFlight l @ [t]\<rparr>)" using i t True by (rule inv_passed)
    from inv_commit [OF this, of "length (lsInFlight l)" now]
    have "I (pairing_commit now t (?l\<lparr>lsInFlight := lsInFlight l\<rparr>))"
      by (simp add: remove_at_last)
    moreover have "?l\<lparr>lsInFlight := lsInFlight l\<rparr> = ?l"
      using pairing_check_keeps(5) [of hmac now t l] by (cases ?l) simp
    ultimately show ?thesis using True by (simp add: handlePairingRequest_def case_prod_beta)
  next
    case False
    then show ?thesis using inv_check [OF i t] by (simp add: handlePairingRequest_def case_prod_beta)
  qed
qed

lemma inv_discovery: "I l \<Longrightarrow> okTxt t \<Longrightarrow> I (snd (handleMdnsDiscovery hmac now t l))"
  by (simp add: handleMdnsDiscovery_def inv_request)

lemma inv_pending: "I l \<Longrightarrow> list_all okTxt ts \<Longrightarrow> I (ProcessPendingEntries hmac now ts l)"
proof (induction ts arbitrary: l)
  case (Cons t ts)
  then have "I (snd (handleMdnsDiscovery hmac now t l))" by (simp add: inv_discovery)
  with Cons show ?case by (simp add: case_prod_beta)
qed simp

lemma inv_step: "I l \<Longrightarrow> event_ok okTxt okSecret e \<Longrightarrow> I (listener_step hmac e l)"
proof (cases e)
  case (LStart now ctx secret search)
  then show "I l \<Longrightarrow> event_ok okTxt okSecret e \<Longrightarrow> ?thesis" by (simp add: inv_start)
next
  case (LEvaluate now answer)
  then show "I l \<Longrightarrow> event_ok okTxt okSecret e \<Longrightarrow> ?thesis"
    by (cases answer) (simp_all add: evaluateCurrentEntries_def inv_pending inv_evaluations)
next
  case (LBegin now t)
  then show "I l \<Longrightarrow> event_ok okTxt okSecret e \<Longrightarrow> ?thesis"
    by (simp add: case_prod_beta inv_check inv_passed)
qed (simp_all add: StopListening_def context_done_def Let_def inv_stop inv_watchers inv_discovery inv_commit)

lemma inv_run: "I l \<Longrightarrow> list_all (event_ok okTxt okSecret) es \<Longrightarrow> I (listener_run hmac es l)"
  by (induction es arbitrary: l) (simp_all add: inv_step)

end

section \<open>Only authentic announcements are accepted\<close>

definition justified ::
  "(bytes \<Rightarrow> bytes \<Rightarrow> bytes) \<Rightarrow> service \<Rightarrow> (ship_pairing_txt \<Rightarrow> bool) \<Rightarrow> (pairing_secret \<Rightarrow> bool) \<Rightarrow> listener \<Rightarrow> bool" where
  "justified hmac svc okTxt okSecret l \<longleftrightarrow>
     lsLocal l = svc
     \<and> (\<forall>s. lsSecret l = Some s \<longrightarrow> okSecret s \<and> IsValidLength s)
     \<and> (\<forall>t \<in> set (lsInFlight l). okTxt t \<and> (\<exists>s. okSecret s \<and> IsValidLength s \<and> authentic hmac svc s t))
     \<and> (\<forall>i f. PairingSuccess i f \<in> set (lsCalls l) \<longrightarrow>
          (\<exists>t s. okTxt t \<and> okSecret s \<and> IsValidLength s \<and> authentic hmac svc s t \<and> i = TrustId t \<and> f = TrustPar t))"

lemma justified_same:
  "justified hmac svc okTxt okSecret l \<Longrightarrow> lsLocal l' = lsLocal l \<Longrightarrow> lsSecret l' = lsSecret l \<or> lsSecret l' = None \<Longrightarrow>
   set (lsInFlight l') \<subseteq> set (lsInFlight l) \<Longrightarrow>
   (\<And>i f. PairingSuccess i f \<in> set (lsCalls l') \<Longrightarrow> PairingSuccess i f \<in> set (lsCalls l)) \<Longrightarrow>
   justified hmac svc okTxt okSecret l'"
  by (auto simp: justified_def)

lemma check_successes:
  "PairingSuccess i f \<in> set (lsCalls (snd (pairing_check hmac now t l))) \<longleftrightarrow> PairingSuccess i f \<in> set (lsCalls l)"
  using pairing_check_calls [of hmac now t l] by auto

interpretation justify: listener_invariant hmac okTxt okSecret "justified hmac svc okTxt okSecret"
  for hmac svc okTxt okSecret
proof
  fix l :: listener and secret now ctx search t i w and n :: nat
  assume j: "justified hmac svc okTxt okSecret l"
  show "justified hmac svc okTxt okSecret (stopListeningInternal l)"
    "justified hmac svc okTxt okSecret (l\<lparr>lsWatchers := w\<rparr>)"
    "justified hmac svc okTxt okSecret (l\<lparr>lsEvaluations := n\<rparr>)"
    using j by (auto elim!: justified_same simp: stopListeningInternal_def)
  show "justified hmac svc okTxt okSecret (snd (pairing_check hmac now t l))" if "okTxt t"
    using j by (rule justified_same) (simp_all add: check_successes)
  show "justified hmac svc okTxt okSecret (snd (StartListening now ctx secret search l))" if "okSecret secret"
    using j that by (auto simp: justified_def StartListening_def stopListeningInternal_def Let_def
        split: option.split)
  show "justified hmac svc okTxt okSecret ((snd (pairing_check hmac now t l))\<lparr>lsInFlight := lsInFlight l @ [t]\<rparr>)"
    if "okTxt t" "fst (pairing_check hmac now t l)"
    using j that unfolding pairing_check_iff by (auto simp: justified_def check_successes)
  show "justified hmac svc okTxt okSecret
      (pairing_commit now (lsInFlight l ! i) (l\<lparr>lsInFlight := remove_at i (lsInFlight l)\<rparr>))"
    if "i < length (lsInFlight l)"
    using j nth_mem [OF that] set_remove_at [of i "lsInFlight l"]
    by (auto simp: justified_def pairing_commit_def stopListeningInternal_def Let_def)
qed

text \<open>The secrets and the records of a sequence of events\<close>

definition started_with :: "listener_event list \<Rightarrow> pairing_secret \<Rightarrow> bool" where
  "started_with es s \<longleftrightarrow> (\<exists>now ctx search. LStart now ctx s search \<in> set es)"

definition discovered :: "listener_event list \<Rightarrow> ship_pairing_txt \<Rightarrow> bool" where
  "discovered es t \<longleftrightarrow> (\<exists>now. LDiscover now t \<in> set es \<or> LBegin now t \<in> set es
      \<or> (\<exists>ts. LEvaluate now (Inr ts) \<in> set es \<and> t \<in> set ts))"

lemma events_ok: "list_all (event_ok (discovered es) (started_with es)) es"
proof -
  have "event_ok (discovered es) (started_with es) e" if "e \<in> set es" for e
    using that by (cases "(discovered es, started_with es, e)" rule: event_ok.cases)
      (auto simp: discovered_def started_with_def list_all_iff)
  then show ?thesis by (simp add: list_all_iff)
qed

text \<open>
  C14. Trust is established only through an authentic announcement. In any run of a listener, with
  discoveries interleaved in any way, the hub is told of a pairing success only for the device of a record
  that was discovered, is well formed, is addressed to this device's SHIP identifier and certificate, and
  carries the HMAC of its fields under a valid secret the listener was started with.
\<close>

theorem pairing_only_authentic:
  assumes "PairingSuccess i f \<in> set (lsCalls (listener_run hmac es (NewPairingListener h svc)))"
  shows "\<exists>t s. discovered es t \<and> started_with es s \<and> IsValidLength s \<and> authentic hmac svc s t
     \<and> i = TrustId t \<and> f = TrustPar t"
proof -
  have "justified hmac svc (discovered es) (started_with es) (NewPairingListener h svc)"
    by (simp add: justified_def NewPairingListener_def)
  from justify.inv_run [OF this events_ok] assms show ?thesis
    by (auto simp: justified_def)
qed

section \<open>Replays\<close>

definition is_success :: "pairing_call \<Rightarrow> bool" where
  "is_success c = (case c of PairingSuccess _ _ \<Rightarrow> True | PairingFailure _ _ _ \<Rightarrow> False)"

definition successes :: "listener \<Rightarrow> nat" where
  "successes l = length (filter is_success (lsCalls l))"

text \<open>The history grows by one entry for every success.\<close>

definition grows :: "listener \<Rightarrow> listener \<Rightarrow> bool" where
  "grows l0 l \<longleftrightarrow> (\<exists>ps. lsHistory l = record_pairings ps (lsHistory l0) \<and> successes l = successes l0 + length ps)"

lemma grows_refl: "grows l l"
  unfolding grows_def by (rule exI [of _ "[]"]) simp

lemma grows_same:
  "grows l0 l \<Longrightarrow> lsHistory l' = lsHistory l \<Longrightarrow> filter is_success (lsCalls l') = filter is_success (lsCalls l) \<Longrightarrow> grows l0 l'"
  by (simp add: grows_def successes_def)

lemma check_filter:
  "filter is_success (lsCalls (snd (pairing_check hmac now t l))) = filter is_success (lsCalls l)"
  using pairing_check_calls [of hmac now t l]
  by (fastforce simp: filter_empty_conv is_success_def split: pairing_call.splits)

lemma grows_commit:
  assumes "grows l0 l"
  shows "grows l0 (pairing_commit now t l)"
proof -
  obtain ps where "lsHistory l = record_pairings ps (lsHistory l0)" "successes l = successes l0 + length ps"
    using assms by (auto simp: grows_def)
  then show ?thesis unfolding grows_def
    by (intro exI [of _ "ps @ [(Alg t, Digest t, now)]"])
      (simp add: pairing_commit_def stopListeningInternal_def successes_def is_success_def Let_def)
qed

interpretation growth: listener_invariant hmac "\<lambda>_. True" "\<lambda>_. True" "grows l0" for hmac l0
proof
  fix l :: listener and secret now ctx search t i w and n :: nat
  assume g: "grows l0 l"
  show "grows l0 (stopListeningInternal l)" "grows l0 (l\<lparr>lsWatchers := w\<rparr>)" "grows l0 (l\<lparr>lsEvaluations := n\<rparr>)"
    using g by (auto elim!: grows_same simp: stopListeningInternal_def)
  show "grows l0 (snd (pairing_check hmac now t l))"
    "grows l0 ((snd (pairing_check hmac now t l))\<lparr>lsInFlight := lsInFlight l @ [t]\<rparr>)"
    using g by (auto elim!: grows_same simp: check_filter)
  show "grows l0 (snd (StartListening now ctx secret search l))"
    using g by (auto elim!: grows_same simp: StartListening_def stopListeningInternal_def Let_def split: option.split)
  have "grows l0 (l\<lparr>lsInFlight := remove_at i (lsInFlight l)\<rparr>)" using g by (auto elim!: grows_same)
  then show "grows l0 (pairing_commit now (lsInFlight l ! i) (l\<lparr>lsInFlight := remove_at i (lsInFlight l)\<rparr>))"
    by (rule grows_commit)
qed

lemma any_event_ok: "list_all (event_ok (\<lambda>_. True) (\<lambda>_. True)) es"
proof -
  have "event_ok (\<lambda>_. True) (\<lambda>_. True) e" for e
    by (cases "(\<lambda>_ :: ship_pairing_txt. True, \<lambda>_ :: pairing_secret. True, e)" rule: event_ok.cases)
      (auto simp: list_all_iff)
  then show ?thesis by (simp add: list_all_iff)
qed

text \<open>
  C15. A replay is refused: once a record was accepted, no later announcement with its digest passes the
  checks, in any run and with any interleaving, until the ring buffer has taken as many further pairings as
  it has places.
\<close>

theorem replay_refused:
  assumes "rb_inv (lsHistory l)" "l1 = pairing_commit now t l"
    and "successes (listener_run hmac es l1) < successes l1 + rbMaxSize (lsHistory l)"
    and "Alg u = Alg t" "Digest u = Digest t"
  shows "\<not> fst (pairing_check hmac now' u (listener_run hmac es l1))"
proof -
  have h1: "lsHistory l1 = RecordPairing (Alg t) (Digest t) now (lsHistory l)"
    by (simp add: assms(2) pairing_commit_def stopListeningInternal_def Let_def)
  obtain ps where h: "lsHistory (listener_run hmac es l1) = record_pairings ps (lsHistory l1)"
      and n: "successes (listener_run hmac es l1) = successes l1 + length ps"
    using growth.inv_run [where ?l0.0 = l1 and hmac = hmac and es = es, OF grows_refl any_event_ok] by (auto simp: grows_def)
  have "length ps < length (rb_view (lsHistory l))"
    using n assms(3) length_rb_view [OF assms(1)] by simp
  from rb.recent_seen [OF assms(1) this] have "HasSeenDigest (lsHistory (listener_run hmac es l1)) (Alg u) (Digest u)"
    unfolding h h1 record_pairings_def assms(4,5) by blast
  then show ?thesis by (simp add: pairing_check_iff)
qed

text \<open>A device, a key function that any digest of the sample record fits, and a listener that was started\<close>

definition sample_service :: service where
  "sample_service = \<lparr>svcFingerprint = replicate 64 CHR ''A'', svcSKI = [], svcShipID = ''devA'',
     svcPairingType = PairingTypeDefault, svcAutoAccept = False, svcIPv4 = [], svcTrusted = False,
     svcDetail = NewConnectionStateDetail ConnectionStateNone None\<rparr>"

definition sample_hmac :: "bytes \<Rightarrow> bytes \<Rightarrow> bytes" where
  "sample_hmac k m = replicate 32 (char_of (204::nat))"

definition sample_listener :: listener where
  "sample_listener = NewPairingListener (NewRingBufferHistoryProviderLegacy 10) sample_service"

definition sample_secret :: pairing_secret where "sample_secret = replicate 16 CHR ''s''"

lemma sample_authentic: "authentic sample_hmac sample_service sample_secret sample_txt"
proof -
  have v: "Validate sample_txt = None"
    using validate_with_ids [where i = "''devA''" and j = "''devZ''" and d = "CHR ''C''"]
    by (simp add: sample_txt_def is_space_def is_upper_hex_def is_digit_def)
  have n: "DecodeHex (replicate 32 CHR ''0'') = Some (replicate 16 (char_of (0::nat)))"
    and d: "DecodeHex (replicate 64 CHR ''C'') = Some (replicate 32 (char_of (204::nat)))"
    by (simp_all add: hexval_def is_digit_def numeral_eq_Suc)
  show ?thesis using v n d
    by (simp add: authentic_def sample_txt_def sample_service_def sample_hmac_def sample_secret_def txt_consts)
qed

lemma sample_check:
  assumes "lsLocal l = sample_service" "lsSecret l = Some sample_secret"
    "\<not> HasSeenDigest (lsHistory l) (Alg sample_txt) (Digest sample_txt)"
  shows "fst (pairing_check sample_hmac now sample_txt l)"
  using assms sample_authentic by (simp add: pairing_check_iff)

lemma sample_fresh: "\<not> HasSeenDigest (NewRingBufferHistoryProviderLegacy 10) (Alg sample_txt) (Digest sample_txt)"
  by (simp add: HasSeenDigest_def NewRingBufferHistoryProviderLegacy_def fresh_buffer_def zero_entry_def
      sample_txt_def txt_consts list_ex_iff Let_def)

lemma sample_forid: "ForId sample_txt = svcShipID sample_service"
  by (simp add: sample_txt_def sample_service_def)

lemma sample_started:
  "listener_step hmac (LStart now ctx sample_secret None) sample_listener =
     sample_listener\<lparr>lsSecret := Some sample_secret, lsStartTime := now, lsListening := True,
       lsWatchers := [ctx], lsEvaluations := 1\<rparr>"
  by (simp add: StartListening_def sample_listener_def NewPairingListener_def IsValidLength_def sample_secret_def
      Let_def)

text \<open>
  The snapshot and the browse callback deliver a record twice, and the two deliveries can both pass
  the replay check before either is recorded: one announcement then leads to two successes, which the
  comment in \<open>StartListening\<close> calls benign because the first stops the listener.
\<close>

theorem double_delivery_accepts_twice:
  "successes (listener_run sample_hmac
     [LStart 0 0 sample_secret None, LBegin 1 sample_txt, LBegin 1 sample_txt, LEnd 2 0, LEnd 2 0]
     sample_listener) = 2"
proof -
  let ?l0 = "listener_step sample_hmac (LStart 0 0 sample_secret None) sample_listener"
  let ?l1 = "(snd (pairing_check sample_hmac 1 sample_txt ?l0))\<lparr>lsInFlight := [sample_txt]\<rparr>"
  let ?l2 = "(snd (pairing_check sample_hmac 1 sample_txt ?l1))\<lparr>lsInFlight := [sample_txt, sample_txt]\<rparr>"
  have s0: "lsLocal ?l0 = sample_service" "lsSecret ?l0 = Some sample_secret" "lsListening ?l0"
    "lsHistory ?l0 = NewRingBufferHistoryProviderLegacy 10" "lsInFlight ?l0 = []" "successes ?l0 = 0"
    unfolding sample_started by (simp_all add: sample_listener_def NewPairingListener_def successes_def)
  have c0: "fst (pairing_check sample_hmac 1 sample_txt ?l0)"
    by (rule sample_check) (use s0 sample_fresh in simp_all)
  have b1: "listener_step sample_hmac (LBegin 1 sample_txt) ?l0 = ?l1"
    using s0 c0 by (simp only: listener_step.simps case_prod_beta pairing_check_keeps) (simp add: sample_forid)
  have c1: "fst (pairing_check sample_hmac 1 sample_txt ?l1)"
    by (rule sample_check) (use s0 sample_fresh in \<open>simp_all del: listener_step.simps\<close>)
  have b2: "listener_step sample_hmac (LBegin 1 sample_txt) ?l1 = ?l2"
    using s0 c1 by (simp only: listener_step.simps(6) case_prod_beta pairing_check_keeps)
      (simp add: sample_forid del: listener_step.simps)
  have "successes ?l2 = 0"
    using s0(6) by (simp add: successes_def check_filter del: listener_step.simps)
  then show ?thesis
    unfolding listener_run_simps b1 b2
    by (simp add: pairing_commit_def stopListeningInternal_def remove_at_def successes_def is_success_def Let_def)
qed

section \<open>Concrete runs\<close>

lemma sample_accepted:
  "handleMdnsDiscovery sample_hmac 1 sample_txt (listener_step sample_hmac (LStart 0 0 sample_secret None) sample_listener)
   = (False, pairing_commit 1 sample_txt (snd (pairing_check sample_hmac 1 sample_txt
       (listener_step sample_hmac (LStart 0 0 sample_secret None) sample_listener))))"
proof -
  let ?l0 = "listener_step sample_hmac (LStart 0 0 sample_secret None) sample_listener"
  have s0: "lsLocal ?l0 = sample_service" "lsSecret ?l0 = Some sample_secret" "lsListening ?l0"
    "lsHistory ?l0 = NewRingBufferHistoryProviderLegacy 10"
    unfolding sample_started by (simp_all add: sample_listener_def NewPairingListener_def)
  have "fst (pairing_check sample_hmac 1 sample_txt ?l0)"
    by (rule sample_check) (use s0 sample_fresh in simp_all)
  then show ?thesis using s0
    by (simp add: handleMdnsDiscovery_def handlePairingRequest_def case_prod_beta sample_forid del: listener_step.simps)
qed

theorem pairing_only_authentic_witness:
  "\<exists>t s. discovered [LStart 0 0 sample_secret None, LDiscover 1 sample_txt] t
     \<and> started_with [LStart 0 0 sample_secret None, LDiscover 1 sample_txt] s \<and> IsValidLength s
     \<and> authentic sample_hmac sample_service s t \<and> ''devZ'' = TrustId t \<and> replicate 64 CHR ''B'' = TrustPar t"
proof (rule pairing_only_authentic [of _ _ sample_hmac _ "NewRingBufferHistoryProviderLegacy 10"])
  show "PairingSuccess ''devZ'' (replicate 64 CHR ''B'') \<in> set (lsCalls (listener_run sample_hmac
      [LStart 0 0 sample_secret None, LDiscover 1 sample_txt]
      (NewPairingListener (NewRingBufferHistoryProviderLegacy 10) sample_service)))"
    using sample_accepted unfolding sample_listener_def [symmetric]
    by (simp add: pairing_commit_def stopListeningInternal_def Let_def sample_txt_def del: listener_step.simps(1))
qed

theorem replay_refused_witness:
  "\<not> fst (pairing_check sample_hmac 7 sample_txt (listener_run sample_hmac [LStart 5 1 sample_secret None]
       (pairing_commit 1 sample_txt sample_listener)))"
proof (rule replay_refused)
  show "rb_inv (lsHistory sample_listener)"
    by (simp add: sample_listener_def NewPairingListener_def NewRingBufferHistoryProviderLegacy_def rb_fresh)
  show "successes (listener_run sample_hmac [LStart 5 1 sample_secret None] (pairing_commit 1 sample_txt sample_listener))
      < successes (pairing_commit 1 sample_txt sample_listener) + rbMaxSize (lsHistory sample_listener)"
    by (simp add: StartListening_def Let_def successes_def pairing_commit_def stopListeningInternal_def
        IsValidLength_def sample_secret_def sample_listener_def NewPairingListener_def
        NewRingBufferHistoryProviderLegacy_def fresh_buffer_def)
qed simp_all

end
