(* ===== verification/PairingAnnouncer.thy ===== *)
theory PairingAnnouncer
  imports PairingListener
begin

text \<open>
  The announcer of the SHIP Pairing Service, the device that asks to be trusted
  (\<open>pairing/hub_integration.go\<close>), and the service object that makes announcers and the listener
  (\<open>pairing/service.go\<close>).

  The random bytes, SHA-256, HMAC, the certificate parser and the answers of mDNS are arguments; the calls
  to mDNS are recorded in \<open>anCalls\<close>, oldest first. The mDNS interface is never nil: the service passes its
  own. Secrets are slices in the shared memory \<open>anSlices\<close>. Every method runs under the mutex of its object.
\<close>

section \<open>The announcer\<close>

definition PairingModeListener_id :: nat where "PairingModeListener_id = 0"
definition PairingModeAnnouncer_id :: nat where "PairingModeAnnouncer_id = 1"
definition PairingModeBoth_id :: nat where "PairingModeBoth_id = 2"

record pairing_configuration =
  pcMode :: nat
  pcSecret :: nat
  pcTimeout :: duration
  pcEnabled :: bool

datatype mdns_call = AnnouncePairing ship_pairing_txt | UnannouncePairing string

record announcer =
  anLocal :: service
  anCert :: "certificate option"
  anConfig :: "pairing_configuration option"
  anAutoaccept :: bool
  anEnabled :: bool
  anTarget :: pairing_target
  anAnnouncing :: bool
  anInstanceID :: string
  anSlices :: slices
  anCalls :: "mdns_call list"

definition NewPairingAnnouncer :: "certificate option \<Rightarrow> service \<Rightarrow> slices \<Rightarrow> announcer" where
  "NewPairingAnnouncer c svc mem =
     \<lparr>anLocal = svc, anCert = c, anConfig = None, anAutoaccept = False, anEnabled = False,
      anTarget = \<lparr>TargetSKI = [], TargetFingerprint = [], TargetShipID = [], TargetSecret = 0\<rparr>,
      anAnnouncing = False, anInstanceID = [], anSlices = mem, anCalls = []\<rparr>"

definition EnablePairingService :: "pairing_configuration option \<Rightarrow> announcer \<Rightarrow> error option \<times> announcer" where
  "EnablePairingService config p =
     (case config of
        None \<Rightarrow> (Some (Sentinel ErrPairingNoConfig), p)
      | Some c \<Rightarrow>
          if pcMode c \<noteq> PairingModeAnnouncer_id \<and> pcMode c \<noteq> PairingModeListener_id
             \<and> pcMode c \<noteq> PairingModeBoth_id
          then (Some (NewPairingValidationError ''invalid pairing mode''), p)
          else if \<not> IsValidLength (anSlices p (pcSecret c)) then (Some (Sentinel ErrInvalidSecret), p)
          else (None, p\<lparr>anConfig := Some c, anEnabled := pcEnabled c\<rparr>))"

definition bytesToHex :: "bytes \<Rightarrow> string" where
  "bytesToHex b = ToUpper (EncodeHexLower b)"

definition announcement :: "pairing_target \<Rightarrow> string \<Rightarrow> string \<Rightarrow> bytes \<Rightarrow> ship_pairing_txt" where
  "announcement target trustid fingerprint nonce =
     \<lparr>TxtVers = ''1'', ParType = ParTypeFPSHA256, ForId = TargetShipID target,
      ForPar = TargetFingerprint target, TrustId = trustid, TrustPar = fingerprint,
      TrustCurve = CurveSecp256r1, CmdType = CommandTypeAddCU, TrustNonce = bytesToHex nonce,
      Alg = AlgorithmHMACSHA256, Digest = []\<rparr>"

definition AnnounceToDevice ::
  "(bytes \<Rightarrow> bytes) \<Rightarrow> (bytes \<Rightarrow> bytes \<Rightarrow> bytes) \<Rightarrow> bytes option \<Rightarrow> error + string \<Rightarrow> pairing_target
    \<Rightarrow> announcer \<Rightarrow> error option \<times> announcer" where
  "AnnounceToDevice sha hmac random answer target p =
     (case anConfig p of
        None \<Rightarrow> (Some (Sentinel ErrServiceNotStarted), p)
      | Some config \<Rightarrow>
          if \<not> anEnabled p then (Some (Sentinel ErrServiceNotStarted), p)
          else if anAnnouncing p then (Some (Sentinel ErrAnnouncerAlreadyActive), p)
          else case FingerprintFromCertificate sha (anCert p) of
            Inl err \<Rightarrow> (Some err, p)
          | Inr localFingerprint \<Rightarrow>
              (case GenerateNonce random of
                 Inl err \<Rightarrow> (Some err, p)
               | Inr nonce \<Rightarrow>
                   (let txt = announcement target (svcShipID (anLocal p)) localFingerprint nonce;
                        params = \<lparr>Algorithm = AlgorithmHMACSHA256, Nonce = nonce, TxtRecord = Some txt\<rparr>
                    in case CalculateDigest hmac (anSlices p (pcSecret config)) params of
                         Inl err \<Rightarrow> (Some err, p)
                       | Inr digest \<Rightarrow>
                           (let txt1 = txt\<lparr>Digest := bytesToHex digest\<rparr>;
                                p1 = p\<lparr>anCalls := anCalls p @ [AnnouncePairing txt1]\<rparr>
                            in case answer of
                                 Inl err \<Rightarrow> (Some (Wrapped (''mDNS announcement failed: '' @ error_text err) err), p1)
                               | Inr instanceID \<Rightarrow>
                                   (None, p1\<lparr>anTarget := target, anInstanceID := instanceID, anAnnouncing := True\<rparr>)))))"

definition reset_announcement :: "announcer \<Rightarrow> announcer" where
  "reset_announcement p =
     (let (target, mem) = Clear_target (anTarget p) (anSlices p)
      in p\<lparr>anAnnouncing := False, anTarget := target, anInstanceID := [], anSlices := mem\<rparr>)"

definition StopAnnouncement :: "error option \<Rightarrow> announcer \<Rightarrow> error option \<times> announcer" where
  "StopAnnouncement answer p =
     (if \<not> anAnnouncing p then (Some (Sentinel ErrPairingNotActive), p)
      else if anInstanceID p \<noteq> [] then
        (let p1 = p\<lparr>anCalls := anCalls p @ [UnannouncePairing (anInstanceID p)]\<rparr>
         in case answer of
              Some err \<Rightarrow> (Some err, p1)
            | None \<Rightarrow> (None, reset_announcement p1))
      else (None, reset_announcement p))"

definition OnConnectionEstablished :: "announcer \<Rightarrow> announcer" where
  "OnConnectionEstablished p =
     (if anAnnouncing p \<and> anInstanceID p \<noteq> []
      then reset_announcement (p\<lparr>anCalls := anCalls p @ [UnannouncePairing (anInstanceID p)]\<rparr>)
      else p)"

definition SetAutoAccept_announcer :: "bool \<Rightarrow> announcer \<Rightarrow> announcer" where
  "SetAutoAccept_announcer v p = p\<lparr>anAutoaccept := v\<rparr>"

section \<open>The pairing service\<close>

text \<open>
  The history is an object that all listeners of the service share; the listener made last holds its
  current value, and \<open>psHistory\<close> is its value before the first listener was made.
\<close>

record pairing_service =
  psListener :: "listener option"
  psHistory :: ring_buffer
  psCert :: "certificate option"
  psLocal :: service
  psRunning :: bool

definition NewService ::
  "(bytes \<Rightarrow> bytes) \<Rightarrow> (bytes \<Rightarrow> error option) \<Rightarrow> ring_buffer \<Rightarrow> bytes list \<Rightarrow> string \<Rightarrow> error + pairing_service" where
  "NewService sha parse history chain shipID =
     (case chain of
        [] \<Rightarrow> Inl (Sentinel ErrInvalidCertificate)
      | der # _ \<Rightarrow>
          (case parse der of
             Some err \<Rightarrow> Inl (Wrapped (''failed to parse certificate: '' @ error_text err) err)
           | None \<Rightarrow>
               (case FingerprintFromCertificate sha (Some der) of
                  Inl err \<Rightarrow> Inl (Wrapped (''failed to calculate fingerprint: '' @ error_text err) err)
                | Inr fingerprint \<Rightarrow>
                    (case NewServiceDetails [] fingerprint shipID of
                       Inl err \<Rightarrow> Inl (Wrapped (''failed to create service details: '' @ error_text err) err)
                     | Inr svc \<Rightarrow> Inr \<lparr>psListener = None, psHistory = history, psCert = Some der,
                                      psLocal = svc, psRunning = False\<rparr>))))"

definition GetLocalFingerprint :: "(bytes \<Rightarrow> bytes) \<Rightarrow> pairing_service \<Rightarrow> error + string" where
  "GetLocalFingerprint sha s = (case psCert s of
     None \<Rightarrow> Inl (Sentinel ErrInvalidCertificate) | Some c \<Rightarrow> FingerprintFromCertificate sha (Some c))"

definition Start_service :: "pairing_service \<Rightarrow> error option \<times> pairing_service" where
  "Start_service s = (if psRunning s then (Some (Sentinel ErrServiceAlreadyStarted), s)
     else (None, s\<lparr>psRunning := True\<rparr>))"

definition Shutdown_service :: "pairing_service \<Rightarrow> pairing_service" where
  "Shutdown_service s =
     (if \<not> psRunning s then s
      else s\<lparr>psListener := map_option (\<lambda>l. snd (StopListening l)) (psListener s), psRunning := False\<rparr>)"

definition CreateAnnouncer :: "slices \<Rightarrow> pairing_service \<Rightarrow> announcer option" where
  "CreateAnnouncer mem s =
     (if \<not> psRunning s then None else Some (NewPairingAnnouncer (psCert s) (Copy (psLocal s)) mem))"

definition CreateListener :: "pairing_service \<Rightarrow> pairing_service" where
  "CreateListener s =
     (let history = (case psListener s of None \<Rightarrow> psHistory s | Some l \<Rightarrow> lsHistory (snd (StopListening l)))
      in s\<lparr>psListener := Some (NewPairingListener history (Copy (psLocal s)))\<rparr>)"

section \<open>An announcement is accepted by the device it is made for\<close>

lemma announcement_valid:
  assumes "\<exists>c \<in> set (TargetShipID target). \<not> is_space c" "\<exists>c \<in> set trustid. \<not> is_space c"
    and "isUppercaseHex (TargetFingerprint target) 64" "isUppercaseHex fp 64"
    and "length nonce = 16" "length digest = 32"
  shows "Validate ((announcement target trustid fp nonce)\<lparr>Digest := bytesToHex digest\<rparr>) = None"
  using assms isUppercaseHex_Encode [OF assms(5)] isUppercaseHex_Encode [OF assms(6)]
  by (simp add: Validate_iff announcement_def bytesToHex_def ToUpper_EncodeHexLower isUppercaseHex_def
      txt_consts split: if_splits)

lemma announcement_fields [simp]:
  "ForId (announcement target trustid fp nonce) = TargetShipID target"
  "ForPar (announcement target trustid fp nonce) = TargetFingerprint target"
  "TrustId (announcement target trustid fp nonce) = trustid"
  "TrustPar (announcement target trustid fp nonce) = fp"
  "TrustNonce (announcement target trustid fp nonce) = bytesToHex nonce"
  "TrustCurve (announcement target trustid fp nonce) = CurveSecp256r1"
  "Alg (announcement target trustid fp nonce) = AlgorithmHMACSHA256"
  "TxtVers (announcement target trustid fp nonce) = ''1''"
  by (simp_all add: announcement_def)

lemma DecodeHex_bytesToHex [simp]: "DecodeHex (bytesToHex b) = Some b"
  by (simp add: bytesToHex_def ToUpper_EncodeHexLower DecodeHex_Encode)

lemma announcement_message [simp]:
  "constructMessage (t\<lparr>Digest := d\<rparr>) = constructMessage t"
  by (simp add: constructMessage_def)

lemma announcement_authentic:
  assumes "Validate ((announcement target trustid fp nonce)\<lparr>Digest := bytesToHex digest\<rparr>) = None"
    and "TargetShipID target = svcShipID svc" "TargetFingerprint target = svcFingerprint svc" "s \<noteq> []"
    and "digest = hmac (s @ nonce) (constructMessage (announcement target trustid fp nonce))"
  shows "authentic hmac svc s ((announcement target trustid fp nonce)\<lparr>Digest := bytesToHex digest\<rparr>)"
  using assms
  by (simp add: authentic_def)

lemma passed_calls: "fst (pairing_check hmac now t l) \<longrightarrow> lsCalls (snd (pairing_check hmac now t l)) = lsCalls l"
  by (simp add: pairing_check_def Let_def split: option.split)

lemma accepted:
  assumes "lsListening l" "lsSecret l = Some s" "authentic hmac (lsLocal l) s t"
    and "\<not> HasSeenDigest (lsHistory l) (Alg t) (Digest t)"
  shows "\<exists>l'. handleMdnsDiscovery hmac now t l = (False, l')
    \<and> lsCalls l' = lsCalls l @ [PairingSuccess (TrustId t) (TrustPar t)]"
proof -
  have "fst (pairing_check hmac now t l)" using assms by (simp add: pairing_check_iff)
  moreover have "ForId t = svcShipID (lsLocal l)" using assms(3) by (simp add: authentic_def)
  ultimately show ?thesis
    using assms(1) by (simp add: handleMdnsDiscovery_def handlePairingRequest_def case_prod_beta passed_calls
        pairing_commit_def stopListeningInternal_def Let_def)
qed

text \<open>
  C19. Announcer and listener agree. An announcement for a listening device, made with its SHIP identifier,
  fingerprint and secret, travels as an mDNS TXT map and is accepted on the other side: the announcing
  device is reported as trusted with its own SHIP identifier and fingerprint, unless the digest is in the
  listener's history already.
\<close>

theorem pairing_announcement_accepted:
  assumes "\<And>raw. length (sha raw) = 32" "\<And>k m. length (hmac k m) = 32" "length nonce = 16"
    and "anConfig p = Some config" "anEnabled p" "\<not> anAnnouncing p" "anCert p = Some c"
    and "lsListening l" "lsSecret l = Some (anSlices p (pcSecret config))"
    and "IsValidLength (anSlices p (pcSecret config))"
    and "TargetShipID target = svcShipID (lsLocal l)" "TargetFingerprint target = svcFingerprint (lsLocal l)"
    and "\<exists>c \<in> set (svcShipID (lsLocal l)). \<not> is_space c" "\<exists>c \<in> set (svcShipID (anLocal p)). \<not> is_space c"
    and "isUppercaseHex (svcFingerprint (lsLocal l)) 64"
    and "\<And>t. anCalls p' = anCalls p @ [AnnouncePairing t] \<Longrightarrow> \<not> HasSeenDigest (lsHistory l) (Alg t) (Digest t)"
    and "AnnounceToDevice sha hmac (Some nonce) (Inr instanceID) target p = (err, p')"
  shows "\<exists>t. err = None \<and> anCalls p' = anCalls p @ [AnnouncePairing t]
    \<and> (case handleMdnsDiscovery hmac now (snd (FromMap (ToMap t) t0)) l of
         (continue, l') \<Rightarrow> \<not> continue
           \<and> lsCalls l' = lsCalls l @ [PairingSuccess (svcShipID (anLocal p)) (EncodeHexUpper (sha c))])"
proof -
  let ?s = "anSlices p (pcSecret config)" and ?fp = "EncodeHexUpper (sha c)"
  let ?a = "announcement target (svcShipID (anLocal p)) ?fp nonce"
  let ?d = "hmac (?s @ nonce) (constructMessage ?a)"
  let ?t = "?a\<lparr>Digest := bytesToHex ?d\<rparr>"
  have s: "?s \<noteq> []" using assms(10) by (auto simp: IsValidLength_def)
  have fp: "FingerprintFromCertificate sha (anCert p) = Inr ?fp"
    using assms(7) by (simp add: FingerprintFromCertificate_def ToUpper_EncodeHexLower)
  have "isUppercaseHex ?fp 64" using isUppercaseHex_Encode [OF assms(1), of c] by simp
  then have v: "Validate ?t = None"
    using assms(2,3,11-15) by (intro announcement_valid) simp_all
  have r: "err = None \<and> anCalls p' = anCalls p @ [AnnouncePairing ?t]"
    using assms(17) assms(4-6) s fp
    by (auto simp: AnnounceToDevice_def GenerateNonce_def CalculateDigest_def constructKey_def Let_def)
  have "authentic hmac (lsLocal l) ?s ?t"
    using v assms(11,12) s by (intro announcement_authentic) simp_all
  with r assms(8,9,16) have "\<exists>l'. handleMdnsDiscovery hmac now ?t l = (False, l')
     \<and> lsCalls l' = lsCalls l @ [PairingSuccess (TrustId ?t) (TrustPar ?t)]"
    by (intro accepted) auto
  then obtain l' where l': "handleMdnsDiscovery hmac now ?t l = (False, l')"
    "lsCalls l' = lsCalls l @ [PairingSuccess (svcShipID (anLocal p)) ?fp]" by auto
  have m: "snd (FromMap (ToMap ?t) t0) = ?t" using FromMap_ToMap [of ?t t0] by simp
  show ?thesis by (rule exI [of _ ?t]) (simp only: r m l' prod.case, simp)
qed

text \<open>
  Stopping wipes the secret of the target. The slice is the caller's own: when the caller announces to the
  same target again, its secret still has a valid length and the digest is made with a key of zeros, which
  the other device refuses.
\<close>

theorem stop_wipes_secret:
  assumes "AnnounceToDevice sha hmac random (Inr instanceID) target p = (None, p1)"
    and "StopAnnouncement None p1 = (None, p2)"
  shows "anSlices p2 (TargetSecret target) = replicate (length (anSlices p (TargetSecret target))) (char_of (0::nat))"
proof -
  have "anTarget p1 = target" "anSlices p1 = anSlices p"
    using assms(1) by (auto simp: AnnounceToDevice_def Let_def split: option.splits sum.splits if_splits)
  then show ?thesis
    using assms(2) by (auto simp: StopAnnouncement_def reset_announcement_def Clear_target_def Let_def
        map_replicate_const split: if_splits)
qed

section \<open>A concrete announcement\<close>

definition sample_sha :: "bytes \<Rightarrow> bytes" where
  "sample_sha raw = replicate 32 (char_of (187::nat))"

definition sample_config :: pairing_configuration where
  "sample_config = \<lparr>pcMode = PairingModeAnnouncer_id, pcSecret = 0, pcTimeout = 0, pcEnabled = True\<rparr>"

definition sample_announcer :: announcer where
  "sample_announcer = (NewPairingAnnouncer (Some ''cert'') (sample_service\<lparr>svcShipID := ''devZ''\<rparr>) (\<lambda>_. sample_secret))
     \<lparr>anConfig := Some sample_config, anEnabled := True\<rparr>"

definition sample_target :: pairing_target where
  "sample_target = \<lparr>TargetSKI = [], TargetFingerprint = replicate 64 CHR ''A'', TargetShipID = ''devA'',
     TargetSecret = 0\<rparr>"

definition listening :: listener where
  "listening = snd (StartListening 0 0 sample_secret None sample_listener)"

lemma listening_simps:
  "lsListening listening" "lsSecret listening = Some sample_secret" "lsLocal listening = sample_service"
  "lsHistory listening = NewRingBufferHistoryProviderLegacy 10"
  using sample_started [of undefined 0 0]
  by (simp_all add: listening_def sample_listener_def NewPairingListener_def)

lemma unseen: "a \<noteq> [] \<Longrightarrow> \<not> HasSeenDigest (NewRingBufferHistoryProviderLegacy 10) a d"
  by (auto simp: HasSeenDigest_def NewRingBufferHistoryProviderLegacy_def fresh_buffer_def zero_entry_def
      list_ex_iff Let_def)

theorem pairing_announcement_accepted_witness:
  "\<exists>t. fst (AnnounceToDevice sample_sha sample_hmac (Some (replicate 16 CHR ''n'')) (Inr ''id'') sample_target
        sample_announcer) = None
     \<and> anCalls (snd (AnnounceToDevice sample_sha sample_hmac (Some (replicate 16 CHR ''n'')) (Inr ''id'')
        sample_target sample_announcer)) = anCalls sample_announcer @ [AnnouncePairing t]
     \<and> (case handleMdnsDiscovery sample_hmac 1 (snd (FromMap (ToMap t) sample_txt)) listening of
          (continue, l') \<Rightarrow> \<not> continue \<and> lsCalls l' = lsCalls listening
             @ [PairingSuccess (svcShipID (anLocal sample_announcer)) (EncodeHexUpper (sample_sha ''cert''))])"
proof (rule pairing_announcement_accepted [where sha = sample_sha and c = "''cert''" and target = sample_target
      and nonce = "replicate 16 CHR ''n''" and instanceID = "''id''" and config = "sample_config"])
  let ?X = "AnnounceToDevice sample_sha sample_hmac (Some (replicate 16 CHR ''n'')) (Inr ''id'') sample_target
        sample_announcer"
  show "?X = (fst ?X, snd ?X)" by simp
  show "\<not> HasSeenDigest (lsHistory listening) (Alg t) (Digest t)"
    if "anCalls (snd ?X) = anCalls sample_announcer @ [AnnouncePairing t]" for t
  proof -
    have "Alg t \<noteq> []"
      using that by (auto simp: AnnounceToDevice_def sample_announcer_def NewPairingAnnouncer_def Let_def sample_config_def
          GenerateNonce_def FingerprintFromCertificate_def CalculateDigest_def sample_secret_def txt_consts)
    then show ?thesis by (simp add: listening_simps unseen)
  qed
qed (simp_all add: sample_sha_def sample_hmac_def sample_announcer_def NewPairingAnnouncer_def listening_simps sample_config_def
    sample_secret_def IsValidLength_def sample_target_def sample_service_def is_space_def isUppercaseHex_def list_all_iff
    is_upper_hex_def is_digit_def)

end
