(* ===== verification/Certs.thy ===== *)
theory Certs
  imports PairingCrypto Services
begin

text \<open>
  Certificates: the SKI of a certificate (\<open>cert/cert.go\<close>) and the check of the certificate a remote service
  presents (\<open>validateRemoteCertificate\<close> in \<open>hub/hub_connections_client.go\<close>).

  The X.509 parser, SHA-1, SHA-256 and the conversion of an ECDSA key to its ECDH bytes are not part of the
  repository. A parsed certificate is the record \<open>x509\<close> of the fields the code reads; \<open>ECDSA (Inr b)\<close> is a key
  whose ECDH bytes are \<open>b\<close>, \<open>ECDSA (Inl e)\<close> one whose conversion fails. The hash functions are arguments.
\<close>

datatype public_key = ECDSA "error + bytes" | OtherKey

record x509 =
  crtRaw :: bytes
  crtSubject :: string
  crtSubjectKeyId :: bytes
  crtPublicKey :: public_key

definition skiFromECDSAKey :: "(bytes \<Rightarrow> bytes) \<Rightarrow> error + bytes \<Rightarrow> error + bytes" where
  "skiFromECDSAKey sha1 key =
     (case key of
        Inl err \<Rightarrow> Inl (Wrapped (''failed to convert ECDSA key: '' @ error_text err) err)
      | Inr b \<Rightarrow> Inr (sha1 b))"

definition SkiFromCertificate :: "(bytes \<Rightarrow> bytes) \<Rightarrow> x509 \<Rightarrow> error + string" where
  "SkiFromCertificate sha1 c =
     (let subject = (if crtSubject c = [] then ''unknown'' else crtSubject c);
          subjectKeyId = crtSubjectKeyId c
      in if length subjectKeyId \<noteq> 20
         then Inl (Wrapped (sentinel_text ErrInvalidSKI @ '' (subject: '' @ subject @ '', SKI length: ''
                     @ Itoa (length subjectKeyId) @ '', expected: 20)'') (Sentinel ErrInvalidSKI))
         else case crtPublicKey c of
           OtherKey \<Rightarrow> Inl (Opaque ''unsupported key type for SHIP: expected ECDSA'')
         | ECDSA key \<Rightarrow>
             (case skiFromECDSAKey sha1 key of
                Inl err \<Rightarrow> Inl (Wrapped (''failed to convert ECDSA key: '' @ error_text err) err)
              | Inr ski \<Rightarrow>
                  if subjectKeyId \<noteq> ski
                  then Inl (Wrapped (sentinel_text ErrInvalidSKI @ '' (subject: '' @ subject @ '', SKI: ''
                         @ EncodeHexLower ski @ '', expected: '' @ EncodeHexLower subjectKeyId @ '')'') (Sentinel ErrInvalidSKI))
                  else Inr (EncodeHexLower subjectKeyId)))"

definition is_lower_hex :: "char \<Rightarrow> bool" where
  "is_lower_hex c \<longleftrightarrow> \<not> ((code c < 48 \<or> code c > 57) \<and> (code c < 97 \<or> code c > 102))"

definition IsSkiFormatValid :: "string \<Rightarrow> bool" where
  "IsSkiFormatValid ski =
     (let k = NormalizeSKI ski in if length k \<noteq> 40 then False else list_all is_lower_hex k)"

record validation_result =
  vrValid :: bool
  vrRemoteSKI :: string
  vrRemoteFingerprint :: string
  vrError :: "error option"

definition invalid_certificate :: "error \<Rightarrow> validation_result" where
  "invalid_certificate e = \<lparr>vrValid = False, vrRemoteSKI = [], vrRemoteFingerprint = [], vrError = Some e\<rparr>"

definition validateRemoteCertificate ::
  "(bytes \<Rightarrow> bytes) \<Rightarrow> (bytes \<Rightarrow> bytes) \<Rightarrow> x509 list \<Rightarrow> string \<Rightarrow> string \<Rightarrow> validation_result" where
  "validateRemoteCertificate sha1 sha256 remoteCerts expectedSKI expectedFingerprint =
     (if remoteCerts = [] \<or> crtSubjectKeyId (hd remoteCerts) = []
      then invalid_certificate (Opaque ''no SKI in certificate'')
      else case SkiFromCertificate sha1 (hd remoteCerts) of
        Inl err \<Rightarrow> invalid_certificate (Wrapped (''invalid SKI format: '' @ error_text err) err)
      | Inr remoteSKI \<Rightarrow>
          if expectedSKI \<noteq> [] \<and> remoteSKI \<noteq> expectedSKI
          then invalid_certificate (Opaque (''SKI mismatch: expected '' @ expectedSKI @ '', got '' @ remoteSKI))
          else case FingerprintFromCertificate sha256 (Some (crtRaw (hd remoteCerts))) of
            Inl err \<Rightarrow> invalid_certificate (Wrapped (''invalid fingerprint format: '' @ error_text err) err)
          | Inr remoteFingerprint \<Rightarrow>
              if expectedFingerprint \<noteq> [] \<and> remoteFingerprint \<noteq> expectedFingerprint
              then invalid_certificate
                     (Opaque (''fingerprint mismatch: expected '' @ expectedFingerprint @ '', got '' @ remoteFingerprint))
              else \<lparr>vrValid = True, vrRemoteSKI = remoteSKI, vrRemoteFingerprint = remoteFingerprint, vrError = None\<rparr>)"

section \<open>What an accepted certificate proves\<close>

lemma is_lower_hex_digit: "n < 16 \<Longrightarrow> is_lower_hex (hexdigit_lower n)"
  by (auto simp: is_lower_hex_def hexdigit_lower_def code_char_of)

lemma length_EncodeHexLower [simp]: "length (EncodeHexLower b) = 2 * length b"
  by (induction b) (auto simp: EncodeHexLower_def)

lemma EncodeHexLower_hex: "list_all is_lower_hex (EncodeHexLower b)"
  by (induction b) (auto simp: EncodeHexLower_def is_lower_hex_digit nibbles)

lemma lower_hex_normal: "list_all is_lower_hex s \<Longrightarrow> NormalizeSKI s = s"
  by (induction s) (auto simp: NormalizeSKI_alt is_lower_hex_def lower_def is_upper_def)

lemma SkiFromCertificate_iff:
  "SkiFromCertificate sha1 c = Inr ski \<longleftrightarrow>
     (\<exists>b. crtPublicKey c = ECDSA (Inr b) \<and> crtSubjectKeyId c = sha1 b \<and> length (sha1 b) = 20 \<and> ski = EncodeHexLower (sha1 b))"
  by (auto simp: SkiFromCertificate_def skiFromECDSAKey_def Let_def split: public_key.split sum.split)

lemma SkiFromCertificate_valid:
  "SkiFromCertificate sha1 c = Inr ski \<Longrightarrow> NormalizeSKI ski = ski \<and> IsSkiFormatValid ski \<and> ski \<noteq> []"
  using EncodeHexLower_hex by (auto simp: SkiFromCertificate_iff IsSkiFormatValid_def lower_hex_normal Let_def)

lemma certificate_checked:
  assumes "vrValid (validateRemoteCertificate sha1 sha256 certs expectedSKI expectedFingerprint)"
  shows "\<exists>c rest key. certs = c # rest \<and> crtPublicKey c = ECDSA (Inr key)
     \<and> vrRemoteSKI (validateRemoteCertificate sha1 sha256 certs expectedSKI expectedFingerprint) = EncodeHexLower (sha1 key)
     \<and> vrRemoteFingerprint (validateRemoteCertificate sha1 sha256 certs expectedSKI expectedFingerprint)
         = EncodeHexUpper (sha256 (crtRaw c))
     \<and> expectedSKI \<in> {[], EncodeHexLower (sha1 key)} \<and> length (sha1 key) = 20
     \<and> expectedFingerprint \<in> {[], EncodeHexUpper (sha256 (crtRaw c))}"
proof -
  obtain c rest where c: "certs = c # rest"
    using assms by (cases certs) (auto simp: validateRemoteCertificate_def invalid_certificate_def)
  obtain ski where ski: "SkiFromCertificate sha1 c = Inr ski"
    using assms c by (cases "SkiFromCertificate sha1 c")
      (auto simp: validateRemoteCertificate_def invalid_certificate_def split: if_splits)
  then obtain key where "crtPublicKey c = ECDSA (Inr key)" "ski = EncodeHexLower (sha1 key)" "length (sha1 key) = 20"
    by (auto simp: SkiFromCertificate_iff)
  with assms c ski show ?thesis
    by (auto simp: validateRemoteCertificate_def invalid_certificate_def FingerprintFromCertificate_def
        ToUpper_EncodeHexLower split: if_splits)
qed

text \<open>
  C28. The certificate check is sound: an accepted certificate is the leaf of the chain, its SKI is the hash of
  its own public key and its fingerprint the hash of its own bytes, and both are the expected ones where an
  SKI or a fingerprint is expected.
\<close>

theorem validated_certificate:
  assumes "vrValid (validateRemoteCertificate sha1 sha256 certs expectedSKI expectedFingerprint)"
  shows "\<exists>c rest key. certs = c # rest \<and> crtPublicKey c = ECDSA (Inr key)
     \<and> vrRemoteSKI (validateRemoteCertificate sha1 sha256 certs expectedSKI expectedFingerprint) = EncodeHexLower (sha1 key)
     \<and> vrRemoteFingerprint (validateRemoteCertificate sha1 sha256 certs expectedSKI expectedFingerprint)
         = EncodeHexUpper (sha256 (crtRaw c))
     \<and> expectedSKI \<in> {[], EncodeHexLower (sha1 key)}
     \<and> expectedFingerprint \<in> {[], EncodeHexUpper (sha256 (crtRaw c))}"
  using certificate_checked [OF assms] by blast

theorem validated_certificate_witness:
  "vrValid (validateRemoteCertificate (\<lambda>_. replicate 20 CHR ''s'') (\<lambda>b. b)
     [\<lparr>crtRaw = ''raw'', crtSubject = [], crtSubjectKeyId = replicate 20 CHR ''s'', crtPublicKey = ECDSA (Inr ''k'')\<rparr>]
     [] ''726177'')
   \<and> ''726177'' \<in> {[], EncodeHexUpper ''raw''}"
proof (rule conjI)
  show v: "vrValid (validateRemoteCertificate (\<lambda>_. replicate 20 CHR ''s'') (\<lambda>b. b)
     [\<lparr>crtRaw = ''raw'', crtSubject = [], crtSubjectKeyId = replicate 20 CHR ''s'', crtPublicKey = ECDSA (Inr ''k'')\<rparr>]
     [] ''726177'')"
    by code_simp
  from validated_certificate [OF v] show "''726177'' \<in> {[], EncodeHexUpper ''raw''}" by auto
qed

end
