(* ===== verification/MdnsTxt.thy ===== *)
theory MdnsTxt
  imports Numbers PairingTxt
begin

text \<open>
  The TXT records of mDNS (\<open>mdns/helper.go\<close>, \<open>mdns/types.go\<close> and the stateless parts of \<open>mdns/mdns.go\<close>): what
  this device announces for \<open>_ship._tcp\<close> and \<open>_shippairing._tcp\<close>, and how the records of others are read.

  A parsed record is a Go map from keys to values, here a partial function; the nil map is the empty one.
  An IP address is the list of its bytes, 4 or 16 of them.
\<close>

section \<open>Data\<close>

type_synonym ip = bytes

record mdns_entry =
  meName :: string
  meSki :: string
  meIdentifier :: string
  mePath :: string
  meRegister :: bool
  meBrand :: string
  meType :: string
  meModel :: string
  meSerial :: string
  meCategories :: "nat list"
  meHost :: string
  mePort :: int
  meAddresses :: "ip list"

type_synonym elements = "string \<rightharpoonup> string"

datatype service_type = ServiceTypeUnknown | ServiceTypeShip | ServiceTypeShipPairing

definition shipZeroConfServiceType :: string where "shipZeroConfServiceType = ''_ship._tcp''"
definition shipPairingZeroConfServiceType :: string where "shipPairingZeroConfServiceType = ''_shippairing._tcp''"
definition shipWebsocketPath :: string where "shipWebsocketPath = ''/ship/''"

definition detectServiceType :: "string \<Rightarrow> service_type" where
  "detectServiceType ty =
     (if ToLower ty = shipPairingZeroConfServiceType then ServiceTypeShipPairing
      else if ToLower ty = shipZeroConfServiceType then ServiceTypeShip
      else ServiceTypeUnknown)"

definition shortenString :: "string \<Rightarrow> nat \<Rightarrow> string" where
  "shortenString s maxLen = (if length s \<le> maxLen then s else take maxLen s)"

section \<open>Addresses\<close>

text \<open>\<open>ip.To4() != nil\<close>, the text of an address, up to a bijection, and \<open>IsLinkLocalUnicast\<close> for IPv6\<close>

definition is_IPv4 :: "ip \<Rightarrow> bool" where
  "is_IPv4 a \<longleftrightarrow> length a = 4
     \<or> (length a = 16 \<and> take 12 a = replicate 10 (char_of (0::nat)) @ replicate 2 (char_of (255::nat)))"

definition canonical_ip :: "ip \<Rightarrow> ip" where
  "canonical_ip a = (if is_IPv4 a then drop (length a - 4) a else a)"

definition is_link_local6 :: "ip \<Rightarrow> bool" where
  "is_link_local6 a \<longleftrightarrow> \<not> is_IPv4 a \<and> length a = 16 \<and> code (a ! 0) = 254 \<and> code (a ! 1) div 64 = 2"

section \<open>Parsing\<close>

fun parse_items :: "string list \<Rightarrow> elements \<Rightarrow> elements option" where
  "parse_items [] result = Some result"
| "parse_items (item # items) result =
     (case Cut item CHR ''='' of
        None \<Rightarrow> parse_items items result
      | Some (key, value) \<Rightarrow>
          if result (ToLower key) \<noteq> None then None
          else parse_items items (result(ToLower key \<mapsto> value)))"

definition parseTxt :: "string list \<Rightarrow> elements option" where
  "parseTxt txt = parse_items txt (\<lambda>_. None)"

text \<open>\<open>strings.Split(s, ",")\<close>, and the categories that parse\<close>

fun split_comma :: "string \<Rightarrow> string list" where
  "split_comma [] = [[]]"
| "split_comma (c # cs) = (if c = CHR '','' then [] # split_comma cs
     else (case split_comma cs of [] \<Rightarrow> [[c]] | x # xs \<Rightarrow> (c # x) # xs))"

definition parse_categories :: "string \<Rightarrow> nat list" where
  "parse_categories s = List.map_filter (ParseUint 32) (split_comma s)"

section \<open>Records of other devices\<close>

definition element :: "elements \<Rightarrow> string \<Rightarrow> string" where
  "element m k = (case m k of None \<Rightarrow> [] | Some v \<Rightarrow> v)"

definition ship_mandatory :: "string list" where
  "ship_mandatory = [''txtvers'', ''id'', ''path'', ''ski'', ''register'']"

text \<open>The checks of \<open>processShipMdnsEntry\<close> and the entry it makes; \<open>ownSKI\<close> is the device's own.\<close>

definition read_ship_entry ::
  "string \<Rightarrow> elements \<Rightarrow> string \<Rightarrow> string \<Rightarrow> ip list \<Rightarrow> int \<Rightarrow> mdns_entry option" where
  "read_ship_entry ownSKI m serviceName host addresses port =
     (if \<exists>k \<in> set ship_mandatory. m k = None then None
      else if element m ''txtvers'' \<noteq> ''1'' then None
      else if element m ''ski'' = ownSKI then None
      else if element m ''register'' \<noteq> ''true'' \<and> element m ''register'' \<noteq> ''false'' then None
      else Some \<lparr>meName = serviceName, meSki = element m ''ski'', meIdentifier = element m ''id'',
        mePath = element m ''path'', meRegister = (element m ''register'' = ''true''),
        meBrand = element m ''brand'', meType = element m ''type'', meModel = element m ''model'',
        meSerial = element m ''serial'',
        meCategories = (case m ''cat'' of None \<Rightarrow> [] | Some v \<Rightarrow> parse_categories v),
        meHost = host, mePort = port, meAddresses = filter (\<lambda>a. \<not> is_link_local6 a) addresses\<rparr>)"

definition isUpperHexOfLength :: "string \<Rightarrow> nat \<Rightarrow> bool" where
  "isUpperHexOfLength v n \<longleftrightarrow> length v = n \<and> list_all is_upper_hex v"

definition validatePairingTXTStrict :: "ship_pairing_txt \<Rightarrow> error option" where
  "validatePairingTXTStrict txt =
     (case Validate txt of
        Some err \<Rightarrow> Some err
      | None \<Rightarrow>
          if TrimSpace (ForId txt) = [] \<or> TrimSpace (TrustId txt) = [] then Some (Sentinel ErrInvalidTXTRecord)
          else if \<not> isUpperHexOfLength (TrustNonce txt) 32 then Some (Sentinel ErrInvalidTXTRecord)
          else if \<not> isUpperHexOfLength (Digest txt) 64 then Some (Sentinel ErrInvalidTXTRecord)
          else None)"

definition pairing_fields :: "string list" where
  "pairing_fields = [''txtvers'', ''parType'', ''forId'', ''forPar'', ''trustId'', ''trustPar'', ''trustCurve'',
     ''type'', ''trustNonce'', ''alg'', ''digest'']"

text \<open>The checks of \<open>processShipPairingMdnsEntry\<close> on a record that is not removed.\<close>

definition read_pairing_entry :: "elements \<Rightarrow> ship_pairing_txt option" where
  "read_pairing_entry m =
     (if \<exists>k \<in> set pairing_fields. m (ToLower k) = None then None
      else if element m ''txtvers'' \<noteq> ''1'' then None
      else let txt = \<lparr>TxtVers = element m ''txtvers'', ParType = element m ''partype'', ForId = element m ''forid'',
             ForPar = element m ''forpar'', TrustId = element m ''trustid'', TrustPar = element m ''trustpar'',
             TrustCurve = element m ''trustcurve'', CmdType = element m ''type'',
             TrustNonce = element m ''trustnonce'', Alg = element m ''alg'', Digest = element m ''digest''\<rparr>
           in if validatePairingTXTStrict txt \<noteq> None then None else Some txt)"

section \<open>Records of this device\<close>

definition deviceCategoriesString :: "nat list \<Rightarrow> string" where
  "deviceCategoriesString categories =
     fold (\<lambda>category cat. (if cat \<noteq> [] then cat @ '','' else cat) @ Itoa category) categories []"

definition bool_text :: "bool \<Rightarrow> string" where
  "bool_text b = (if b then ''true'' else ''false'')"

text \<open>The TXT record that \<open>AnnounceMdnsEntry\<close> builds.\<close>

definition announcement_txt ::
  "string \<Rightarrow> string \<Rightarrow> string \<Rightarrow> string \<Rightarrow> string \<Rightarrow> bool \<Rightarrow> string \<Rightarrow> nat list \<Rightarrow> string list" where
  "announcement_txt identifier ski brand model ty register serial categories =
     [''txtvers=1'', ''path='' @ shipWebsocketPath, ''id='' @ identifier, ''ski='' @ ski, ''brand='' @ brand,
      ''model='' @ model, ''type='' @ ty, ''register='' @ bool_text register]
     @ (if serial \<noteq> [] then [''serial='' @ serial] else [])
     @ (if deviceCategoriesString categories \<noteq> [] then [''cat='' @ deviceCategoriesString categories] else [])"

definition convertPairingTXTToArray :: "ship_pairing_txt \<Rightarrow> string list" where
  "convertPairingTXTToArray txt =
     List.map_filter (\<lambda>field. case ToMap txt field of
       Some value \<Rightarrow> if value \<noteq> [] then Some (field @ ''='' @ value) else None | None \<Rightarrow> None) pairing_fields"

section \<open>Copies\<close>

text \<open>
  \<open>util.DeepCopy\<close> goes through JSON: bytes of a string that are not UTF-8 become the replacement character, an
  IPv4 address gets its 16-byte form, and an entry with an address of another length than 4 or 16 becomes the
  zero entry, since it cannot be encoded.
\<close>

definition utf8_length :: "string \<Rightarrow> nat" where
  "utf8_length s =
     (let b = (\<lambda>i. if i < length s then code (s ! i) else 0); cont = (\<lambda>i. 128 \<le> b i \<and> b i < 192) in
      if b 0 < 128 then 1
      else if 194 \<le> b 0 \<and> b 0 < 224 \<and> cont 1 then 2
      else if 224 \<le> b 0 \<and> b 0 < 240 \<and> cont 1 \<and> cont 2 \<and> (b 0 = 224 \<longrightarrow> 160 \<le> b 1) \<and> (b 0 = 237 \<longrightarrow> b 1 < 160) then 3
      else if 240 \<le> b 0 \<and> b 0 < 245 \<and> cont 1 \<and> cont 2 \<and> cont 3 \<and> (b 0 = 240 \<longrightarrow> 144 \<le> b 1) \<and> (b 0 = 244 \<longrightarrow> b 1 < 144) then 4
      else 0)"

function valid_text :: "string \<Rightarrow> string" where
  "valid_text [] = []"
| "valid_text (c # cs) =
     (let n = utf8_length (c # cs) in
      if n = 0 then [char_of (239::nat), char_of (191::nat), char_of (189::nat)] @ valid_text cs
      else take n (c # cs) @ valid_text (drop n (c # cs)))"
  by pat_completeness auto
termination by (relation "measure length") auto

definition To16 :: "ip \<Rightarrow> ip" where
  "To16 a = (if length a = 4 then replicate 10 (char_of (0::nat)) @ replicate 2 (char_of (255::nat)) @ a else a)"

definition zero_entry_mdns :: mdns_entry where
  "zero_entry_mdns = \<lparr>meName = [], meSki = [], meIdentifier = [], mePath = [], meRegister = False, meBrand = [],
     meType = [], meModel = [], meSerial = [], meCategories = [], meHost = [], mePort = 0, meAddresses = []\<rparr>"

definition DeepCopy_entry :: "mdns_entry \<Rightarrow> mdns_entry" where
  "DeepCopy_entry e =
     (if \<exists>a \<in> set (meAddresses e). length a \<notin> {0, 4, 16} then zero_entry_mdns
      else \<lparr>meName = valid_text (meName e), meSki = valid_text (meSki e), meIdentifier = valid_text (meIdentifier e),
        mePath = valid_text (mePath e), meRegister = meRegister e, meBrand = valid_text (meBrand e),
        meType = valid_text (meType e), meModel = valid_text (meModel e), meSerial = valid_text (meSerial e),
        meCategories = meCategories e, meHost = valid_text (meHost e), mePort = mePort e,
        meAddresses = map To16 (meAddresses e)\<rparr>)"

section \<open>What parsing accepts\<close>

text \<open>The pairs of a record that have a separator, in order.\<close>

definition pairs :: "string list \<Rightarrow> (string \<times> string) list" where
  "pairs txt = List.map_filter (\<lambda>item. Cut item CHR ''='') txt"

definition keys :: "string list \<Rightarrow> string list" where
  "keys txt = map (\<lambda>p. ToLower (fst p)) (pairs txt)"

lemma pairs_simps [simp]:
  "pairs [] = []"
  "pairs (item # items) = (case Cut item CHR ''='' of None \<Rightarrow> pairs items | Some p \<Rightarrow> p # pairs items)"
  by (auto simp: pairs_def List.map_filter_simps split: option.splits)

lemma keys_simps [simp]:
  "keys [] = []"
  "keys (item # items) =
     (case Cut item CHR ''='' of None \<Rightarrow> keys items | Some p \<Rightarrow> ToLower (fst p) # keys items)"
  by (auto simp: keys_def split: option.splits)

lemma parse_items_None:
  "parse_items ts r = None \<longleftrightarrow> \<not> (distinct (keys ts) \<and> (\<forall>k \<in> set (keys ts). r k = None))"
proof (induction ts arbitrary: r)
  case (Cons item items)
  show ?case
  proof (cases "Cut item CHR ''=''")
    case (Some p)
    have "(r(ToLower (fst p) \<mapsto> snd p)) k = None \<longleftrightarrow> k \<noteq> ToLower (fst p) \<and> r k = None" for k by simp
    with Some show ?thesis using Cons.IH [of "r(ToLower (fst p) \<mapsto> snd p)"]
      by (cases p) (auto simp del: fun_upd_apply)
  qed (use Cons.IH [of r] in simp)
qed simp

lemma parse_items_Some:
  "parse_items ts r = Some m \<Longrightarrow>
     m = r ++ map_of (map (\<lambda>p. (ToLower (fst p), snd p)) (pairs ts))"
proof (induction ts arbitrary: r)
  case (Cons item items)
  show ?case
  proof (cases "Cut item CHR ''=''")
    case (Some p)
    obtain k v where p: "p = (k, v)" by (cases p)
    let ?rest = "map_of (map (\<lambda>p. (ToLower (fst p), snd p)) (pairs items))"
    from Cons.prems Some p have rest: "parse_items items (r(ToLower k \<mapsto> v)) = Some m"
      by (simp split: if_splits)
    then have m: "m = r(ToLower k \<mapsto> v) ++ ?rest" by (rule Cons.IH)
    from rest have "ToLower k \<notin> set (keys items)"
      using parse_items_None [of items "r(ToLower k \<mapsto> v)"] by auto
    then have "?rest (ToLower k) = None"
      by (auto simp: map_of_eq_None_iff keys_def image_image)
    then have "r(ToLower k \<mapsto> v) ++ ?rest = r ++ ?rest(ToLower k \<mapsto> v)"
      by (auto simp: map_add_def fun_eq_iff split: option.split)
    with m Some p show ?thesis by (simp del: fun_upd_apply)
  qed (use Cons in simp)
qed simp

lemma parseTxt_None: "parseTxt txt = None \<longleftrightarrow> \<not> distinct (keys txt)"
  by (auto simp: parseTxt_def parse_items_None)

lemma parseTxt_Some:
  "parseTxt txt = Some m \<Longrightarrow> m = map_of (map (\<lambda>p. (ToLower (fst p), snd p)) (pairs txt)) \<and> distinct (keys txt)"
  unfolding parseTxt_def by (metis parse_items_Some parse_items_None empty_map_add option.distinct(1))

text \<open>
  A TXT record is refused exactly if two of its keys are equal but for their case; of a record that is
  accepted every key is found under its lower case form with the value it had, and nothing else is found.
\<close>

theorem duplicate_keys_refused:
  "case parseTxt txt of
     None \<Rightarrow> \<not> distinct (keys txt)
   | Some m \<Rightarrow> distinct (keys txt) \<and>
       (\<forall>k v. m k = Some v \<longleftrightarrow> (\<exists>item \<in> set txt. \<exists>key. Cut item CHR ''='' = Some (key, v) \<and> ToLower key = k))"
proof (cases "parseTxt txt")
  case (Some m)
  let ?kvs = "map (\<lambda>p. (ToLower (fst p), snd p)) (pairs txt)"
  from Some have m: "m = map_of ?kvs" and d: "distinct (keys txt)"
    by (auto dest: parseTxt_Some)
  from d have "distinct (map fst ?kvs)" by (simp add: keys_def comp_def)
  then have "m k = Some v \<longleftrightarrow> (k, v) \<in> set ?kvs" for k v
    by (simp add: m)
  moreover have "set (pairs txt) = {p. \<exists>item \<in> set txt. Cut item CHR ''='' = Some p}"
    by (induction "txt") (auto split: option.splits)
  ultimately show ?thesis using Some d by (force simp: image_iff)
qed (use parseTxt_None [of "txt"] in simp)

section \<open>What is announced can be read\<close>

text \<open>A record is written as items \<open>key=value\<close>.\<close>

definition items_of :: "(string \<times> string) list \<Rightarrow> string list" where
  "items_of kvs = map (\<lambda>p. fst p @ ''='' @ snd p) kvs"

lemma pairs_items_of: "\<forall>p \<in> set kvs. CHR ''='' \<notin> set (fst p) \<Longrightarrow> pairs (items_of kvs) = kvs"
  by (induction kvs) (auto simp: items_of_def Cut_append)

lemma parseTxt_items_of:
  assumes "\<forall>p \<in> set kvs. CHR ''='' \<notin> set (fst p)" "distinct (map (\<lambda>p. ToLower (fst p)) kvs)"
  shows "parseTxt (items_of kvs) = Some (map_of (map (\<lambda>p. (ToLower (fst p), snd p)) kvs))"
proof -
  have "pairs (items_of kvs) = kvs" using assms(1) by (rule pairs_items_of)
  moreover from this assms(2) have "distinct (keys (items_of kvs))" by (simp add: keys_def)
  ultimately show ?thesis
    using parseTxt_None [of "items_of kvs"] parseTxt_Some [of "items_of kvs"] by (cases "parseTxt (items_of kvs)") auto
qed

lemma map_filter_items:
  "List.map_filter (\<lambda>k. case m k of Some v \<Rightarrow> if v \<noteq> [] then Some (k @ ''='' @ v) else None | None \<Rightarrow> None) ks
     = items_of (List.map_filter (\<lambda>k. case m k of Some v \<Rightarrow> if v \<noteq> [] then Some (k, v) else None | None \<Rightarrow> None) ks)"
  by (induction ks) (auto simp: items_of_def List.map_filter_simps split: option.splits)

lemma map_filter_present:
  assumes "\<forall>k \<in> set ks. m k \<noteq> None"
  shows "List.map_filter (\<lambda>k. case m k of Some v \<Rightarrow> if v \<noteq> [] then Some (k, v) else None | None \<Rightarrow> None) ks
     = filter (\<lambda>p. snd p \<noteq> []) (map (\<lambda>k. (k, the (m k))) ks)"
  using assms by (induction ks) (auto simp: List.map_filter_simps)

definition fields_of :: "ship_pairing_txt \<Rightarrow> (string \<times> string) list" where
  "fields_of t = map (\<lambda>k. (k, the (ToMap t k))) pairing_fields"

lemma fields_of:
  "fields_of t = [(''txtvers'', TxtVers t), (''parType'', ParType t), (''forId'', ForId t), (''forPar'', ForPar t),
     (''trustId'', TrustId t), (''trustPar'', TrustPar t), (''trustCurve'', TrustCurve t), (''type'', CmdType t),
     (''trustNonce'', TrustNonce t), (''alg'', Alg t), (''digest'', Digest t)]"
  by (simp add: fields_of_def pairing_fields_def ToMap_def)

lemma lower_fields:
  "map ToLower pairing_fields = [''txtvers'', ''partype'', ''forid'', ''forpar'', ''trustid'', ''trustpar'',
     ''trustcurve'', ''type'', ''trustnonce'', ''alg'', ''digest'']"
  by code_simp

lemma plain_fields: "list_all (\<lambda>k. CHR ''='' \<notin> set k) pairing_fields"
  by code_simp

lemma convert_items: "convertPairingTXTToArray t = items_of (filter (\<lambda>p. snd p \<noteq> []) (fields_of t))"
proof -
  have "\<forall>k \<in> set pairing_fields. ToMap t k \<noteq> None"
    using lookup_ToMap [of _ t] by (simp add: pairing_fields_def required_fields_def)
  then show ?thesis
    unfolding convertPairingTXTToArray_def map_filter_items fields_of_def by (simp only: map_filter_present)
qed

lemma map_of_filtered:
  assumes "distinct (map f kvs)" "p \<in> set kvs"
  shows "map_of (map (\<lambda>p. (f p, snd p)) (filter P kvs)) (f p) = (if P p then Some (snd p) else None)"
  using assms
proof (induction kvs)
  case (Cons q kvs)
  show ?case
  proof (cases "p = q")
    case True
    have "map_of (map (\<lambda>p. (f p, snd p)) (filter P kvs)) (f q) = None"
      using Cons.prems by (auto simp: map_of_eq_None_iff)
    with True show ?thesis by simp
  next
    case False
    with Cons.prems have "f p \<noteq> f q" by (metis (no_types, lifting) distinct.simps(2) image_eqI list.simps(9) list.set_map set_ConsD)
    with False Cons show ?thesis by simp
  qed
qed simp

lemma parse_converted:
  obtains m where "parseTxt (convertPairingTXTToArray t) = Some m"
    "\<forall>(k, v) \<in> set (fields_of t). m (ToLower k) = (if v \<noteq> [] then Some v else None)"
proof
  let ?f = "\<lambda>p :: string \<times> string. ToLower (fst p)"
  let ?kvs = "filter (\<lambda>p. snd p \<noteq> []) (fields_of t)"
  let ?m = "map_of (map (\<lambda>p. (?f p, snd p)) ?kvs)"
  have ls: "map ?f (fields_of t) = map ToLower pairing_fields" by (simp add: fields_of_def)
  have d: "distinct (map ?f (fields_of t))" unfolding ls lower_fields by code_simp
  have "\<forall>p \<in> set ?kvs. CHR ''='' \<notin> set (fst p)"
    using plain_fields by (auto simp: fields_of_def list_all_iff)
  then show "parseTxt (convertPairingTXTToArray t) = Some ?m"
    unfolding convert_items using d by (intro parseTxt_items_of) (auto simp: distinct_map_filter)
  show "\<forall>(k, v) \<in> set (fields_of t). ?m (ToLower k) = (if v \<noteq> [] then Some v else None)"
    using map_of_filtered [OF d, of _ "\<lambda>p. snd p \<noteq> []"] by fastforce
qed

lemma Validate_nonempty:
  "Validate t = None \<Longrightarrow> \<forall>p \<in> set (fields_of t). snd p \<noteq> []"
  by (auto simp: Validate_def fields_of isUppercaseHex_def txt_consts TrimSpace_def trim_where_def split: if_splits)

text \<open>The strict check adds nothing to \<open>Validate\<close>.\<close>

lemma validatePairingTXTStrict_None: "validatePairingTXTStrict t = None \<longleftrightarrow> Validate t = None"
  by (auto simp: validatePairingTXTStrict_def Validate_def isUppercaseHex_def isUpperHexOfLength_def
      split: option.splits if_splits)

text \<open>
  What \<open>convertPairingTXTToArray\<close> writes is read back as the very same record if that is valid, and is dropped
  otherwise, also when an empty value was left out of the announcement.
\<close>

lemma pairing_record_read:
  "\<exists>m. parseTxt (convertPairingTXTToArray t) = Some m
     \<and> read_pairing_entry m = (if Validate t = None then Some t else None)"
proof -
  obtain m where m: "parseTxt (convertPairingTXTToArray t) = Some m"
    "\<forall>(k, v) \<in> set (fields_of t). m (ToLower k) = (if v \<noteq> [] then Some v else None)"
    by (rule parse_converted)
  have "read_pairing_entry m = (if Validate t = None then Some t else None)"
  proof (cases "\<forall>p \<in> set (fields_of t). snd p \<noteq> []")
    case True
    with m(2) have all: "\<forall>(k, v) \<in> set (fields_of t). m (ToLower k) = Some v" by fastforce
    then have "(\<exists>k \<in> set pairing_fields. m (ToLower k) = None) = False" by (auto simp: fields_of_def)
    note read = read_pairing_entry_def [of m, unfolded this if_False]
    have "map m (map ToLower pairing_fields) = map (\<lambda>p. Some (snd p)) (fields_of t)"
      using all by (auto simp: fields_of_def)
    then show ?thesis
      by (cases t) (auto simp: read lower_fields fields_of element_def Let_def validatePairingTXTStrict_None Validate_def)
  next
    case False
    then obtain k v where "(k, v) \<in> set (fields_of t)" "v = []" by fastforce
    with m(2) have "k \<in> set pairing_fields" "m (ToLower k) = None" by (auto simp: fields_of_def)
    moreover have "Validate t \<noteq> None" using False Validate_nonempty by blast
    ultimately show ?thesis by (auto simp: read_pairing_entry_def)
  qed
  with m(1) show ?thesis by blast
qed

text \<open>The categories of a device, as text and back\<close>

lemma join_concat: "join sep (s # ss) = s @ concat (map (\<lambda>x. sep @ x) ss)"
  by (induction ss arbitrary: s) auto

lemma split_comma_join:
  assumes "ss \<noteq> []" "\<forall>s \<in> set ss. CHR '','' \<notin> set s"
  shows "split_comma (join '','' ss) = ss"
proof -
  have one: "split_comma s = [s]" if "CHR '','' \<notin> set s" for s
    using that by (induction s) auto
  have two: "split_comma (s @ CHR '','' # rest) = s # split_comma rest" if "CHR '','' \<notin> set s" for s rest
    using that by (induction s) auto
  show ?thesis using assms
  proof (induction ss rule: list_nonempty_induct)
    case (cons s ss)
    then show ?case using two [of s "join '','' ss"] by (cases ss) auto
  qed (simp add: one)
qed

lemma deviceCategoriesString_join: "deviceCategoriesString cs = join '','' (map Itoa cs)"
proof -
  have "fold (\<lambda>category cat. (if cat \<noteq> [] then cat @ '','' else cat) @ Itoa category) cs acc
      = acc @ concat (map (\<lambda>x. '','' @ x) (map Itoa cs))" if "acc \<noteq> []" for acc cs
    using that by (induction cs arbitrary: acc) auto
  then show ?thesis by (cases cs) (simp_all add: deviceCategoriesString_def join_concat)
qed

lemma parse_categories_text:
  assumes "cs \<noteq> []" "\<forall>c \<in> set cs. c < 2 ^ 32"
  shows "parse_categories (deviceCategoriesString cs) = cs"
proof -
  have "CHR '','' \<notin> set (Itoa c)" for c using Itoa_is_digit [of c] by (auto simp: is_digit_def)
  then have "split_comma (deviceCategoriesString cs) = map Itoa cs"
    using assms(1) by (simp add: deviceCategoriesString_join split_comma_join)
  moreover have "List.map_filter (ParseUint 32) (map Itoa cs) = cs"
    using assms(2) by (induction cs) (simp_all add: List.map_filter_simps ParseUint_Itoa)
  ultimately show ?thesis by (simp add: parse_categories_def)
qed

lemma deviceCategoriesString_Nil: "deviceCategoriesString cs = [] \<longleftrightarrow> cs = []"
  by (cases cs) (simp_all add: deviceCategoriesString_join join_concat)

lemma announcement_items:
  "announcement_txt identifier ski brand model ty register serial categories = items_of
     ([(''txtvers'', ''1''), (''path'', shipWebsocketPath), (''id'', identifier), (''ski'', ski), (''brand'', brand),
       (''model'', model), (''type'', ty), (''register'', bool_text register)]
      @ (if serial \<noteq> [] then [(''serial'', serial)] else [])
      @ (if categories \<noteq> [] then [(''cat'', deviceCategoriesString categories)] else []))"
  by (simp add: announcement_txt_def items_of_def deviceCategoriesString_Nil)

text \<open>What another device reads from the announcement of this one\<close>

lemma ship_record_read:
  assumes "\<forall>c \<in> set categories. c < 2 ^ 32"
  shows "\<exists>m. parseTxt (announcement_txt identifier ski brand model ty register serial categories) = Some m
     \<and> read_ship_entry ownSKI m name host addresses port = (if ski = ownSKI then None else
         Some \<lparr>meName = name, meSki = ski, meIdentifier = identifier, mePath = shipWebsocketPath,
           meRegister = register, meBrand = brand, meType = ty, meModel = model, meSerial = serial,
           meCategories = categories, meHost = host, mePort = port,
           meAddresses = filter (\<lambda>a. \<not> is_link_local6 a) addresses\<rparr>)"
proof -
  let ?kvs = "[(''txtvers'', ''1''), (''path'', shipWebsocketPath), (''id'', identifier), (''ski'', ski), (''brand'', brand),
       (''model'', model), (''type'', ty), (''register'', bool_text register)]
      @ (if serial \<noteq> [] then [(''serial'', serial)] else [])
      @ (if categories \<noteq> [] then [(''cat'', deviceCategoriesString categories)] else [])"
  have l: "ToLower ''txtvers'' = ''txtvers''" "ToLower ''path'' = ''path''" "ToLower ''id'' = ''id''"
    "ToLower ''ski'' = ''ski''" "ToLower ''brand'' = ''brand''" "ToLower ''model'' = ''model''"
    "ToLower ''type'' = ''type''" "ToLower ''register'' = ''register''" "ToLower ''serial'' = ''serial''"
    "ToLower ''cat'' = ''cat''"
    by code_simp+
  have "parseTxt (items_of ?kvs) = Some (map_of (map (\<lambda>p. (ToLower (fst p), snd p)) ?kvs))"
    by (rule parseTxt_items_of) (auto simp: l)
  moreover have "map (\<lambda>p. (ToLower (fst p), snd p)) ?kvs = ?kvs" by (simp add: l)
  moreover have "read_ship_entry ownSKI (map_of ?kvs) name host addresses port = (if ski = ownSKI then None else
         Some \<lparr>meName = name, meSki = ski, meIdentifier = identifier, mePath = shipWebsocketPath,
           meRegister = register, meBrand = brand, meType = ty, meModel = model, meSerial = serial,
           meCategories = categories, meHost = host, mePort = port,
           meAddresses = filter (\<lambda>a. \<not> is_link_local6 a) addresses\<rparr>)"
    using assms by (auto simp: read_ship_entry_def ship_mandatory_def element_def bool_text_def parse_categories_text)
  ultimately show ?thesis unfolding announcement_items by (intro exI [of _ "map_of ?kvs"] conjI) simp_all
qed

end
