(* ===== verification/HubState.thy ===== *)
theory HubState
  imports HubRegistry Trackers PairingAnnouncer Certs ShipConn MdnsTxt
begin

text \<open>
  The hub (\<open>hub/hub.go\<close>): its state, and the small operations on its tables that live in
  \<open>hub/hub_connections_retry.go\<close>, \<open>hub/hub_connections_timers.go\<close>, \<open>hub/hub_connections_dialstate.go\<close>
  and \<open>hub/hub_connections_registry.go\<close>.

  A handler of the hub is a function on the record \<open>hub\<close>; handlers run one after the other, the places
  where a handler waits for the network or for a timer are separate steps. A SHIP connection is an object
  with an identity, of which \<open>hbObjects\<close> tells what its methods answer; the calls the hub makes on
  connections, on mDNS, on the application and on sockets are recorded in \<open>hbCalls\<close>, oldest first. A Go map
  is an association list; its order is the order of iteration, which Go leaves open.
\<close>

section \<open>State\<close>

record conn_object =
  coRole :: ship_role
  coSKI :: string
  coShipID :: string
  coState :: sme_state
  coError :: "error option"

record remote_mdns_service =
  rmName :: string
  rmSki :: string
  rmShipID :: string
  rmBrand :: string
  rmType :: string
  rmModel :: string
  rmSerial :: string
  rmCategories :: "nat list"

datatype hub_call =
    MdnsStart pairing_mode
  | MdnsShutdown
  | MdnsAnnounce
  | MdnsRequest
  | MdnsSetAutoAccept bool
  | ConnClose nat bool int string
  | ConnApprove nat
  | ConnAbort nat
  | SocketClose nat
  | ServerShutdown
  | Disconnected identity
  | Connected identity
  | Updated identity
  | PairingDetail identity conn_detail
  | VisibleServices "remote_mdns_service list"
  | AutoTrusted identity
  | AutoTrustFailed identity error
  | AutoTrustRemoved identity string

text \<open>An outgoing dial; \<open>dlSocket\<close> is the raw socket it was given, \<open>dlSuperseded\<close> that it lost.\<close>

record dial =
  dlSocket :: "nat option"
  dlSuperseded :: bool

text \<open>The function of a connection delay timer: the SKI, the attempt and the mDNS entry it connects to.\<close>

type_synonym attempt = "string \<times> nat \<times> mdns_entry"

text \<open>
  A goroutine that connects to a service: \<open>ctTodo\<close> are the hosts still to be tried, \<open>ctStage\<close> where the
  current \<open>connectFoundService\<close> waits, \<open>ctDial\<close> its dial and \<open>ctDialSKI\<close> the key it has in
  \<open>connectionsInitiating\<close>.
\<close>

datatype dial_host = HostName string | HostIP ip

datatype dial_stage = FirstDial | SecondDial | Awaiting addr

record connect_task =
  ctSki :: string
  ctService :: addr
  ctEntry :: mdns_entry
  ctTodo :: "dial_host list"
  ctStage :: dial_stage
  ctDial :: nat
  ctDialSKI :: string

record active_announcement =
  aaTarget :: pairing_target
  aaAnnouncer :: announcer
  aaStart :: int

record hub =
  hbObjects :: "nat \<Rightarrow> conn_object"
  hbFreshConn :: nat
  hbConnections :: "(string \<times> nat) list"
  hbAttemptCounter :: "(string \<times> nat) list"
  hbAttemptRunning :: "(string \<times> bool) list"
  hbInitiating :: "(string \<times> nat) list"
  hbDials :: "nat \<Rightarrow> dial"
  hbFreshDial :: nat
  hbTasks :: "(nat \<times> connect_task) list"
  hbPort :: int
  hbCertificate :: "bytes list"
  hbLocal :: service
  hbAutoaccept :: bool
  hbRegistry :: registry
  hbKnown :: "mdns_entry list"
  hbServer :: bool
  hbStarted :: bool
  hbDelayTimers :: "(string \<times> nat) list"
  hbDelays :: "attempt go_timers"
  hbMaxConnections :: int
  hbPairing :: "pairing_service option"
  hbPairingConfig :: "pairing_config option"
  hbPersistence :: "(error + digest_entry list \<times> int) option"
  hbListenerSet :: bool
  hbContext :: nat
  hbContextDone :: bool
  hbAnnouncements :: "(string \<times> active_announcement) list"
  hbSlices :: slices
  hbReplacement :: replacement_tracker
  hbLifetime :: lifetime_tracker
  hbDelayed :: "(addr \<times> conn_detail) list"
  hbPairingReader :: bool
  hbCalls :: "hub_call list"

definition call :: "hub_call \<Rightarrow> hub \<Rightarrow> hub" where
  "call c h = h\<lparr>hbCalls := hbCalls h @ [c]\<rparr>"

section \<open>Services\<close>

text \<open>The methods of the registry, on the hub; a service is its address.\<close>

definition service_at :: "hub \<Rightarrow> addr \<Rightarrow> service" where
  "service_at h a = rgHeap (hbRegistry h) a"

definition set_service :: "addr \<Rightarrow> (service \<Rightarrow> service) \<Rightarrow> hub \<Rightarrow> hub" where
  "set_service a f h = h\<lparr>hbRegistry := update_service a f (hbRegistry h)\<rparr>"

definition new_service :: "service \<Rightarrow> hub \<Rightarrow> addr \<times> hub" where
  "new_service s h = (let (a, r) = alloc s (hbRegistry h) in (a, h\<lparr>hbRegistry := r\<rparr>))"

definition merge_service :: "addr \<Rightarrow> hub \<Rightarrow> (error + addr) \<times> hub" where
  "merge_service a h = (let (res, r) = mergeOrAddService a (hbRegistry h) in (res, h\<lparr>hbRegistry := r\<rparr>))"

definition find_service :: "string \<Rightarrow> string \<Rightarrow> hub \<Rightarrow> addr option" where
  "find_service ski fingerprint h = ServiceForIdentifier ski fingerprint (hbRegistry h)"

text \<open>\<open>IsRemoteServiceForSKIPaired\<close>\<close>

definition IsRemoteServiceForSKIPaired :: "string \<Rightarrow> hub \<Rightarrow> bool" where
  "IsRemoteServiceForSKIPaired ski h = (case find_service ski [] h of None \<Rightarrow> False
     | Some a \<Rightarrow> svcTrusted (service_at h a))"

section \<open>Connections\<close>

definition isSkiConnected :: "string \<Rightarrow> hub \<Rightarrow> bool" where
  "isSkiConnected ski h \<longleftrightarrow> map_of (hbConnections h) ski \<noteq> None"

text \<open>\<open>connectionForService\<close>: by SKI, else by the fingerprint or the SHIP ID of the entry with the SKI of a
  connection.\<close>

definition conn_match :: "service \<Rightarrow> hub \<Rightarrow> string \<times> nat \<Rightarrow> bool" where
  "conn_match s h p =
     (case find (\<lambda>a. svcSKI (service_at h a) = fst p) (rgList (hbRegistry h)) of
        None \<Rightarrow> False
      | Some a \<Rightarrow> (svcFingerprint s \<noteq> [] \<and> svcFingerprint (service_at h a) = svcFingerprint s)
                \<or> (svcShipID s \<noteq> [] \<and> svcShipID (service_at h a) = svcShipID s))"

definition connectionForService :: "service option \<Rightarrow> hub \<Rightarrow> nat option" where
  "connectionForService service h =
     (case service of
        None \<Rightarrow> None
      | Some s \<Rightarrow>
          if svcSKI s \<noteq> [] \<and> map_of (hbConnections h) (svcSKI s) \<noteq> None
          then map_of (hbConnections h) (svcSKI s)
          else if svcFingerprint s = [] \<and> svcShipID s = [] then None
          else map_option snd (find (conn_match s h) (hbConnections h)))"

section \<open>Attempts\<close>

definition connectionInitiationDelayTimeRanges :: "(int \<times> int) list" where
  "connectionInitiationDelayTimeRanges = [(0, 3), (3, 10), (10, 20)]"

definition increaseConnectionAttemptCounter :: "string \<Rightarrow> hub \<Rightarrow> nat \<times> hub" where
  "increaseConnectionAttemptCounter ski h =
     (let last = length connectionInitiationDelayTimeRanges - 1;
          currentCounter = (case map_of (hbAttemptCounter h) ski of
            None \<Rightarrow> 0
          | Some counter \<Rightarrow> if counter + 1 \<ge> last then last else counter + 1)
      in (currentCounter, h\<lparr>hbAttemptCounter := AList.update ski currentCounter (hbAttemptCounter h)\<rparr>))"

definition removeConnectionAttemptCounter :: "string \<Rightarrow> hub \<Rightarrow> hub" where
  "removeConnectionAttemptCounter ski h =
     (if ski = [] then h else h\<lparr>hbAttemptCounter := AList.delete ski (hbAttemptCounter h)\<rparr>)"

definition getCurrentConnectionAttemptCounter :: "string \<Rightarrow> hub \<Rightarrow> nat option" where
  "getCurrentConnectionAttemptCounter ski h = map_of (hbAttemptCounter h) ski"

text \<open>\<open>random n\<close> is the answer of \<open>rand.Intn n\<close>.\<close>

definition getConnectionInitiationDelayTime :: "(int \<Rightarrow> int) \<Rightarrow> string \<Rightarrow> hub \<Rightarrow> (nat \<times> duration) \<times> hub" where
  "getConnectionInitiationDelayTime random ski h =
     (let (counter, h1) = increaseConnectionAttemptCounter ski h;
          (lo, hi) = connectionInitiationDelayTimeRanges ! counter;
          minRange = lo * 1000; maxRange = hi * 1000
      in ((counter, ms (random (maxRange - minRange) + minRange)), h1))"

definition setConnectionAttemptRunning :: "string \<Rightarrow> bool \<Rightarrow> hub \<Rightarrow> hub" where
  "setConnectionAttemptRunning ski active h =
     h\<lparr>hbAttemptRunning := AList.update ski active (hbAttemptRunning h)\<rparr>"

definition isConnectionAttemptRunning :: "string \<Rightarrow> hub \<Rightarrow> bool" where
  "isConnectionAttemptRunning ski h = (map_of (hbAttemptRunning h) ski = Some True)"

section \<open>Delay timers\<close>

text \<open>
  \<open>connectionDelayTimer\<close>: its \<open>done\<close> channel is closed only when \<open>Stop\<close> caught the timer before it fired, so a
  fired timer always runs its function.
\<close>

definition newConnectionDelayTimer :: "attempt \<Rightarrow> hub \<Rightarrow> nat \<times> hub" where
  "newConnectionDelayTimer f h = (let (i, ts) = AfterFunc f (hbDelays h) in (i, h\<lparr>hbDelays := ts\<rparr>))"

definition Stop_delay :: "nat \<Rightarrow> hub \<Rightarrow> bool \<times> hub" where
  "Stop_delay i h = (let (stopped, ts) = timer_Stop i (hbDelays h) in (stopped, h\<lparr>hbDelays := ts\<rparr>))"

definition storeConnectionDelayTimer :: "string \<Rightarrow> nat \<Rightarrow> hub \<Rightarrow> hub" where
  "storeConnectionDelayTimer ski i h =
     (let h1 = (case map_of (hbDelayTimers h) ski of None \<Rightarrow> h | Some j \<Rightarrow> snd (Stop_delay j h))
      in h1\<lparr>hbDelayTimers := AList.update ski i (hbDelayTimers h1)\<rparr>)"

definition cancelConnectionDelayTimer :: "string \<Rightarrow> hub \<Rightarrow> hub" where
  "cancelConnectionDelayTimer ski h =
     (case map_of (hbDelayTimers h) ski of
        None \<Rightarrow> h
      | Some i \<Rightarrow>
          (let (canceled, h1) = Stop_delay i h;
               h2 = (if canceled then setConnectionAttemptRunning ski False h1 else h1)
           in h2\<lparr>hbDelayTimers := AList.delete ski (hbDelayTimers h2)\<rparr>))"

section \<open>Dials\<close>

definition newDialState :: "hub \<Rightarrow> nat \<times> hub" where
  "newDialState h = (hbFreshDial h,
     h\<lparr>hbDials := (hbDials h)(hbFreshDial h := \<lparr>dlSocket = None, dlSuperseded = False\<rparr>),
       hbFreshDial := hbFreshDial h + 1\<rparr>)"

definition adopt :: "nat \<Rightarrow> nat \<Rightarrow> hub \<Rightarrow> hub" where
  "adopt d sock h =
     (let h1 = h\<lparr>hbDials := (hbDials h)(d := (hbDials h d)\<lparr>dlSocket := Some sock\<rparr>)\<rparr>
      in if dlSuperseded (hbDials h d) then call (SocketClose sock) h1 else h1)"

definition supersede :: "nat \<Rightarrow> hub \<Rightarrow> hub" where
  "supersede d h =
     (let h1 = h\<lparr>hbDials := (hbDials h)(d := (hbDials h d)\<lparr>dlSuperseded := True\<rparr>)\<rparr>
      in case dlSocket (hbDials h d) of None \<Rightarrow> h1 | Some sock \<Rightarrow> call (SocketClose sock) h1)"

definition wasSuperseded :: "nat \<Rightarrow> hub \<Rightarrow> bool" where
  "wasSuperseded d h = dlSuperseded (hbDials h d)"

section \<open>Reannouncing\<close>

definition SetMaxConnections :: "int \<Rightarrow> hub \<Rightarrow> hub" where
  "SetMaxConnections n h = h\<lparr>hbMaxConnections := (if n \<le> 0 then 10 else n)\<rparr>"

definition checkAutoReannounce :: "hub \<Rightarrow> hub" where
  "checkAutoReannounce h =
     (if numberPairedServices (hbRegistry h) > length (hbConnections h)
      then call MdnsRequest (call MdnsAnnounce h) else h)"

end
