(* ===== verification/HubConnections.thy ===== *)
theory HubConnections
  imports HubState
begin

text \<open>
  The connections of the hub: registering and replacing them, double connections, outgoing and incoming
  connections (\<open>hub/hub_connections_registry.go\<close>, \<open>hub/hub_connections_client.go\<close>,
  \<open>hub/hub_connections_server.go\<close>, \<open>hub/hub_connections_retry.go\<close>).

  The TLS and websocket libraries are not modelled: what they report (sockets, certificates, failures) are
  arguments. An outgoing attempt is a task of \<open>hbTasks\<close> that proceeds when the network answers.
\<close>

section \<open>Double connections\<close>

text \<open>Go's \<open><\<close> on strings, by bytes\<close>

fun string_less :: "string \<Rightarrow> string \<Rightarrow> bool" where
  "string_less xs [] = False"
| "string_less [] (y # ys) = True"
| "string_less (x # xs) (y # ys) = (code x < code y \<or> (x = y \<and> string_less xs ys))"

datatype double_connection_action = dcAdopt | dcPark

definition resolveDoubleConnection :: "string \<Rightarrow> string \<Rightarrow> double_connection_action" where
  "resolveDoubleConnection localSKI remote = (if string_less remote localSKI then dcAdopt else dcPark)"

definition doubleConnectionAction :: "string \<Rightarrow> hub \<Rightarrow> double_connection_action" where
  "doubleConnectionAction remote h =
     (if map_of (hbConnections h) remote = None then dcAdopt
      else resolveDoubleConnection (svcSKI (hbLocal h)) remote)"

definition supersedeForIncoming :: "string \<Rightarrow> hub \<Rightarrow> hub" where
  "supersedeForIncoming remote h =
     (case map_of (hbInitiating h) remote of None \<Rightarrow> h | Some d \<Rightarrow> supersede d h)"

section \<open>The registry of connections\<close>

definition retire :: "nat \<Rightarrow> hub \<Rightarrow> hub" where
  "retire c h =
     (if coState (hbObjects h c) = SmeStateComplete then call (ConnClose c True 0 ''unspecific'') h
      else call (ConnClose c False 4001 ''double connection'') h)"

definition registerConnection :: "nat \<Rightarrow> hub \<Rightarrow> hub" where
  "registerConnection c h =
     (let ski = coSKI (hbObjects h c);
          displaced = (if map_of (hbConnections h) ski = Some c then None else map_of (hbConnections h) ski);
          h1 = cancelConnectionDelayTimer ski (h\<lparr>hbConnections := AList.update ski c (hbConnections h)\<rparr>)
      in case displaced of None \<Rightarrow> h1 | Some old \<Rightarrow> retire old h1)"

definition startShipConnection :: "addr \<Rightarrow> ship_role \<Rightarrow> hub \<Rightarrow> hub" where
  "startShipConnection a r h =
     (let c = hbFreshConn h;
          obj = \<lparr>coRole = r, coSKI = svcSKI (service_at h a), coShipID = svcShipID (service_at h a),
                 coState = CmiStateInitStart, coError = None\<rparr>
      in registerConnection c (h\<lparr>hbObjects := (hbObjects h)(c := obj), hbFreshConn := c + 1\<rparr>))"

definition UnregisterConnectionIfMatch :: "string \<Rightarrow> nat \<Rightarrow> hub \<Rightarrow> bool \<times> hub" where
  "UnregisterConnectionIfMatch ski c h =
     (if map_of (hbConnections h) ski \<noteq> Some c then (False, h)
      else (True, h\<lparr>hbConnections := AList.delete ski (hbConnections h)\<rparr>))"

section \<open>Outgoing connections\<close>

definition validateConnectionLimit :: "hub \<Rightarrow> error option" where
  "validateConnectionLimit h =
     (if int (length (hbConnections h)) \<ge> hbMaxConnections h
      then Some (Opaque (''connection limit reached ('' @ Itoa (length (hbConnections h)) @ ''/''
             @ Itoa (nat (hbMaxConnections h)) @ '')'')) else None)"

text \<open>\<open>slices.SortFunc\<close> may permute elements that compare equal; here it keeps their order.\<close>

definition sortIPAddresses :: "ip list \<Rightarrow> ip list" where
  "sortIPAddresses addresses = filter is_IPv4 addresses @ filter (\<lambda>a. \<not> is_IPv4 a) addresses"

definition shouldAttemptConnection :: "addr \<Rightarrow> hub \<Rightarrow> bool" where
  "shouldAttemptConnection a h =
     (case find_service (svcSKI (service_at h a)) (svcFingerprint (service_at h a)) h of
        None \<Rightarrow> False | Some _ \<Rightarrow> IsRemoteServiceForSKIPaired (svcSKI (service_at h a)) h)"

text \<open>
  The first part of \<open>connectFoundService\<close>, up to the dial: \<open>Inl None\<close> when there is nothing to do, \<open>Inl\<close> an
  error, or \<open>Inr\<close> the dial.
\<close>

definition connect_begin :: "addr \<Rightarrow> hub \<Rightarrow> (error option + nat) \<times> hub" where
  "connect_begin a h =
     (let ski = svcSKI (service_at h a); (d, h1) = newDialState h in
      if ski \<noteq> [] \<and> (map_of (hbConnections h) ski \<noteq> None \<or> map_of (hbInitiating h) ski \<noteq> None)
      then (Inl None, h1)
      else case validateConnectionLimit h1 of
        Some err \<Rightarrow> (Inl (Some err), h1)
      | None \<Rightarrow> (Inr d, if ski = [] then h1 else h1\<lparr>hbInitiating := AList.update ski d (hbInitiating h1)\<rparr>))"

definition connect_end :: "string \<Rightarrow> hub \<Rightarrow> hub" where
  "connect_end ski h = (if ski = [] then h else h\<lparr>hbInitiating := AList.delete ski (hbInitiating h)\<rparr>)"

definition fill_identifiers :: "string \<Rightarrow> string \<Rightarrow> service \<Rightarrow> service" where
  "fill_identifiers ski fp s =
     (let s1 = (if svcSKI s = [] \<and> ski \<noteq> [] \<and> svcFingerprint s = fp then SetSKI ski s else s)
      in if svcFingerprint s1 = [] \<and> fp \<noteq> [] then SetFingerprint fp s1 else s1)"

text \<open>
  The second part, with the socket and the certificates of an established connection: \<open>Inl\<close> the error or
  success, \<open>Inr\<close> the service whose connection is awaited because this one was superseded.
\<close>

definition connect_established ::
  "(bytes \<Rightarrow> bytes) \<Rightarrow> (bytes \<Rightarrow> bytes) \<Rightarrow> addr \<Rightarrow> nat \<Rightarrow> nat \<Rightarrow> x509 list \<Rightarrow> hub \<Rightarrow> (error option + addr) \<times> hub" where
  "connect_established sha1 sha256 a d sock certs h =
     (let s = service_at h a;
          v = validateRemoteCertificate sha1 sha256 certs (svcSKI s) (svcFingerprint s)
      in if \<not> vrValid v
         then (Inl (Some (Opaque (''certificate validation failed for '' @ svcSKI s @ '': ''
                 @ (case vrError v of None \<Rightarrow> ''<nil>'' | Some e \<Rightarrow> error_text e)))), call (SocketClose sock) h)
         else let h1 = set_service a (fill_identifiers (vrRemoteSKI v) (vrRemoteFingerprint v)) h;
                  (res, h2) = merge_service a h1;
                  b = (case res of Inl _ \<Rightarrow> a | Inr m \<Rightarrow> m)
              in if wasSuperseded d h2 then (Inr b, call (SocketClose sock) h2)
                 else (Inl None, startShipConnection b ShipRoleClient h2))"

definition supersededDialResult :: "string \<Rightarrow> hub \<Rightarrow> error option" where
  "supersededDialResult ski h =
     (if isSkiConnected ski h then None
      else Some (Opaque (''connection attempt to '' @ ski
             @ '' was superseded by an incoming connection that did not establish'')))"

section \<open>Connection attempts\<close>

text \<open>
  \<open>tryConnectionViaHost\<close> and \<open>tryConnectionViaAddresses\<close>: each host until one gives no error. A task that waits
  for the network is kept in \<open>hbTasks\<close>; a task that ends clears the running flag (the deferred call in
  \<open>prepareConnectionInitation\<close>).
\<close>

definition task_hosts :: "mdns_entry \<Rightarrow> dial_host list" where
  "task_hosts e = (if meHost e = [] then [] else [HostName (meHost e)]) @ map HostIP (sortIPAddresses (meAddresses e))"

definition task_over :: "string \<Rightarrow> bool \<Rightarrow> hub \<Rightarrow> hub" where
  "task_over ski success h =
     setConnectionAttemptRunning ski False (if success then h else checkAutoReannounce h)"

fun try_hosts :: "nat \<Rightarrow> string \<Rightarrow> addr \<Rightarrow> mdns_entry \<Rightarrow> dial_host list \<Rightarrow> hub \<Rightarrow> hub" where
  "try_hosts t ski a e [] h = task_over ski False h"
| "try_hosts t ski a e (x # xs) h =
     (case connect_begin a h of
        (Inl None, h1) \<Rightarrow> task_over ski True h1
      | (Inl (Some err), h1) \<Rightarrow> try_hosts t ski a e xs h1
      | (Inr d, h1) \<Rightarrow>
          h1\<lparr>hbTasks := AList.update t \<lparr>ctSki = ski, ctService = a, ctEntry = e, ctTodo = xs, ctStage = FirstDial,
               ctDial = d, ctDialSKI = svcSKI (service_at h a)\<rparr> (hbTasks h1)\<rparr>)"

definition prepareConnectionInitation :: "nat \<Rightarrow> string \<Rightarrow> nat \<Rightarrow> mdns_entry \<Rightarrow> hub \<Rightarrow> hub" where
  "prepareConnectionInitation t ski counter entry h =
     (let over = setConnectionAttemptRunning ski False in
      if getCurrentConnectionAttemptCounter ski h \<noteq> Some counter then over h
      else case find_service ski [] h of
        None \<Rightarrow> over h
      | Some a \<Rightarrow>
          if \<not> IsRemoteServiceForSKIPaired ski h then over h
          else if isSkiConnected ski h then over h
          else if \<not> shouldAttemptConnection a h then task_over ski False h
          else try_hosts t ski a entry (task_hosts entry) h)"

definition coordinateConnectionInitations :: "(int \<Rightarrow> int) \<Rightarrow> string \<Rightarrow> mdns_entry \<Rightarrow> hub \<Rightarrow> hub" where
  "coordinateConnectionInitations random ski entry h =
     (if isConnectionAttemptRunning ski h then h
      else let h1 = setConnectionAttemptRunning ski True h;
               ((counter, duration), h2) = getConnectionInitiationDelayTime random ski h1
           in case find_service ski [] h2 of
                None \<Rightarrow> h2
              | Some a \<Rightarrow>
                  (let (i, h3) = newConnectionDelayTimer (ski, counter, entry) h2
                   in storeConnectionDelayTimer ski i h3))"

text \<open>What the network answers to the task \<open>t\<close>.\<close>

definition task_result :: "nat \<Rightarrow> connect_task \<Rightarrow> error option \<Rightarrow> hub \<Rightarrow> hub" where
  "task_result t k res h =
     (let h1 = connect_end (ctDialSKI k) (h\<lparr>hbTasks := AList.delete t (hbTasks h)\<rparr>)
      in case res of None \<Rightarrow> task_over (ctSki k) True h1
         | Some err \<Rightarrow> try_hosts t (ctSki k) (ctService k) (ctEntry k) (ctTodo k) h1)"

definition task_await :: "nat \<Rightarrow> connect_task \<Rightarrow> addr \<Rightarrow> hub \<Rightarrow> hub" where
  "task_await t k b h = h\<lparr>hbTasks := AList.update t (k\<lparr>ctStage := Awaiting b\<rparr>) (hbTasks h)\<rparr>"

definition is_waiting :: "dial_stage \<Rightarrow> bool" where
  "is_waiting st \<longleftrightarrow> (case st of Awaiting _ \<Rightarrow> True | _ \<Rightarrow> False)"

definition dial_failed :: "nat \<Rightarrow> error \<Rightarrow> hub \<Rightarrow> hub" where
  "dial_failed t err h =
     (case map_of (hbTasks h) t of
        None \<Rightarrow> h
      | Some k \<Rightarrow>
          (case ctStage k of
             Awaiting b \<Rightarrow> h
           | FirstDial \<Rightarrow>
               if wasSuperseded (ctDial k) h then task_await t k (ctService k) h
               else h\<lparr>hbTasks := AList.update t (k\<lparr>ctStage := SecondDial\<rparr>) (hbTasks h)\<rparr>
           | SecondDial \<Rightarrow>
               if wasSuperseded (ctDial k) h then task_await t k (ctService k) h
               else task_result t k (Some err) h))"

definition dial_established ::
  "(bytes \<Rightarrow> bytes) \<Rightarrow> (bytes \<Rightarrow> bytes) \<Rightarrow> nat \<Rightarrow> nat \<Rightarrow> x509 list \<Rightarrow> hub \<Rightarrow> hub" where
  "dial_established sha1 sha256 t sock certs h =
     (case map_of (hbTasks h) t of
        None \<Rightarrow> h
      | Some k \<Rightarrow>
          if is_waiting (ctStage k) then h
          else case connect_established sha1 sha256 (ctService k) (ctDial k) sock certs h of
            (Inl res, h1) \<Rightarrow> task_result t k res h1
          | (Inr b, h1) \<Rightarrow> task_await t k b h1)"

definition await_over :: "nat \<Rightarrow> hub \<Rightarrow> hub" where
  "await_over t h =
     (case map_of (hbTasks h) t of
        None \<Rightarrow> h
      | Some k \<Rightarrow>
          (case ctStage k of
             Awaiting b \<Rightarrow> task_result t k (supersededDialResult (svcSKI (service_at h b)) h) h
           | _ \<Rightarrow> h))"

definition dial_socket :: "nat \<Rightarrow> nat \<Rightarrow> hub \<Rightarrow> hub" where
  "dial_socket t sock h =
     (case map_of (hbTasks h) t of
        None \<Rightarrow> h | Some k \<Rightarrow> if is_waiting (ctStage k) then h else adopt (ctDial k) sock h)"

section \<open>Incoming connections\<close>

fun first_ski :: "(bytes \<Rightarrow> bytes) \<Rightarrow> (error + x509) list \<Rightarrow> error + string" where
  "first_ski sha1 [] = Inl (Opaque ''no valid SKI provided in certificate'')"
| "first_ski sha1 (Inl err # rest) = Inl err"
| "first_ski sha1 (Inr c # rest) = (case SkiFromCertificate sha1 c of
     Inr ski \<Rightarrow> Inr ski | Inl _ \<Rightarrow> first_ski sha1 rest)"

definition verifyPeerCertificate ::
  "(bytes \<Rightarrow> bytes) \<Rightarrow> (error + x509) list \<Rightarrow> hub \<Rightarrow> error option \<times> hub" where
  "verifyPeerCertificate sha1 rawCerts h =
     (case first_ski sha1 rawCerts of
        Inl err \<Rightarrow> (Some err, h)
      | Inr certSKI \<Rightarrow>
          (let remote = NormalizeSKI certSKI
           in (None, if resolveDoubleConnection (svcSKI (hbLocal h)) remote = dcAdopt
                     then supersedeForIncoming remote h else h)))"

definition isDoubleConnectionRequest :: "(bytes \<Rightarrow> bytes) \<Rightarrow> x509 list \<Rightarrow> hub \<Rightarrow> bool" where
  "isDoubleConnectionRequest sha1 peer h =
     (case peer of [] \<Rightarrow> False
      | c # _ \<Rightarrow> (case SkiFromCertificate sha1 c of Inl _ \<Rightarrow> False | Inr ski \<Rightarrow> isSkiConnected (NormalizeSKI ski) h))"

text \<open>The end of \<open>ServeHTTP\<close>: the service that the certificate names is merged, and the connection started.\<close>

definition mark_request :: "addr \<Rightarrow> hub \<Rightarrow> hub" where
  "mark_request b h =
     (if csState (svcDetail (service_at h b)) = ConnectionStateQueued
      then let h1 = set_service b (\<lambda>s. SetConnectionStateDetail
                      (SetState ConnectionStateReceivedPairingRequest (svcDetail s)) s) h
           in call (PairingDetail (ToServiceIdentity (service_at h1 b)) (svcDetail (service_at h1 b))) h1
      else h)"

definition accept_peer :: "nat \<Rightarrow> string \<Rightarrow> string \<Rightarrow> hub \<Rightarrow> hub" where
  "accept_peer sock ski fingerprint h =
     (case NewServiceDetails ski fingerprint [] of
        Inl err \<Rightarrow> call (SocketClose sock) h
      | Inr candidate \<Rightarrow>
          (let (a, h1) = new_service candidate h in
           case merge_service a h1 of
             (Inl err, h2) \<Rightarrow> call (SocketClose sock) h2
           | (Inr b, h2) \<Rightarrow> startShipConnection b ShipRoleServer (mark_request b h2)))"

text \<open>
  \<open>peer\<close> are the certificates of the TLS session, \<open>upgraded\<close> the socket and the subprotocol the websocket
  library agreed on. The results for the HTTP client are \<open>False\<close> for a refusal before the upgrade.
\<close>

definition ServeHTTP ::
  "(bytes \<Rightarrow> bytes) \<Rightarrow> (bytes \<Rightarrow> bytes) \<Rightarrow> x509 list \<Rightarrow> error + (nat \<times> string) \<Rightarrow> hub \<Rightarrow> bool \<times> hub" where
  "ServeHTTP sha1 sha256 peer upgraded h =
     (if int (length (hbConnections h)) \<ge> hbMaxConnections h \<and> \<not> isDoubleConnectionRequest sha1 peer h
      then (False, h)
      else case upgraded of
        Inl err \<Rightarrow> (False, h)
      | Inr (sock, subprotocol) \<Rightarrow>
          if subprotocol \<noteq> ''ship'' then (True, call (SocketClose sock) h)
          else case peer of
            [] \<Rightarrow> (True, call (SocketClose sock) h)
          | c # _ \<Rightarrow>
              (case SkiFromCertificate sha1 c of
                 Inl err \<Rightarrow> (True, call (SocketClose sock) h)
               | Inr certSKI \<Rightarrow>
                   (case FingerprintFromCertificate sha256 (Some (crtRaw c)) of
                      Inl err \<Rightarrow> (True, call (SocketClose sock) h)
                    | Inr fingerprint \<Rightarrow> (True, accept_peer sock (NormalizeSKI certSKI) fingerprint h))))"

end
