(* ===== verification/HubPairing.thy ===== *)
theory HubPairing
  imports HubConnections
begin

text \<open>
  Trust and pairing at the hub (\<open>hub/hub_pairing.go\<close>, and the replacement logic of \<open>hub/hub.go\<close>): registering
  and removing trusted services, the pairing listener and announcers the hub drives, and the callbacks of
  the listener.

  \<open>hub_env\<close> is what one step gets from outside: the time, the answers of the mDNS interface and of the random
  generator, and the hash functions. The active listener is the listener the pairing service made last
  (only the hub asks it for one); \<open>hbListenerSet\<close> says that the hub's reference to it is not nil.
\<close>

record hub_env =
  enNow :: int
  enSearch :: "error option"
  enAnnounced :: "error + string"
  enUnannounced :: "error option"
  enRandomBytes :: "bytes option"
  enSha :: "bytes \<Rightarrow> bytes"
  enHmac :: "bytes \<Rightarrow> bytes \<Rightarrow> bytes"
  enParse :: "bytes \<Rightarrow> error option"
  enSha1 :: "bytes \<Rightarrow> bytes"
  enParseIP :: "string \<Rightarrow> ip option"
  enRandom :: "int \<Rightarrow> int"

section \<open>States of a connection for the application\<close>

fun mapShipMessageExchangeState :: "sme_state \<Rightarrow> connection_state" where
  "mapShipMessageExchangeState st =
     (if st = CmiStateInitStart then ConnectionStateQueued
      else if st \<in> {CmiStateClientSend, CmiStateClientWait, CmiStateClientEvaluate, CmiStateServerWait,
                    CmiStateServerEvaluate} then ConnectionStateInitiated
      else if st \<in> {SmeHelloStateReadyInit, SmeHelloStateReadyListen, SmeHelloStateReadyTimeout,
                    SmeHelloStatePendingInit, SmeHelloStatePendingTimeout} then ConnectionStateInProgress
      else if st = SmeHelloStatePendingListen then ConnectionStateReceivedPairingRequest
      else if st = SmeHelloStateOk then ConnectionStateTrusted
      else if st \<in> {SmeHelloStateAbort, SmeHelloStateAbortDone} then ConnectionStateNone
      else if st \<in> {SmeHelloStateRemoteAbortDone, SmeHelloStateRejected} then ConnectionStateRemoteDeniedTrust
      else if st \<in> {SmePinStateCheckInit, SmePinStateCheckListen, SmePinStateCheckError, SmePinStateCheckBusyInit,
                    SmePinStateCheckBusyWait, SmePinStateCheckOk, SmePinStateAskInit, SmePinStateAskProcess,
                    SmePinStateAskRestricted, SmePinStateAskOk} then ConnectionStatePin
      else if st \<in> {SmeAccessMethodsRequest, SmeStateApproved} then ConnectionStateInProgress
      else if st = SmeStateComplete then ConnectionStateCompleted
      else if st = SmeStateError then ConnectionStateError
      else ConnectionStateInProgress)"

definition lookup_service :: "identity \<Rightarrow> service option" where
  "lookup_service i = (case ToServiceDetails i of Inl _ \<Rightarrow> None | Inr s \<Rightarrow> Some s)"

definition serviceFor :: "identity \<Rightarrow> hub \<Rightarrow> addr option" where
  "serviceFor i h = ServiceForIdentifierFull (idSKI i) (idFingerprint i) (idShipID i) (hbRegistry h)"

definition PairingDetailFor :: "identity \<Rightarrow> hub \<Rightarrow> conn_detail option" where
  "PairingDetailFor i h =
     (case ToServiceDetails i of
        Inl _ \<Rightarrow> None
      | Inr s \<Rightarrow>
          (case connectionForService (Some s) h of
             Some c \<Rightarrow> Some (NewConnectionStateDetail (mapShipMessageExchangeState (coState (hbObjects h c)))
                              (coError (hbObjects h c)))
           | None \<Rightarrow> map_option (\<lambda>a. svcDetail (service_at h a)) (serviceFor i h)))"

definition SetAutoAccept_hub :: "bool \<Rightarrow> hub \<Rightarrow> hub" where
  "SetAutoAccept_hub v h = call (MdnsSetAutoAccept v) (h\<lparr>hbAutoaccept := v\<rparr>)"

section \<open>The pairing listener\<close>

definition put_listener :: "(listener \<Rightarrow> listener) \<Rightarrow> hub \<Rightarrow> hub" where
  "put_listener f h = h\<lparr>hbPairing := map_option (\<lambda>s. s\<lparr>psListener := map_option f (psListener s)\<rparr>) (hbPairing h)\<rparr>"

definition the_listener :: "hub \<Rightarrow> listener option" where
  "the_listener h = (case hbPairing h of None \<Rightarrow> None | Some s \<Rightarrow> psListener s)"

definition enablePairingListener :: "hub_env \<Rightarrow> pairing_config \<Rightarrow> hub \<Rightarrow> error option \<times> hub" where
  "enablePairingListener env config h =
     (case hbPairing h of
        None \<Rightarrow> (Some (Opaque ''pairing service not available''), h)
      | Some service \<Rightarrow>
          if Secret config = [] then (Some (Opaque ''pairing secret required for autonomous listener''), h)
          else if \<not> IsValidLength (Secret config) then (Some (Sentinel ErrInvalidSecret), h)
          else let h1 = (if hbListenerSet h then h
                         else h\<lparr>hbPairing := Some (CreateListener service), hbListenerSet := True\<rparr>)
               in case the_listener h1 of
                    None \<Rightarrow> (Some (Opaque ''failed to create pairing listener''), h1)
                  | Some l \<Rightarrow>
                      (let (res, l1) = StartListening (enNow env) (hbContext h1) (Secret config) (enSearch env) l;
                           h2 = put_listener (\<lambda>_. l1) h1
                       in case res of
                            None \<Rightarrow> (None, h2)
                          | Some err \<Rightarrow>
                              if errors_is err (Sentinel ErrListenerAlreadyActive) then (None, h2)
                              else (Some (Wrapped (''failed to start autonomous listener: '' @ error_text err) err), h2)))"

definition stopPairingListener :: "hub \<Rightarrow> hub" where
  "stopPairingListener h =
     (if \<not> hbListenerSet h then h else put_listener (\<lambda>l. snd (StopListening l)) h)"

definition reactivatePairingListener :: "hub_env \<Rightarrow> hub \<Rightarrow> hub" where
  "reactivatePairingListener env h =
     (case (hbPairing h, hbPairingConfig h) of
        (Some _, Some config) \<Rightarrow>
          if Mode config \<noteq> PairingModeListener \<and> Mode config \<noteq> PairingModeBoth then h
          else snd (enablePairingListener env config h)
      | _ \<Rightarrow> h)"

section \<open>Replacement of a control unit\<close>

definition StopAddCuReplacementTimer :: "addr \<Rightarrow> hub \<Rightarrow> hub" where
  "StopAddCuReplacementTimer a h =
     (if svcPairingType (service_at h a) \<noteq> PairingTypeAddCu then h
      else if svcShipID (service_at h a) = [] then h
      else h\<lparr>hbReplacement := StopTimer (svcShipID (service_at h a)) (hbReplacement h)\<rparr>)"

definition start_replacement :: "hub_env \<Rightarrow> string \<Rightarrow> hub \<Rightarrow> hub" where
  "start_replacement env shipID h = h\<lparr>hbReplacement := StartTimer (enNow env) shipID True (hbReplacement h)\<rparr>"

definition startAddCuReplacementTimersForOfflineDevices :: "hub_env \<Rightarrow> hub \<Rightarrow> hub" where
  "startAddCuReplacementTimersForOfflineDevices env h =
     fold (\<lambda>a h.
       let s = service_at h a in
       if svcPairingType s \<noteq> PairingTypeAddCu then h
       else if \<not> svcTrusted s \<or> svcShipID s = [] then h
       else if connectionForService (Some s) h \<noteq> None then h
       else start_replacement env (svcShipID s) h) (rgList (hbRegistry h)) h"

definition handleAddCuReplacementTimeout :: "hub_env \<Rightarrow> string \<Rightarrow> hub \<Rightarrow> hub" where
  "handleAddCuReplacementTimeout env expiredShipID h =
     (case serviceForTrustedShipID expiredShipID (hbRegistry h) of
        None \<Rightarrow> reactivatePairingListener env h
      | Some a \<Rightarrow>
          if svcPairingType (service_at h a) \<noteq> PairingTypeAddCu then h
          else reactivatePairingListener env h)"

section \<open>Trusting and removing a service\<close>

definition RegisterRemoteService :: "hub_env \<Rightarrow> identity \<Rightarrow> hub \<Rightarrow> hub" where
  "RegisterRemoteService env i h =
     (if IsZero i then h
      else case NewServiceDetails (idSKI i) (idFingerprint i) (idShipID i) of
        Inl err \<Rightarrow> h
      | Inr s \<Rightarrow>
          (let candidate = SetTrusted True (SetIPv4 (idIPv4 i) (SetPairingType (idPairingType i) s));
               (c, h1) = new_service candidate h
           in case merge_service c h1 of
                (Inl err, h2) \<Rightarrow> h2
              | (Inr a, h2) \<Rightarrow>
                  if \<not> hbStarted h2 then checkAutoReannounce h2
                  else let svc = service_at h2 a;
                           isTrustedAddCu = (svcTrusted svc \<and> svcPairingType svc = PairingTypeAddCu \<and> svcShipID svc \<noteq> []);
                           h3 = (if isTrustedAddCu then stopPairingListener h2 else h2)
                       in case connectionForService (Some svc) h3 of
                            Some conn \<Rightarrow> call (ConnApprove conn) h3
                          | None \<Rightarrow>
                              call MdnsRequest
                                (if isTrustedAddCu then start_replacement env (svcShipID svc) h3 else h3)))"

definition distrust :: "service \<Rightarrow> service" where
  "distrust s = SetConnectionStateDetail (SetState ConnectionStateNone (svcDetail s)) (SetTrusted False s)"

definition drop_service :: "hub_env \<Rightarrow> identity \<Rightarrow> addr \<Rightarrow> hub \<Rightarrow> hub" where
  "drop_service env i a h =
     (let isAddCu = (svcPairingType (service_at h a) = PairingTypeAddCu);
          shipID = svcShipID (service_at h a);
          h1 = set_service a distrust h;
          h2 = call (PairingDetail i (svcDetail (service_at h1 a))) h1;
          h3 = h2\<lparr>hbRegistry := removeServiceEntry a (hbRegistry h2)\<rparr>
      in if isAddCu
         then reactivatePairingListener env (h3\<lparr>hbReplacement := StopTimer shipID (hbReplacement h3)\<rparr>)
         else h3)"

definition UnregisterRemoteService :: "hub_env \<Rightarrow> identity \<Rightarrow> hub \<Rightarrow> hub" where
  "UnregisterRemoteService env i h =
     (let h1 = (case serviceFor i h of None \<Rightarrow> h | Some a \<Rightarrow> drop_service env i a h);
          h2 = removeConnectionAttemptCounter (idSKI i) h1
      in case connectionForService (lookup_service i) h2 of
           None \<Rightarrow> h2 | Some c \<Rightarrow> call (ConnClose c True 4500 ''User close'') h2)"

definition DisconnectService :: "identity \<Rightarrow> string \<Rightarrow> hub \<Rightarrow> hub" where
  "DisconnectService i reason h =
     (case connectionForService (lookup_service i) h of
        None \<Rightarrow> h | Some c \<Rightarrow> call (ConnClose c True 0 reason) h)"

definition CancelPairing :: "identity \<Rightarrow> hub \<Rightarrow> hub" where
  "CancelPairing i h =
     (let h1 = removeConnectionAttemptCounter (idSKI i) h;
          h2 = (case connectionForService (lookup_service i) h1 of None \<Rightarrow> h1 | Some c \<Rightarrow> call (ConnAbort c) h1)
      in case serviceFor i h2 of
           None \<Rightarrow> h2
         | Some a \<Rightarrow>
             (let h3 = set_service a distrust h2
              in call (PairingDetail i (svcDetail (service_at h3 a))) h3))"

section \<open>Callbacks of the pairing listener\<close>

definition callDeviceAutoTrustRemovedCallback :: "addr \<Rightarrow> string \<Rightarrow> hub \<Rightarrow> hub" where
  "callDeviceAutoTrustRemovedCallback a reason h =
     (if hbPairingReader h then call (AutoTrustRemoved (ToServiceIdentity (service_at h a)) reason) h else h)"

text \<open>The first part: an old device with another fingerprint is untrusted, or the request deferred (\<open>None\<close>).\<close>

definition replace_trusted :: "string \<Rightarrow> hub \<Rightarrow> hub option" where
  "replace_trusted remoteFingerprint h =
     (case GetTrustedAddCuDevice (hbRegistry h) of
        None \<Rightarrow> Some h
      | Some old \<Rightarrow>
          if svcShipID (service_at h old) \<noteq> [] \<and> svcFingerprint (service_at h old) \<noteq> remoteFingerprint
          then if IsInReplacementWindow (hbReplacement h) then None
               else let h1 = set_service old (SetTrusted False) h;
                        h2 = h1\<lparr>hbRegistry := removeServiceEntry old (hbRegistry h1)\<rparr>
                    in Some (h2\<lparr>hbReplacement := StopTimer (svcShipID (service_at h2 old)) (hbReplacement h2)\<rparr>)
          else Some h)"

definition OnPairingSuccess :: "hub_env \<Rightarrow> string \<Rightarrow> string \<Rightarrow> hub \<Rightarrow> hub" where
  "OnPairingSuccess env shipid remoteFingerprint h =
     (if TrimSpace remoteFingerprint = [] then h
      else let replaced = GetTrustedAddCuDevice (hbRegistry h) in
        case replace_trusted remoteFingerprint h of
          None \<Rightarrow> h
        | Some h1 \<Rightarrow>
            (case NewServiceDetails [] remoteFingerprint shipid of
               Inl err \<Rightarrow> h1
             | Inr s \<Rightarrow>
                 (let (c, h2) = new_service (SetPairingType PairingTypeAddCu (SetTrusted True s)) h1
                  in case merge_service c h2 of
                       (Inl err, h3) \<Rightarrow> h3
                     | (Inr a, h3) \<Rightarrow>
                         (let h4 = (case replaced of None \<Rightarrow> h3
                                | Some old \<Rightarrow> callDeviceAutoTrustRemovedCallback old
                                    ''Device replaced by new AddCu device during pairing'' h3);
                              h5 = (if hbPairingReader h4 then call (AutoTrusted (ToServiceIdentity (service_at h4 a))) h4
                                    else h4);
                              h6 = (if connectionForService (Some (service_at h5 a)) h5 = None
                                    then start_replacement env shipid h5 else h5)
                          in call MdnsRequest h6))))"

definition OnPairingFailure :: "string \<Rightarrow> string \<Rightarrow> error \<Rightarrow> hub \<Rightarrow> hub" where
  "OnPairingFailure shipid remoteFingerprint reason h =
     (case NewServiceDetails [] remoteFingerprint shipid of
        Inl err \<Rightarrow> h
      | Inr s \<Rightarrow> if hbPairingReader h then call (AutoTrustFailed (ToServiceIdentity s) reason) h else h)"

section \<open>Announcements\<close>

definition StartAnnouncementTo :: "hub_env \<Rightarrow> pairing_target \<Rightarrow> hub \<Rightarrow> error option \<times> hub" where
  "StartAnnouncementTo env target h =
     (let ship = TargetShipID target; secret = hbSlices h (TargetSecret target) in
      if ship = [] then (Some (Opaque ''target SHIP ID cannot be empty''), h)
      else if secret = [] then (Some (Opaque ''target secret cannot be empty''), h)
      else if \<not> IsValidLength secret then (Some (Sentinel ErrInvalidSecret), h)
      else case serviceForTrustedShipID ship (hbRegistry h) of
        None \<Rightarrow> (Some (Wrapped (sentinel_text ErrNotPaired @ '': target SHIP ID '' @ ship) (Sentinel ErrNotPaired)), h)
      | Some a \<Rightarrow>
          (let t = service_at h a in
           if TargetSKI target \<noteq> [] \<and> svcSKI t \<noteq> [] \<and> NormalizeSKI (TargetSKI target) \<noteq> svcSKI t
           then (Some (Opaque (''target identifier mismatch for SHIP ID '' @ ship @ '': SKI does not match trusted device'')), h)
           else if TargetFingerprint target \<noteq> [] \<and> svcFingerprint t \<noteq> [] \<and> TargetFingerprint target \<noteq> svcFingerprint t
           then (Some (Opaque (''target identifier mismatch for SHIP ID '' @ ship
                   @ '': fingerprint does not match trusted device'')), h)
           else case NewServiceDetails (TargetSKI target) (TargetFingerprint target) ship of
             Inl err \<Rightarrow> (Some (Wrapped (''invalid pairing target: '' @ error_text err) err), h)
           | Inr service \<Rightarrow>
               if (case connectionForService (Some service) h of None \<Rightarrow> False
                   | Some c \<Rightarrow> coError (hbObjects h c) = None \<and> coState (hbObjects h c) = SmeStateComplete)
               then (None, h)
               else case hbPairing h of
                 None \<Rightarrow> (Some (Opaque ''pairing service not available''), h)
               | Some ps \<Rightarrow>
                   if map_of (hbAnnouncements h) ship \<noteq> None
                   then (Some (Opaque (''already announcing to device: '' @ ship)), h)
                   else case CreateAnnouncer (hbSlices h) ps of
                     None \<Rightarrow> (Some (Opaque ''failed to create pairing announcer''), h)
                   | Some p \<Rightarrow>
                       (case EnablePairingService (Some \<lparr>pcMode = PairingModeAnnouncer_id,
                               pcSecret = TargetSecret target, pcTimeout = 0, pcEnabled = True\<rparr>) p of
                          (Some err, p1) \<Rightarrow> (Some (Wrapped (''failed to enable announcer: '' @ error_text err) err), h)
                        | (None, p1) \<Rightarrow>
                            (case AnnounceToDevice (enSha env) (enHmac env) (enRandomBytes env) (enAnnounced env) target p1 of
                               (Some err, p2) \<Rightarrow> (Some (Wrapped (''failed to start announcement: '' @ error_text err) err), h)
                             | (None, p2) \<Rightarrow>
                                 (None, h\<lparr>hbAnnouncements := AList.update ship
                                    \<lparr>aaTarget = target, aaAnnouncer = p2, aaStart = enNow env\<rparr> (hbAnnouncements h)\<rparr>)))))"

definition StopAnnouncementTo :: "hub_env \<Rightarrow> string \<Rightarrow> hub \<Rightarrow> error option \<times> hub" where
  "StopAnnouncementTo env shipID h =
     (if shipID = [] then (Some (Opaque ''SHIP ID cannot be empty''), h)
      else case map_of (hbAnnouncements h) shipID of
        None \<Rightarrow> (Some (Opaque (''no active announcement for device: '' @ shipID)), h)
      | Some st \<Rightarrow>
          (let (_, p) = StopAnnouncement (enUnannounced env) ((aaAnnouncer st)\<lparr>anSlices := hbSlices h\<rparr>)
           in (None, h\<lparr>hbSlices := anSlices p, hbAnnouncements := AList.delete shipID (hbAnnouncements h)\<rparr>)))"

definition GetActiveAnnouncements :: "hub \<Rightarrow> string list" where
  "GetActiveAnnouncements h = map fst (hbAnnouncements h)"

definition IsAnnouncingTo :: "string \<Rightarrow> hub \<Rightarrow> bool" where
  "IsAnnouncingTo shipID h \<longleftrightarrow> map_of (hbAnnouncements h) shipID \<noteq> None"

end
