(* ===== verification/HubEvents.thy ===== *)
theory HubEvents
  imports HubPairing
begin

text \<open>
  What happens to the hub: reports of its SHIP connections (\<open>hub/hub_shipconnection.go\<close>), reports of mDNS
  (\<open>hub/hub_mdns.go\<close>), start and shutdown (\<open>hub/hub.go\<close>), and the step function over all of them.
\<close>

section \<open>Reports of SHIP connections\<close>

text \<open>The part after the application was told: the announcement lifetime and the replacement timer.\<close>

definition cancel_lifetime :: "addr \<Rightarrow> hub \<Rightarrow> hub" where
  "cancel_lifetime a h =
     (case (hbPairing h, hbPairingConfig h) of
        (Some _, Some config) \<Rightarrow>
          if (Mode config = PairingModeAnnouncer \<or> Mode config = PairingModeBoth) \<and> svcShipID (service_at h a) \<noteq> []
          then h\<lparr>hbLifetime := CancelLifetimeTimer (svcShipID (service_at h a)) (hbLifetime h)\<rparr> else h
      | _ \<Rightarrow> h)"

definition closed_timers :: "hub_env \<Rightarrow> addr \<Rightarrow> hub \<Rightarrow> hub" where
  "closed_timers env a h =
     (let h1 = cancel_lifetime a h; shipID = svcShipID (service_at h1 a);
          h2 = (if svcPairingType (service_at h1 a) = PairingTypeAddCu \<and> shipID \<noteq> []
                then start_replacement env shipID h1 else h1)
      in checkAutoReannounce h2)"

definition HandleConnectionClosed :: "hub_env \<Rightarrow> nat \<Rightarrow> bool \<Rightarrow> hub \<Rightarrow> hub" where
  "HandleConnectionClosed env c handshakeCompleted h =
     (let remoteSki = coSKI (hbObjects h c);
          (wasRegistered, h1) = UnregisterConnectionIfMatch remoteSki c h
      in if \<not> wasRegistered \<and> isSkiConnected remoteSki h1 then h1
         else let h2 = (if handshakeCompleted then removeConnectionAttemptCounter remoteSki h1 else h1)
         in case find_service remoteSki [] h2 of
              None \<Rightarrow> call (Disconnected (SKIToServiceIdentity remoteSki)) h2
            | Some a \<Rightarrow>
                if \<not> handshakeCompleted \<and> \<not> svcTrusted (service_at h2 a)
                then call (Disconnected (SKIToServiceIdentity remoteSki)) h2
                else closed_timers env a (call (Disconnected (ToServiceIdentity (service_at h2 a))) h2))"

definition ReportServiceShipID :: "string \<Rightarrow> string \<Rightarrow> hub \<Rightarrow> hub" where
  "ReportServiceShipID ski shipID h =
     (case find_service ski [] h of
        None \<Rightarrow> h
      | Some a \<Rightarrow>
          (let (b, h1) = (if svcShipID (service_at h a) = []
                 then let (res, g) = merge_service a (set_service a (SetShipID shipID) h)
                      in (case res of Inl _ \<Rightarrow> (a, g) | Inr m \<Rightarrow> (m, g))
                 else (a, h))
           in call (Updated (ToServiceIdentity (service_at h1 b))) h1))"

text \<open>\<open>answer\<close> is \<open>AllowWaitingForTrust\<close> of the application.\<close>

definition AllowWaitingForTrust :: "(identity \<Rightarrow> bool) \<Rightarrow> string \<Rightarrow> hub \<Rightarrow> bool" where
  "AllowWaitingForTrust answer ski h =
     (case find_service ski [] h of
        Some a \<Rightarrow> if svcTrusted (service_at h a) then True else answer (ToServiceIdentity (service_at h a))
      | None \<Rightarrow> answer (SKIToServiceIdentity ski))"

text \<open>\<open>errors.Is\<close> with nil on either side\<close>

definition errors_Is_opt :: "error option \<Rightarrow> error option \<Rightarrow> bool" where
  "errors_Is_opt e target = (case (e, target) of
     (None, None) \<Rightarrow> True | (Some x, Some t) \<Rightarrow> errors_is x t | _ \<Rightarrow> False)"

definition pairing_state_of :: "sme_state \<Rightarrow> error option \<Rightarrow> connection_state" where
  "pairing_state_of st err =
     (case err of
        Some e \<Rightarrow> if \<not> errors_is e (Sentinel ErrConnectionNotFound) then ConnectionStateError
                  else mapShipMessageExchangeState st
      | None \<Rightarrow> mapShipMessageExchangeState st)"

definition on_completed :: "addr \<Rightarrow> hub \<Rightarrow> hub" where
  "on_completed a h =
     (let h1 = StopAddCuReplacementTimer a (call (Connected (ToServiceIdentity (service_at h a))) h);
          h2 = (if svcPairingType (service_at h1 a) = PairingTypeAddCu then stopPairingListener h1 else h1);
          shipID = svcShipID (service_at h2 a)
      in if shipID \<noteq> [] \<and> IsAnnouncingTo shipID h2
         then h2\<lparr>hbLifetime := StartLifetimeTimer shipID True (hbLifetime h2)\<rparr> else h2)"

definition HandleShipHandshakeStateUpdate :: "string \<Rightarrow> sme_state \<Rightarrow> error option \<Rightarrow> hub \<Rightarrow> hub" where
  "HandleShipHandshakeStateUpdate ski st err h =
     (case find_service ski [] h of
        None \<Rightarrow> h
      | Some a \<Rightarrow>
          (let h1 = (if st = SmeHelloStateOk then set_service a (SetTrusted True) h else h);
               pairingState = pairing_state_of st err;
               pairingDetail = NewConnectionStateDetail pairingState err;
               existing = svcDetail (service_at h1 a)
           in if csState existing \<noteq> pairingState \<or> \<not> errors_Is_opt (csError existing) err
              then let h2 = set_service a (SetConnectionStateDetail pairingDetail) h1;
                       h3 = (if pairingState = ConnectionStateCompleted then on_completed a h2 else h2)
                   in h3\<lparr>hbDelayed := hbDelayed h3 @ [(a, pairingDetail)]\<rparr>
              else h1))"

text \<open>
  The update that is sent 500 ms later. The code sends the object of the service's detail, which later calls
  of \<open>SetState\<close> can change; here it is the detail at the time of the update.
\<close>

definition delayed_update :: "nat \<Rightarrow> hub \<Rightarrow> hub" where
  "delayed_update i h =
     (if i < length (hbDelayed h)
      then let (a, d) = hbDelayed h ! i
           in call (PairingDetail (ToServiceIdentity (service_at h a)) d)
                (h\<lparr>hbDelayed := remove_at i (hbDelayed h)\<rparr>)
      else h)"

definition SetupRemoteService_identity :: "string \<Rightarrow> hub \<Rightarrow> identity" where
  "SetupRemoteService_identity ski h =
     (case find_service ski [] h of Some a \<Rightarrow> ToServiceIdentity (service_at h a) | None \<Rightarrow> SKIToServiceIdentity ski)"

section \<open>Reports of mDNS\<close>

definition cleanupRemovedMdnsEntries :: "mdns_entry list \<Rightarrow> hub \<Rightarrow> hub" where
  "cleanupRemovedMdnsEntries current h =
     fold (\<lambda>prev h. if meSki prev \<in> set (map meSki current) then h
             else removeConnectionAttemptCounter (meSki prev) (cancelConnectionDelayTimer (meSki prev) h))
       (hbKnown h) h"

text \<open>The service an entry is for: known by its SKI, or trusted by its SHIP ID and still without an SKI.\<close>

definition entry_service :: "mdns_entry \<Rightarrow> hub \<Rightarrow> addr option \<times> hub" where
  "entry_service e h =
     (case find_service (meSki e) [] h of
        Some a \<Rightarrow>
          if \<not> IsRemoteServiceForSKIPaired (meSki e) h \<and> svcTrusted (service_at h a) then (None, h) else (Some a, h)
      | None \<Rightarrow>
          if meIdentifier e = [] then (None, h)
          else case serviceForTrustedShipID (meIdentifier e) (hbRegistry h) of
            None \<Rightarrow> (None, h)
          | Some a \<Rightarrow>
              if svcSKI (service_at h a) \<noteq> [] then (None, h)
              else if \<not> IsFingerprintFormatValid (svcFingerprint (service_at h a)) then (None, h)
              else case merge_service a (set_service a (SetSKI (meSki e)) h) of
                (Inl _, h1) \<Rightarrow> (Some a, h1)
              | (Inr m, h1) \<Rightarrow> (Some m, h1))"

text \<open>\<open>parse_ip\<close> is \<open>net.ParseIP\<close>, \<open>random\<close> the random generator.\<close>

definition patch_entry :: "(string \<Rightarrow> ip option) \<Rightarrow> service \<Rightarrow> mdns_entry \<Rightarrow> mdns_entry" where
  "patch_entry parse_ip s e =
     (if svcIPv4 s \<noteq> [] then (case parse_ip (svcIPv4 s) of None \<Rightarrow> e | Some a \<Rightarrow> e\<lparr>meAddresses := [a]\<rparr>) else e)"

definition report_entry ::
  "(string \<Rightarrow> ip option) \<Rightarrow> (int \<Rightarrow> int) \<Rightarrow> mdns_entry \<Rightarrow> hub \<Rightarrow> mdns_entry \<times> hub" where
  "report_entry parse_ip random e h =
     (if \<not> IsSkiFormatValid (meSki e) then (e, h)
      else if isSkiConnected (meSki e) h then (e, h)
      else case entry_service e h of
        (None, h1) \<Rightarrow> (e, h1)
      | (Some a, h1) \<Rightarrow>
          (let h2 = set_service a (SetAutoAccept (meRegister e)) h1;
               e1 = patch_entry parse_ip (service_at h2 a) e
           in (e1, coordinateConnectionInitations random (meSki e1) e1 h2)))"

definition entry_key :: "mdns_entry \<Rightarrow> string" where
  "entry_key e = ToLower (meBrand e @ meModel e @ meSki e)"

text \<open>\<open>sort.Slice\<close> leaves the order of entries with equal keys open; here they keep their order.\<close>

fun insert_entry :: "mdns_entry \<Rightarrow> mdns_entry list \<Rightarrow> mdns_entry list" where
  "insert_entry e [] = [e]"
| "insert_entry e (x # xs) = (if string_less (entry_key x) (entry_key e) then x # insert_entry e xs else e # x # xs)"

definition sort_entries :: "mdns_entry list \<Rightarrow> mdns_entry list" where
  "sort_entries es = foldr insert_entry es []"

definition to_remote_mdns :: "mdns_entry \<Rightarrow> remote_mdns_service" where
  "to_remote_mdns e = \<lparr>rmName = meName e, rmSki = meSki e, rmShipID = meIdentifier e, rmBrand = meBrand e,
     rmType = meType e, rmModel = meModel e, rmSerial = meSerial e, rmCategories = meCategories e\<rparr>"

fun report_entries ::
  "(string \<Rightarrow> ip option) \<Rightarrow> (int \<Rightarrow> int) \<Rightarrow> mdns_entry list \<Rightarrow> hub \<Rightarrow> mdns_entry list \<times> hub" where
  "report_entries parse_ip random [] h = ([], h)"
| "report_entries parse_ip random (e # es) h =
     (let (e1, h1) = report_entry parse_ip random e h; (es1, h2) = report_entries parse_ip random es h1
      in (e1 # es1, h2))"

definition ReportMdnsEntries ::
  "(string \<Rightarrow> ip option) \<Rightarrow> (int \<Rightarrow> int) \<Rightarrow> mdns_entry list \<Rightarrow> bool \<Rightarrow> hub \<Rightarrow> hub" where
  "ReportMdnsEntries parse_ip random entries newEntries h =
     (let h1 = cleanupRemovedMdnsEntries entries h;
          (es, h2) = report_entries parse_ip random entries h1;
          h3 = (if newEntries then h2\<lparr>hbKnown := sort_entries es\<rparr> else h2)
      in call (VisibleServices (map to_remote_mdns es)) h3)"

section \<open>Timers\<close>

text \<open>The function of the delay timer \<open>i\<close> runs; its task gets the number of the timer.\<close>

definition delay_fired :: "nat \<Rightarrow> hub \<Rightarrow> hub" where
  "delay_fired i h =
     (case map_of (tmArmed (hbDelays h)) i of
        None \<Rightarrow> h
      | Some (ski, counter, entry) \<Rightarrow> prepareConnectionInitation i ski counter entry (snd (Stop_delay i h)))"

definition replacement_expired :: "hub_env \<Rightarrow> nat \<Rightarrow> hub \<Rightarrow> hub" where
  "replacement_expired env i h =
     (let (res, t) = replacement_callback i (hbReplacement h); h1 = h\<lparr>hbReplacement := t\<rparr>
      in case res of None \<Rightarrow> h1 | Some ship \<Rightarrow> handleAddCuReplacementTimeout env ship h1)"

definition lifetime_expired :: "hub_env \<Rightarrow> nat \<Rightarrow> hub \<Rightarrow> hub" where
  "lifetime_expired env i h =
     (let (res, t) = lifetime_callback i (hbLifetime h); h1 = h\<lparr>hbLifetime := t\<rparr>
      in case res of None \<Rightarrow> h1 | Some ship \<Rightarrow> snd (StopAnnouncementTo env ship h1))"

section \<open>Start and shutdown\<close>

definition NewHub ::
  "int \<Rightarrow> bytes list \<Rightarrow> service \<Rightarrow> pairing_config option \<Rightarrow> (error + digest_entry list \<times> int) option \<Rightarrow> bool
    \<Rightarrow> slices \<Rightarrow> error + hub" where
  "NewHub port cert localService config persistence reader mem =
     (let needs = (case config of None \<Rightarrow> False
            | Some c \<Rightarrow> (Mode c = PairingModeListener \<or> Mode c = PairingModeBoth) \<and> persistence = None);
          lifetime = (case config of None \<Rightarrow> sec (15 * 60) | Some c \<Rightarrow> AnnouncementLifetimeTimeout c);
          zero = \<lparr>coRole = ShipRoleServer, coSKI = [], coShipID = [], coState = CmiStateInitStart, coError = None\<rparr>;
          none = \<lparr>svcFingerprint = [], svcSKI = [], svcShipID = [], svcPairingType = PairingTypeDefault,
                  svcAutoAccept = False, svcIPv4 = [], svcTrusted = False,
                  svcDetail = NewConnectionStateDetail ConnectionStateNone None\<rparr>
      in if needs then Inl (Opaque ''RingBufferPersistence required for listener/both pairing modes'')
         else case Validate_config config of
           Some err \<Rightarrow> Inl (Wrapped (''invalid pairing configuration: '' @ error_text err) err)
         | None \<Rightarrow> Inr
            \<lparr>hbObjects = (\<lambda>_. zero), hbFreshConn = 0, hbConnections = [], hbAttemptCounter = [],
             hbAttemptRunning = [], hbInitiating = [], hbDials = (\<lambda>_. \<lparr>dlSocket = None, dlSuperseded = False\<rparr>),
             hbFreshDial = 0, hbTasks = [], hbPort = port, hbCertificate = cert, hbLocal = localService,
             hbAutoaccept = False, hbRegistry = \<lparr>rgHeap = (\<lambda>_. none), rgFresh = 0, rgList = []\<rparr>, hbKnown = [],
             hbServer = False, hbStarted = False, hbDelayTimers = [], hbDelays = no_timers, hbMaxConnections = 10,
             hbPairing = None, hbPairingConfig = config, hbPersistence = persistence, hbListenerSet = False,
             hbContext = 0, hbContextDone = False, hbAnnouncements = [], hbSlices = mem,
             hbReplacement = NewAddCuReplacementTracker, hbLifetime = NewAnnouncementLifetimeTracker lifetime,
             hbDelayed = [], hbPairingReader = reader, hbCalls = []\<rparr>)"

text \<open>
  \<open>initializePairingServiceWithConfig\<close>; \<open>supported\<close> says that the mDNS object supports pairing. Without a
  persistence the history is nil; then there is no listener and it is not used.
\<close>

definition initializePairingServiceWithConfig :: "hub_env \<Rightarrow> bool \<Rightarrow> pairing_config \<Rightarrow> hub \<Rightarrow> error option \<times> hub" where
  "initializePairingServiceWithConfig env supported config h =
     (if Mode config = PairingModeOff then (None, h)
      else if hbPairing h \<noteq> None then (None, h)
      else let h1 = h\<lparr>hbPairingConfig := Some config\<rparr> in
        if \<not> supported then (Some (Opaque ''mDNS interface does not support pairing operations''), h1)
        else case (if hbPersistence h1 = None then Inr (NewRingBufferHistoryProviderLegacy 10)
                   else NewRingBufferHistoryProvider 10 (hbPersistence h1)) of
          Inl err \<Rightarrow> (Some (Wrapped (''failed to create ring buffer history provider: '' @ error_text err) err), h1)
        | Inr history \<Rightarrow>
            (case NewService (enSha env) (enParse env) history (hbCertificate h1) (svcShipID (hbLocal h1)) of
               Inl err \<Rightarrow> (Some (Wrapped (''failed to create pairing service: '' @ error_text err) err), h1)
             | Inr service \<Rightarrow> (None, h1\<lparr>hbPairing := Some service\<rparr>)))"

definition SetPairingService :: "pairing_service \<Rightarrow> hub \<Rightarrow> error option \<times> hub" where
  "SetPairingService service h =
     (if hbStarted h then (Some (Sentinel ErrServiceAlreadyStarted), h) else (None, h\<lparr>hbPairing := Some service\<rparr>))"

definition startPairingService :: "hub_env \<Rightarrow> hub \<Rightarrow> hub" where
  "startPairingService env h =
     (case (hbPairing h, hbPairingConfig h) of
        (Some service, Some config) \<Rightarrow>
          (case Start_service service of
             (Some err, _) \<Rightarrow> h
           | (None, service1) \<Rightarrow>
               (let h1 = h\<lparr>hbPairing := Some service1\<rparr>
                in if Mode config = PairingModeListener \<or> Mode config = PairingModeBoth
                   then (if GetTrustedAddCuDevice (hbRegistry h1) \<noteq> None then h1
                         else snd (enablePairingListener env config h1))
                   else h1))
      | _ \<Rightarrow> h)"

definition Start_hub :: "hub_env \<Rightarrow> error option \<Rightarrow> error option \<Rightarrow> bool \<Rightarrow> hub \<Rightarrow> error option \<times> hub" where
  "Start_hub env serverErr mdnsErr supported h =
     (if hbStarted h
      then (Some (Wrapped (sentinel_text ErrHubAlreadyStarted @ '': call Shutdown() before restarting'')
             (Sentinel ErrHubAlreadyStarted)), h)
      else case serverErr of
        Some err \<Rightarrow> (Some (Wrapped (''websocket server failed to start: '' @ error_text err) err), h\<lparr>hbServer := True\<rparr>)
      | None \<Rightarrow>
          (let m = (case hbPairingConfig h of None \<Rightarrow> PairingModeOff | Some c \<Rightarrow> Mode c);
               h1 = call (MdnsStart m) (h\<lparr>hbServer := True\<rparr>)
           in case mdnsErr of
                Some err \<Rightarrow> (Some (Wrapped (''failed to start mDNS: '' @ error_text err) err), call ServerShutdown h1)
              | None \<Rightarrow>
                  (case (if m = PairingModeOff then None else hbPairingConfig h1) of
                     None \<Rightarrow> (None, h1\<lparr>hbStarted := True\<rparr>)
                   | Some config \<Rightarrow>
                       (case initializePairingServiceWithConfig env supported config h1 of
                          (Some err, h2) \<Rightarrow> (Some (Wrapped (''failed to initialize pairing: '' @ error_text err) err), h2)
                        | (None, h2) \<Rightarrow>
                            (None, (startAddCuReplacementTimersForOfflineDevices env
                                      (startPairingService env h2))\<lparr>hbStarted := True\<rparr>)))))"

definition stop_announcement_quietly :: "hub_env \<Rightarrow> string \<times> active_announcement \<Rightarrow> hub \<Rightarrow> hub" where
  "stop_announcement_quietly env p h =
     h\<lparr>hbSlices := anSlices (snd (StopAnnouncement (enUnannounced env) ((aaAnnouncer (snd p))\<lparr>anSlices := hbSlices h\<rparr>)))\<rparr>"

definition Shutdown_hub :: "hub_env \<Rightarrow> hub \<Rightarrow> hub" where
  "Shutdown_hub env h =
     (let h1 = h\<lparr>hbLifetime := StopAll_lifetime (hbLifetime h), hbReplacement := StopAll_replacement (hbReplacement h)\<rparr>;
          h2 = (fold (stop_announcement_quietly env) (hbAnnouncements h1) h1)\<lparr>hbAnnouncements := []\<rparr>;
          h2a = h2\<lparr>hbContextDone := True\<rparr>; h3 = (if hbServer h2a then call ServerShutdown h2a else h2a);
          h4 = h3\<lparr>hbPairing := map_option Shutdown_service (hbPairing h3), hbListenerSet := False\<rparr>;
          h5 = call MdnsShutdown h4;
          h6 = (fold (\<lambda>p h. snd (Stop_delay (snd p) h)) (hbDelayTimers h5) h5)\<lparr>hbDelayTimers := []\<rparr>;
          h7 = fold (\<lambda>p. call (ConnClose (snd p) False 0 ''hub shutdown'')) (hbConnections h6) h6
      in h7\<lparr>hbStarted := False\<rparr>)"

definition context_ended :: "hub \<Rightarrow> hub" where
  "context_ended h = (if hbContextDone h then put_listener (context_done (hbContext h)) h else h)"

section \<open>Steps\<close>

datatype hub_event =
    ERegister identity
  | EUnregister identity
  | ECancel identity
  | EDisconnect identity string
  | EAutoAccept bool
  | EMaxConnections int
  | EClosed nat bool
  | EShipID string string
  | EState nat sme_state "error option"
  | EUpdate nat
  | EMdns "mdns_entry list" bool
  | EDelay nat
  | ESocket nat nat
  | EDialFailed nat error
  | EDialed nat nat "x509 list"
  | EAwaited nat
  | EVerify "(error + x509) list"
  | EServe "x509 list" "error + (nat \<times> string)"
  | EPaired string string
  | EPairFailed string string error
  | EAnnounce pairing_target
  | EStopAnnounce string
  | EReplacementFires nat
  | EReplacement nat
  | ELifetimeFires nat
  | ELifetime nat
  | EStart "error option" "error option" bool
  | EShutdown
  | EContext

text \<open>\<open>EState\<close>: a SHIP connection changes its state and reports it.\<close>

fun hub_step :: "hub_env \<Rightarrow> hub_event \<Rightarrow> hub \<Rightarrow> hub" where
  "hub_step env (ERegister i) h = RegisterRemoteService env i h"
| "hub_step env (EUnregister i) h = UnregisterRemoteService env i h"
| "hub_step env (ECancel i) h = CancelPairing i h"
| "hub_step env (EDisconnect i reason) h = DisconnectService i reason h"
| "hub_step env (EAutoAccept v) h = SetAutoAccept_hub v h"
| "hub_step env (EMaxConnections n) h = SetMaxConnections n h"
| "hub_step env (EClosed c completed) h = HandleConnectionClosed env c completed h"
| "hub_step env (EShipID ski ship) h = ReportServiceShipID ski ship h"
| "hub_step env (EState c st err) h =
     HandleShipHandshakeStateUpdate (coSKI (hbObjects h c)) st err
       (h\<lparr>hbObjects := (hbObjects h)(c := (hbObjects h c)\<lparr>coState := st, coError := err\<rparr>)\<rparr>)"
| "hub_step env (EUpdate i) h = delayed_update i h"
| "hub_step env (EMdns entries new) h = ReportMdnsEntries (enParseIP env) (enRandom env) entries new h"
| "hub_step env (EDelay i) h = delay_fired i h"
| "hub_step env (ESocket t sock) h = dial_socket t sock h"
| "hub_step env (EDialFailed t err) h = dial_failed t err h"
| "hub_step env (EDialed t sock certs) h = dial_established (enSha1 env) (enSha env) t sock certs h"
| "hub_step env (EAwaited t) h = await_over t h"
| "hub_step env (EVerify certs) h = snd (verifyPeerCertificate (enSha1 env) certs h)"
| "hub_step env (EServe peer upgraded) h = snd (ServeHTTP (enSha1 env) (enSha env) peer upgraded h)"
| "hub_step env (EPaired ship fp) h = OnPairingSuccess env ship fp h"
| "hub_step env (EPairFailed ship fp err) h = OnPairingFailure ship fp err h"
| "hub_step env (EAnnounce target) h = snd (StartAnnouncementTo env target h)"
| "hub_step env (EStopAnnounce ship) h = snd (StopAnnouncementTo env ship h)"
| "hub_step env (EReplacementFires i) h = h\<lparr>hbReplacement := replacement_fire i (hbReplacement h)\<rparr>"
| "hub_step env (EReplacement i) h = replacement_expired env i h"
| "hub_step env (ELifetimeFires i) h = h\<lparr>hbLifetime := lifetime_fire i (hbLifetime h)\<rparr>"
| "hub_step env (ELifetime i) h = lifetime_expired env i h"
| "hub_step env (EStart serverErr mdnsErr supported) h = snd (Start_hub env serverErr mdnsErr supported h)"
| "hub_step env EShutdown h = Shutdown_hub env h"
| "hub_step env EContext h = context_ended h"

text \<open>The states of a hub: the environment may answer differently in each step.\<close>

inductive hub_reach :: "(hub_event \<Rightarrow> bool) \<Rightarrow> hub \<Rightarrow> hub \<Rightarrow> bool" for ok :: "hub_event \<Rightarrow> bool" and h0 :: hub where
  hub_start: "hub_reach ok h0 h0"
| hub_next: "hub_reach ok h0 h \<Longrightarrow> ok e \<Longrightarrow> hub_reach ok h0 (hub_step env e h)"

end
