(* ===== verification/HubFrames.thy ===== *)
theory HubFrames
  imports HubEvents
begin

text \<open>
  What each operation of the hub leaves alone: the services, the connections and their objects, the tasks,
  and the tables of the connection attempts. All are simplification rules.
\<close>

lemma call_frame [simp]:
  "hbRegistry (call c h) = hbRegistry h"
  "hbConnections (call c h) = hbConnections h"
  "hbObjects (call c h) = hbObjects h"
  "hbFreshConn (call c h) = hbFreshConn h"
  "hbTasks (call c h) = hbTasks h"
  "hbAttemptRunning (call c h) = hbAttemptRunning h"
  "hbDelays (call c h) = hbDelays h"
  "hbDelayTimers (call c h) = hbDelayTimers h"
  by (simp_all add: call_def)

lemma increase_frame [simp]:
  "hbRegistry (snd (increaseConnectionAttemptCounter ski h)) = hbRegistry h"
  "hbConnections (snd (increaseConnectionAttemptCounter ski h)) = hbConnections h"
  "hbObjects (snd (increaseConnectionAttemptCounter ski h)) = hbObjects h"
  "hbFreshConn (snd (increaseConnectionAttemptCounter ski h)) = hbFreshConn h"
  "hbTasks (snd (increaseConnectionAttemptCounter ski h)) = hbTasks h"
  "hbAttemptRunning (snd (increaseConnectionAttemptCounter ski h)) = hbAttemptRunning h"
  "hbDelays (snd (increaseConnectionAttemptCounter ski h)) = hbDelays h"
  "hbDelayTimers (snd (increaseConnectionAttemptCounter ski h)) = hbDelayTimers h"
  by (simp_all add: increaseConnectionAttemptCounter_def Let_def)

lemma removeCounter_frame [simp]:
  "hbRegistry (removeConnectionAttemptCounter ski h) = hbRegistry h"
  "hbConnections (removeConnectionAttemptCounter ski h) = hbConnections h"
  "hbObjects (removeConnectionAttemptCounter ski h) = hbObjects h"
  "hbFreshConn (removeConnectionAttemptCounter ski h) = hbFreshConn h"
  "hbTasks (removeConnectionAttemptCounter ski h) = hbTasks h"
  "hbAttemptRunning (removeConnectionAttemptCounter ski h) = hbAttemptRunning h"
  "hbDelays (removeConnectionAttemptCounter ski h) = hbDelays h"
  "hbDelayTimers (removeConnectionAttemptCounter ski h) = hbDelayTimers h"
  by (simp_all add: removeConnectionAttemptCounter_def)

lemma getDelay_frame [simp]:
  "hbRegistry (snd (getConnectionInitiationDelayTime random ski h)) = hbRegistry h"
  "hbConnections (snd (getConnectionInitiationDelayTime random ski h)) = hbConnections h"
  "hbObjects (snd (getConnectionInitiationDelayTime random ski h)) = hbObjects h"
  "hbFreshConn (snd (getConnectionInitiationDelayTime random ski h)) = hbFreshConn h"
  "hbTasks (snd (getConnectionInitiationDelayTime random ski h)) = hbTasks h"
  "hbAttemptRunning (snd (getConnectionInitiationDelayTime random ski h)) = hbAttemptRunning h"
  "hbDelays (snd (getConnectionInitiationDelayTime random ski h)) = hbDelays h"
  "hbDelayTimers (snd (getConnectionInitiationDelayTime random ski h)) = hbDelayTimers h"
  by (simp_all add: getConnectionInitiationDelayTime_def Let_def case_prod_beta)

lemma setRunning_frame [simp]:
  "hbRegistry (setConnectionAttemptRunning ski v h) = hbRegistry h"
  "hbConnections (setConnectionAttemptRunning ski v h) = hbConnections h"
  "hbObjects (setConnectionAttemptRunning ski v h) = hbObjects h"
  "hbFreshConn (setConnectionAttemptRunning ski v h) = hbFreshConn h"
  "hbTasks (setConnectionAttemptRunning ski v h) = hbTasks h"
  "hbDelays (setConnectionAttemptRunning ski v h) = hbDelays h"
  "hbDelayTimers (setConnectionAttemptRunning ski v h) = hbDelayTimers h"
  by (simp_all add: setConnectionAttemptRunning_def)

lemma newDelay_frame [simp]:
  "hbRegistry (snd (newConnectionDelayTimer f h)) = hbRegistry h"
  "hbConnections (snd (newConnectionDelayTimer f h)) = hbConnections h"
  "hbObjects (snd (newConnectionDelayTimer f h)) = hbObjects h"
  "hbFreshConn (snd (newConnectionDelayTimer f h)) = hbFreshConn h"
  "hbTasks (snd (newConnectionDelayTimer f h)) = hbTasks h"
  "hbAttemptRunning (snd (newConnectionDelayTimer f h)) = hbAttemptRunning h"
  "hbDelayTimers (snd (newConnectionDelayTimer f h)) = hbDelayTimers h"
  by (simp_all add: newConnectionDelayTimer_def case_prod_beta)

lemma Stop_delay_frame [simp]:
  "hbRegistry (snd (Stop_delay i h)) = hbRegistry h"
  "hbConnections (snd (Stop_delay i h)) = hbConnections h"
  "hbObjects (snd (Stop_delay i h)) = hbObjects h"
  "hbFreshConn (snd (Stop_delay i h)) = hbFreshConn h"
  "hbTasks (snd (Stop_delay i h)) = hbTasks h"
  "hbAttemptRunning (snd (Stop_delay i h)) = hbAttemptRunning h"
  "hbDelayTimers (snd (Stop_delay i h)) = hbDelayTimers h"
  by (simp_all add: Stop_delay_def case_prod_beta)

lemma storeDelay_frame [simp]:
  "hbRegistry (storeConnectionDelayTimer ski i h) = hbRegistry h"
  "hbConnections (storeConnectionDelayTimer ski i h) = hbConnections h"
  "hbObjects (storeConnectionDelayTimer ski i h) = hbObjects h"
  "hbFreshConn (storeConnectionDelayTimer ski i h) = hbFreshConn h"
  "hbTasks (storeConnectionDelayTimer ski i h) = hbTasks h"
  "hbAttemptRunning (storeConnectionDelayTimer ski i h) = hbAttemptRunning h"
  by (simp_all add: storeConnectionDelayTimer_def Let_def split: option.split)

lemma cancelDelay_frame [simp]:
  "hbRegistry (cancelConnectionDelayTimer ski h) = hbRegistry h"
  "hbConnections (cancelConnectionDelayTimer ski h) = hbConnections h"
  "hbObjects (cancelConnectionDelayTimer ski h) = hbObjects h"
  "hbFreshConn (cancelConnectionDelayTimer ski h) = hbFreshConn h"
  "hbTasks (cancelConnectionDelayTimer ski h) = hbTasks h"
  by (simp_all add: cancelConnectionDelayTimer_def Let_def case_prod_beta split: option.split)

lemma newDial_frame [simp]:
  "hbRegistry (snd (newDialState h)) = hbRegistry h"
  "hbConnections (snd (newDialState h)) = hbConnections h"
  "hbObjects (snd (newDialState h)) = hbObjects h"
  "hbFreshConn (snd (newDialState h)) = hbFreshConn h"
  "hbTasks (snd (newDialState h)) = hbTasks h"
  "hbAttemptRunning (snd (newDialState h)) = hbAttemptRunning h"
  "hbDelays (snd (newDialState h)) = hbDelays h"
  "hbDelayTimers (snd (newDialState h)) = hbDelayTimers h"
  by (simp_all add: newDialState_def)

lemma adopt_frame [simp]:
  "hbRegistry (adopt d sock h) = hbRegistry h"
  "hbConnections (adopt d sock h) = hbConnections h"
  "hbObjects (adopt d sock h) = hbObjects h"
  "hbFreshConn (adopt d sock h) = hbFreshConn h"
  "hbTasks (adopt d sock h) = hbTasks h"
  "hbAttemptRunning (adopt d sock h) = hbAttemptRunning h"
  "hbDelays (adopt d sock h) = hbDelays h"
  "hbDelayTimers (adopt d sock h) = hbDelayTimers h"
  by (simp_all add: adopt_def Let_def)

lemma supersede_frame [simp]:
  "hbRegistry (supersede d h) = hbRegistry h"
  "hbConnections (supersede d h) = hbConnections h"
  "hbObjects (supersede d h) = hbObjects h"
  "hbFreshConn (supersede d h) = hbFreshConn h"
  "hbTasks (supersede d h) = hbTasks h"
  "hbAttemptRunning (supersede d h) = hbAttemptRunning h"
  "hbDelays (supersede d h) = hbDelays h"
  "hbDelayTimers (supersede d h) = hbDelayTimers h"
  by (simp_all add: supersede_def Let_def split: option.split)

lemma reannounce_frame [simp]:
  "hbRegistry (checkAutoReannounce h) = hbRegistry h"
  "hbConnections (checkAutoReannounce h) = hbConnections h"
  "hbObjects (checkAutoReannounce h) = hbObjects h"
  "hbFreshConn (checkAutoReannounce h) = hbFreshConn h"
  "hbTasks (checkAutoReannounce h) = hbTasks h"
  "hbAttemptRunning (checkAutoReannounce h) = hbAttemptRunning h"
  "hbDelays (checkAutoReannounce h) = hbDelays h"
  "hbDelayTimers (checkAutoReannounce h) = hbDelayTimers h"
  by (simp_all add: checkAutoReannounce_def)

lemma supersedeForIncoming_frame [simp]:
  "hbRegistry (supersedeForIncoming ski h) = hbRegistry h"
  "hbConnections (supersedeForIncoming ski h) = hbConnections h"
  "hbObjects (supersedeForIncoming ski h) = hbObjects h"
  "hbFreshConn (supersedeForIncoming ski h) = hbFreshConn h"
  "hbTasks (supersedeForIncoming ski h) = hbTasks h"
  "hbAttemptRunning (supersedeForIncoming ski h) = hbAttemptRunning h"
  "hbDelays (supersedeForIncoming ski h) = hbDelays h"
  "hbDelayTimers (supersedeForIncoming ski h) = hbDelayTimers h"
  by (simp_all add: supersedeForIncoming_def split: option.split)

lemma retire_frame [simp]:
  "hbRegistry (retire c h) = hbRegistry h"
  "hbConnections (retire c h) = hbConnections h"
  "hbObjects (retire c h) = hbObjects h"
  "hbFreshConn (retire c h) = hbFreshConn h"
  "hbTasks (retire c h) = hbTasks h"
  "hbAttemptRunning (retire c h) = hbAttemptRunning h"
  "hbDelays (retire c h) = hbDelays h"
  "hbDelayTimers (retire c h) = hbDelayTimers h"
  by (simp_all add: retire_def)

lemma connect_begin_frame [simp]:
  "hbRegistry (snd (connect_begin a h)) = hbRegistry h"
  "hbConnections (snd (connect_begin a h)) = hbConnections h"
  "hbObjects (snd (connect_begin a h)) = hbObjects h"
  "hbFreshConn (snd (connect_begin a h)) = hbFreshConn h"
  "hbTasks (snd (connect_begin a h)) = hbTasks h"
  "hbAttemptRunning (snd (connect_begin a h)) = hbAttemptRunning h"
  "hbDelays (snd (connect_begin a h)) = hbDelays h"
  "hbDelayTimers (snd (connect_begin a h)) = hbDelayTimers h"
  by (simp_all add: connect_begin_def Let_def case_prod_beta split: option.split)

lemma connect_end_frame [simp]:
  "hbRegistry (connect_end ski h) = hbRegistry h"
  "hbConnections (connect_end ski h) = hbConnections h"
  "hbObjects (connect_end ski h) = hbObjects h"
  "hbFreshConn (connect_end ski h) = hbFreshConn h"
  "hbTasks (connect_end ski h) = hbTasks h"
  "hbAttemptRunning (connect_end ski h) = hbAttemptRunning h"
  "hbDelays (connect_end ski h) = hbDelays h"
  "hbDelayTimers (connect_end ski h) = hbDelayTimers h"
  by (simp_all add: connect_end_def)

lemma coordinate_frame [simp]:
  "hbRegistry (coordinateConnectionInitations random ski e h) = hbRegistry h"
  "hbConnections (coordinateConnectionInitations random ski e h) = hbConnections h"
  "hbObjects (coordinateConnectionInitations random ski e h) = hbObjects h"
  "hbFreshConn (coordinateConnectionInitations random ski e h) = hbFreshConn h"
  "hbTasks (coordinateConnectionInitations random ski e h) = hbTasks h"
  by (simp_all add: coordinateConnectionInitations_def Let_def case_prod_beta split: option.split)

lemma verifyPeer_frame [simp]:
  "hbRegistry (snd (verifyPeerCertificate sha1 certs h)) = hbRegistry h"
  "hbConnections (snd (verifyPeerCertificate sha1 certs h)) = hbConnections h"
  "hbObjects (snd (verifyPeerCertificate sha1 certs h)) = hbObjects h"
  "hbFreshConn (snd (verifyPeerCertificate sha1 certs h)) = hbFreshConn h"
  "hbTasks (snd (verifyPeerCertificate sha1 certs h)) = hbTasks h"
  "hbAttemptRunning (snd (verifyPeerCertificate sha1 certs h)) = hbAttemptRunning h"
  "hbDelays (snd (verifyPeerCertificate sha1 certs h)) = hbDelays h"
  "hbDelayTimers (snd (verifyPeerCertificate sha1 certs h)) = hbDelayTimers h"
  by (simp_all add: verifyPeerCertificate_def Let_def split: sum.split)

lemma task_over_frame [simp]:
  "hbRegistry (task_over ski b h) = hbRegistry h"
  "hbConnections (task_over ski b h) = hbConnections h"
  "hbObjects (task_over ski b h) = hbObjects h"
  "hbFreshConn (task_over ski b h) = hbFreshConn h"
  "hbTasks (task_over ski b h) = hbTasks h"
  "hbDelays (task_over ski b h) = hbDelays h"
  "hbDelayTimers (task_over ski b h) = hbDelayTimers h"
  by (simp_all add: task_over_def)

lemma put_listener_frame [simp]:
  "hbRegistry (put_listener f h) = hbRegistry h"
  "hbConnections (put_listener f h) = hbConnections h"
  "hbObjects (put_listener f h) = hbObjects h"
  "hbFreshConn (put_listener f h) = hbFreshConn h"
  "hbTasks (put_listener f h) = hbTasks h"
  "hbAttemptRunning (put_listener f h) = hbAttemptRunning h"
  "hbDelays (put_listener f h) = hbDelays h"
  "hbDelayTimers (put_listener f h) = hbDelayTimers h"
  by (simp_all add: put_listener_def)

lemma enableListener_frame [simp]:
  "hbRegistry (snd (enablePairingListener env config h)) = hbRegistry h"
  "hbConnections (snd (enablePairingListener env config h)) = hbConnections h"
  "hbObjects (snd (enablePairingListener env config h)) = hbObjects h"
  "hbFreshConn (snd (enablePairingListener env config h)) = hbFreshConn h"
  "hbTasks (snd (enablePairingListener env config h)) = hbTasks h"
  "hbAttemptRunning (snd (enablePairingListener env config h)) = hbAttemptRunning h"
  "hbDelays (snd (enablePairingListener env config h)) = hbDelays h"
  "hbDelayTimers (snd (enablePairingListener env config h)) = hbDelayTimers h"
  by (simp_all add: enablePairingListener_def Let_def case_prod_beta split: option.split)

lemma stopListener_frame [simp]:
  "hbRegistry (stopPairingListener h) = hbRegistry h"
  "hbConnections (stopPairingListener h) = hbConnections h"
  "hbObjects (stopPairingListener h) = hbObjects h"
  "hbFreshConn (stopPairingListener h) = hbFreshConn h"
  "hbTasks (stopPairingListener h) = hbTasks h"
  "hbAttemptRunning (stopPairingListener h) = hbAttemptRunning h"
  "hbDelays (stopPairingListener h) = hbDelays h"
  "hbDelayTimers (stopPairingListener h) = hbDelayTimers h"
  by (simp_all add: stopPairingListener_def)

lemma reactivate_frame [simp]:
  "hbRegistry (reactivatePairingListener env h) = hbRegistry h"
  "hbConnections (reactivatePairingListener env h) = hbConnections h"
  "hbObjects (reactivatePairingListener env h) = hbObjects h"
  "hbFreshConn (reactivatePairingListener env h) = hbFreshConn h"
  "hbTasks (reactivatePairingListener env h) = hbTasks h"
  "hbAttemptRunning (reactivatePairingListener env h) = hbAttemptRunning h"
  "hbDelays (reactivatePairingListener env h) = hbDelays h"
  "hbDelayTimers (reactivatePairingListener env h) = hbDelayTimers h"
  by (simp_all add: reactivatePairingListener_def split: option.split)

lemma stopReplacement_frame [simp]:
  "hbRegistry (StopAddCuReplacementTimer a h) = hbRegistry h"
  "hbConnections (StopAddCuReplacementTimer a h) = hbConnections h"
  "hbObjects (StopAddCuReplacementTimer a h) = hbObjects h"
  "hbFreshConn (StopAddCuReplacementTimer a h) = hbFreshConn h"
  "hbTasks (StopAddCuReplacementTimer a h) = hbTasks h"
  "hbAttemptRunning (StopAddCuReplacementTimer a h) = hbAttemptRunning h"
  "hbDelays (StopAddCuReplacementTimer a h) = hbDelays h"
  "hbDelayTimers (StopAddCuReplacementTimer a h) = hbDelayTimers h"
  by (simp_all add: StopAddCuReplacementTimer_def)

lemma start_replacement_frame [simp]:
  "hbRegistry (start_replacement env ship h) = hbRegistry h"
  "hbConnections (start_replacement env ship h) = hbConnections h"
  "hbObjects (start_replacement env ship h) = hbObjects h"
  "hbFreshConn (start_replacement env ship h) = hbFreshConn h"
  "hbTasks (start_replacement env ship h) = hbTasks h"
  "hbAttemptRunning (start_replacement env ship h) = hbAttemptRunning h"
  "hbDelays (start_replacement env ship h) = hbDelays h"
  "hbDelayTimers (start_replacement env ship h) = hbDelayTimers h"
  by (simp_all add: start_replacement_def)

lemma handleTimeout_frame [simp]:
  "hbRegistry (handleAddCuReplacementTimeout env ship h) = hbRegistry h"
  "hbConnections (handleAddCuReplacementTimeout env ship h) = hbConnections h"
  "hbObjects (handleAddCuReplacementTimeout env ship h) = hbObjects h"
  "hbFreshConn (handleAddCuReplacementTimeout env ship h) = hbFreshConn h"
  "hbTasks (handleAddCuReplacementTimeout env ship h) = hbTasks h"
  "hbAttemptRunning (handleAddCuReplacementTimeout env ship h) = hbAttemptRunning h"
  "hbDelays (handleAddCuReplacementTimeout env ship h) = hbDelays h"
  "hbDelayTimers (handleAddCuReplacementTimeout env ship h) = hbDelayTimers h"
  by (simp_all add: handleAddCuReplacementTimeout_def split: option.split)

lemma trustRemoved_frame [simp]:
  "hbRegistry (callDeviceAutoTrustRemovedCallback a reason h) = hbRegistry h"
  "hbConnections (callDeviceAutoTrustRemovedCallback a reason h) = hbConnections h"
  "hbObjects (callDeviceAutoTrustRemovedCallback a reason h) = hbObjects h"
  "hbFreshConn (callDeviceAutoTrustRemovedCallback a reason h) = hbFreshConn h"
  "hbTasks (callDeviceAutoTrustRemovedCallback a reason h) = hbTasks h"
  "hbAttemptRunning (callDeviceAutoTrustRemovedCallback a reason h) = hbAttemptRunning h"
  "hbDelays (callDeviceAutoTrustRemovedCallback a reason h) = hbDelays h"
  "hbDelayTimers (callDeviceAutoTrustRemovedCallback a reason h) = hbDelayTimers h"
  by (simp_all add: callDeviceAutoTrustRemovedCallback_def)

lemma pairingFailure_frame [simp]:
  "hbRegistry (OnPairingFailure ship fp e h) = hbRegistry h"
  "hbConnections (OnPairingFailure ship fp e h) = hbConnections h"
  "hbObjects (OnPairingFailure ship fp e h) = hbObjects h"
  "hbFreshConn (OnPairingFailure ship fp e h) = hbFreshConn h"
  "hbTasks (OnPairingFailure ship fp e h) = hbTasks h"
  "hbAttemptRunning (OnPairingFailure ship fp e h) = hbAttemptRunning h"
  "hbDelays (OnPairingFailure ship fp e h) = hbDelays h"
  "hbDelayTimers (OnPairingFailure ship fp e h) = hbDelayTimers h"
  by (simp_all add: OnPairingFailure_def split: sum.split)

lemma snd_branch:
  "snd (if c then x else y) = (if c then snd x else snd y)"
  "snd (case e of Inl l \<Rightarrow> f l | Inr r \<Rightarrow> g r) = (case e of Inl l \<Rightarrow> snd (f l) | Inr r \<Rightarrow> snd (g r))"
  "snd (case v of None \<Rightarrow> n | Some w \<Rightarrow> k w) = (case v of None \<Rightarrow> snd n | Some w \<Rightarrow> snd (k w))"
  "snd (case p of (a, b) \<Rightarrow> m a b) = (case p of (a, b) \<Rightarrow> snd (m a b))"
  by (simp_all split: sum.split option.split prod.split)

lemma startAnnouncement_shape:
  "\<exists>x. snd (StartAnnouncementTo env target h) = h\<lparr>hbAnnouncements := x\<rparr>"
proof -
  define P where "P s \<longleftrightarrow> (\<exists>x. s = h\<lparr>hbAnnouncements := x\<rparr>)" for s
  have "h = h\<lparr>hbAnnouncements := hbAnnouncements h\<rparr>" by simp
  then have p: "P h" "P (h\<lparr>hbAnnouncements := x\<rparr>)" for x unfolding P_def by blast+
  have "P (snd (StartAnnouncementTo env target h))"
    unfolding StartAnnouncementTo_def Let_def snd_branch snd_conv
    by (intro p conjI impI allI | split if_split option.split sum.split prod.split)+
  then show ?thesis unfolding P_def .
qed

lemma startAnnouncement_frame [simp]:
  "hbRegistry (snd (StartAnnouncementTo env target h)) = hbRegistry h"
  "hbConnections (snd (StartAnnouncementTo env target h)) = hbConnections h"
  "hbObjects (snd (StartAnnouncementTo env target h)) = hbObjects h"
  "hbFreshConn (snd (StartAnnouncementTo env target h)) = hbFreshConn h"
  "hbTasks (snd (StartAnnouncementTo env target h)) = hbTasks h"
  "hbAttemptRunning (snd (StartAnnouncementTo env target h)) = hbAttemptRunning h"
  "hbDelays (snd (StartAnnouncementTo env target h)) = hbDelays h"
  "hbDelayTimers (snd (StartAnnouncementTo env target h)) = hbDelayTimers h"
  using startAnnouncement_shape [of env target h] by auto

lemma stopAnnouncement_frame [simp]:
  "hbRegistry (snd (StopAnnouncementTo env ship h)) = hbRegistry h"
  "hbConnections (snd (StopAnnouncementTo env ship h)) = hbConnections h"
  "hbObjects (snd (StopAnnouncementTo env ship h)) = hbObjects h"
  "hbFreshConn (snd (StopAnnouncementTo env ship h)) = hbFreshConn h"
  "hbTasks (snd (StopAnnouncementTo env ship h)) = hbTasks h"
  "hbAttemptRunning (snd (StopAnnouncementTo env ship h)) = hbAttemptRunning h"
  "hbDelays (snd (StopAnnouncementTo env ship h)) = hbDelays h"
  "hbDelayTimers (snd (StopAnnouncementTo env ship h)) = hbDelayTimers h"
  by (simp_all add: StopAnnouncementTo_def Let_def case_prod_beta split: option.split)

lemma on_completed_frame [simp]:
  "hbRegistry (on_completed a h) = hbRegistry h"
  "hbConnections (on_completed a h) = hbConnections h"
  "hbObjects (on_completed a h) = hbObjects h"
  "hbFreshConn (on_completed a h) = hbFreshConn h"
  "hbTasks (on_completed a h) = hbTasks h"
  "hbAttemptRunning (on_completed a h) = hbAttemptRunning h"
  "hbDelays (on_completed a h) = hbDelays h"
  "hbDelayTimers (on_completed a h) = hbDelayTimers h"
  by (simp_all add: on_completed_def Let_def)

lemma cancel_lifetime_frame [simp]:
  "hbRegistry (cancel_lifetime a h) = hbRegistry h"
  "hbConnections (cancel_lifetime a h) = hbConnections h"
  "hbObjects (cancel_lifetime a h) = hbObjects h"
  "hbFreshConn (cancel_lifetime a h) = hbFreshConn h"
  "hbTasks (cancel_lifetime a h) = hbTasks h"
  "hbAttemptRunning (cancel_lifetime a h) = hbAttemptRunning h"
  "hbDelays (cancel_lifetime a h) = hbDelays h"
  "hbDelayTimers (cancel_lifetime a h) = hbDelayTimers h"
  by (simp_all add: cancel_lifetime_def split: option.split)

lemma closed_timers_frame [simp]:
  "hbRegistry (closed_timers env a h) = hbRegistry h"
  "hbConnections (closed_timers env a h) = hbConnections h"
  "hbObjects (closed_timers env a h) = hbObjects h"
  "hbFreshConn (closed_timers env a h) = hbFreshConn h"
  "hbTasks (closed_timers env a h) = hbTasks h"
  "hbAttemptRunning (closed_timers env a h) = hbAttemptRunning h"
  "hbDelays (closed_timers env a h) = hbDelays h"
  "hbDelayTimers (closed_timers env a h) = hbDelayTimers h"
  by (simp_all add: closed_timers_def Let_def)

lemma delayed_frame [simp]:
  "hbRegistry (delayed_update i h) = hbRegistry h"
  "hbConnections (delayed_update i h) = hbConnections h"
  "hbObjects (delayed_update i h) = hbObjects h"
  "hbFreshConn (delayed_update i h) = hbFreshConn h"
  "hbTasks (delayed_update i h) = hbTasks h"
  "hbAttemptRunning (delayed_update i h) = hbAttemptRunning h"
  "hbDelays (delayed_update i h) = hbDelays h"
  "hbDelayTimers (delayed_update i h) = hbDelayTimers h"
  by (simp_all add: delayed_update_def case_prod_beta)

lemma disconnect_frame [simp]:
  "hbRegistry (DisconnectService i reason h) = hbRegistry h"
  "hbConnections (DisconnectService i reason h) = hbConnections h"
  "hbObjects (DisconnectService i reason h) = hbObjects h"
  "hbFreshConn (DisconnectService i reason h) = hbFreshConn h"
  "hbTasks (DisconnectService i reason h) = hbTasks h"
  "hbAttemptRunning (DisconnectService i reason h) = hbAttemptRunning h"
  "hbDelays (DisconnectService i reason h) = hbDelays h"
  "hbDelayTimers (DisconnectService i reason h) = hbDelayTimers h"
  by (simp_all add: DisconnectService_def split: option.split)

lemma autoaccept_frame [simp]:
  "hbRegistry (SetAutoAccept_hub v h) = hbRegistry h"
  "hbConnections (SetAutoAccept_hub v h) = hbConnections h"
  "hbObjects (SetAutoAccept_hub v h) = hbObjects h"
  "hbFreshConn (SetAutoAccept_hub v h) = hbFreshConn h"
  "hbTasks (SetAutoAccept_hub v h) = hbTasks h"
  "hbAttemptRunning (SetAutoAccept_hub v h) = hbAttemptRunning h"
  "hbDelays (SetAutoAccept_hub v h) = hbDelays h"
  "hbDelayTimers (SetAutoAccept_hub v h) = hbDelayTimers h"
  by (simp_all add: SetAutoAccept_hub_def)

lemma maxconn_frame [simp]:
  "hbRegistry (SetMaxConnections n h) = hbRegistry h"
  "hbConnections (SetMaxConnections n h) = hbConnections h"
  "hbObjects (SetMaxConnections n h) = hbObjects h"
  "hbFreshConn (SetMaxConnections n h) = hbFreshConn h"
  "hbTasks (SetMaxConnections n h) = hbTasks h"
  "hbAttemptRunning (SetMaxConnections n h) = hbAttemptRunning h"
  "hbDelays (SetMaxConnections n h) = hbDelays h"
  "hbDelayTimers (SetMaxConnections n h) = hbDelayTimers h"
  by (simp_all add: SetMaxConnections_def)

lemma replacement_expired_frame [simp]:
  "hbRegistry (replacement_expired env i h) = hbRegistry h"
  "hbConnections (replacement_expired env i h) = hbConnections h"
  "hbObjects (replacement_expired env i h) = hbObjects h"
  "hbFreshConn (replacement_expired env i h) = hbFreshConn h"
  "hbTasks (replacement_expired env i h) = hbTasks h"
  "hbAttemptRunning (replacement_expired env i h) = hbAttemptRunning h"
  "hbDelays (replacement_expired env i h) = hbDelays h"
  "hbDelayTimers (replacement_expired env i h) = hbDelayTimers h"
  by (simp_all add: replacement_expired_def Let_def case_prod_beta split: option.split)

lemma lifetime_expired_frame [simp]:
  "hbRegistry (lifetime_expired env i h) = hbRegistry h"
  "hbConnections (lifetime_expired env i h) = hbConnections h"
  "hbObjects (lifetime_expired env i h) = hbObjects h"
  "hbFreshConn (lifetime_expired env i h) = hbFreshConn h"
  "hbTasks (lifetime_expired env i h) = hbTasks h"
  "hbAttemptRunning (lifetime_expired env i h) = hbAttemptRunning h"
  "hbDelays (lifetime_expired env i h) = hbDelays h"
  "hbDelayTimers (lifetime_expired env i h) = hbDelayTimers h"
  by (simp_all add: lifetime_expired_def Let_def case_prod_beta split: option.split)

lemma startService_frame [simp]:
  "hbRegistry (startPairingService env h) = hbRegistry h"
  "hbConnections (startPairingService env h) = hbConnections h"
  "hbObjects (startPairingService env h) = hbObjects h"
  "hbFreshConn (startPairingService env h) = hbFreshConn h"
  "hbTasks (startPairingService env h) = hbTasks h"
  "hbAttemptRunning (startPairingService env h) = hbAttemptRunning h"
  "hbDelays (startPairingService env h) = hbDelays h"
  "hbDelayTimers (startPairingService env h) = hbDelayTimers h"
  by (simp_all add: startPairingService_def Let_def case_prod_beta split: option.split)

lemma initialize_frame [simp]:
  "hbRegistry (snd (initializePairingServiceWithConfig env b config h)) = hbRegistry h"
  "hbConnections (snd (initializePairingServiceWithConfig env b config h)) = hbConnections h"
  "hbObjects (snd (initializePairingServiceWithConfig env b config h)) = hbObjects h"
  "hbFreshConn (snd (initializePairingServiceWithConfig env b config h)) = hbFreshConn h"
  "hbTasks (snd (initializePairingServiceWithConfig env b config h)) = hbTasks h"
  "hbAttemptRunning (snd (initializePairingServiceWithConfig env b config h)) = hbAttemptRunning h"
  "hbDelays (snd (initializePairingServiceWithConfig env b config h)) = hbDelays h"
  "hbDelayTimers (snd (initializePairingServiceWithConfig env b config h)) = hbDelayTimers h"
  by (simp_all add: initializePairingServiceWithConfig_def Let_def split: option.split sum.split)

lemma quiet_stop_frame [simp]:
  "hbRegistry (stop_announcement_quietly env p h) = hbRegistry h"
  "hbConnections (stop_announcement_quietly env p h) = hbConnections h"
  "hbObjects (stop_announcement_quietly env p h) = hbObjects h"
  "hbFreshConn (stop_announcement_quietly env p h) = hbFreshConn h"
  "hbTasks (stop_announcement_quietly env p h) = hbTasks h"
  "hbAttemptRunning (stop_announcement_quietly env p h) = hbAttemptRunning h"
  "hbDelays (stop_announcement_quietly env p h) = hbDelays h"
  "hbDelayTimers (stop_announcement_quietly env p h) = hbDelayTimers h"
  by (simp_all add: stop_announcement_quietly_def)

lemma context_ended_frame [simp]:
  "hbRegistry (context_ended h) = hbRegistry h"
  "hbConnections (context_ended h) = hbConnections h"
  "hbObjects (context_ended h) = hbObjects h"
  "hbFreshConn (context_ended h) = hbFreshConn h"
  "hbTasks (context_ended h) = hbTasks h"
  "hbAttemptRunning (context_ended h) = hbAttemptRunning h"
  "hbDelays (context_ended h) = hbDelays h"
  "hbDelayTimers (context_ended h) = hbDelayTimers h"
  by (simp_all add: context_ended_def)

lemma dial_socket_frame [simp]:
  "hbRegistry (dial_socket t sock h) = hbRegistry h"
  "hbConnections (dial_socket t sock h) = hbConnections h"
  "hbObjects (dial_socket t sock h) = hbObjects h"
  "hbFreshConn (dial_socket t sock h) = hbFreshConn h"
  "hbTasks (dial_socket t sock h) = hbTasks h"
  "hbAttemptRunning (dial_socket t sock h) = hbAttemptRunning h"
  "hbDelays (dial_socket t sock h) = hbDelays h"
  "hbDelayTimers (dial_socket t sock h) = hbDelayTimers h"
  by (simp_all add: dial_socket_def split: option.split)

lemma task_await_frame [simp]:
  "hbRegistry (task_await t k b h) = hbRegistry h"
  "hbConnections (task_await t k b h) = hbConnections h"
  "hbObjects (task_await t k b h) = hbObjects h"
  "hbFreshConn (task_await t k b h) = hbFreshConn h"
  "hbAttemptRunning (task_await t k b h) = hbAttemptRunning h"
  "hbDelays (task_await t k b h) = hbDelays h"
  "hbDelayTimers (task_await t k b h) = hbDelayTimers h"
  by (simp_all add: task_await_def)

lemma set_service_frame [simp]:
  "hbConnections (set_service a f h) = hbConnections h"
  "hbObjects (set_service a f h) = hbObjects h"
  "hbFreshConn (set_service a f h) = hbFreshConn h"
  "hbTasks (set_service a f h) = hbTasks h"
  "hbAttemptRunning (set_service a f h) = hbAttemptRunning h"
  "hbDelays (set_service a f h) = hbDelays h"
  "hbDelayTimers (set_service a f h) = hbDelayTimers h"
  by (simp_all add: set_service_def)

lemma new_service_frame [simp]:
  "hbConnections (snd (new_service s h)) = hbConnections h"
  "hbObjects (snd (new_service s h)) = hbObjects h"
  "hbFreshConn (snd (new_service s h)) = hbFreshConn h"
  "hbTasks (snd (new_service s h)) = hbTasks h"
  "hbAttemptRunning (snd (new_service s h)) = hbAttemptRunning h"
  "hbDelays (snd (new_service s h)) = hbDelays h"
  "hbDelayTimers (snd (new_service s h)) = hbDelayTimers h"
  by (simp_all add: new_service_def case_prod_beta)

lemma drop_service_frame [simp]:
  "hbConnections (drop_service env i a h) = hbConnections h"
  "hbObjects (drop_service env i a h) = hbObjects h"
  "hbFreshConn (drop_service env i a h) = hbFreshConn h"
  "hbTasks (drop_service env i a h) = hbTasks h"
  "hbAttemptRunning (drop_service env i a h) = hbAttemptRunning h"
  "hbDelays (drop_service env i a h) = hbDelays h"
  "hbDelayTimers (drop_service env i a h) = hbDelayTimers h"
  by (simp_all add: drop_service_def Let_def)

lemma merge_service_frame [simp]:
  "hbConnections (snd (merge_service a h)) = hbConnections h"
  "hbObjects (snd (merge_service a h)) = hbObjects h"
  "hbFreshConn (snd (merge_service a h)) = hbFreshConn h"
  "hbTasks (snd (merge_service a h)) = hbTasks h"
  "hbAttemptRunning (snd (merge_service a h)) = hbAttemptRunning h"
  "hbDelays (snd (merge_service a h)) = hbDelays h"
  "hbDelayTimers (snd (merge_service a h)) = hbDelayTimers h"
  by (simp_all add: merge_service_def case_prod_beta)

lemma unregisterConn_frame [simp]:
  "hbRegistry (snd (UnregisterConnectionIfMatch ski c h)) = hbRegistry h"
  "hbObjects (snd (UnregisterConnectionIfMatch ski c h)) = hbObjects h"
  "hbFreshConn (snd (UnregisterConnectionIfMatch ski c h)) = hbFreshConn h"
  "hbTasks (snd (UnregisterConnectionIfMatch ski c h)) = hbTasks h"
  "hbAttemptRunning (snd (UnregisterConnectionIfMatch ski c h)) = hbAttemptRunning h"
  "hbDelays (snd (UnregisterConnectionIfMatch ski c h)) = hbDelays h"
  "hbDelayTimers (snd (UnregisterConnectionIfMatch ski c h)) = hbDelayTimers h"
  by (simp_all add: UnregisterConnectionIfMatch_def)

lemma register_frame [simp]:
  "hbRegistry (registerConnection c h) = hbRegistry h"
  "hbObjects (registerConnection c h) = hbObjects h"
  "hbFreshConn (registerConnection c h) = hbFreshConn h"
  "hbTasks (registerConnection c h) = hbTasks h"
  by (simp_all add: registerConnection_def Let_def split: option.split)

lemma startShip_frame [simp]:
  "hbRegistry (startShipConnection a r h) = hbRegistry h"
  "hbTasks (startShipConnection a r h) = hbTasks h"
  by (simp_all add: startShipConnection_def Let_def)

lemma fold_frame: "(\<And>x h. f (g x h) = f h) \<Longrightarrow> f (fold g xs h) = f h"
  by (induction xs arbitrary: h) auto

lemma offline_frame [simp]:
  "hbRegistry (startAddCuReplacementTimersForOfflineDevices env h) = hbRegistry h"
  "hbConnections (startAddCuReplacementTimersForOfflineDevices env h) = hbConnections h"
  "hbObjects (startAddCuReplacementTimersForOfflineDevices env h) = hbObjects h"
  "hbFreshConn (startAddCuReplacementTimersForOfflineDevices env h) = hbFreshConn h"
  "hbTasks (startAddCuReplacementTimersForOfflineDevices env h) = hbTasks h"
  "hbAttemptRunning (startAddCuReplacementTimersForOfflineDevices env h) = hbAttemptRunning h"
  "hbDelays (startAddCuReplacementTimersForOfflineDevices env h) = hbDelays h"
  "hbDelayTimers (startAddCuReplacementTimersForOfflineDevices env h) = hbDelayTimers h"
  unfolding startAddCuReplacementTimersForOfflineDevices_def by (rule fold_frame; simp add: Let_def)+

lemma cleanup_frame [simp]:
  "hbRegistry (cleanupRemovedMdnsEntries es h) = hbRegistry h"
  "hbConnections (cleanupRemovedMdnsEntries es h) = hbConnections h"
  "hbObjects (cleanupRemovedMdnsEntries es h) = hbObjects h"
  "hbFreshConn (cleanupRemovedMdnsEntries es h) = hbFreshConn h"
  "hbTasks (cleanupRemovedMdnsEntries es h) = hbTasks h"
  unfolding cleanupRemovedMdnsEntries_def by (rule fold_frame; simp)+

lemma try_hosts_core:
  "hbRegistry (try_hosts t ski a e xs h) = hbRegistry h \<and> hbConnections (try_hosts t ski a e xs h) = hbConnections h
   \<and> hbObjects (try_hosts t ski a e xs h) = hbObjects h \<and> hbFreshConn (try_hosts t ski a e xs h) = hbFreshConn h"
proof (induction xs arbitrary: h)
  case (Cons x xs)
  obtain r g where b: "connect_begin a h = (r, g)" by (cases "connect_begin a h")
  have f: "hbRegistry g = hbRegistry h" "hbConnections g = hbConnections h" "hbObjects g = hbObjects h"
    "hbFreshConn g = hbFreshConn h"
    using connect_begin_frame(1-4) [of a h] unfolding b by simp_all
  show ?case using Cons.IH [of g] f by (simp add: b split: sum.split option.split)
qed simp

lemmas try_hosts_frame [simp] = try_hosts_core [THEN conjunct1] try_hosts_core [THEN conjunct2, THEN conjunct1]
  try_hosts_core [THEN conjunct2, THEN conjunct2, THEN conjunct1] try_hosts_core [THEN conjunct2, THEN conjunct2, THEN conjunct2]

lemma prepare_frame [simp]:
  "hbRegistry (prepareConnectionInitation t ski n e h) = hbRegistry h"
  "hbConnections (prepareConnectionInitation t ski n e h) = hbConnections h"
  "hbObjects (prepareConnectionInitation t ski n e h) = hbObjects h"
  "hbFreshConn (prepareConnectionInitation t ski n e h) = hbFreshConn h"
  by (simp_all add: prepareConnectionInitation_def Let_def split: option.split)

lemma task_result_frame [simp]:
  "hbRegistry (task_result t k r h) = hbRegistry h"
  "hbConnections (task_result t k r h) = hbConnections h"
  "hbObjects (task_result t k r h) = hbObjects h"
  "hbFreshConn (task_result t k r h) = hbFreshConn h"
  by (simp_all add: task_result_def Let_def split: option.split)

lemma dial_failed_frame [simp]:
  "hbRegistry (dial_failed t err h) = hbRegistry h"
  "hbConnections (dial_failed t err h) = hbConnections h"
  "hbObjects (dial_failed t err h) = hbObjects h"
  "hbFreshConn (dial_failed t err h) = hbFreshConn h"
  by (simp_all add: dial_failed_def split: option.split dial_stage.split)

lemma await_over_frame [simp]:
  "hbRegistry (await_over t h) = hbRegistry h"
  "hbConnections (await_over t h) = hbConnections h"
  "hbObjects (await_over t h) = hbObjects h"
  "hbFreshConn (await_over t h) = hbFreshConn h"
  by (simp_all add: await_over_def split: option.split dial_stage.split)

lemma delay_fired_frame [simp]:
  "hbRegistry (delay_fired i h) = hbRegistry h"
  "hbConnections (delay_fired i h) = hbConnections h"
  "hbObjects (delay_fired i h) = hbObjects h"
  "hbFreshConn (delay_fired i h) = hbFreshConn h"
  by (simp_all add: delay_fired_def split: option.split prod.split)

lemma Start_frame [simp]:
  "hbRegistry (snd (Start_hub env e1 e2 b h)) = hbRegistry h"
  "hbConnections (snd (Start_hub env e1 e2 b h)) = hbConnections h"
  "hbObjects (snd (Start_hub env e1 e2 b h)) = hbObjects h"
  "hbFreshConn (snd (Start_hub env e1 e2 b h)) = hbFreshConn h"
  "hbTasks (snd (Start_hub env e1 e2 b h)) = hbTasks h"
  "hbAttemptRunning (snd (Start_hub env e1 e2 b h)) = hbAttemptRunning h"
  "hbDelays (snd (Start_hub env e1 e2 b h)) = hbDelays h"
  "hbDelayTimers (snd (Start_hub env e1 e2 b h)) = hbDelayTimers h"
proof -
  show "hbRegistry (snd (Start_hub env e1 e2 b h)) = hbRegistry h"
    by (simp add: Start_hub_def Let_def split: option.split) (simp add: case_prod_beta split: option.split)
  show "hbConnections (snd (Start_hub env e1 e2 b h)) = hbConnections h"
    by (simp add: Start_hub_def Let_def split: option.split) (simp add: case_prod_beta split: option.split)
  show "hbObjects (snd (Start_hub env e1 e2 b h)) = hbObjects h"
    by (simp add: Start_hub_def Let_def split: option.split) (simp add: case_prod_beta split: option.split)
  show "hbFreshConn (snd (Start_hub env e1 e2 b h)) = hbFreshConn h"
    by (simp add: Start_hub_def Let_def split: option.split) (simp add: case_prod_beta split: option.split)
  show "hbTasks (snd (Start_hub env e1 e2 b h)) = hbTasks h"
    by (simp add: Start_hub_def Let_def split: option.split) (simp add: case_prod_beta split: option.split)
  show "hbAttemptRunning (snd (Start_hub env e1 e2 b h)) = hbAttemptRunning h"
    by (simp add: Start_hub_def Let_def split: option.split) (simp add: case_prod_beta split: option.split)
  show "hbDelays (snd (Start_hub env e1 e2 b h)) = hbDelays h"
    by (simp add: Start_hub_def Let_def split: option.split) (simp add: case_prod_beta split: option.split)
  show "hbDelayTimers (snd (Start_hub env e1 e2 b h)) = hbDelayTimers h"
    by (simp add: Start_hub_def Let_def split: option.split) (simp add: case_prod_beta split: option.split)
qed

lemma Shutdown_frame [simp]:
  "hbRegistry (Shutdown_hub env h) = hbRegistry h"
  "hbConnections (Shutdown_hub env h) = hbConnections h"
  "hbObjects (Shutdown_hub env h) = hbObjects h"
  "hbFreshConn (Shutdown_hub env h) = hbFreshConn h"
  "hbTasks (Shutdown_hub env h) = hbTasks h"
proof -
  have q: "f (fold (stop_announcement_quietly env) xs g) = f g" if "\<And>p g. f (stop_announcement_quietly env p g) = f g"
    for f :: "hub \<Rightarrow> 'z" and xs g by (rule fold_frame) (rule that)
  have d: "f (fold (\<lambda>p h. snd (Stop_delay (snd p) h)) xs g) = f g" if "\<And>i g. f (snd (Stop_delay i g)) = f g"
    for f :: "hub \<Rightarrow> 'z" and xs :: "(string \<times> nat) list" and g by (rule fold_frame) (rule that)
  have c: "f (fold (\<lambda>p. call (ConnClose (snd p) False 0 s)) xs g) = f g" if "\<And>x g. f (call x g) = f g"
    for f :: "hub \<Rightarrow> 'z" and xs :: "(string \<times> nat) list" and g s by (rule fold_frame) (rule that)
  show "hbRegistry (Shutdown_hub env h) = hbRegistry h" unfolding Shutdown_hub_def by (simp add: Let_def q [of hbRegistry] d [of hbRegistry] c [of hbRegistry])
  show "hbConnections (Shutdown_hub env h) = hbConnections h" unfolding Shutdown_hub_def by (simp add: Let_def q [of hbConnections] d [of hbConnections] c [of hbConnections])
  show "hbObjects (Shutdown_hub env h) = hbObjects h" unfolding Shutdown_hub_def by (simp add: Let_def q [of hbObjects] d [of hbObjects] c [of hbObjects])
  show "hbFreshConn (Shutdown_hub env h) = hbFreshConn h" unfolding Shutdown_hub_def by (simp add: Let_def q [of hbFreshConn] d [of hbFreshConn] c [of hbFreshConn])
  show "hbTasks (Shutdown_hub env h) = hbTasks h" unfolding Shutdown_hub_def by (simp add: Let_def q [of hbTasks] d [of hbTasks] c [of hbTasks])
qed

end
