(* ===== verification/HubTrust.thy ===== *)
theory HubTrust
  imports HubFrames
begin

text \<open>
  Trust at the hub: which events make a registered service trusted. The invariant \<open>services_ok\<close> says that the
  registry and the connection tasks refer to allocated services and that all services are in normal form.
\<close>

section \<open>Services in use are allocated\<close>

definition services_ok :: "hub \<Rightarrow> bool" where
  "services_ok h \<longleftrightarrow> distinct (rgList (hbRegistry h))
     \<and> (\<forall>a < rgFresh (hbRegistry h). normal_service (service_at h a))
     \<and> (\<forall>a \<in> set (rgList (hbRegistry h)). a < rgFresh (hbRegistry h))
     \<and> (\<forall>p \<in> set (hbTasks h). ctService (snd p) < rgFresh (hbRegistry h))"

definition trusted_entry :: "hub \<Rightarrow> addr \<Rightarrow> bool" where
  "trusted_entry h a \<longleftrightarrow> a \<in> set (rgList (hbRegistry h)) \<and> svcTrusted (service_at h a)"

text \<open>\<open>h'\<close> keeps the invariant and, if \<open>q\<close>, has no trusted entry that \<open>h\<close> does not have.\<close>

definition no_new_trust :: "bool \<Rightarrow> hub \<Rightarrow> hub \<Rightarrow> bool" where
  "no_new_trust q h h' \<longleftrightarrow>
     (services_ok h \<longrightarrow> services_ok h' \<and> (q \<longrightarrow> (\<forall>a. trusted_entry h' a \<longrightarrow> trusted_entry h a)))"

lemma svcTrusted_setters [simp]:
  "svcTrusted (SetSKI k s) = svcTrusted s" "svcTrusted (SetFingerprint f s) = svcTrusted s"
  "svcTrusted (SetShipID i s) = svcTrusted s" "svcTrusted (SetIPv4 ip s) = svcTrusted s"
  "svcTrusted (SetAutoAccept v s) = svcTrusted s" "svcTrusted (SetTrusted v s) = v"
  "svcTrusted (SetConnectionStateDetail d s) = svcTrusted s" "svcTrusted (SetPairingType t s) = svcTrusted s"
  by (simp_all add: service_setters)

lemma no_new_trust_refl [simp]: "no_new_trust q h h"
  by (simp add: no_new_trust_def)

lemma no_new_trust_trans [trans]: "no_new_trust q h h1 \<Longrightarrow> no_new_trust q h1 h2 \<Longrightarrow> no_new_trust q h h2"
  by (auto simp: no_new_trust_def)

lemma no_new_trust_frame:
  "hbRegistry h' = hbRegistry h \<Longrightarrow> hbTasks h' = hbTasks h \<Longrightarrow> no_new_trust q h h'"
  by (simp add: no_new_trust_def services_ok_def trusted_entry_def service_at_def)

lemma service_at_set [simp]: "service_at (set_service a f h) b = (if b = a then f (service_at h a) else service_at h b)"
  by (simp add: service_at_def set_service_def update_service_def)

lemma set_service_reg [simp]:
  "rgList (hbRegistry (set_service a f h)) = rgList (hbRegistry h)"
  "rgFresh (hbRegistry (set_service a f h)) = rgFresh (hbRegistry h)"
  by (simp_all add: set_service_def update_service_def)

lemma no_new_trust_set:
  assumes "\<And>s. normal_service s \<Longrightarrow> normal_service (f s)" "\<And>s. q \<Longrightarrow> svcTrusted (f s) \<Longrightarrow> svcTrusted s"
  shows "no_new_trust q h (set_service a f h)"
  using assms by (auto simp: no_new_trust_def services_ok_def trusted_entry_def split: if_splits)

lemma new_service_reg:
  assumes "new_service s h = (a, h')"
  shows "a = rgFresh (hbRegistry h)" "rgList (hbRegistry h') = rgList (hbRegistry h)"
    "rgFresh (hbRegistry h') = rgFresh (hbRegistry h) + 1" "hbTasks h' = hbTasks h"
    "service_at h' b = (if b = a then s else service_at h b)"
  using assms by (auto simp: new_service_def alloc_def service_at_def Let_def)

lemma no_new_trust_new:
  assumes "new_service s h = (a, h')" "normal_service s"
  shows "no_new_trust q h h'"
  using assms(2) by (auto simp: no_new_trust_def services_ok_def trusted_entry_def new_service_reg [OF assms(1)] less_Suc_eq)

lemma remove_entry_reg:
  "rgHeap (removeServiceEntry a r) = rgHeap r" "rgFresh (removeServiceEntry a r) = rgFresh r"
  "set (rgList (removeServiceEntry a r)) \<subseteq> set (rgList r)"
  "distinct (rgList r) \<Longrightarrow> distinct (rgList (removeServiceEntry a r))"
  using set_remove_at [of _ "rgList r"] distinct_remove_at [of "rgList r"]
  by (auto simp: removeServiceEntry_def split: option.split)

lemma no_new_trust_remove: "no_new_trust q h (h\<lparr>hbRegistry := removeServiceEntry a (hbRegistry h)\<rparr>)"
  unfolding no_new_trust_def services_ok_def trusted_entry_def service_at_def
  using remove_entry_reg(3) [of a "hbRegistry h"] by (simp add: remove_entry_reg(1,2,4) subset_iff)

section \<open>Merging\<close>

lemma merge_service_eq: "merge_service a h = (res, h') \<longleftrightarrow>
    (\<exists>r. mergeOrAddService a (hbRegistry h) = (res, r) \<and> h' = h\<lparr>hbRegistry := r\<rparr>)"
  by (auto simp: merge_service_def Let_def split: prod.split)

text \<open>What every merge does to the addresses: the list shrinks or gets the candidate, one service changes.\<close>

lemma merge_addresses:
  assumes "mergeOrAddService a r = (res, r')" "a < rgFresh r"
    "\<forall>b < rgFresh r. normal_service (rgHeap r b)" "\<forall>b \<in> set (rgList r). b < rgFresh r"
  shows "rgFresh r' = rgFresh r \<and> set (rgList r') \<subseteq> insert a (set (rgList r))
    \<and> (distinct (rgList r) \<longrightarrow> distinct (rgList r'))
    \<and> (\<forall>b < rgFresh r'. normal_service (rgHeap r' b))"
proof (cases res)
  case (Inl e)
  then show ?thesis using assms merge_error [of a r e r'] by auto
next
  case (Inr can)
  from assms(1) [unfolded Inr] show ?thesis
  proof (cases rule: merge_cases)
    case added
    then have "a \<notin> set (rgList r)"
      using self_match [OF assms(1) [unfolded Inr]] matched_iff [of a "rgHeap r a" r] by auto
    with added show ?thesis using assms by simp
  next
    case merged
    then have "normal_service (rgHeap r can)" using assms(3,4) by (auto simp: matched_iff)
    then show ?thesis using merged assms(3) by (auto intro: gather_normal)
  qed
qed

lemma merge_old_trust:
  assumes m: "mergeOrAddService a r = (res, r')" and a: "a \<in> set (rgList r) \<or> \<not> svcTrusted (rgHeap r a)"
    and b: "b \<in> set (rgList r')" "svcTrusted (rgHeap r' b)"
  shows "b \<in> set (rgList r) \<and> svcTrusted (rgHeap r b)"
proof (cases res)
  case (Inl e)
  with m b show ?thesis using merge_error [of a r e r'] by auto
next
  case (Inr can)
  note m' = m [unfolded Inr]
  from m' show ?thesis
  proof (cases rule: merge_cases)
    case added
    then show ?thesis using a b by auto
  next
    case merged
    show ?thesis
    proof (cases "b = can")
      case True
      from merge_trust_of [OF m'] b True
      have "svcTrusted (rgHeap r a) \<or> (\<exists>x \<in> set (matched (rgHeap r a) r). svcTrusted (rgHeap r x))" by simp
      moreover have "a \<in> set (matched (rgHeap r a) r)" if "a \<in> set (rgList r)"
        using that self_match [OF m'] by (simp add: matched_iff)
      ultimately have "\<exists>x \<in> set (matched (rgHeap r a) r). svcTrusted (rgHeap r x)" using a by blast
      from merged(6) [OF this] merged(1) True show ?thesis by (simp add: matched_iff)
    next
      case False
      then show ?thesis using b merged(2,3) by auto
    qed
  qed
qed

lemma no_new_trust_merge:
  assumes m: "merge_service a h = (res, h')" and a: "a < rgFresh (hbRegistry h)"
    and t: "q \<Longrightarrow> a \<in> set (rgList (hbRegistry h)) \<or> \<not> svcTrusted (service_at h a)"
  shows "no_new_trust q h h'"
proof -
  from m obtain r where r: "mergeOrAddService a (hbRegistry h) = (res, r)" "h' = h\<lparr>hbRegistry := r\<rparr>"
    by (auto simp: merge_service_eq)
  have "services_ok h'" if "services_ok h"
    using merge_addresses [OF r(1) a] that a by (auto simp: services_ok_def service_at_def r(2))
  moreover have "trusted_entry h b" if "q" "trusted_entry h' b" for b
    using merge_old_trust [OF r(1), of b] t [OF that(1)] that(2)
    by (simp add: trusted_entry_def service_at_def r(2))
  ultimately show ?thesis by (simp add: no_new_trust_def)
qed

section \<open>The handlers\<close>

lemma no_new_trust_then:
  "no_new_trust q h g \<Longrightarrow> hbRegistry h' = hbRegistry g \<Longrightarrow> hbTasks h' = hbTasks g \<Longrightarrow> no_new_trust q h h'"
  by (blast intro: no_new_trust_trans no_new_trust_frame)

lemma no_new_trust_call: "no_new_trust q h g \<Longrightarrow> no_new_trust q h (call c g)"
  by (erule no_new_trust_then) simp_all

lemma no_new_trust_tasks:
  "hbRegistry h' = hbRegistry h \<Longrightarrow>
   (services_ok h \<Longrightarrow> \<forall>p \<in> set (hbTasks h'). ctService (snd p) < rgFresh (hbRegistry h)) \<Longrightarrow> no_new_trust q h h'"
  by (simp add: no_new_trust_def services_ok_def trusted_entry_def service_at_def)

lemma find_service_in: "find_service ski fp h = Some a \<Longrightarrow> a \<in> set (rgList (hbRegistry h))"
  by (auto simp: find_service_def ServiceForIdentifier_def ServiceForIdentifierFull_def dest: lookup_loop_Some)

lemma serviceFor_in: "serviceFor i h = Some a \<Longrightarrow> a \<in> set (rgList (hbRegistry h))"
  by (auto simp: serviceFor_def ServiceForIdentifierFull_def dest: lookup_loop_Some)

lemma trusted_ship_in: "serviceForTrustedShipID s r = Some a \<Longrightarrow> a \<in> set (rgList r)"
  by (auto simp: serviceForTrustedShipID_def dest: find_Some_in)

lemma in_use: "services_ok h \<Longrightarrow> a \<in> set (rgList (hbRegistry h)) \<Longrightarrow> a < rgFresh (hbRegistry h)"
  by (simp add: services_ok_def)

text \<open>Without the invariant there is nothing to show.\<close>

lemma no_new_trust_ok: "(services_ok h \<Longrightarrow> no_new_trust q h h') \<Longrightarrow> no_new_trust q h h'"
  by (auto simp: no_new_trust_def)

lemma no_new_trust_ok_of: "no_new_trust q h h' \<Longrightarrow> services_ok h \<Longrightarrow> services_ok h'"
  by (simp add: no_new_trust_def)

lemma distrust_simps [simp]: "svcTrusted (distrust s) = False" "normal_service (distrust s) = normal_service s"
  by (simp_all add: distrust_def)

lemma drop_service_reg [simp]:
  "hbRegistry (drop_service env i a h) = removeServiceEntry a (hbRegistry (set_service a distrust h))"
  by (simp add: drop_service_def Let_def)

lemma drop_no_new_trust: "no_new_trust q h (drop_service env i a h)"
proof -
  have "no_new_trust q h (set_service a distrust h)" by (rule no_new_trust_set) simp_all
  from no_new_trust_trans [OF this no_new_trust_remove] show ?thesis
    by (rule no_new_trust_then) simp_all
qed

lemma unregister_no_new_trust: "no_new_trust q h (UnregisterRemoteService env i h)"
proof -
  have "no_new_trust q h (removeConnectionAttemptCounter (idSKI i) (drop_service env i a h))" for a
    by (rule no_new_trust_then [OF drop_no_new_trust]) simp_all
  then show ?thesis
    by (auto simp: UnregisterRemoteService_def Let_def intro: no_new_trust_call no_new_trust_frame split: option.split)
qed

lemma cancel_no_new_trust: "no_new_trust q h (CancelPairing i h)"
proof -
  have g: "no_new_trust q h (call c (set_service a distrust g))"
    if "hbRegistry g = hbRegistry h" "hbTasks g = hbTasks h" for a c g
  proof -
    have "no_new_trust q g (set_service a distrust g)" by (rule no_new_trust_set) simp_all
    from no_new_trust_trans [OF no_new_trust_frame [OF that] this] show ?thesis
      by (rule no_new_trust_then) simp_all
  qed
  show ?thesis
    by (auto simp: CancelPairing_def Let_def intro!: g intro: no_new_trust_frame split: option.split)
qed

lemma state_no_new_trust:
  "\<not> (q \<and> st = SmeHelloStateOk) \<Longrightarrow> no_new_trust q h (HandleShipHandshakeStateUpdate ski st err h)"
proof -
  assume st: "\<not> (q \<and> st = SmeHelloStateOk)"
  let ?h1 = "\<lambda>a. if st = SmeHelloStateOk then set_service a (SetTrusted True) h else h"
  have 1: "no_new_trust q h (?h1 a)" for a
    using st by (auto intro!: no_new_trust_set)
  have 2: "no_new_trust q h (set_service a (SetConnectionStateDetail d) (?h1 a))" for a d
    by (rule no_new_trust_trans [OF 1 no_new_trust_set]) simp_all
  show ?thesis
    using 1 by (auto simp: HandleShipHandshakeStateUpdate_def Let_def intro: no_new_trust_then [OF 2] split: option.split)
qed

lemma closed_frame [simp]:
  "hbRegistry (HandleConnectionClosed env c b h) = hbRegistry h"
  "hbTasks (HandleConnectionClosed env c b h) = hbTasks h"
  by (simp_all add: HandleConnectionClosed_def Let_def case_prod_beta split: option.split)

lemma set_then_merge:
  assumes "a \<in> set (rgList (hbRegistry h)) \<or> (q \<longrightarrow> \<not> svcTrusted (service_at h a))" "a < rgFresh (hbRegistry h)"
    and f: "\<And>s. normal_service s \<Longrightarrow> normal_service (f s)" "\<And>s. svcTrusted (f s) = svcTrusted s"
    and m: "merge_service a (set_service a f h) = (res, h')"
  shows "no_new_trust q h h'"
proof -
  have "no_new_trust q h (set_service a f h)" using f by (intro no_new_trust_set) simp_all
  moreover have "no_new_trust q (set_service a f h) h'"
    using assms by (intro no_new_trust_merge [OF m]) auto
  ultimately show ?thesis by (rule no_new_trust_trans)
qed

lemma shipid_no_new_trust: "no_new_trust q h (ReportServiceShipID ski ship h)"
proof (rule no_new_trust_ok)
  assume ok: "services_ok h"
  show ?thesis
  proof (cases "find_service ski [] h")
    case None
    then show ?thesis by (simp add: ReportServiceShipID_def)
  next
    case (Some a)
    note a = find_service_in [OF Some]
    obtain res g where m: "merge_service a (set_service a (SetShipID ship) h) = (res, g)"
      by (cases "merge_service a (set_service a (SetShipID ship) h)")
    have "no_new_trust q h g"
      by (rule set_then_merge [OF _ in_use [OF ok a] _ _ m]) (use a in simp_all)
    then show ?thesis using Some m
      by (auto simp: ReportServiceShipID_def intro: no_new_trust_then no_new_trust_frame split: sum.split)
  qed
qed

lemma entry_service_no_new_trust:
  "entry_service e h = (v, h') \<Longrightarrow> no_new_trust q h h'"
proof (rule no_new_trust_ok)
  assume e: "entry_service e h = (v, h')" and ok: "services_ok h"
  show ?thesis
  proof (cases "h' = h")
    case False
    then obtain a res g where a: "serviceForTrustedShipID (meIdentifier e) (hbRegistry h) = Some a"
      and m: "merge_service a (set_service a (SetSKI (meSki e)) h) = (res, h')"
      using e by (auto simp: entry_service_def split: option.splits if_splits prod.splits sum.splits)
    from trusted_ship_in [OF a] show ?thesis
      by (intro set_then_merge [OF _ in_use [OF ok] _ _ m]) simp_all
  qed simp
qed

lemma report_entry_no_new_trust: "no_new_trust q h (snd (report_entry parse random e h))"
proof -
  obtain v g where e: "entry_service e h = (v, g)" by (cases "entry_service e h")
  have 1: "no_new_trust q h g" by (rule entry_service_no_new_trust [OF e])
  have 2: "no_new_trust q h (set_service a (SetAutoAccept b) g)" for a b
    by (rule no_new_trust_trans [OF 1 no_new_trust_set]) simp_all
  show ?thesis using 1 no_new_trust_then [OF 2]
    by (auto simp: report_entry_def e Let_def split: option.split)
qed

lemma report_entries_no_new_trust: "no_new_trust q h (snd (report_entries parse random es h))"
proof (induction es arbitrary: h)
  case (Cons e es)
  have "no_new_trust q h (snd (report_entries parse random es (snd (report_entry parse random e h))))"
    by (rule no_new_trust_trans [OF report_entry_no_new_trust Cons.IH])
  then show ?case by (simp add: Let_def case_prod_beta)
qed simp

lemma mdns_no_new_trust: "no_new_trust q h (ReportMdnsEntries parse random es new h)"
proof -
  have "no_new_trust q h (snd (report_entries parse random es (cleanupRemovedMdnsEntries es h)))"
    by (rule no_new_trust_trans [OF no_new_trust_frame report_entries_no_new_trust]) simp_all
  then show ?thesis
    by (rule no_new_trust_then) (simp_all add: ReportMdnsEntries_def Let_def case_prod_beta)
qed

section \<open>Tasks\<close>

lemma tasks_update: "p \<in> set (AList.update t k ts) \<Longrightarrow> p = (t, k) \<or> p \<in> set ts"
  by (induction ts) (auto split: if_splits)

lemma tasks_delete: "p \<in> set (AList.delete t ts) \<Longrightarrow> p \<in> set ts"
  by (simp add: AList.delete_eq)

lemma try_hosts_tasks: "p \<in> set (hbTasks (try_hosts t ski a e xs h)) \<Longrightarrow> ctService (snd p) = a \<or> p \<in> set (hbTasks h)"
proof (induction xs arbitrary: h)
  case (Cons x xs)
  obtain r g where b: "connect_begin a h = (r, g)" by (cases "connect_begin a h")
  have "hbTasks g = hbTasks h" using connect_begin_frame(5) [of a h] unfolding b by simp
  with Cons.IH [of g] Cons.prems show ?case by (auto simp: b dest!: tasks_update split: sum.splits option.splits)
qed simp

lemma try_hosts_no_new_trust: "a < rgFresh (hbRegistry h) \<Longrightarrow> no_new_trust q h (try_hosts t ski a e xs h)"
  by (rule no_new_trust_tasks) (auto simp: services_ok_def dest: try_hosts_tasks)

lemma delay_no_new_trust: "no_new_trust q h (delay_fired i h)"
proof (rule no_new_trust_ok)
  assume ok: "services_ok h"
  have p: "no_new_trust q g (prepareConnectionInitation t ski n e g)" if "services_ok g" for t ski n e g
    using in_use [OF that find_service_in]
    by (auto simp: prepareConnectionInitation_def Let_def split: option.split
        intro!: try_hosts_no_new_trust intro: no_new_trust_frame)
  have f: "no_new_trust q h (snd (Stop_delay i h))" by (rule no_new_trust_frame) simp_all
  show ?thesis
    using p [OF no_new_trust_ok_of [OF f ok]] f
    by (auto simp: delay_fired_def split: option.split intro: no_new_trust_trans)
qed

lemma task_result_no_new_trust:
  "ctService k < rgFresh (hbRegistry h) \<Longrightarrow> no_new_trust q h (task_result t k res h)"
proof -
  assume k: "ctService k < rgFresh (hbRegistry h)"
  let ?h = "connect_end (ctDialSKI k) (h\<lparr>hbTasks := AList.delete t (hbTasks h)\<rparr>)"
  have 1: "no_new_trust q h ?h"
    by (rule no_new_trust_tasks) (auto simp: services_ok_def dest: tasks_delete)
  have 2: "no_new_trust q h (try_hosts t ski (ctService k) e xs ?h)" for ski e xs
    by (rule no_new_trust_trans [OF 1 try_hosts_no_new_trust]) (simp add: k)
  show ?thesis using 2 no_new_trust_then [OF 1]
    by (auto simp: task_result_def Let_def split: option.split)
qed

lemma task_update_no_new_trust:
  "ctService k < rgFresh (hbRegistry h) \<Longrightarrow> no_new_trust q h (h\<lparr>hbTasks := AList.update t k (hbTasks h)\<rparr>)"
  by (rule no_new_trust_tasks) (auto simp: services_ok_def dest!: tasks_update)

lemma task_in_use: "services_ok h \<Longrightarrow> map_of (hbTasks h) t = Some k \<Longrightarrow> ctService k < rgFresh (hbRegistry h)"
  by (auto simp: services_ok_def dest!: map_of_SomeD)

lemma dial_failed_no_new_trust: "no_new_trust q h (dial_failed t err h)"
proof (rule no_new_trust_ok)
  assume ok: "services_ok h"
  show ?thesis
    using task_in_use [OF ok]
    by (auto simp: dial_failed_def task_await_def split: option.split dial_stage.split
        intro!: task_update_no_new_trust task_result_no_new_trust)
qed

lemma await_no_new_trust: "no_new_trust q h (await_over t h)"
proof (rule no_new_trust_ok)
  assume ok: "services_ok h"
  show ?thesis
    using task_in_use [OF ok]
    by (auto simp: await_over_def split: option.split dial_stage.split intro!: task_result_no_new_trust)
qed

lemma fill_simps [simp]:
  "svcTrusted (fill_identifiers k f s) = svcTrusted s" "normal_service s \<Longrightarrow> normal_service (fill_identifiers k f s)"
  by (simp_all add: fill_identifiers_def Let_def)

lemma no_new_trust_start: "no_new_trust q h g \<Longrightarrow> no_new_trust q h (startShipConnection a r g)"
  by (erule no_new_trust_then) simp_all

lemma connect_established_no_new_trust:
  assumes "services_ok h" "a < rgFresh (hbRegistry h)"
    and "q \<Longrightarrow> a \<in> set (rgList (hbRegistry h)) \<or> \<not> svcTrusted (service_at h a)"
    and "connect_established sha1 sha256 a d sock certs h = (res, h')"
  shows "no_new_trust q h h' \<and> hbTasks h' = hbTasks h"
proof -
  let ?v = "validateRemoteCertificate sha1 sha256 certs (svcSKI (service_at h a)) (svcFingerprint (service_at h a))"
  let ?f = "fill_identifiers (vrRemoteSKI ?v) (vrRemoteFingerprint ?v)"
  obtain r g where m: "merge_service a (set_service a ?f h) = (r, g)" by (cases "merge_service a (set_service a ?f h)")
  have 1: "no_new_trust q h g"
    using assms(2,3) by (intro set_then_merge [OF _ _ _ _ m]) auto
  have 2: "hbTasks g = hbTasks h" using m merge_service_frame(4) [of a "set_service a ?f h"] by simp
  show ?thesis
    using assms(4) 1 2 m
    by (auto simp: connect_established_def Let_def intro: no_new_trust_call no_new_trust_start split: if_splits)
qed

lemma established_no_new_trust:
  assumes "q \<Longrightarrow> \<forall>k. map_of (hbTasks h) t = Some k \<longrightarrow>
      ctService k \<in> set (rgList (hbRegistry h)) \<or> \<not> svcTrusted (service_at h (ctService k))"
  shows "no_new_trust q h (dial_established sha1 sha256 t sock certs h)"
proof (rule no_new_trust_ok)
  assume ok: "services_ok h"
  show ?thesis
  proof (cases "map_of (hbTasks h) t")
    case None
    then show ?thesis by (simp add: dial_established_def)
  next
    case (Some k)
    note use = task_in_use [OF ok Some]
    obtain res g where c: "connect_established sha1 sha256 (ctService k) (ctDial k) sock certs h = (res, g)"
      by (cases "connect_established sha1 sha256 (ctService k) (ctDial k) sock certs h")
    have g: "no_new_trust q h g" "hbTasks g = hbTasks h"
      using connect_established_no_new_trust [OF ok use _ c] assms Some by auto
    then have use': "ctService k < rgFresh (hbRegistry g)"
      using no_new_trust_ok_of [OF g(1) ok] Some by (intro task_in_use) simp_all
    have "no_new_trust q h (task_result t k r g)" "no_new_trust q h (task_await t k b g)" for r b
      using no_new_trust_trans [OF g(1) task_result_no_new_trust [OF use']]
        no_new_trust_trans [OF g(1) task_update_no_new_trust [of "k\<lparr>ctStage := Awaiting b\<rparr>" g q t]] use'
      by (simp_all add: task_await_def)
    then show ?thesis using Some by (simp add: dial_established_def c split: sum.split)
  qed
qed

lemma new_then_merge:
  assumes "services_ok h" "normal_service s" "q \<longrightarrow> \<not> svcTrusted s"
    and n: "new_service s h = (a, g)" and m: "merge_service a g = (res, h')"
  shows "no_new_trust q h h'"
proof -
  have 1: "no_new_trust q h g" by (rule no_new_trust_new [OF n assms(2)])
  have "a < rgFresh (hbRegistry g)" "service_at g a = s" by (simp_all add: new_service_reg [OF n])
  with no_new_trust_trans [OF 1 no_new_trust_merge [OF m]] assms(3) show ?thesis by auto
qed

lemma untrusted_New: "NewServiceDetails k f i = Inr s \<Longrightarrow> \<not> svcTrusted s"
  by (auto simp: NewServiceDetails_def split: if_splits)

lemma mark_no_new_trust: "no_new_trust q h (mark_request b h)"
proof -
  have "no_new_trust q h (set_service b (\<lambda>s. SetConnectionStateDetail (SetState v (svcDetail s)) s) h)" for v
    by (rule no_new_trust_set) simp_all
  then show ?thesis by (auto simp: mark_request_def Let_def intro: no_new_trust_call)
qed

lemma accept_no_new_trust: "no_new_trust q h (accept_peer sock ski fp h)"
proof (rule no_new_trust_ok)
  assume ok: "services_ok h"
  have m: "no_new_trust q h g'" if "NewServiceDetails k f [] = Inr s" "new_service s h = (a, g)" "merge_service a g = (res, g')"
    for k f s a g res g'
    using normal_New [OF that(1)] untrusted_New [OF that(1)] by (intro new_then_merge [OF ok _ _ that(2,3)]) auto
  show ?thesis
    by (auto simp: accept_peer_def split: sum.split prod.split
        intro: no_new_trust_start no_new_trust_call no_new_trust_trans [OF m mark_no_new_trust] m)
qed

lemma serve_no_new_trust: "no_new_trust q h (snd (ServeHTTP sha1 sha256 peer upgraded h))"
  by (auto simp: ServeHTTP_def intro: accept_no_new_trust no_new_trust_call split: sum.split list.split)

lemma register_services_ok: "no_new_trust False h (RegisterRemoteService env i h)"
proof (rule no_new_trust_ok)
  assume ok: "services_ok h"
  have m: "no_new_trust False h g'" if "NewServiceDetails k f v = Inr s"
      "new_service (SetTrusted True (SetIPv4 x (SetPairingType y s))) h = (a, g)" "merge_service a g = (res, g')"
    for k f v s x y a g res g'
    using normal_New [OF that(1)] by (intro new_then_merge [OF ok _ _ that(2,3)]) auto
  show ?thesis
    by (auto simp: RegisterRemoteService_def Let_def split: sum.split prod.split option.split
        intro!: no_new_trust_call intro: m no_new_trust_then [OF m])
qed

lemma replace_trusted_ok: "replace_trusted fp h = Some g \<Longrightarrow> no_new_trust q h g"
proof -
  assume r: "replace_trusted fp h = Some g"
  have s: "no_new_trust q h (set_service a (SetTrusted False) h)" for a by (rule no_new_trust_set) simp_all
  show ?thesis
    using r no_new_trust_then [OF no_new_trust_trans [OF s no_new_trust_remove]]
    by (auto simp: replace_trusted_def Let_def split: option.splits if_splits)
qed

lemma paired_services_ok: "no_new_trust False h (OnPairingSuccess env ship fp h)"
proof (rule no_new_trust_ok)
  assume ok: "services_ok h"
  have m: "no_new_trust False h g'" if "replace_trusted fp h = Some h1" "NewServiceDetails k f v = Inr s"
      "new_service (SetPairingType x (SetTrusted True s)) h1 = (a, g)" "merge_service a g = (res, g')"
    for h1 k f v s x a g res g'
  proof -
    note 1 = replace_trusted_ok [OF that(1), of False]
    have "no_new_trust False h1 g'"
      using normal_New [OF that(2)] by (intro new_then_merge [OF no_new_trust_ok_of [OF 1 ok] _ _ that(3,4)]) auto
    with 1 show ?thesis by (rule no_new_trust_trans)
  qed
  show ?thesis
    by (auto simp: OnPairingSuccess_def Let_def split: sum.split prod.split option.split
        intro!: no_new_trust_call intro: m no_new_trust_then [OF m] replace_trusted_ok)
qed

section \<open>Where trust comes from\<close>

fun grants_trust :: "hub_event \<Rightarrow> bool" where
  "grants_trust (ERegister i) = True"
| "grants_trust (EPaired ship fp) = True"
| "grants_trust (EState c st err) = (st = SmeHelloStateOk)"
| "grants_trust e = False"

text \<open>The service a dial is for is still registered, or no longer trusted.\<close>

definition dial_current :: "hub \<Rightarrow> hub_event \<Rightarrow> bool" where
  "dial_current h e \<longleftrightarrow> (case e of
     EDialed t sock certs \<Rightarrow> (case map_of (hbTasks h) t of None \<Rightarrow> True
       | Some k \<Rightarrow> ctService k \<in> set (rgList (hbRegistry h)) \<or> \<not> svcTrusted (service_at h (ctService k)))
   | _ \<Rightarrow> True)"

lemma step_no_new_trust:
  assumes "q \<Longrightarrow> \<not> grants_trust e \<and> dial_current h e"
  shows "no_new_trust q h (hub_step env e h)"
proof (cases e)
  case (ERegister i)
  with assms show ?thesis using register_services_ok by (cases q) simp_all
next
  case (EPaired ship fp)
  with assms show ?thesis using paired_services_ok by (cases q) simp_all
next
  case (EState c st err)
  let ?g = "h\<lparr>hbObjects := (hbObjects h)(c := (hbObjects h c)\<lparr>coState := st, coError := err\<rparr>)\<rparr>"
  have "no_new_trust q h ?g" by (rule no_new_trust_frame) simp_all
  moreover have "no_new_trust q ?g (HandleShipHandshakeStateUpdate (coSKI (hbObjects h c)) st err ?g)"
    using assms EState by (intro state_no_new_trust) auto
  ultimately show ?thesis unfolding EState by (simp add: no_new_trust_trans)
next
  case (EDialed t sock certs)
  with assms show ?thesis
    by (auto simp: dial_current_def intro!: established_no_new_trust)
qed (auto intro: no_new_trust_frame unregister_no_new_trust cancel_no_new_trust shipid_no_new_trust
    mdns_no_new_trust delay_no_new_trust dial_failed_no_new_trust await_no_new_trust serve_no_new_trust)

lemma NewHub_services_ok: "NewHub port cert loc config pers reader mem = Inr h0 \<Longrightarrow> services_ok h0"
  by (auto simp: NewHub_def services_ok_def Let_def split: if_splits option.splits)

lemma reach_services_ok: "hub_reach ok h0 h \<Longrightarrow> services_ok h0 \<Longrightarrow> services_ok h"
proof (induction rule: hub_reach.induct)
  case (hub_next h e env)
  have "no_new_trust False h (hub_step env e h)" by (rule step_no_new_trust) simp
  from no_new_trust_ok_of [OF this] hub_next show ?case by blast
qed


section \<open>Examples\<close>

definition sample_env :: hub_env where
  "sample_env = \<lparr>enNow = 1, enSearch = None, enAnnounced = Inr ''i'', enUnannounced = None, enRandomBytes = None,
     enSha = (\<lambda>b. b), enHmac = (\<lambda>k m. m), enParse = (\<lambda>_. None), enSha1 = (\<lambda>_. replicate 20 CHR ''s''),
     enParseIP = (\<lambda>_. None), enRandom = (\<lambda>_. 0)\<rparr>"

definition sample_ski :: string where "sample_ski = concat (replicate 20 ''73'')"

definition sample_cert :: x509 where
  "sample_cert = \<lparr>crtRaw = ''R'', crtSubject = ''dev'', crtSubjectKeyId = replicate 20 CHR ''s'', crtPublicKey = ECDSA (Inr ''k'')\<rparr>"

definition sample_hub :: hub where
  "sample_hub = (case NewHub 4711 [''own''] (plain_service ''00'' ''own'' ''me'' False) None None True (\<lambda>_. []) of
     Inl _ \<Rightarrow> undefined | Inr h \<Rightarrow> h)"

definition ident :: "string \<Rightarrow> string \<Rightarrow> string \<Rightarrow> identity" where
  "ident ski fp ship = \<lparr>idSKI = ski, idFingerprint = fp, idShipID = ship, idPairingType = PairingTypeDefault, idIPv4 = []\<rparr>"

definition sample_entry :: mdns_entry where
  "sample_entry = \<lparr>meName = ''n'', meSki = sample_ski, meIdentifier = ''ship'', mePath = ''/ship/'', meRegister = False,
     meBrand = [], meType = [], meModel = [], meSerial = [], meCategories = [], meHost = ''host'', mePort = 4711,
     meAddresses = []\<rparr>"

definition hub_run :: "hub_event list \<Rightarrow> hub \<Rightarrow> hub" where
  "hub_run es h = fold (hub_step sample_env) es h"

lemma sample_NewHub:
  "NewHub 4711 [''own''] (plain_service ''00'' ''own'' ''me'' False) None None True (\<lambda>_. []) = Inr sample_hub"
  by (simp add: sample_hub_def NewHub_def Validate_config_def Let_def)

lemma hub_reach_run: "list_all ok es \<Longrightarrow> hub_reach ok h0 h \<Longrightarrow> hub_reach ok h0 (hub_run es h)"
  by (induction es arbitrary: h) (auto simp: hub_run_def intro: hub_next)

lemma sample_reach: "hub_reach (\<lambda>_. True) sample_hub (hub_run es sample_hub)"
  by (rule hub_reach_run [OF _ hub_start]) (simp add: list_all_iff)


end
