(* ===== verification/HubDouble.thy ===== *)
theory HubDouble
  imports HubTrust
begin

text \<open>
  Double connections (\<open>hub/hub_connections_registry.go\<close>, SHIP 12.2.2): the two ends of a double connection decide by
  their SKIs, and the registry keeps the most recent connection.
\<close>

section \<open>The order of SKIs\<close>

text \<open>Go's \<open><\<close> is a strict order in which any two different strings can be compared.\<close>

lemma string_less_lexord: "string_less xs ys \<longleftrightarrow> (map code xs, map code ys) \<in> lexord {(a, b). a < b}"
  by (induction xs ys rule: string_less.induct) (auto simp: code_eq_iff)

lemma string_less_irrefl: "\<not> string_less xs xs"
  by (induction xs) auto

lemma string_less_asym: "string_less xs ys \<Longrightarrow> \<not> string_less ys xs"
  by (induction xs ys rule: string_less.induct) auto

lemma string_less_linear: "xs \<noteq> ys \<Longrightarrow> string_less xs ys \<or> string_less ys xs"
proof (induction xs ys rule: string_less.induct)
  case (3 x xs y ys)
  then show ?case using code_eq_iff [of x y] by auto
qed (auto simp: neq_Nil_conv)

lemma decisions_differ:
  "a \<noteq> b \<Longrightarrow> resolveDoubleConnection a b = dcAdopt \<longleftrightarrow> resolveDoubleConnection b a = dcPark"
  using string_less_asym string_less_linear by (auto simp: resolveDoubleConnection_def)

section \<open>The most recent connection\<close>

definition retired_call :: "hub \<Rightarrow> nat \<Rightarrow> hub_call" where
  "retired_call h c = (if coState (hbObjects h c) = SmeStateComplete then ConnClose c True 0 ''unspecific''
     else ConnClose c False 4001 ''double connection'')"

lemma retire_call: "retire c h = call (retired_call h c) h"
  by (simp add: retire_def retired_call_def)

lemma cancel_calls [simp]: "hbCalls (cancelConnectionDelayTimer ski h) = hbCalls h"
  by (simp add: cancelConnectionDelayTimer_def Stop_delay_def setConnectionAttemptRunning_def Let_def case_prod_beta split: option.split)

lemma register_effect:
  assumes "coSKI (hbObjects h c) = ski"
  shows "map_of (hbConnections (registerConnection c h)) = (map_of (hbConnections h))(ski \<mapsto> c)"
    and "hbObjects (registerConnection c h) = hbObjects h"
    and "hbCalls (registerConnection c h) = hbCalls h
      @ (case map_of (hbConnections h) ski of None \<Rightarrow> [] | Some old \<Rightarrow> if old = c then [] else [retired_call h old])"
  using assms
  by (auto simp: registerConnection_def Let_def retire_call call_def retired_call_def update_conv' split: option.split)

lemma register_all:
  assumes "distinct (old # cs)" "\<forall>c \<in> set cs. coSKI (hbObjects h c) = ski" "map_of (hbConnections h) ski = Some old"
  shows "map_of (hbConnections (fold registerConnection cs h)) = (map_of (hbConnections h))(ski \<mapsto> last (old # cs))
     \<and> hbCalls (fold registerConnection cs h) = hbCalls h @ map (retired_call h) (butlast (old # cs))"
  using assms
proof (induction cs arbitrary: h old)
  case (Cons c cs)
  let ?h = "registerConnection c h"
  from Cons.prems have c: "coSKI (hbObjects h c) = ski" "old \<noteq> c" by auto
  note e = register_effect [OF c(1)]
  have "retired_call ?h = retired_call h" by (simp add: fun_eq_iff retired_call_def e(2))
  with Cons.IH [of c ?h] Cons.prems c(2) e show ?case by (simp add: fun_eq_iff)
qed (auto simp: fun_upd_idem)


definition three_connections :: hub where
  "three_connections = sample_hub\<lparr>hbObjects := (\<lambda>c. \<lparr>coRole = ShipRoleServer, coSKI = ''ab'', coShipID = [],
     coState = (if c = 0 then SmeStateComplete else CmiStateInitStart), coError = None\<rparr>)\<rparr>"


end
