(* ===== verification/HubLinks.thy ===== *)
theory HubLinks
  imports HubTrust
begin

text \<open>
  The connection registry of the hub: who is registered under which SKI, how many connections there are, and
  what the end of a connection does.
\<close>

section \<open>The registry holds each connection under its own SKI\<close>

definition links_ok :: "hub \<Rightarrow> bool" where
  "links_ok h \<longleftrightarrow> distinct (map fst (hbConnections h))
     \<and> (\<forall>p \<in> set (hbConnections h). coSKI (hbObjects h (snd p)) = fst p \<and> snd p < hbFreshConn h)"

lemma links_frame:
  "hbConnections h' = hbConnections h \<Longrightarrow> hbObjects h' = hbObjects h \<Longrightarrow> hbFreshConn h' = hbFreshConn h
   \<Longrightarrow> links_ok h' = links_ok h"
  by (simp add: links_ok_def)

lemma update_in: "p \<in> set (AList.update k v xs) \<Longrightarrow> p = (k, v) \<or> p \<in> set xs \<and> fst p \<noteq> k \<or> p \<in> set xs"
  by (induction xs) (auto split: if_splits)

lemma links_register:
  "links_ok h \<Longrightarrow> c < hbFreshConn h \<Longrightarrow> links_ok (registerConnection c h)"
  by (auto simp: links_ok_def registerConnection_def Let_def distinct_update split: option.split dest!: update_in)

lemma register_connections:
  "hbConnections (registerConnection c h) = AList.update (coSKI (hbObjects h c)) c (hbConnections h)"
  by (simp add: registerConnection_def Let_def split: option.split)

lemma links_start: "links_ok h \<Longrightarrow> links_ok (startShipConnection a r h)"
  unfolding startShipConnection_def Let_def
  by (rule links_register) (auto simp: links_ok_def)

lemma start_connections:
  "hbConnections (startShipConnection a r h) = AList.update (svcSKI (service_at h a)) (hbFreshConn h) (hbConnections h)"
  by (simp add: startShipConnection_def Let_def register_connections)

lemma links_unregister: "links_ok h \<Longrightarrow> links_ok (snd (UnregisterConnectionIfMatch ski c h))"
  by (auto simp: links_ok_def UnregisterConnectionIfMatch_def distinct_delete dest: tasks_delete)

lemma links_closed: "links_ok h \<Longrightarrow> links_ok (HandleConnectionClosed env c b h)"
proof -
  assume ok: "links_ok h"
  obtain w g where u: "UnregisterConnectionIfMatch (coSKI (hbObjects h c)) c h = (w, g)"
    by (cases "UnregisterConnectionIfMatch (coSKI (hbObjects h c)) c h")
  have "links_ok g" using links_unregister [OF ok, of "coSKI (hbObjects h c)" c] u by simp
  moreover have "links_ok (HandleConnectionClosed env c b h) = links_ok g"
    by (rule links_frame) (simp_all add: HandleConnectionClosed_def Let_def u split: option.split)
  ultimately show ?thesis by simp
qed

definition same_links :: "hub \<Rightarrow> hub \<Rightarrow> bool" where
  "same_links h h' \<longleftrightarrow> hbConnections h' = hbConnections h \<and> hbObjects h' = hbObjects h \<and> hbFreshConn h' = hbFreshConn h"

lemma same_links_refl [simp]: "same_links h h"
  by (simp add: same_links_def)

lemma same_links_call [simp]: "same_links h (call c g) = same_links h g"
  by (simp add: same_links_def)

lemma links_same: "same_links h h' \<Longrightarrow> links_ok h \<Longrightarrow> links_ok h'"
  by (simp add: same_links_def links_ok_def)

text \<open>An established outgoing connection either changes no connection or starts one for the merged service.\<close>

lemma established_cases:
  assumes "connect_established sha1 sha256 a d sock certs h = (res, g)"
  obtains (none) "same_links h g"
  | (started) r h2 b where "res = Inl None"
      "vrValid (validateRemoteCertificate sha1 sha256 certs (svcSKI (service_at h a)) (svcFingerprint (service_at h a)))"
      "merge_service a (set_service a (fill_identifiers
          (vrRemoteSKI (validateRemoteCertificate sha1 sha256 certs (svcSKI (service_at h a)) (svcFingerprint (service_at h a))))
          (vrRemoteFingerprint (validateRemoteCertificate sha1 sha256 certs (svcSKI (service_at h a)) (svcFingerprint (service_at h a))))) h)
        = (r, h2)"
      "b = (case r of Inl _ \<Rightarrow> a | Inr m \<Rightarrow> m)" "same_links h h2" "g = startShipConnection b ShipRoleClient h2"
proof -
  let ?v = "validateRemoteCertificate sha1 sha256 certs (svcSKI (service_at h a)) (svcFingerprint (service_at h a))"
  let ?f = "fill_identifiers (vrRemoteSKI ?v) (vrRemoteFingerprint ?v)"
  obtain r h2 where m: "merge_service a (set_service a ?f h) = (r, h2)" by (cases "merge_service a (set_service a ?f h)")
  have s: "same_links h h2" using merge_service_frame(1-3) [of a "set_service a ?f h"] by (simp add: same_links_def m)
  have eq: "connect_established sha1 sha256 a d sock certs h =
      (if \<not> vrValid ?v then (Inl (Some (Opaque (''certificate validation failed for '' @ svcSKI (service_at h a) @ '': ''
                 @ (case vrError ?v of None \<Rightarrow> ''<nil>'' | Some e \<Rightarrow> error_text e)))), call (SocketClose sock) h)
       else if wasSuperseded d h2 then (Inr (case r of Inl _ \<Rightarrow> a | Inr m \<Rightarrow> m), call (SocketClose sock) h2)
       else (Inl None, startShipConnection (case r of Inl _ \<Rightarrow> a | Inr m \<Rightarrow> m) ShipRoleClient h2))"
    unfolding connect_established_def Let_def m by (simp only: prod.case)
  consider "\<not> vrValid ?v" | "vrValid ?v" "wasSuperseded d h2" | "vrValid ?v" "\<not> wasSuperseded d h2" by blast
  then show thesis
  proof cases
    case 1
    with assms eq show thesis by (intro none) auto
  next
    case 2
    with assms eq s show thesis by (intro none) auto
  next
    case 3
    with assms eq show thesis by (intro started [OF _ 3(1) m refl s]) auto
  qed
qed

lemma links_established:
  assumes "links_ok h" "connect_established sha1 sha256 a d sock certs h = (res, g)"
  shows "links_ok g"
  using assms(2)
proof (cases rule: established_cases)
  case none
  with assms(1) show ?thesis by (rule links_same [rotated])
next
  case started
  with assms(1) show ?thesis by (auto intro: links_start links_same)
qed

lemma task_links [simp]:
  "same_links h (task_result t k r g) = same_links h g" "same_links h (task_await t k b g) = same_links h g"
  by (simp_all add: same_links_def)

lemma links_dialed: "links_ok h \<Longrightarrow> links_ok (dial_established sha1 sha256 t sock certs h)"
proof -
  assume ok: "links_ok h"
  have "links_ok (task_result t k r g)" "links_ok (task_await t k b g)"
    if "connect_established sha1 sha256 a d sock certs h = (res, g)" for k r g b a d res
    by (rule links_same [OF _ links_established [OF ok that]], simp)+
  then show ?thesis
    using ok by (auto simp: dial_established_def split: option.split prod.split sum.split)
qed

lemma service_at_call [simp]: "service_at (call c h) a = service_at h a"
  by (simp add: service_at_def)

lemma mark_links [simp]: "same_links h (mark_request b g) = same_links h g"
  by (simp add: same_links_def mark_request_def Let_def)

lemma mark_service [simp]:
  "svcSKI (service_at (mark_request b g) a) = svcSKI (service_at g a)"
  by (simp add: mark_request_def Let_def SetConnectionStateDetail_def)

text \<open>So does an accepted incoming one.\<close>

lemma accept_cases:
  obtains (none) "same_links h (accept_peer sock ski fp h)"
  | (started) s a h1 b h2 where "NewServiceDetails ski fp [] = Inr s" "new_service s h = (a, h1)"
      "merge_service a h1 = (Inr b, h2)" "same_links h h2"
      "accept_peer sock ski fp h = startShipConnection b ShipRoleServer (mark_request b h2)"
proof (cases "NewServiceDetails ski fp []")
  case (Inl e)
  then show thesis by (intro none) (simp add: accept_peer_def)
next
  case (Inr s)
  obtain a h1 where n: "new_service s h = (a, h1)" by (cases "new_service s h")
  obtain r h2 where m: "merge_service a h1 = (r, h2)" by (cases "merge_service a h1")
  have s: "same_links h h2"
    using merge_service_frame(1-3) [of a h1] new_service_frame(1-3) [of s h] by (simp add: same_links_def m n)
  show thesis
  proof (cases r)
    case (Inl e)
    then show thesis using s by (intro none) (simp add: accept_peer_def Inr n m)
  next
    case (Inr b)
    with m have m': "merge_service a h1 = (Inr b, h2)" by simp
    show thesis by (rule started [OF \<open>NewServiceDetails ski fp [] = Inr s\<close> n m' s])
      (simp add: accept_peer_def \<open>NewServiceDetails ski fp [] = Inr s\<close> n m')
  qed
qed

lemma links_accept: "links_ok h \<Longrightarrow> links_ok (accept_peer sock ski fp h)"
proof (cases rule: accept_cases [where h = h and sock = sock and ski = ski and fp = fp])
  case none
  then show "links_ok h \<Longrightarrow> ?thesis" by (rule links_same)
next
  case (started s a h1 b h2)
  then show "links_ok h \<Longrightarrow> ?thesis" using links_same [of h "mark_request b h2"] by (simp add: links_start)
qed

lemma serve_cases:
  obtains (none) "same_links h (snd (ServeHTTP sha1 sha256 peer up h))"
  | (accepted) c rest ski sock where "peer = c # rest" "SkiFromCertificate sha1 c = Inr ski"
      "int (length (hbConnections h)) < hbMaxConnections h \<or> isSkiConnected (NormalizeSKI ski) h"
      "snd (ServeHTTP sha1 sha256 peer up h) = accept_peer sock (NormalizeSKI ski) (EncodeHexUpper (sha256 (crtRaw c))) h"
proof (cases "int (length (hbConnections h)) \<ge> hbMaxConnections h \<and> \<not> isDoubleConnectionRequest sha1 peer h")
  case True
  then show thesis by (intro none) (simp add: ServeHTTP_def)
next
  case room: False
  show thesis
  proof (cases "\<exists>sock c rest ski. up = Inr (sock, ''ship'') \<and> peer = c # rest \<and> SkiFromCertificate sha1 c = Inr ski")
    case True
    then obtain sock c rest ski where *: "up = Inr (sock, ''ship'')" "peer = c # rest" "SkiFromCertificate sha1 c = Inr ski"
      by blast
    show thesis
    proof (rule accepted [OF *(2,3)])
      show "int (length (hbConnections h)) < hbMaxConnections h \<or> isSkiConnected (NormalizeSKI ski) h"
        using room * by (auto simp: isDoubleConnectionRequest_def)
      show "snd (ServeHTTP sha1 sha256 peer up h) = accept_peer sock (NormalizeSKI ski) (EncodeHexUpper (sha256 (crtRaw c))) h"
        using room by (auto simp: ServeHTTP_def * FingerprintFromCertificate_def ToUpper_EncodeHexLower)
    qed
  next
    case False
    with room show thesis
      by (intro none) (auto simp: ServeHTTP_def split: sum.split list.split)
  qed
qed

lemma links_serve: "links_ok h \<Longrightarrow> links_ok (snd (ServeHTTP sha1 sha256 peer up h))"
proof (cases rule: serve_cases [where h = h and ?sha1.0 = sha1 and ?sha256.0 = sha256 and peer = peer and up = up])
  case none
  then show "links_ok h \<Longrightarrow> ?thesis" by (rule links_same)
qed (simp add: links_accept)

section \<open>Every event\<close>

lemma merge_links: "merge_service a h = (res, g) \<Longrightarrow> same_links h g"
  using merge_service_frame(1-3) [of a h] by (simp add: same_links_def)

lemma new_links: "new_service s h = (a, g) \<Longrightarrow> same_links h g"
  using new_service_frame(1-3) [of s h] by (simp add: same_links_def)

lemma set_links [simp]: "same_links h (set_service a f g) = same_links h g"
  by (simp add: same_links_def)

lemma same_links_trans: "same_links h g \<Longrightarrow> same_links g k \<Longrightarrow> same_links h k"
  by (simp add: same_links_def)

lemma shipid_links: "same_links h (ReportServiceShipID ski ship h)"
proof -
  have m: "same_links h g" if "merge_service a (set_service a f h) = (res, g)" for a f res g
    using merge_links [OF that] by (simp add: same_links_def)
  show ?thesis
    by (auto simp: ReportServiceShipID_def split: option.split prod.split sum.split dest: m)
qed

lemma unregister_links: "same_links h (UnregisterRemoteService env i h)"
  by (simp add: same_links_def UnregisterRemoteService_def Let_def split: option.split)

lemma cancel_links: "same_links h (CancelPairing i h)"
  by (simp add: same_links_def CancelPairing_def Let_def split: option.split)

lemma register_links: "same_links h (RegisterRemoteService env i h)"
proof -
  have m: "same_links h g" if "new_service s h = (a, k)" "merge_service a k = (res, g)" for s a k res g
    using same_links_trans [OF new_links [OF that(1)] merge_links [OF that(2)]] .
  have f: "same_links h (stopPairingListener g) = same_links h g" "same_links h (checkAutoReannounce g) = same_links h g"
    "same_links h (start_replacement env s g) = same_links h g" for g s
    by (simp_all add: same_links_def)
  show ?thesis
    by (auto simp: RegisterRemoteService_def Let_def f split: option.split prod.split sum.split dest: m)
qed

lemma paired_links: "same_links h (OnPairingSuccess env ship fp h)"
proof -
  have r: "same_links h k" if "replace_trusted f h = Some k" for f k
    using that by (auto simp: replace_trusted_def Let_def same_links_def split: option.splits if_splits)
  have m: "same_links h g" if "replace_trusted f h = Some l" "new_service s l = (a, k)" "merge_service a k = (res, g)" for f l s a k res g
    using same_links_trans [OF r [OF that(1)] same_links_trans [OF new_links [OF that(2)] merge_links [OF that(3)]]] .
  have f: "same_links h (callDeviceAutoTrustRemovedCallback a x g) = same_links h g"
    "same_links h (start_replacement env s g) = same_links h g" for a x g s
    by (simp_all add: same_links_def)
  show ?thesis
    by (auto simp: OnPairingSuccess_def Let_def f split: option.split prod.split sum.split dest: m r)
qed

lemma mdns_links: "same_links h (ReportMdnsEntries p r es new h)"
proof -
  have r: "same_links g (snd (report_entry p r x g))" for x g
  proof -
    have "same_links g (snd (entry_service x g))"
      by (simp add: same_links_def entry_service_def snd_branch case_prod_beta split: option.split sum.split prod.split)
    moreover obtain v g1 where "entry_service x g = (v, g1)" by (cases "entry_service x g")
    ultimately show ?thesis
      by (simp add: same_links_def report_entry_def Let_def split: option.split)
  qed
  have "same_links g (snd (report_entries p r xs g))" for xs g
  proof (induction xs arbitrary: g)
    case (Cons x xs)
    then show ?case using r [of g x] by (simp add: same_links_def Let_def case_prod_beta)
  qed simp
  from this [of "cleanupRemovedMdnsEntries es h"] show ?thesis
    by (simp add: same_links_def ReportMdnsEntries_def Let_def case_prod_beta)
qed

lemma links_step: "links_ok h \<Longrightarrow> links_ok (hub_step env e h)"
proof (cases e)
  case (EState c st err)
  let ?g = "h\<lparr>hbObjects := (hbObjects h)(c := (hbObjects h c)\<lparr>coState := st, coError := err\<rparr>)\<rparr>"
  have "same_links ?g (HandleShipHandshakeStateUpdate ski st err ?g)" for ski
    by (simp add: same_links_def HandleShipHandshakeStateUpdate_def Let_def split: option.split)
  moreover have "links_ok h \<Longrightarrow> links_ok ?g" by (auto simp: links_ok_def)
  ultimately show "links_ok h \<Longrightarrow> ?thesis" unfolding EState by (auto intro: links_same)
next
  case (EMdns es new)
  then show "links_ok h \<Longrightarrow> ?thesis" using links_same [OF mdns_links] by simp
next
  case (ERegister i)
  then show "links_ok h \<Longrightarrow> ?thesis" using links_same [OF register_links] by simp
next
  case (EUnregister i)
  then show "links_ok h \<Longrightarrow> ?thesis" using links_same [OF unregister_links] by simp
next
  case (ECancel i)
  then show "links_ok h \<Longrightarrow> ?thesis" using links_same [OF cancel_links] by simp
next
  case (EShipID ski ship)
  then show "links_ok h \<Longrightarrow> ?thesis" using links_same [OF shipid_links] by simp
next
  case (EPaired ship fp)
  then show "links_ok h \<Longrightarrow> ?thesis" using links_same [OF paired_links] by simp
qed (auto simp: links_closed links_dialed links_serve same_links_def intro: links_same)

lemma NewHub_links: "NewHub port cert loc config pers reader mem = Inr h0 \<Longrightarrow> links_ok h0"
  by (auto simp: NewHub_def links_ok_def Let_def split: if_splits option.splits)

lemma reach_links: "hub_reach ok h0 h \<Longrightarrow> links_ok h0 \<Longrightarrow> links_ok h"
  by (induction rule: hub_reach.induct) (simp_all add: links_step)

section \<open>New connections\<close>

lemma merge_service_ski:
  assumes "services_ok h" "a < rgFresh (hbRegistry h)" "merge_service a h = (Inr b, h')" "svcSKI (service_at h a) \<noteq> []"
  shows "svcSKI (service_at h' b) = svcSKI (service_at h a)"
proof -
  from assms(3) obtain r where r: "mergeOrAddService a (hbRegistry h) = (Inr b, r)" "h' = h\<lparr>hbRegistry := r\<rparr>"
    by (auto simp: merge_service_eq)
  have n: "\<forall>x \<in> set (rgList (hbRegistry h)). normal_service (rgHeap (hbRegistry h) x)"
    "normal_service (rgHeap (hbRegistry h) a)"
    using assms(1,2) by (auto simp: services_ok_def service_at_def)
  from merge_identifiers(1) [OF n r(1)] assms(4) show ?thesis by (simp add: service_at_def r(2))
qed

lemma accept_connections:
  assumes ok: "services_ok h" and ski: "NormalizeSKI ski = ski" "ski \<noteq> []"
  shows "hbConnections (accept_peer sock ski fp h) \<in>
     {hbConnections h, AList.update ski (hbFreshConn h) (hbConnections h)}"
proof (cases rule: accept_cases [where h = h and sock = sock and ski = ski and fp = fp])
  case none
  then show ?thesis by (simp add: same_links_def)
next
  case (started s a h1 b h2)
  have "services_ok h1" by (rule no_new_trust_ok_of [OF no_new_trust_new [OF started(2) normal_New [OF started(1)]] ok])
  moreover have "a < rgFresh (hbRegistry h1)" "service_at h1 a = s" by (simp_all add: new_service_reg [OF started(2)])
  moreover have "svcSKI s = ski" using started(1) ski by (auto simp: NewServiceDetails_def split: if_splits)
  ultimately have "svcSKI (service_at h2 b) = ski" using merge_service_ski [OF _ _ started(3)] ski by simp
  with started show ?thesis by (simp add: start_connections same_links_def) (simp add: mark_request_def Let_def)
qed

lemma established_connections:
  assumes ok: "services_ok h" and a: "a < rgFresh (hbRegistry h)"
    and id: "svcSKI (service_at h a) \<noteq> [] \<or> svcFingerprint (service_at h a) \<noteq> []"
    and c: "connect_established sha1 sha256 a d sock certs h = (res, g)"
  shows "hbConnections g = hbConnections h \<or> (\<exists>c rest key. certs = c # rest \<and> crtPublicKey c = ECDSA (Inr key)
     \<and> hbConnections g = AList.update (EncodeHexLower (sha1 key)) (hbFreshConn h) (hbConnections h))"
  using c
proof (cases rule: established_cases)
  case none
  then show ?thesis by (simp add: same_links_def)
next
  case (started r h2 b)
  let ?v = "validateRemoteCertificate sha1 sha256 certs (svcSKI (service_at h a)) (svcFingerprint (service_at h a))"
  let ?f = "fill_identifiers (vrRemoteSKI ?v) (vrRemoteFingerprint ?v)"
  from certificate_checked [OF started(2)] obtain crt rest key where
    crt: "certs = crt # rest" "crtPublicKey crt = ECDSA (Inr key)"
    "vrRemoteSKI ?v = EncodeHexLower (sha1 key)" "vrRemoteFingerprint ?v = EncodeHexUpper (sha256 (crtRaw crt))"
    "svcSKI (service_at h a) \<in> {[], EncodeHexLower (sha1 key)}" "length (sha1 key) = 20"
    "svcFingerprint (service_at h a) \<in> {[], EncodeHexUpper (sha256 (crtRaw crt))}" by blast
  have ne: "EncodeHexLower (sha1 key) \<noteq> []" using crt(6) length_EncodeHexLower [of "sha1 key"] by force
  have nrm: "NormalizeSKI (EncodeHexLower (sha1 key)) = EncodeHexLower (sha1 key)"
    by (simp add: lower_hex_normal EncodeHexLower_hex)
  have ski: "svcSKI (?f (service_at h a)) = EncodeHexLower (sha1 key)"
    using crt(3-5,7) id ne nrm by (auto simp: fill_identifiers_def Let_def SetSKI_def SetFingerprint_def)
  have ok1: "services_ok (set_service a ?f h)"
    by (rule no_new_trust_ok_of [OF no_new_trust_set ok]) simp_all
  have "svcSKI (service_at h2 b) = EncodeHexLower (sha1 key)"
  proof (cases r)
    case (Inl e)
    with started(3) have "h2 = set_service a ?f h" by (auto simp: merge_service_eq dest: merge_error)
    with Inl started(4) ski show ?thesis by simp
  next
    case (Inr m)
    with started(3) have m: "merge_service a (set_service a ?f h) = (Inr m, h2)" by simp
    have "svcSKI (service_at h2 m) = svcSKI (service_at (set_service a ?f h) a)"
      by (rule merge_service_ski [OF ok1 _ m]) (use a ski ne in simp_all)
    with Inr started(4) ski show ?thesis by simp
  qed
  with crt started(5,6) show ?thesis by (simp add: start_connections same_links_def)
qed

lemma dialed_connections:
  assumes ok: "services_ok h"
    and id: "\<forall>k. map_of (hbTasks h) t = Some k \<longrightarrow>
      svcSKI (service_at h (ctService k)) \<noteq> [] \<or> svcFingerprint (service_at h (ctService k)) \<noteq> []"
  shows "hbConnections (dial_established sha1 sha256 t sock certs h) = hbConnections h
    \<or> (\<exists>c rest key. certs = c # rest \<and> crtPublicKey c = ECDSA (Inr key)
        \<and> hbConnections (dial_established sha1 sha256 t sock certs h)
          = AList.update (EncodeHexLower (sha1 key)) (hbFreshConn h) (hbConnections h))"
proof (cases "map_of (hbTasks h) t")
  case None
  then show ?thesis by (simp add: dial_established_def)
next
  case (Some k)
  obtain res g where c: "connect_established sha1 sha256 (ctService k) (ctDial k) sock certs h = (res, g)"
    by (cases "connect_established sha1 sha256 (ctService k) (ctDial k) sock certs h")
  have "hbConnections (dial_established sha1 sha256 t sock certs h) \<in> {hbConnections h, hbConnections g}"
    by (simp add: dial_established_def Some c split: sum.split)
  with established_connections [OF ok task_in_use [OF ok Some] _ c] id Some show ?thesis by auto
qed

lemma closed_connections:
  "hbConnections (HandleConnectionClosed env c b h) \<in>
    {hbConnections h, AList.delete (coSKI (hbObjects h c)) (hbConnections h)}"
  by (auto simp: HandleConnectionClosed_def UnregisterConnectionIfMatch_def Let_def split: option.split)

lemma step_connections:
  assumes "\<And>c b. e \<noteq> EClosed c b" "\<And>t s cs. e \<noteq> EDialed t s cs" "\<And>p u. e \<noteq> EServe p u"
  shows "hbConnections (hub_step env e h) = hbConnections h"
  using assms register_links [of h env] unregister_links [of h env] cancel_links [of h] shipid_links [of h]
    paired_links [of h env] mdns_links [of h]
  by (cases e) (auto simp: same_links_def HandleShipHandshakeStateUpdate_def Let_def split: option.split)

text \<open>A dialled service has an SKI or a fingerprint (\<open>NewServiceDetails\<close> sees to it).\<close>

definition dial_identified :: "hub \<Rightarrow> hub_event \<Rightarrow> bool" where
  "dial_identified h e \<longleftrightarrow> (case e of
     EDialed t sock certs \<Rightarrow> (case map_of (hbTasks h) t of None \<Rightarrow> True
       | Some k \<Rightarrow> svcSKI (service_at h (ctService k)) \<noteq> [] \<or> svcFingerprint (service_at h (ctService k)) \<noteq> [])
   | _ \<Rightarrow> True)"

text \<open>
  C21. A connection is registered only under an SKI its peer has proven: in any run of the hub, a connection
  that an event puts under an SKI belongs to a TLS session, incoming or outgoing, whose leaf certificate has a
  public key with that hash.
\<close>

theorem registered_ski_proven:
  assumes "NewHub port cert loc config pers reader mem = Inr h0" "hub_reach (\<lambda>_. True) h0 h" "dial_identified h e"
    and "map_of (hbConnections (hub_step env e h)) k = Some c" "map_of (hbConnections h) k \<noteq> Some c"
  shows "\<exists>crt rest key. crtPublicKey crt = ECDSA (Inr key) \<and> k = EncodeHexLower (enSha1 env key)
     \<and> ((\<exists>up. e = EServe (crt # rest) up) \<or> (\<exists>t sock. e = EDialed t sock (crt # rest)))"
proof -
  have ok: "services_ok h" using reach_services_ok [OF assms(2)] NewHub_services_ok [OF assms(1)] by blast
  consider (serve) p u where "e = EServe p u" | (dial) t s cs where "e = EDialed t s cs"
    | (closed) x b where "e = EClosed x b"
    using step_connections [of e env h] assms(4,5) by (cases e) auto
  then show ?thesis
  proof cases
    case serve
    show ?thesis
    proof (cases rule: serve_cases [where h = h and ?sha1.0 = "enSha1 env" and ?sha256.0 = "enSha env" and peer = p and up = u])
      case none
      with assms(4,5) serve show ?thesis by (simp add: same_links_def)
    next
      case (accepted crt rest ski sock)
      then obtain key where key: "crtPublicKey crt = ECDSA (Inr key)" "ski = EncodeHexLower (enSha1 env key)"
        by (auto simp: SkiFromCertificate_iff)
      have n: "NormalizeSKI ski = ski" "ski \<noteq> []" using SkiFromCertificate_valid [OF accepted(2)] by auto
      have "k = ski"
        using accept_connections [OF ok n, of sock "EncodeHexUpper (enSha env (crtRaw crt))"] accepted(4) assms(4,5) serve n
        by (auto simp: update_conv' split: if_splits)
      with key accepted(1) serve show ?thesis by auto
    qed
  next
    case dial
    then have "\<forall>k. map_of (hbTasks h) t = Some k \<longrightarrow>
        svcSKI (service_at h (ctService k)) \<noteq> [] \<or> svcFingerprint (service_at h (ctService k)) \<noteq> []"
      using assms(3) by (auto simp: dial_identified_def)
    from dialed_connections [OF ok this, of "enSha1 env" "enSha env" s cs] assms(4,5) dial show ?thesis
      by (auto simp: update_conv' split: if_splits)
  next
    case closed
    with closed_connections [of env x b h] assms(4,5) show ?thesis
      by (auto simp: delete_conv' split: if_splits)
  qed
qed

theorem registered_ski_proven_witness:
  "\<exists>crt rest key. crtPublicKey crt = ECDSA (Inr key) \<and> sample_ski = EncodeHexLower (enSha1 sample_env key)
     \<and> ((\<exists>up. EServe [sample_cert] (Inr (7, ''ship'')) = EServe (crt # rest) up)
        \<or> (\<exists>t sock. EServe [sample_cert] (Inr (7, ''ship'')) = EDialed t sock (crt # rest)))"
proof (rule registered_ski_proven [OF sample_NewHub sample_reach [of "[]"], of _ _ _ 0])
  show "map_of (hbConnections (hub_step sample_env (EServe [sample_cert] (Inr (7, ''ship''))) (hub_run [] sample_hub))) sample_ski = Some 0"
    by code_simp
  show "map_of (hbConnections (hub_run [] sample_hub)) sample_ski \<noteq> Some 0"
    by (simp add: hub_run_def sample_hub_def NewHub_def Validate_config_def Let_def)
qed (simp add: dial_identified_def)

section \<open>The connection limit\<close>

lemma length_update: "length (AList.update k v xs) = (if map_of xs k = None then length xs + 1 else length xs)"
  by (induction xs) auto

text \<open>An incoming connection never takes the hub over its limit: it replaces one, or there was room.\<close>

lemma incoming_capacity:
  assumes "services_ok h"
  shows "int (length (hbConnections (snd (ServeHTTP sha1 sha256 peer up h))))
    \<le> max (int (length (hbConnections h))) (hbMaxConnections h)"
proof (cases rule: serve_cases [where h = h and ?sha1.0 = sha1 and ?sha256.0 = sha256 and peer = peer and up = up])
  case none
  then show ?thesis by (simp add: same_links_def)
next
  case (accepted c rest ski sock)
  note n = SkiFromCertificate_valid [OF accepted(2)]
  with accept_connections [OF assms, of ski sock "EncodeHexUpper (sha256 (crtRaw c))"] accepted(3,4)
  show ?thesis by (auto simp: length_update isSkiConnected_def)
qed

section \<open>The end of a connection\<close>

lemma closed_timers_calls:
  "\<exists>rest. hbCalls (closed_timers env a h) = hbCalls h @ rest \<and> set rest \<subseteq> {MdnsAnnounce, MdnsRequest}"
proof -
  have "hbCalls (cancel_lifetime a h) = hbCalls h" by (simp add: cancel_lifetime_def split: option.split)
  moreover have "hbCalls (start_replacement env s g) = hbCalls g" for s g by (simp add: start_replacement_def)
  ultimately show ?thesis
    by (auto simp: closed_timers_def checkAutoReannounce_def call_def Let_def)
qed

text \<open>
  C24. Closing a connection that a newer one has replaced changes nothing; closing any other removes it, leaves
  the other connections, and tells the application exactly once that the device is disconnected, at a point
  where no connection to the device is left.
\<close>

theorem closed_connection:
  assumes "ski = coSKI (hbObjects h c)"
  shows "(map_of (hbConnections h) ski \<notin> {None, Some c} \<longrightarrow> HandleConnectionClosed env c completed h = h)
     \<and> (map_of (hbConnections h) ski \<in> {None, Some c} \<longrightarrow>
          map_of (hbConnections (HandleConnectionClosed env c completed h)) = (map_of (hbConnections h))(ski := None)
          \<and> (\<exists>i rest. hbCalls (HandleConnectionClosed env c completed h) = hbCalls h @ Disconnected i # rest
               \<and> set rest \<subseteq> {MdnsAnnounce, MdnsRequest}))"
proof (cases "map_of (hbConnections h) ski \<in> {None, Some c}")
  case False
  then show ?thesis using assms
    by (auto simp: HandleConnectionClosed_def UnregisterConnectionIfMatch_def isSkiConnected_def)
next
  case True
  obtain w g where u: "UnregisterConnectionIfMatch ski c h = (w, g)" by (cases "UnregisterConnectionIfMatch ski c h")
  have g: "map_of (hbConnections g) = (map_of (hbConnections h))(ski := None)" "hbCalls g = hbCalls h"
    using True u by (auto simp: UnregisterConnectionIfMatch_def delete_conv' fun_eq_iff split: if_splits)
  then have nc: "\<not> isSkiConnected ski g" by (simp add: isSkiConnected_def)
  define k where "k = (if completed then removeConnectionAttemptCounter ski g else g)"
  have k: "hbCalls k = hbCalls h" "hbConnections k = hbConnections g"
    using g(2) by (simp_all add: k_def removeConnectionAttemptCounter_def)
  have eq: "HandleConnectionClosed env c completed h =
      (case find_service ski [] k of
         None \<Rightarrow> call (Disconnected (SKIToServiceIdentity ski)) k
       | Some a \<Rightarrow>
           if \<not> completed \<and> \<not> svcTrusted (service_at k a) then call (Disconnected (SKIToServiceIdentity ski)) k
           else closed_timers env a (call (Disconnected (ToServiceIdentity (service_at k a))) k))"
    by (simp only: HandleConnectionClosed_def Let_def assms [symmetric] u prod.case k_def [symmetric] nc simp_thms if_False)
  have c: "hbCalls (call x k) = hbCalls h @ [x]" for x by (simp add: call_def k)
  have "\<exists>i rest. hbCalls (call (Disconnected j) k) = hbCalls h @ Disconnected i # rest \<and> set rest \<subseteq> {MdnsAnnounce, MdnsRequest}" for j
    by (simp add: c)
  moreover have "\<exists>i rest. hbCalls (closed_timers env a (call (Disconnected j) k)) = hbCalls h @ Disconnected i # rest
      \<and> set rest \<subseteq> {MdnsAnnounce, MdnsRequest}" for a j
    using closed_timers_calls [of env a "call (Disconnected j) k"] by (auto simp: c)
  ultimately have "\<exists>i rest. hbCalls (HandleConnectionClosed env c completed h) = hbCalls h @ Disconnected i # rest
      \<and> set rest \<subseteq> {MdnsAnnounce, MdnsRequest}"
    unfolding eq by (simp split: option.split)
  moreover have "map_of (hbConnections (HandleConnectionClosed env c completed h)) = (map_of (hbConnections h))(ski := None)"
    unfolding eq using g(1) k(2) by (simp split: option.split)
  ultimately show ?thesis using True by blast
qed

theorem closed_connection_witness:
  "hbCalls (HandleConnectionClosed sample_env 0 True
     (hub_run [EServe [sample_cert] (Inr (7, ''ship'')), EServe [sample_cert] (Inr (8, ''ship''))] sample_hub))
   = [ConnClose 0 False 4001 ''double connection'']"
proof -
  let ?h = "hub_run [EServe [sample_cert] (Inr (7, ''ship'')), EServe [sample_cert] (Inr (8, ''ship''))] sample_hub"
  have "let h = ?h in sample_ski = coSKI (hbObjects h 0) \<and> map_of (hbConnections h) sample_ski \<notin> {None, Some 0}
      \<and> hbCalls h = [ConnClose 0 False 4001 ''double connection'']" by code_simp
  then have h: "sample_ski = coSKI (hbObjects ?h 0)" "map_of (hbConnections ?h) sample_ski \<notin> {None, Some 0}"
    "hbCalls ?h = [ConnClose 0 False 4001 ''double connection'']" unfolding Let_def by blast+
  with closed_connection [OF h(1), of sample_env True] have "HandleConnectionClosed sample_env 0 True ?h = ?h" by blast
  with h(3) show ?thesis by (simp only:)
qed

end
