(* ===== verification/HubTakeover.thy ===== *)
theory HubTakeover
  imports HubLinks
begin

text \<open>
  What a successful pairing and the removal of a device do to the trusted devices of the hub
  (\<open>OnPairingSuccess\<close> and \<open>UnregisterRemoteService\<close> in \<open>hub/hub_pairing.go\<close>).
\<close>

section \<open>Removing an entry\<close>

lemma remove_at_set: "distinct xs \<Longrightarrow> i < length xs \<Longrightarrow> set (remove_at i xs) = set xs - {xs ! i}"
proof -
  assume d: "distinct xs" and i: "i < length xs"
  have e: "xs = take i xs @ xs ! i # drop (Suc i) xs" using id_take_nth_drop [OF i] .
  with d have "xs ! i \<notin> set (take i xs) \<union> set (drop (Suc i) xs)" by (metis UnE disjoint_iff distinct.simps(2) distinct_append list.set_intros(1))
  moreover have "set xs = insert (xs ! i) (set (take i xs) \<union> set (drop (Suc i) xs))"
    by (subst e) auto
  ultimately show ?thesis by (auto simp: remove_at_def)
qed

lemma remove_entry_set: "distinct (rgList r) \<Longrightarrow> set (rgList (removeServiceEntry a r)) = set (rgList r) - {a}"
  using find_index_Some [of "\<lambda>x. x = a" "rgList r"] find_index_None [of "\<lambda>x. x = a" "rgList r"]
  by (auto simp: removeServiceEntry_def remove_at_set split: option.split)

section \<open>Pairing\<close>

lemma gather_type:
  "svcPairingType (gather ss d) = PairingTypeAddCu \<longleftrightarrow> (\<exists>s \<in> insert d (set ss). svcPairingType s = PairingTypeAddCu)"
  by (induction ss arbitrary: d) auto

lemma trusted_device_in:
  "GetTrustedAddCuDevice (hbRegistry h) = Some old \<Longrightarrow> trusted_entry h old"
  by (auto simp: GetTrustedAddCuDevice_def trusted_entry_def service_at_def dest!: find_Some_in)

text \<open>A merge of a new, trusted candidate trusts no entry but the one that takes its fingerprint.\<close>

lemma merge_trusted_candidate:
  assumes ok: "services_ok h" and n: "new_service s h = (a, g)" "normal_service s"
    and m: "merge_service a g = (res, h')" and t: "trusted_entry h' b" "\<not> trusted_entry h b"
    and fp: "svcFingerprint s \<noteq> []" and ty: "svcPairingType s = PairingTypeAddCu"
  shows "ToUpper (svcFingerprint (service_at h' b)) = ToUpper (svcFingerprint s)
     \<and> svcPairingType (service_at h' b) = PairingTypeAddCu"
proof -
  note new = new_service_reg [OF n(1)]
  from m obtain r where r: "mergeOrAddService a (hbRegistry g) = (res, r)" "h' = g\<lparr>hbRegistry := r\<rparr>"
    by (auto simp: merge_service_eq)
  have fresh: "a \<notin> set (rgList (hbRegistry g))" using ok new by (auto simp: services_ok_def)
  have s: "rgHeap (hbRegistry g) a = s" using new(5) [of a] by (simp add: service_at_def)
  have keep: "rgHeap (hbRegistry g) x = service_at h x" if "x \<in> set (rgList (hbRegistry g))" for x
    using that fresh new(5) [of x] by (auto simp: service_at_def)
  have nn: "\<forall>x \<in> set (rgList (hbRegistry g)). normal_service (rgHeap (hbRegistry g) x)"
    using ok keep by (simp add: services_ok_def new(2))
  have nt: "\<not> (b \<in> set (rgList (hbRegistry g)) \<and> svcTrusted (rgHeap (hbRegistry g) b))"
    using t(2) keep [of b] by (auto simp: trusted_entry_def new(2))
  have tb: "b \<in> set (rgList r)" "svcTrusted (rgHeap r b)" using t(1) by (simp_all add: trusted_entry_def service_at_def r(2))
  show ?thesis
  proof (cases res)
    case (Inl e)
    with r(1) merge_error nt tb show ?thesis by auto
  next
    case (Inr can)
    note m' = r(1) [unfolded Inr]
    have "b = can \<and> svcPairingType (rgHeap r can) = PairingTypeAddCu"
      using m'
    proof (cases rule: merge_cases)
      case added
      with nt tb s ty show ?thesis by auto
    next
      case merged
      have c: "can \<noteq> a" using merged(1) fresh by (auto simp: matched_iff)
      have "b = can" using nt tb merged(2,3) by (cases "b = can") auto
      moreover have "s \<in> set (absorbed_services a can (hbRegistry g))" using c s by (simp add: absorbed_services_def)
      ultimately show ?thesis using merged(3) ty by (auto simp: gather_type)
    qed
    moreover have "normal_service (rgHeap (hbRegistry g) a)" using n(2) s by simp
    ultimately show ?thesis using merge_identifiers(2) [OF nn _ m'] fp s by (simp add: service_at_def r(2))
  qed
qed

lemma replace_trusted_cases:
  assumes ok: "services_ok h" and r: "replace_trusted fp h = Some g"
  shows "services_ok g \<and> (\<forall>a. trusted_entry g a \<longrightarrow> trusted_entry h a) \<and> rgFresh (hbRegistry g) = rgFresh (hbRegistry h)
    \<and> (\<forall>old. GetTrustedAddCuDevice (hbRegistry h) = Some old \<and> svcFingerprint (service_at h old) \<noteq> fp \<longrightarrow>
         old \<notin> set (rgList (hbRegistry g)) \<and> \<not> IsInReplacementWindow (hbReplacement h))"
proof -
  have 1: "services_ok g \<and> (\<forall>a. trusted_entry g a \<longrightarrow> trusted_entry h a)"
    using replace_trusted_ok [OF r, of True] ok by (simp add: no_new_trust_def)
  have d: "distinct (rgList (hbRegistry h))" using ok by (simp add: services_ok_def)
  show ?thesis
  proof (cases "GetTrustedAddCuDevice (hbRegistry h)")
    case None
    with r 1 show ?thesis by (simp add: replace_trusted_def)
  next
    case (Some old)
    then have "svcShipID (service_at h old) \<noteq> []"
      by (auto simp: GetTrustedAddCuDevice_def service_at_def dest!: find_Some_in)
    with r 1 Some d show ?thesis
      by (auto simp: replace_trusted_def Let_def remove_entry_reg(2) remove_entry_set split: if_splits)
  qed
qed

lemma trust_frame: "hbRegistry h' = hbRegistry h \<Longrightarrow> trusted_entry h' a = trusted_entry h a \<and> service_at h' a = service_at h a"
  by (simp add: trusted_entry_def service_at_def)

lemma paired_shape:
  obtains (same) "TrimSpace fp = [] \<or> replace_trusted fp h = None" "OnPairingSuccess env ship fp h = h"
  | (dropped) g where "replace_trusted fp h = Some g" "OnPairingSuccess env ship fp h = g"
  | (merged) g s a k res l where "replace_trusted fp h = Some g" "NewServiceDetails [] fp ship = Inr s"
      "new_service (SetPairingType PairingTypeAddCu (SetTrusted True s)) g = (a, k)" "merge_service a k = (res, l)"
      "hbRegistry (OnPairingSuccess env ship fp h) = hbRegistry l"
proof (cases "TrimSpace fp = []")
  case True
  then show thesis by (intro same) (simp_all add: OnPairingSuccess_def)
next
  case blank: False
  show thesis
  proof (cases "replace_trusted fp h")
    case None
    then show thesis by (intro same) (simp_all add: OnPairingSuccess_def Let_def)
  next
    case g: (Some g)
    show thesis
    proof (cases "NewServiceDetails [] fp ship")
      case (Inl e)
      then show thesis using blank g by (intro dropped) (simp_all add: OnPairingSuccess_def Let_def)
    next
      case s: (Inr s)
      obtain a k where n: "new_service (SetPairingType PairingTypeAddCu (SetTrusted True s)) g = (a, k)"
        by (cases "new_service (SetPairingType PairingTypeAddCu (SetTrusted True s)) g")
      obtain res l where m: "merge_service a k = (res, l)" by (cases "merge_service a k")
      show thesis
        by (rule merged [OF g s n m]) (use blank g in \<open>simp add: OnPairingSuccess_def Let_def s n m split: sum.split option.split\<close>)
    qed
  qed
qed

text \<open>The merge of the new device gives trust to it only, and does not bring the old one back.\<close>

lemma merged_pairing:
  assumes ok: "services_ok h" and r: "replace_trusted fp h = Some g" and sv: "NewServiceDetails [] fp ship = Inr s"
    and n: "new_service (SetPairingType PairingTypeAddCu (SetTrusted True s)) g = (a, k)"
    and m: "merge_service a k = (res, l)" and reg: "hbRegistry h' = hbRegistry l"
  shows "(trusted_entry h' b \<and> \<not> trusted_entry h b \<longrightarrow>
            ToUpper (svcFingerprint (service_at h' b)) = ToUpper fp \<and> svcPairingType (service_at h' b) = PairingTypeAddCu)
     \<and> (GetTrustedAddCuDevice (hbRegistry h) = Some old \<and> svcFingerprint (service_at h old) \<noteq> fp \<longrightarrow> \<not> trusted_entry h' old)"
proof -
  note g = replace_trusted_cases [OF ok r]
  have s: "normal_service (SetPairingType PairingTypeAddCu (SetTrusted True s))" using normal_New [OF sv] by simp
  have sf: "svcFingerprint (SetPairingType PairingTypeAddCu (SetTrusted True s)) = fp" "fp \<noteq> []"
    "svcPairingType (SetPairingType PairingTypeAddCu (SetTrusted True s)) = PairingTypeAddCu"
    using sv by (auto simp: NewServiceDetails_def service_setters split: if_splits)
  note new = merge_trusted_candidate [OF conjunct1 [OF g] n s m]
  from m obtain q where q: "mergeOrAddService a (hbRegistry k) = (res, q)" "l = k\<lparr>hbRegistry := q\<rparr>"
    by (auto simp: merge_service_eq)
  note nr = new_service_reg [OF n]
  have "services_ok k" by (rule no_new_trust_ok_of [OF no_new_trust_new [OF n s] conjunct1 [OF g]])
  then have "set (rgList q) \<subseteq> insert a (set (rgList (hbRegistry k)))"
    using merge_addresses [OF q(1)] nr(1,3) by (simp add: services_ok_def service_at_def)
  then have sub: "set (rgList (hbRegistry l)) \<subseteq> insert (rgFresh (hbRegistry h)) (set (rgList (hbRegistry g)))"
    using nr(1,2) g by (simp add: q(2))
  have "\<not> trusted_entry h' old"
    if "GetTrustedAddCuDevice (hbRegistry h) = Some old" "svcFingerprint (service_at h old) \<noteq> fp"
  proof -
    have "old < rgFresh (hbRegistry h)"
      using trusted_device_in [OF that(1)] ok by (auto simp: trusted_entry_def services_ok_def)
    with g sub that have "old \<notin> set (rgList (hbRegistry l))" by fastforce
    then show ?thesis using reg by (simp add: trusted_entry_def)
  qed
  moreover have "ToUpper (svcFingerprint (service_at h' b)) = ToUpper fp \<and> svcPairingType (service_at h' b) = PairingTypeAddCu"
    if "trusted_entry h' b" "\<not> trusted_entry h b"
    using new [of b] g that trust_frame [OF reg] sf by auto
  ultimately show ?thesis by blast
qed



section \<open>Removing a device\<close>

lemma not_blank_ToServiceDetails:
  "NormalizeSKI (idSKI i) \<noteq> [] \<Longrightarrow> \<exists>s. lookup_service i = Some s \<and> svcSKI s = NormalizeSKI (idSKI i)"
  by (auto simp: lookup_service_def ToServiceDetails_def NewServiceDetails_def Let_def service_setters)

text \<open>
  C23. Removing a device takes effect at once: the entry that the identity finds is no longer registered, the
  trust of every other entry is as before, and when the identity has the SKI of a connection, that connection
  is told to close.
\<close>

theorem unregister_removes:
  assumes "NewHub port cert loc config pers reader mem = Inr h0" "hub_reach (\<lambda>_. True) h0 h"
    and "serviceFor i h = Some a"
  shows "a \<notin> set (rgList (hbRegistry (UnregisterRemoteService env i h)))
     \<and> (\<forall>b. b \<noteq> a \<longrightarrow> trusted_entry (UnregisterRemoteService env i h) b = trusted_entry h b)
     \<and> (\<forall>c. NormalizeSKI (idSKI i) \<noteq> [] \<and> map_of (hbConnections h) (NormalizeSKI (idSKI i)) = Some c \<longrightarrow>
          last (hbCalls (UnregisterRemoteService env i h)) = ConnClose c True 4500 ''User close'')"
proof -
  have ok: "services_ok h" using reach_services_ok [OF assms(2)] NewHub_services_ok [OF assms(1)] by blast
  let ?g = "removeConnectionAttemptCounter (idSKI i) (drop_service env i a h)"
  let ?h' = "UnregisterRemoteService env i h"
  have reg: "hbRegistry ?h' = removeServiceEntry a (hbRegistry (set_service a distrust h))"
    by (simp add: UnregisterRemoteService_def Let_def assms(3) split: option.split)
  have d: "distinct (rgList (hbRegistry h))" using ok by (simp add: services_ok_def)
  have l: "set (rgList (hbRegistry ?h')) = set (rgList (hbRegistry h)) - {a}"
    unfolding reg using d by (subst remove_entry_set) simp_all
  have at: "service_at ?h' b = (if b = a then distrust (service_at h a) else service_at h b)" for b
    unfolding service_at_def reg remove_entry_reg(1) by (simp flip: service_at_def)
  have close: "last (hbCalls ?h') = ConnClose c True 4500 ''User close''"
    if k: "NormalizeSKI (idSKI i) \<noteq> []" "map_of (hbConnections h) (NormalizeSKI (idSKI i)) = Some c" for c
  proof -
    obtain s where s: "lookup_service i = Some s" "svcSKI s = NormalizeSKI (idSKI i)"
      using not_blank_ToServiceDetails [OF k(1)] by blast
    have "connectionForService (lookup_service i) ?g = Some c"
      using k by (simp add: connectionForService_def s)
    then have "?h' = call (ConnClose c True 4500 ''User close'') ?g"
      by (simp add: UnregisterRemoteService_def Let_def assms(3))
    then show ?thesis by (simp add: call_def)
  qed
  show ?thesis using l at close by (auto simp: trusted_entry_def)
qed

theorem unregister_removes_witness:
  "last (hbCalls (UnregisterRemoteService sample_env (ident sample_ski [] [])
     (hub_run [EServe [sample_cert] (Inr (7, ''ship''))] sample_hub))) = ConnClose 0 True 4500 ''User close''"
proof -
  let ?h = "hub_run [EServe [sample_cert] (Inr (7, ''ship''))] sample_hub"
  have "let h = ?h; i = ident sample_ski [] [] in serviceFor i h = Some 0 \<and> NormalizeSKI (idSKI i) \<noteq> []
      \<and> map_of (hbConnections h) (NormalizeSKI (idSKI i)) = Some 0" by code_simp
  then have s: "serviceFor (ident sample_ski [] []) ?h = Some 0" and "NormalizeSKI (idSKI (ident sample_ski [] [])) \<noteq> []
      \<and> map_of (hbConnections ?h) (NormalizeSKI (idSKI (ident sample_ski [] []))) = Some 0" unfolding Let_def by blast+
  with unregister_removes [OF sample_NewHub sample_reach s, of sample_env] show ?thesis by blast
qed

text \<open>
  An identity without the SKI, as for a device known by its fingerprint and SHIP ID, also finds the entry; but
  its connection is looked up through the entry that was just removed, is not found and stays open.
\<close>

theorem unregister_leaves_connection:
  "let h = UnregisterRemoteService sample_env (ident [] ''52'' ''ship'')
       (hub_run [ERegister (ident [] ''52'' ''ship''), EServe [sample_cert] (Inr (7, ''ship''))] sample_hub)
   in hbConnections h = [(sample_ski, 0)] \<and> rgList (hbRegistry h) = []
     \<and> list_all (\<lambda>c. c \<noteq> ConnClose 0 True 4500 ''User close'') (hbCalls h)"
  by code_simp

end
