(* ===== verification/HubAttempts.thy ===== *)
theory HubAttempts
  imports HubTakeover
begin

text \<open>
  The connection attempts of the hub are never stuck: as long as an attempt for an SKI is marked as running,
  so that mDNS reports start no other, a delay timer is armed for it or a task works on it, and the timer and
  the failures of the network alone bring it to its end.
\<close>

section \<open>The invariant\<close>

definition pending :: "string \<Rightarrow> hub \<Rightarrow> bool" where
  "pending ski h \<longleftrightarrow>
     (\<exists>i f. (i, ski, f) \<in> set (tmArmed (hbDelays h)) \<and> map_of (hbDelayTimers h) ski = Some i)
     \<or> (\<exists>t k. map_of (hbTasks h) t = Some k \<and> ctSki k = ski)"

text \<open>Only the SKIs in \<open>S\<close> may be stuck.\<close>

definition attempts_but :: "string set \<Rightarrow> hub \<Rightarrow> bool" where
  "attempts_but S h \<longleftrightarrow>
     distinct (map fst (tmArmed (hbDelays h)))
     \<and> (\<forall>p \<in> set (tmArmed (hbDelays h)). fst p < tmFresh (hbDelays h))
     \<and> (\<forall>p \<in> set (hbTasks h). fst p < tmFresh (hbDelays h) \<and> fst p \<notin> fst ` set (tmArmed (hbDelays h)))
     \<and> (\<forall>ski i. map_of (hbDelayTimers h) ski = Some i \<longrightarrow> i < tmFresh (hbDelays h)
          \<and> (\<forall>p \<in> set (tmArmed (hbDelays h)). fst p = i \<longrightarrow> fst (snd p) = ski))
     \<and> (\<forall>ski. isConnectionAttemptRunning ski h \<and> ski \<notin> S \<longrightarrow> pending ski h)"

abbreviation attempts_ok :: "hub \<Rightarrow> bool" where "attempts_ok \<equiv> attempts_but {}"

lemma attempts_frame:
  "hbAttemptRunning h' = hbAttemptRunning h \<Longrightarrow> hbDelays h' = hbDelays h \<Longrightarrow> hbDelayTimers h' = hbDelayTimers h
   \<Longrightarrow> hbTasks h' = hbTasks h \<Longrightarrow> attempts_but S h' = attempts_but S h"
  by (simp add: attempts_but_def pending_def isConnectionAttemptRunning_def)

lemma attempts_running:
  "isConnectionAttemptRunning k (setConnectionAttemptRunning ski v h) = (if k = ski then v else isConnectionAttemptRunning k h)"
  by (simp add: isConnectionAttemptRunning_def setConnectionAttemptRunning_def update_conv')

lemma pending_running [simp]: "pending k (setConnectionAttemptRunning ski v h) = pending k h"
  by (simp add: pending_def)

lemma attempts_clear: "attempts_but (insert ski S) h \<Longrightarrow> attempts_but S (setConnectionAttemptRunning ski False h)"
  by (simp add: attempts_but_def attempts_running)

lemma attempts_set: "attempts_but S h \<Longrightarrow> attempts_but (insert ski S) (setConnectionAttemptRunning ski v h)"
  by (simp add: attempts_but_def attempts_running)

lemma attempts_mono: "attempts_but S h \<Longrightarrow> S \<subseteq> T \<Longrightarrow> attempts_but T h"
  by (auto simp: attempts_but_def)

lemma attempts_settled: "attempts_but (insert ski S) h \<Longrightarrow> \<not> isConnectionAttemptRunning ski h \<or> pending ski h \<Longrightarrow> attempts_but S h"
  by (auto simp: attempts_but_def)

lemma attempts_facts:
  assumes "attempts_but S h"
  shows "distinct (map fst (tmArmed (hbDelays h)))"
    and "(i, f) \<in> set (tmArmed (hbDelays h)) \<Longrightarrow> i < tmFresh (hbDelays h)"
    and "map_of (hbTasks h) t = Some k \<Longrightarrow> t < tmFresh (hbDelays h)"
    and "map_of (hbTasks h) t = Some k \<Longrightarrow> t \<notin> fst ` set (tmArmed (hbDelays h))"
    and "map_of (hbDelayTimers h) ski = Some i \<Longrightarrow> i < tmFresh (hbDelays h)"
    and "map_of (hbDelayTimers h) ski = Some i \<Longrightarrow> (i, x, f') \<in> set (tmArmed (hbDelays h)) \<Longrightarrow> x = ski"
proof -
  note d = assms [unfolded attempts_but_def]
  show "distinct (map fst (tmArmed (hbDelays h)))" using d by blast
  show "i < tmFresh (hbDelays h)" if "(i, f) \<in> set (tmArmed (hbDelays h))"
    using d that by (metis fst_conv)
  show "t < tmFresh (hbDelays h)" "t \<notin> fst ` set (tmArmed (hbDelays h))" if "map_of (hbTasks h) t = Some k"
    using d map_of_SomeD [OF that] by (metis fst_conv)+
  show "i < tmFresh (hbDelays h)" if "map_of (hbDelayTimers h) ski = Some i" using d that by blast
  show "x = ski" if "map_of (hbDelayTimers h) ski = Some i" "(i, x, f') \<in> set (tmArmed (hbDelays h))"
    using d that by (metis fst_conv snd_conv)
qed

section \<open>Timers\<close>

lemma delay_stop:
  assumes "attempts_but S h" and "\<And>k f. (i, k, f) \<in> set (tmArmed (hbDelays h)) \<Longrightarrow> k = ski"
  shows "attempts_but (insert ski S) (snd (Stop_delay i h))"
proof -
  have "pending x (snd (Stop_delay i h))" if "pending x h" "x \<noteq> ski" for x
  proof -
    have "j \<noteq> i" if "(j, x, f) \<in> set (tmArmed (hbDelays h))" for j f
      using assms(2) [of x f] that \<open>x \<noteq> ski\<close> by auto
    with \<open>pending x h\<close> show ?thesis
      by (auto simp: pending_def Stop_delay_def timer_Stop_def case_prod_beta)
  qed
  with assms(1) show ?thesis
    by (auto simp: attempts_but_def Stop_delay_def timer_Stop_def case_prod_beta distinct_map_filter
        isConnectionAttemptRunning_def)
qed

lemmas delay_owner = attempts_facts(6)

lemma delay_not_armed:
  "i \<notin> fst ` set (tmArmed (hbDelays h)) \<Longrightarrow> tmArmed (hbDelays (snd (Stop_delay i h))) = tmArmed (hbDelays h)"
  by (force simp: Stop_delay_def timer_Stop_def case_prod_beta intro!: filter_True)

lemma stop_delay_rest [simp]:
  "tmFresh (hbDelays (snd (Stop_delay i h))) = tmFresh (hbDelays h)"
  "i \<notin> fst ` set (tmArmed (hbDelays (snd (Stop_delay i h))))"
  "fst (Stop_delay i h) = (i \<in> fst ` set (tmArmed (hbDelays h)))"
  "isConnectionAttemptRunning k (snd (Stop_delay i h)) = isConnectionAttemptRunning k h"
  by (auto simp: Stop_delay_def timer_Stop_def case_prod_beta isConnectionAttemptRunning_def)

lemma drop_table:
  "attempts_but S h \<Longrightarrow> attempts_but (insert ski S) (h\<lparr>hbDelayTimers := AList.delete ski (hbDelayTimers h)\<rparr>)"
  by (auto simp: attempts_but_def pending_def isConnectionAttemptRunning_def delete_conv')

lemma attempts_cancel:
  assumes "attempts_but S h"
  shows "attempts_but S (cancelConnectionDelayTimer ski h)"
proof (cases "map_of (hbDelayTimers h) ski")
  case None
  then show ?thesis using assms by (simp add: cancelConnectionDelayTimer_def)
next
  case (Some i)
  let ?h1 = "snd (Stop_delay i h)" and ?d = "\<lambda>h. h\<lparr>hbDelayTimers := AList.delete ski (hbDelayTimers h)\<rparr>"
  have s: "attempts_but (insert ski S) ?h1" using assms delay_owner [OF assms Some] by (rule delay_stop)
  show ?thesis
  proof (cases "i \<in> fst ` set (tmArmed (hbDelays h))")
    case True
    have "attempts_but (insert ski S) (?d (setConnectionAttemptRunning ski False ?h1))"
      using drop_table [OF attempts_clear [OF s], of ski] .
    then have "attempts_but S (?d (setConnectionAttemptRunning ski False ?h1))"
      by (rule attempts_settled) (simp add: isConnectionAttemptRunning_def setConnectionAttemptRunning_def update_conv')
    with True Some show ?thesis by (simp add: cancelConnectionDelayTimer_def case_prod_beta Let_def)
  next
    case False
    have "attempts_but (insert ski S) (?d ?h1)" using drop_table [OF s, of ski] by simp
    moreover have "pending ski (?d ?h1)" if "pending ski h"
      using that Some False by (auto simp: pending_def delay_not_armed image_iff Bex_def)
    ultimately have "attempts_but S (?d ?h1)"
      using assms by (cases "ski \<in> S") (auto simp: insert_absorb attempts_but_def isConnectionAttemptRunning_def)
    with False Some show ?thesis by (simp add: cancelConnectionDelayTimer_def case_prod_beta Let_def)
  qed
qed

lemma attempts_put_timer:
  assumes "attempts_but (insert ski S) g" "(i, ski, f) \<in> set (tmArmed (hbDelays g))"
  shows "attempts_but S (g\<lparr>hbDelayTimers := AList.update ski i (hbDelayTimers g)\<rparr>)"
proof -
  let ?g = "g\<lparr>hbDelayTimers := AList.update ski i (hbDelayTimers g)\<rparr>"
  note facts = attempts_facts [OF assms(1)]
  have own: "fst (snd p) = ski" if "p \<in> set (tmArmed (hbDelays g))" "fst p = i" for p
    using eq_key_imp_eq_value [OF facts(1) assms(2), of "snd p"] that by (metis fst_conv prod.collapse)
  have "pending x ?g" if "pending x g" "x \<noteq> ski" for x
    using that by (simp add: pending_def update_conv')
  then have "attempts_but (insert ski S) ?g"
    using assms(1) own facts(2) [OF assms(2)]
    by (simp add: attempts_but_def isConnectionAttemptRunning_def update_conv')
  moreover have "pending ski ?g" using assms(2) by (cases f) (auto simp: pending_def update_conv')
  ultimately show ?thesis by (rule attempts_settled [OF _ disjI2])
qed

lemma attempts_new_timer:
  assumes "attempts_but S h" "newConnectionDelayTimer (ski, f) h = (i, g)"
  shows "attempts_but S g" "i = tmFresh (hbDelays h)" "(i, ski, f) \<in> set (tmArmed (hbDelays g))"
    "hbDelayTimers g = hbDelayTimers h"
proof -
  have g: "g = h\<lparr>hbDelays := (hbDelays h)\<lparr>tmFresh := tmFresh (hbDelays h) + 1,
      tmArmed := tmArmed (hbDelays h) @ [(tmFresh (hbDelays h), ski, f)]\<rparr>\<rparr>" "i = tmFresh (hbDelays h)"
    using assms(2) by (auto simp: newConnectionDelayTimer_def AfterFunc_def Let_def)
  show "i = tmFresh (hbDelays h)" "(i, ski, f) \<in> set (tmArmed (hbDelays g))" "hbDelayTimers g = hbDelayTimers h"
    by (simp_all add: g)
  have "pending x g" if "pending x h" for x using that by (auto simp: pending_def g(1))
  then show "attempts_but S g"
    using assms(1) unfolding attempts_but_def g(1) by (auto simp: isConnectionAttemptRunning_def less_Suc_eq)
qed

lemma attempts_store:
  assumes "attempts_but (insert ski S) h" "newConnectionDelayTimer (ski, f) h = (i, h3)"
  shows "attempts_but S (storeConnectionDelayTimer ski i h3)"
proof (cases "map_of (hbDelayTimers h3) ski")
  case None
  then show ?thesis using attempts_put_timer attempts_new_timer(1,3) [OF assms] by (simp add: storeConnectionDelayTimer_def)
next
  case (Some j)
  note new = attempts_new_timer [OF assms]
  have "attempts_but (insert ski S) (snd (Stop_delay j h3))"
    using delay_stop [OF new(1) delay_owner [OF new(1) Some]] by simp
  moreover have "j \<noteq> i" using attempts_facts(5) [OF assms(1), of ski j] Some new(2,4) by auto
  then have "(i, ski, f) \<in> set (tmArmed (hbDelays (snd (Stop_delay j h3))))"
    using new(3) by (simp add: Stop_delay_def timer_Stop_def case_prod_beta)
  ultimately have "attempts_but S ((snd (Stop_delay j h3))\<lparr>hbDelayTimers :=
      AList.update ski i (hbDelayTimers (snd (Stop_delay j h3)))\<rparr>)" by (rule attempts_put_timer)
  with Some show ?thesis by (simp add: storeConnectionDelayTimer_def)
qed

section \<open>Tasks\<close>

definition same_attempts :: "hub \<Rightarrow> hub \<Rightarrow> bool" where
  "same_attempts h h' \<longleftrightarrow> hbAttemptRunning h' = hbAttemptRunning h \<and> hbDelays h' = hbDelays h
     \<and> hbDelayTimers h' = hbDelayTimers h \<and> hbTasks h' = hbTasks h"

lemma attempts_same: "same_attempts h h' \<Longrightarrow> attempts_but S h' = attempts_but S h"
  by (rule attempts_frame) (simp_all add: same_attempts_def)

lemma attempts_put:
  assumes "attempts_but (insert ski S) h" "t < tmFresh (hbDelays h)" "t \<notin> fst ` set (tmArmed (hbDelays h))"
    and "ctSki k = ski" "\<And>k0. map_of (hbTasks h) t = Some k0 \<Longrightarrow> ctSki k0 = ski"
  shows "attempts_but S (h\<lparr>hbTasks := AList.update t k (hbTasks h)\<rparr>)"
proof -
  let ?g = "h\<lparr>hbTasks := AList.update t k (hbTasks h)\<rparr>"
  have "pending x ?g" if "pending x h" "x \<noteq> ski" for x
  proof (cases "\<exists>u k. map_of (hbTasks h) u = Some k \<and> ctSki k = x")
    case True
    then obtain u k1 where "map_of (hbTasks h) u = Some k1" "ctSki k1 = x" by blast
    then have "map_of (hbTasks ?g) u = Some k1" using assms(5) that(2) by (auto simp: update_conv')
    with \<open>ctSki k1 = x\<close> show ?thesis unfolding pending_def by blast
  qed (use that in \<open>auto simp: pending_def\<close>)
  moreover have "\<forall>p \<in> set (AList.update t k (hbTasks h)). fst p < tmFresh (hbDelays h)
      \<and> fst p \<notin> fst ` set (tmArmed (hbDelays h))"
    using update_in [of _ t k "hbTasks h"] assms(1-3) unfolding attempts_but_def by (metis fst_conv)
  ultimately have "attempts_but (insert ski S) ?g"
    using assms(1) by (simp add: attempts_but_def isConnectionAttemptRunning_def)
  moreover have "pending ski ?g" using assms(4) unfolding pending_def by (auto simp: update_conv')
  ultimately show ?thesis by (rule attempts_settled [OF _ disjI2])
qed

lemma attempts_drop:
  assumes "attempts_but S h" "map_of (hbTasks h) t = Some k"
  shows "attempts_but (insert (ctSki k) S) (h\<lparr>hbTasks := AList.delete t (hbTasks h)\<rparr>)"
proof -
  have "pending x (h\<lparr>hbTasks := AList.delete t (hbTasks h)\<rparr>)" if "pending x h" "x \<noteq> ctSki k" for x
  proof -
    have "u \<noteq> t" if "map_of (hbTasks h) u = Some k1" "ctSki k1 = x" for u k1
      using that \<open>x \<noteq> ctSki k\<close> assms(2) by auto
    then have "map_of (AList.delete t (hbTasks h)) u = Some k1" if "map_of (hbTasks h) u = Some k1" "ctSki k1 = x" for u k1
      using that by (simp add: delete_conv')
    with \<open>pending x h\<close> show ?thesis unfolding pending_def by (simp del: not_ex) blast
  qed
  moreover have "set (AList.delete t (hbTasks h)) \<subseteq> set (hbTasks h)" by (auto simp: AList.delete_eq)
  ultimately show ?thesis using assms(1) by (auto simp: attempts_but_def isConnectionAttemptRunning_def)
qed

lemma reannounce_attempts [simp]: "attempts_but S (checkAutoReannounce h) = attempts_but S h"
  by (rule attempts_frame) simp_all

lemma attempts_over: "attempts_but (insert ski S) h \<Longrightarrow> attempts_but S (task_over ski b h)"
  by (simp add: task_over_def attempts_clear)

lemma begin_attempts: "connect_begin a h = (r, g) \<Longrightarrow> same_attempts h g"
  using connect_begin_frame [of a h] by (simp add: same_attempts_def)

lemma attempts_try:
  "attempts_but (insert ski S) h \<Longrightarrow> t < tmFresh (hbDelays h) \<Longrightarrow> t \<notin> fst ` set (tmArmed (hbDelays h))
   \<Longrightarrow> map_of (hbTasks h) t = None \<Longrightarrow> attempts_but S (try_hosts t ski a e hosts h)"
proof (induction hosts arbitrary: h)
  case (Cons x xs)
  obtain r g where b: "connect_begin a h = (r, g)" by (cases "connect_begin a h")
  note same = begin_attempts [OF b]
  have g: "attempts_but (insert ski S) g" using Cons.prems(1) attempts_same [OF same] by simp
  have t: "t < tmFresh (hbDelays g)" "t \<notin> fst ` set (tmArmed (hbDelays g))" "map_of (hbTasks g) t = None"
    using Cons.prems same by (simp_all add: same_attempts_def)
  from Cons.IH [OF g t] attempts_over [OF g] attempts_put [OF g t(1,2)] t(3) show ?case
    by (simp add: b split: sum.split option.split)
qed (simp add: attempts_over)

lemma attempts_prepare:
  assumes "attempts_but (insert ski S) h" "t < tmFresh (hbDelays h)" "t \<notin> fst ` set (tmArmed (hbDelays h))"
    and "map_of (hbTasks h) t = None"
  shows "attempts_but S (prepareConnectionInitation t ski c e h)"
  using attempts_try [OF assms] attempts_clear [OF assms(1)] attempts_over [OF assms(1)]
  by (simp add: prepareConnectionInitation_def Let_def split: option.split)

lemma attempts_delay: "attempts_but S h \<Longrightarrow> attempts_but S (delay_fired i h)"
proof (cases "map_of (tmArmed (hbDelays h)) i")
  case (Some f)
  assume ok: "attempts_but S h"
  obtain ski c e where f: "f = (ski, c, e)" by (cases f)
  have a: "(i, ski, c, e) \<in> set (tmArmed (hbDelays h))" using Some f by (auto dest: map_of_SomeD)
  have "k = ski" if "(i, k, x) \<in> set (tmArmed (hbDelays h))" for k x
    using eq_key_imp_eq_value [OF attempts_facts(1) [OF ok] a that] by simp
  from delay_stop [OF ok this] have s: "attempts_but (insert ski S) (snd (Stop_delay i h))" .
  have "map_of (hbTasks h) i = None" using attempts_facts(4) [OF ok, of i] a by (cases "map_of (hbTasks h) i") force+
  then have "attempts_but S (prepareConnectionInitation i ski c e (snd (Stop_delay i h)))"
    using attempts_facts(2) [OF ok a] by (intro attempts_prepare [OF s]) simp_all
  then show ?thesis by (simp add: delay_fired_def Some f)
qed (simp add: delay_fired_def)

lemma attempts_result:
  assumes "attempts_but S h" "map_of (hbTasks h) t = Some k"
  shows "attempts_but S (task_result t k res h)"
proof -
  let ?g = "connect_end (ctDialSKI k) (h\<lparr>hbTasks := AList.delete t (hbTasks h)\<rparr>)"
  have g: "attempts_but (insert (ctSki k) S) ?g"
    using attempts_drop [OF assms] by (subst attempts_frame [where h = "h\<lparr>hbTasks := AList.delete t (hbTasks h)\<rparr>"]) simp_all
  have "attempts_but S (try_hosts t (ctSki k) a e xs ?g)" for a e xs
    using attempts_facts(3,4) [OF assms] by (intro attempts_try g) (simp_all add: delete_conv')
  with attempts_over [OF g] show ?thesis by (simp add: task_result_def Let_def split: option.split)
qed

lemma attempts_stage:
  assumes "attempts_but S h" "map_of (hbTasks h) t = Some k" "ctSki k' = ctSki k"
  shows "attempts_but S (h\<lparr>hbTasks := AList.update t k' (hbTasks h)\<rparr>)"
proof (rule attempts_put [OF attempts_mono [OF assms(1)]])
  show "t < tmFresh (hbDelays h)" "t \<notin> fst ` set (tmArmed (hbDelays h))"
    using attempts_facts(3,4) [OF assms(1,2)] .
qed (use assms in auto)

lemma attempts_await: "attempts_but S h \<Longrightarrow> map_of (hbTasks h) t = Some k \<Longrightarrow> attempts_but S (task_await t k b h)"
  unfolding task_await_def by (rule attempts_stage) simp_all

lemma attempts_failed: "attempts_but S h \<Longrightarrow> attempts_but S (dial_failed t err h)"
  by (auto simp: dial_failed_def attempts_result attempts_await attempts_stage split: option.split dial_stage.split)

lemma attempts_awaited: "attempts_but S h \<Longrightarrow> attempts_but S (await_over t h)"
  by (simp add: await_over_def attempts_result split: option.split dial_stage.split)

section \<open>New connections\<close>

lemma attempts_start: "attempts_but S h \<Longrightarrow> attempts_but S (startShipConnection a r h)"
proof -
  assume ok: "attempts_but S h"
  have reg: "attempts_but S (registerConnection c g) = attempts_but S (cancelConnectionDelayTimer (coSKI (hbObjects g c))
      (g\<lparr>hbConnections := AList.update (coSKI (hbObjects g c)) c (hbConnections g)\<rparr>))" for c g
    unfolding registerConnection_def Let_def
    by (rule attempts_frame) (simp_all split: option.split)
  have "attempts_but S (h\<lparr>hbObjects := f, hbFreshConn := n, hbConnections := cs\<rparr>)" for f n cs
    using ok by (subst attempts_frame [where h = h]) simp_all
  then show ?thesis
    unfolding startShipConnection_def Let_def reg by (intro attempts_cancel) simp
qed

text \<open>An operation leaves the attempts alone, or does and then starts a connection.\<close>

definition starts_at_most :: "hub \<Rightarrow> hub \<Rightarrow> bool" where
  "starts_at_most h h' \<longleftrightarrow> same_attempts h h' \<or> (\<exists>g b r. same_attempts h g \<and> h' = startShipConnection b r g)"

lemma attempts_starts: "starts_at_most h h' \<Longrightarrow> attempts_but S h \<Longrightarrow> attempts_but S h'"
  by (auto simp: starts_at_most_def attempts_same attempts_start)

lemma same_attempts_refl [simp]: "same_attempts h h"
  by (simp add: same_attempts_def)

lemma same_attempts_call [simp]: "same_attempts h (call c g) = same_attempts h g"
  by (simp add: same_attempts_def)

lemma merge_attempts: "merge_service a g = (res, h') \<Longrightarrow> same_attempts h h' = same_attempts h g"
  using merge_service_frame(4-7) [of a g] by (auto simp: same_attempts_def)

lemma new_attempts: "new_service s g = (a, h') \<Longrightarrow> same_attempts h h' = same_attempts h g"
  using new_service_frame(4-7) [of s g] by (auto simp: same_attempts_def)

lemma set_attempts [simp]: "same_attempts h (set_service a f g) = same_attempts h g"
  by (simp add: same_attempts_def)

lemma mark_attempts [simp]: "same_attempts h (mark_request b g) = same_attempts h g"
  by (simp add: mark_request_def Let_def)

lemma accept_starts: "starts_at_most h (accept_peer sock ski fp h)"
proof (cases "NewServiceDetails ski fp []")
  case (Inr s)
  obtain a h1 where n: "new_service s h = (a, h1)" by (cases "new_service s h")
  obtain r h2 where m: "merge_service a h1 = (r, h2)" by (cases "merge_service a h1")
  have "same_attempts h h2" using merge_attempts [OF m, of h] new_attempts [OF n, of h] by simp
  then have "same_attempts h (mark_request b h2)" for b by simp
  then have "starts_at_most h (startShipConnection b ShipRoleServer (mark_request b h2))" for b
    unfolding starts_at_most_def by blast
  with \<open>same_attempts h h2\<close> show ?thesis
    by (cases r) (simp_all add: accept_peer_def Inr n m, simp add: starts_at_most_def)
qed (simp add: accept_peer_def starts_at_most_def)

lemma serve_starts: "starts_at_most h (snd (ServeHTTP sha1 sha256 peer up h))"
proof -
  have 1: "starts_at_most h h" "starts_at_most h (call c h)" for c by (simp_all add: starts_at_most_def)
  show ?thesis
    by (simp add: ServeHTTP_def 1 accept_starts split: sum.split list.split prod.split)
qed

lemma established_starts: "connect_established sha1 sha256 a d sock certs h = (res, g) \<Longrightarrow> starts_at_most h g"
proof -
  assume e: "connect_established sha1 sha256 a d sock certs h = (res, g)"
  obtain v where v: "v = validateRemoteCertificate sha1 sha256 certs (svcSKI (service_at h a)) (svcFingerprint (service_at h a))"
    by blast
  obtain r h2 where m: "merge_service a (set_service a (fill_identifiers (vrRemoteSKI v) (vrRemoteFingerprint v)) h) = (r, h2)"
    by (cases "merge_service a (set_service a (fill_identifiers (vrRemoteSKI v) (vrRemoteFingerprint v)) h)")
  have s: "same_attempts h h2" using merge_attempts [OF m, of h] by simp
  have "g \<in> {call (SocketClose sock) h, call (SocketClose sock) h2}
      \<union> {startShipConnection b ShipRoleClient h2 | b. True}"
    using e unfolding connect_established_def Let_def v [symmetric] m prod.case by (auto split: if_splits)
  with s show ?thesis by (auto simp: starts_at_most_def)
qed

lemma attempts_dialed: "attempts_but S h \<Longrightarrow> attempts_but S (dial_established sha1 sha256 t sock certs h)"
proof -
  assume ok: "attempts_but S h"
  have "attempts_but S (task_result t k res g)" "attempts_but S (task_await t k b g)"
    if "connect_established sha1 sha256 a d sock certs h = (r, g)" "map_of (hbTasks h) t = Some k" for k res g b a d r
  proof -
    have s: "starts_at_most h g" using established_starts [OF that(1)] .
    then have "map_of (hbTasks g) t = Some k" using that(2) by (auto simp: starts_at_most_def same_attempts_def)
    with attempts_starts [OF s ok] show "attempts_but S (task_result t k res g)" "attempts_but S (task_await t k b g)"
      by (auto intro: attempts_result attempts_await)
  qed
  with ok show ?thesis
    by (auto simp: dial_established_def split: option.split prod.split sum.split)
qed

section \<open>Reports of mDNS\<close>

lemma attempts_coordinate:
  assumes "attempts_but S h" "find_service ski [] h \<noteq> None"
  shows "attempts_but S (coordinateConnectionInitations random ski e h)"
proof (cases "isConnectionAttemptRunning ski h")
  case False
  obtain c d g where g: "getConnectionInitiationDelayTime random ski (setConnectionAttemptRunning ski True h) = ((c, d), g)"
    by (cases "getConnectionInitiationDelayTime random ski (setConnectionAttemptRunning ski True h)") auto
  have "attempts_but (insert ski S) g"
    using attempts_set [OF assms(1), of ski True] getDelay_frame [of random ski "setConnectionAttemptRunning ski True h"] g
    by (subst attempts_frame [where h = "setConnectionAttemptRunning ski True h"]) auto
  moreover have "find_service ski [] g = find_service ski [] h"
    using getDelay_frame(1) [of random ski "setConnectionAttemptRunning ski True h"] g by (simp add: find_service_def)
  moreover obtain i h3 where "newConnectionDelayTimer (ski, c, e) g = (i, h3)"
    by (cases "newConnectionDelayTimer (ski, c, e) g")
  ultimately show ?thesis
    using False assms(2) attempts_store by (auto simp: coordinateConnectionInitations_def Let_def g)
qed (use assms in \<open>simp add: coordinateConnectionInitations_def\<close>)

lemma find_known:
  assumes "a \<in> set (rgList (hbRegistry h))" "svcSKI (service_at h a) = NormalizeSKI ski" "NormalizeSKI ski \<noteq> []"
  shows "find_service ski [] h \<noteq> None"
proof -
  have "lookup_match (NormalizeSKI ski) (ToUpper []) [] (rgHeap (hbRegistry h) a)"
    using assms(2,3) by (simp add: lookup_match_def service_at_def ToUpper_def)
  then have "find (\<lambda>a. lookup_match (NormalizeSKI ski) (ToUpper []) [] (rgHeap (hbRegistry h) a)) (rgList (hbRegistry h)) \<noteq> None"
    using assms(1) by (auto simp: find_None_iff)
  then show ?thesis
    by (auto simp: find_service_def ServiceForIdentifier_def ServiceForIdentifierFull_def lookup_loop_eq split: option.split)
qed

lemma found_known:
  "find_service ski [] h = Some a \<Longrightarrow> a \<in> set (rgList (hbRegistry h)) \<and> svcSKI (service_at h a) = NormalizeSKI ski"
  by (auto simp: find_service_def ServiceForIdentifier_def ServiceForIdentifierFull_def lookup_match_def service_at_def
      ToUpper_def dest!: lookup_loop_Some)

lemma merged_in: "mergeOrAddService c r = (Inr can, r') \<Longrightarrow> can \<in> set (rgList r')"
  by (cases rule: merge_cases) (auto simp: matched_iff)

lemma entry_service_known:
  assumes "services_ok h" "entry_service e h = (Some a, g)" "NormalizeSKI (meSki e) \<noteq> []"
  shows "a \<in> set (rgList (hbRegistry g)) \<and> svcSKI (service_at g a) = NormalizeSKI (meSki e)"
proof (cases "find_service (meSki e) [] h")
  case (Some b)
  then show ?thesis using assms(2) found_known [OF Some] by (auto simp: entry_service_def split: if_splits)
next
  case None
  with assms(2) obtain b where b: "serviceForTrustedShipID (meIdentifier e) (hbRegistry h) = Some b"
    and c: "(case merge_service b (set_service b (SetSKI (meSki e)) h) of
        (Inl _, h1) \<Rightarrow> (Some b, h1) | (Inr m, h1) \<Rightarrow> (Some m, h1)) = (Some a, g)"
    by (simp add: entry_service_def split: option.splits if_splits)
  obtain res g' where m: "merge_service b (set_service b (SetSKI (meSki e)) h) = (res, g')"
    by (cases "merge_service b (set_service b (SetSKI (meSki e)) h)")
  with c have m: "merge_service b (set_service b (SetSKI (meSki e)) h) = (res, g)" "a = (case res of Inl _ \<Rightarrow> b | Inr m \<Rightarrow> m)"
    by (auto split: sum.splits)
  let ?h = "set_service b (SetSKI (meSki e)) h"
  have ok: "services_ok ?h" using no_new_trust_ok_of [OF no_new_trust_set [of "SetSKI (meSki e)" False h b] assms(1)] by simp
  have b': "b \<in> set (rgList (hbRegistry ?h))" "svcSKI (service_at ?h b) = NormalizeSKI (meSki e)"
    using trusted_ship_in [OF b] by (simp_all add: service_setters)
  show ?thesis
  proof (cases res)
    case (Inl err)
    then have "hbRegistry g = hbRegistry ?h" using m(1)
      by (auto simp: merge_service_eq mergeOrAddService_def Let_def split: if_splits option.splits)
    with Inl m(2) b' show ?thesis by (simp add: service_at_def)
  next
    case (Inr c)
    with m have c: "merge_service b ?h = (Inr c, g)" "a = c" by simp_all
    have "c \<in> set (rgList (hbRegistry g))" using c(1) by (auto simp: merge_service_eq dest: merged_in)
    with merge_service_ski [OF ok in_use [OF ok b'(1)] c(1)] b'(2) assms(3) c(2) show ?thesis by simp
  qed
qed

lemma entry_attempts: "entry_service e h = (v, g) \<Longrightarrow> same_attempts h g"
  by (auto simp: entry_service_def merge_attempts split: option.splits if_splits prod.splits sum.splits)

lemma valid_ski_nonempty: "IsSkiFormatValid ski \<Longrightarrow> NormalizeSKI ski \<noteq> []"
  by (auto simp: IsSkiFormatValid_def Let_def split: if_splits)

lemma attempts_report_entry:
  assumes "services_ok h" "attempts_but S h"
  shows "attempts_but S (snd (report_entry p random e h))"
proof (cases "IsSkiFormatValid (meSki e) \<and> \<not> isSkiConnected (meSki e) h")
  case True
  obtain v g where e: "entry_service e h = (v, g)" by (cases "entry_service e h")
  have g: "attempts_but S g" using assms(2) attempts_same [OF entry_attempts [OF e]] by simp
  show ?thesis
  proof (cases v)
    case (Some a)
    let ?g = "set_service a (SetAutoAccept (meRegister e)) g"
    have "find_service (meSki e) [] ?g \<noteq> None"
      using entry_service_known [OF assms(1) e [unfolded Some]] valid_ski_nonempty True
      by (intro find_known [of a]) (auto simp: service_setters)
    moreover have "attempts_but S ?g" using g by (subst attempts_same [of g]) simp_all
    moreover have "meSki (patch_entry p s e) = meSki e" for s by (simp add: patch_entry_def split: option.split)
    ultimately show ?thesis using True by (simp add: report_entry_def e Some Let_def attempts_coordinate)
  qed (use True g in \<open>simp add: report_entry_def e\<close>)
qed (use assms in \<open>auto simp: report_entry_def\<close>)

lemma attempts_report_entries:
  "services_ok h \<Longrightarrow> attempts_but S h \<Longrightarrow> attempts_but S (snd (report_entries p random es h))"
proof (induction es arbitrary: h)
  case (Cons e es)
  have "services_ok (snd (report_entry p random e h))"
    by (rule no_new_trust_ok_of [OF report_entry_no_new_trust Cons.prems(1)])
  from Cons.IH [OF this attempts_report_entry [OF Cons.prems]] show ?case by (simp add: Let_def case_prod_beta)
qed simp

lemma attempts_cleanup: "attempts_but S h \<Longrightarrow> attempts_but S (cleanupRemovedMdnsEntries es h)"
proof -
  have r: "attempts_but S (removeConnectionAttemptCounter ski g) = attempts_but S g" for ski g
    by (rule attempts_frame) simp_all
  have "attempts_but S g \<Longrightarrow> attempts_but S (fold (\<lambda>prev h. if meSki prev \<in> set (map meSki es) then h
             else removeConnectionAttemptCounter (meSki prev) (cancelConnectionDelayTimer (meSki prev) h)) xs g)" for xs g
    by (induction xs arbitrary: g) (simp_all add: r attempts_cancel)
  then show "attempts_but S h \<Longrightarrow> ?thesis" by (simp add: cleanupRemovedMdnsEntries_def)
qed

lemma attempts_mdns:
  assumes "services_ok h" "attempts_but S h"
  shows "attempts_but S (ReportMdnsEntries p random es new h)"
proof -
  let ?g = "cleanupRemovedMdnsEntries es h"
  have "services_ok ?g" using no_new_trust_ok_of [OF no_new_trust_frame assms(1)] by simp
  then have "attempts_but S (snd (report_entries p random es ?g))"
    by (rule attempts_report_entries) (rule attempts_cleanup [OF assms(2)])
  then show ?thesis
    by (subst attempts_frame [where h = "snd (report_entries p random es ?g)"])
      (simp_all add: ReportMdnsEntries_def Let_def case_prod_beta)
qed

section \<open>Every event\<close>

lemma same_attempts_trans: "same_attempts h g \<Longrightarrow> same_attempts g k \<Longrightarrow> same_attempts h k"
  by (simp add: same_attempts_def)

lemma shipid_attempts: "same_attempts h (ReportServiceShipID ski ship h)"
proof -
  have "same_attempts h g" if "merge_service a (set_service a (SetShipID ship) h) = (r, g)" for a r g
    using merge_attempts [OF that, of h] by simp
  then show ?thesis
    by (auto simp: ReportServiceShipID_def Let_def split: option.split prod.split sum.split)
qed

lemma unregister_attempts: "same_attempts h (UnregisterRemoteService env i h)"
  by (simp add: same_attempts_def UnregisterRemoteService_def Let_def split: option.split)

lemma cancel_pairing_attempts: "same_attempts h (CancelPairing i h)"
  by (simp add: same_attempts_def CancelPairing_def Let_def split: option.split)

lemma register_attempts: "same_attempts h (RegisterRemoteService env i h)"
proof -
  have "same_attempts h g" if "new_service s h = (c, h1)" "merge_service c h1 = (r, g)" for s c h1 r g
    using that merge_attempts new_attempts by (metis same_attempts_refl)
  then have *: "new_service s h = (c, h1) \<Longrightarrow> merge_service c h1 = (r, g) \<Longrightarrow>
      hbAttemptRunning g = hbAttemptRunning h \<and> hbDelays g = hbDelays h \<and> hbDelayTimers g = hbDelayTimers h
      \<and> hbTasks g = hbTasks h" for s c h1 r g
    unfolding same_attempts_def by blast
  show ?thesis
    by (auto simp: same_attempts_def RegisterRemoteService_def Let_def split: option.split prod.split sum.split dest!: *)
qed

lemma paired_attempts: "same_attempts h (OnPairingSuccess env ship fp h)"
proof -
  have r: "same_attempts h k" if "replace_trusted f h = Some k" for f k
    using that by (auto simp: replace_trusted_def Let_def same_attempts_def split: option.splits if_splits)
  have m: "same_attempts h g" if "replace_trusted f h = Some l" "new_service s l = (a, k)" "merge_service a k = (res, g)"
    for f l s a k res g
    using r [OF that(1)] merge_attempts [OF that(3), of h] new_attempts [OF that(2), of h] by simp
  have f: "same_attempts h (callDeviceAutoTrustRemovedCallback a x g) = same_attempts h g"
    "same_attempts h (start_replacement env s g) = same_attempts h g" for a x g s
    by (simp_all add: same_attempts_def)
  show ?thesis
    by (auto simp: OnPairingSuccess_def Let_def f split: option.split prod.split sum.split dest: m r)
qed

lemma closed_attempts: "same_attempts h (HandleConnectionClosed env c b h)"
proof -
  obtain w g where u: "UnregisterConnectionIfMatch (coSKI (hbObjects h c)) c h = (w, g)"
    by (cases "UnregisterConnectionIfMatch (coSKI (hbObjects h c)) c h")
  have "same_attempts h g"
    using unregisterConn_frame(4-7) [of "coSKI (hbObjects h c)" c h] unfolding u by (simp add: same_attempts_def)
  moreover have "same_attempts g (HandleConnectionClosed env c b h)"
    by (simp add: same_attempts_def HandleConnectionClosed_def Let_def u split: option.split)
  ultimately show ?thesis by (rule same_attempts_trans)
qed

definition concerns_attempts :: "hub_event \<Rightarrow> bool" where
  "concerns_attempts e \<longleftrightarrow> (case e of
     EMdns _ _ \<Rightarrow> True | EDelay _ \<Rightarrow> True | EDialFailed _ _ \<Rightarrow> True | EDialed _ _ _ \<Rightarrow> True | EAwaited _ \<Rightarrow> True
   | EServe _ _ \<Rightarrow> True | EShutdown \<Rightarrow> True | _ \<Rightarrow> False)"

lemma other_attempts: "\<not> concerns_attempts e \<Longrightarrow> same_attempts h (hub_step env e h)"
proof (cases e)
  case (EState c st err)
  show ?thesis unfolding EState hub_step.simps
    by (simp add: same_attempts_def HandleShipHandshakeStateUpdate_def Let_def split: option.split)
qed (simp_all add: concerns_attempts_def shipid_attempts unregister_attempts cancel_pairing_attempts register_attempts
    paired_attempts closed_attempts, simp_all add: same_attempts_def)

lemma attempts_step:
  assumes "services_ok h" "attempts_ok h" "e \<noteq> EShutdown"
  shows "attempts_ok (hub_step env e h)"
proof (cases "concerns_attempts e")
  case True
  with assms show ?thesis
    by (cases e) (simp_all add: concerns_attempts_def attempts_mdns attempts_delay attempts_failed attempts_dialed
        attempts_awaited attempts_starts [OF serve_starts])
next
  case False
  with attempts_same [OF other_attempts] assms(2) show ?thesis by blast
qed

lemma NewHub_attempts: "NewHub port cert loc config pers reader mem = Inr h0 \<Longrightarrow> attempts_ok h0"
  by (auto simp: NewHub_def attempts_but_def no_timers_def isConnectionAttemptRunning_def Let_def split: if_splits option.splits)

lemma reach_attempts: "hub_reach (\<lambda>e. e \<noteq> EShutdown) h0 h \<Longrightarrow> services_ok h0 \<Longrightarrow> attempts_ok h0 \<Longrightarrow> attempts_ok h"
proof (induction rule: hub_reach.induct)
  case (hub_next h e env)
  then show ?case using attempts_step reach_services_ok by blast
qed

section \<open>Every attempt ends\<close>

text \<open>What the rest of a task still has to try.\<close>

definition task_measure :: "connect_task \<Rightarrow> nat" where
  "task_measure k = 3 * length (ctTodo k) + (case ctStage k of FirstDial \<Rightarrow> 2 | SecondDial \<Rightarrow> 1 | Awaiting _ \<Rightarrow> 0)"

text \<open>The attempt for \<open>ski\<close> is over, or the task \<open>t\<close> goes on with less than \<open>n\<close> to do.\<close>

definition goes_on :: "nat \<Rightarrow> string \<Rightarrow> nat \<Rightarrow> hub \<Rightarrow> bool" where
  "goes_on t ski n h \<longleftrightarrow> \<not> isConnectionAttemptRunning ski h
     \<or> (\<exists>k. map_of (hbTasks h) t = Some k \<and> ctSki k = ski \<and> task_measure k < n)"

lemma over_ends [simp]: "isConnectionAttemptRunning ski (task_over ski b h) = False"
  by (simp add: task_over_def attempts_running)

lemma try_goes_on: "goes_on t ski (3 * length hosts) (try_hosts t ski a e hosts h)"
proof (induction hosts arbitrary: h)
  case (Cons x xs)
  obtain r g where b: "connect_begin a h = (r, g)" by (cases "connect_begin a h")
  have "goes_on t ski (3 * length (x # xs)) (try_hosts t ski a e xs g)"
    using Cons.IH [of g] by (auto simp: goes_on_def)
  then show ?case
    by (auto simp: b goes_on_def update_conv' task_measure_def split: sum.split option.split)
qed (simp add: goes_on_def)

lemma result_goes_on: "goes_on t (ctSki k) (3 * length (ctTodo k)) (task_result t k res h)"
  by (simp add: task_result_def Let_def try_goes_on split: option.split) (simp add: goes_on_def)

lemma less_goes_on: "goes_on t ski m h \<Longrightarrow> m \<le> n \<Longrightarrow> goes_on t ski n h"
  by (auto simp: goes_on_def)

definition network_event :: "hub_event \<Rightarrow> bool" where
  "network_event e \<longleftrightarrow> (case e of EDelay _ \<Rightarrow> True | EDialFailed _ _ \<Rightarrow> True | EAwaited _ \<Rightarrow> True | _ \<Rightarrow> False)"

lemma failed_goes_on:
  assumes "map_of (hbTasks h) t = Some k"
  shows "\<exists>e. network_event e \<and> goes_on t (ctSki k) (task_measure k) (hub_step env e h)"
proof (cases "ctStage k")
  case (Awaiting b)
  have "goes_on t (ctSki k) (task_measure k) (hub_step env (EAwaited t) h)"
    using result_goes_on [of t k] by (simp add: await_over_def assms Awaiting task_measure_def)
  then show ?thesis by (intro exI [of _ "EAwaited t"]) (simp add: network_event_def)
next
  case FirstDial
  have "goes_on t (ctSki k) (task_measure k) (hub_step env (EDialFailed t (Opaque [])) h)"
    by (simp add: dial_failed_def assms FirstDial task_await_def goes_on_def update_conv' task_measure_def)
  then show ?thesis by (intro exI [of _ "EDialFailed t (Opaque [])"]) (simp add: network_event_def)
next
  case SecondDial
  have "goes_on t (ctSki k) (task_measure k) (hub_step env (EDialFailed t (Opaque [])) h)"
    using less_goes_on [OF result_goes_on]
    by (simp add: dial_failed_def assms SecondDial task_measure_def)
      (simp add: goes_on_def task_await_def update_conv' task_measure_def)
  then show ?thesis by (intro exI [of _ "EDialFailed t (Opaque [])"]) (simp add: network_event_def)
qed

lemma goes_on_ends:
  "goes_on t ski n h \<Longrightarrow> \<exists>es. list_all network_event es \<and> \<not> isConnectionAttemptRunning ski (fold (hub_step env) es h)"
proof (induction n arbitrary: h rule: less_induct)
  case (less n)
  show ?case
  proof (cases "isConnectionAttemptRunning ski h")
    case False
    then show ?thesis by (intro exI [of _ "[]"]) simp
  next
    case True
    with less.prems obtain k where k: "map_of (hbTasks h) t = Some k" "ctSki k = ski" "task_measure k < n"
      by (auto simp: goes_on_def)
    obtain e where e: "network_event e" "goes_on t ski (task_measure k) (hub_step env e h)"
      using failed_goes_on [OF k(1)] k(2) by blast
    from less.IH [OF k(3) e(2)] obtain es
      where "list_all network_event es" "\<not> isConnectionAttemptRunning ski (fold (hub_step env) es (hub_step env e h))"
      by blast
    with e(1) show ?thesis by (intro exI [of _ "e # es"]) simp
  qed
qed

lemma prepare_goes_on: "\<exists>n. goes_on t ski n (prepareConnectionInitation t ski c e h)"
proof -
  have 1: "goes_on t ski n (setConnectionAttemptRunning ski False g)" for n g by (simp add: goes_on_def attempts_running)
  show ?thesis
    by (rule exI [of _ "3 * length (task_hosts e)"])
      (simp add: prepareConnectionInitation_def Let_def 1 try_goes_on split: option.split, simp add: goes_on_def)
qed

lemma pending_ends:
  assumes "attempts_ok h" "pending ski h"
  shows "\<exists>es. list_all network_event es \<and> \<not> isConnectionAttemptRunning ski (fold (hub_step env) es h)"
proof (cases "\<exists>t k. map_of (hbTasks h) t = Some k \<and> ctSki k = ski")
  case True
  then obtain t k where "map_of (hbTasks h) t = Some k" "ctSki k = ski" by blast
  then have "goes_on t ski (Suc (task_measure k)) h" by (simp add: goes_on_def)
  then show ?thesis by (rule goes_on_ends)
next
  case False
  with assms(2) obtain i c e where i: "(i, ski, c, e) \<in> set (tmArmed (hbDelays h))" by (auto simp: pending_def)
  have "map_of (tmArmed (hbDelays h)) i = Some (ski, c, e)"
    using attempts_facts(1) [OF assms(1)] i by simp
  then have "hub_step env (EDelay i) h = prepareConnectionInitation i ski c e (snd (Stop_delay i h))"
    by (simp add: delay_fired_def)
  then obtain n where "goes_on i ski n (hub_step env (EDelay i) h)" using prepare_goes_on by metis
  from goes_on_ends [OF this] obtain es
    where "list_all network_event es" "\<not> isConnectionAttemptRunning ski (fold (hub_step env) es (hub_step env (EDelay i) h))"
    by blast
  then show ?thesis by (intro exI [of _ "EDelay i # es"]) (simp add: network_event_def)
qed

text \<open>
  C34. No connection attempt is stuck: in any run of the hub without a shutdown, while an attempt for an SKI is
  marked as running, and mDNS reports therefore start no other, its delay timer and failing dials alone bring
  it to its end, after which a report starts the next one.
\<close>

theorem attempt_ends:
  assumes "NewHub port cert loc config pers reader mem = Inr h0" "hub_reach (\<lambda>e. e \<noteq> EShutdown) h0 h"
    and "isConnectionAttemptRunning ski h"
  shows "\<exists>es. list_all network_event es \<and> \<not> isConnectionAttemptRunning ski (fold (hub_step env) es h)"
proof -
  have "attempts_ok h" using reach_attempts [OF assms(2) NewHub_services_ok NewHub_attempts] assms(1) by blast
  moreover have "pending ski h" using calculation assms(3) by (simp add: attempts_but_def)
  ultimately show ?thesis by (rule pending_ends)
qed

theorem attempt_ends_witness:
  "isConnectionAttemptRunning sample_ski (hub_run [ERegister (ident sample_ski [] []), EMdns [sample_entry] True] sample_hub)
   \<and> (\<exists>es. list_all network_event es \<and> \<not> isConnectionAttemptRunning sample_ski
        (fold (hub_step sample_env) es (hub_run [ERegister (ident sample_ski [] []), EMdns [sample_entry] True] sample_hub)))"
proof (rule conjI)
  show r: "isConnectionAttemptRunning sample_ski (hub_run [ERegister (ident sample_ski [] []), EMdns [sample_entry] True] sample_hub)"
    by code_simp
  show "\<exists>es. list_all network_event es \<and> \<not> isConnectionAttemptRunning sample_ski
        (fold (hub_step sample_env) es (hub_run [ERegister (ident sample_ski [] []), EMdns [sample_entry] True] sample_hub))"
    by (rule attempt_ends [OF sample_NewHub hub_reach_run [OF _ hub_start] r]) simp
qed

text \<open>
  A shutdown stops the delay timers but leaves the attempts marked as running: after a restart the mDNS reports
  of that SKI start no attempt any more.
\<close>

theorem shutdown_blocks_attempts:
  "let h = hub_run [ERegister (ident sample_ski [] []), EMdns [sample_entry] True, EShutdown, EStart None None True,
       EMdns [sample_entry] True] sample_hub
   in isConnectionAttemptRunning sample_ski h \<and> tmArmed (hbDelays h) = [] \<and> hbTasks h = []"
  by code_simp

section \<open>The delays\<close>

lemma increase_bounded: "increaseConnectionAttemptCounter ski h = (c, g) \<Longrightarrow>
   c < length connectionInitiationDelayTimeRanges \<and> map_of (hbAttemptCounter g) ski = Some c"
  by (auto simp: increaseConnectionAttemptCounter_def connectionInitiationDelayTimeRanges_def Let_def update_conv'
      split: option.splits)



end
