(* ===== verification/ParseIP.thy ===== *)
theory ParseIP
  imports MdnsTxt
begin

text \<open>
  \<open>net.ParseIP\<close>, by which the Avahi provider reads the address of a resolved service, and
  \<open>IP.IsUnspecified\<close>. The result always has 16 bytes; an address with a zone is refused.
\<close>

definition byte :: "nat \<Rightarrow> char" where "byte n = char_of n"

text \<open>Dotted decimal: four numbers up to 255 without leading zeros\<close>

fun split_dot :: "string \<Rightarrow> string list" where
  "split_dot [] = [[]]"
| "split_dot (c # cs) = (if c = CHR ''.'' then [] # split_dot cs
     else (case split_dot cs of [] \<Rightarrow> [[c]] | x # xs \<Rightarrow> (c # x) # xs))"

definition octet :: "string \<Rightarrow> char option" where
  "octet s = (if s = [] \<or> \<not> list_all is_digit s \<or> (length s > 1 \<and> hd s = CHR ''0'') \<or> digits_value 0 s > 255
     then None else Some (byte (digits_value 0 s)))"

fun octets :: "string list \<Rightarrow> bytes option" where
  "octets [] = Some []"
| "octets (s # ss) = (case (octet s, octets ss) of (Some b, Some bs) \<Rightarrow> Some (b # bs) | _ \<Rightarrow> None)"

definition parse_ipv4 :: "string \<Rightarrow> bytes option" where
  "parse_ipv4 s = (if length (split_dot s) = 4 then octets (split_dot s) else None)"

text \<open>
  Groups of hexadecimal digits: \<open>bs\<close> are the bytes so far and \<open>e\<close> the place of the ellipsis; the last four bytes
  may be written in dotted decimal.
\<close>

definition hex_prefix :: "string \<Rightarrow> string" where "hex_prefix s = takeWhile (\<lambda>c. hexval c \<noteq> None) s"

fun hex_number :: "nat \<Rightarrow> string \<Rightarrow> nat" where
  "hex_number a [] = a"
| "hex_number a (c # cs) = hex_number (16 * a + the (hexval c)) cs"

definition expand :: "bytes \<Rightarrow> nat option \<Rightarrow> bytes option" where
  "expand bs e =
     (if length bs < 16 then (case e of None \<Rightarrow> None
        | Some i \<Rightarrow> Some (take i bs @ replicate (16 - length bs) (byte 0) @ drop i bs))
      else if e \<noteq> None then None else Some bs)"

function parse_groups :: "string \<Rightarrow> bytes \<Rightarrow> nat option \<Rightarrow> bytes option" where
  "parse_groups s bs e =
     (let h = hex_prefix s; rest = drop (length h) s in
      if length bs \<ge> 16 then None
      else if h = [] \<or> length h > 4 then None
      else case rest of
        [] \<Rightarrow> expand (bs @ [byte (hex_number 0 h div 256), byte (hex_number 0 h mod 256)]) e
      | c # tail \<Rightarrow>
          if c = CHR ''.'' then
            if (e = None \<and> length bs \<noteq> 12) \<or> length bs > 12 then None
            else (case parse_ipv4 s of None \<Rightarrow> None | Some b4 \<Rightarrow> expand (bs @ b4) e)
          else if c \<noteq> CHR '':'' \<or> tail = [] then None
          else let bs' = bs @ [byte (hex_number 0 h div 256), byte (hex_number 0 h mod 256)] in
            if hd tail = CHR '':'' then
              if e \<noteq> None then None
              else if tl tail = [] then expand bs' (Some (length bs'))
              else parse_groups (tl tail) bs' (Some (length bs'))
            else parse_groups tail bs' e)"
  by pat_completeness auto

termination
proof (relation "measure (\<lambda>(s, _, _). length s)")
  show "wf (measure (\<lambda>(s :: string, _ :: bytes, _ :: nat option). length s))" by simp
next
  fix s bs e h rest c tail bs'
  assume "rest = drop (length (h :: string)) (s :: string)" "rest = c # tail"
  then have "length (c # tail) \<le> length s" by (metis length_drop diff_le_self)
  then show "((tl tail, bs', Some (length bs')), (s, bs, e)) \<in> measure (\<lambda>(s, _, _). length s)"
    "((tail, bs', e), (s, bs, e)) \<in> measure (\<lambda>(s, _, _). length s)"
    by auto
qed

declare parse_groups.simps [simp del]

definition parse_ipv6 :: "string \<Rightarrow> bytes option" where
  "parse_ipv6 s =
     (if take 2 s = ''::'' then (if drop 2 s = [] then Some (replicate 16 (byte 0)) else parse_groups (drop 2 s) [] (Some 0))
      else parse_groups s [] None)"

definition ParseIP :: "string \<Rightarrow> ip option" where
  "ParseIP s =
     (if CHR ''%'' \<in> set s then None
      else case find (\<lambda>c. c = CHR ''.'' \<or> c = CHR '':'') s of
        None \<Rightarrow> None
      | Some c \<Rightarrow> if c = CHR ''.'' then map_option To16 (parse_ipv4 s) else parse_ipv6 s)"

definition IsUnspecified :: "ip \<Rightarrow> bool" where
  "IsUnspecified a \<longleftrightarrow> canonical_ip a = replicate 4 (byte 0) \<or> a = replicate 16 (byte 0)"

text \<open>A parsed address has 16 bytes.\<close>

lemma octets_length: "octets ss = Some bs \<Longrightarrow> length bs = length ss"
  by (induction ss arbitrary: bs) (auto split: option.splits)

lemma parse_ipv4_length: "parse_ipv4 s = Some bs \<Longrightarrow> length bs = 4"
  by (auto simp: parse_ipv4_def octets_length split: if_splits)

lemma expand_length: "length bs \<le> 16 \<Longrightarrow> expand bs e = Some a \<Longrightarrow> length a = 16"
  by (auto simp: expand_def split: if_splits option.splits)

lemma parse_groups_length: "parse_groups s bs e = Some a \<Longrightarrow> even (length bs) \<Longrightarrow> length a = 16"
proof (induction s bs e rule: parse_groups.induct)
  case (1 s bs e)
  have len: "length bs < 16" using "1.prems" by (subst (asm) parse_groups.simps) (auto simp: Let_def split: if_splits)
  with "1.prems"(2) have le: "length bs + 2 \<le> 16" by presburger
  have two: "length x = 16" if "expand (bs @ [c, d]) e' = Some x" for x c d e'
    using that le by (intro expand_length) auto
  have four: "length x = 16" if "expand (bs @ b) e' = Some x" "parse_ipv4 s = Some b" "\<not> length bs > 12" for x b e'
    using that parse_ipv4_length [of s b] by (intro expand_length [of "bs @ b"]) auto
  show ?case
  proof (cases "drop (length (hex_prefix s)) s")
    case Nil
    with "1.prems"(1) le show ?thesis
      by (subst (asm) parse_groups.simps) (auto simp: Let_def dest: two split: if_splits)
  next
    case (Cons c tail)
    note IH = "1.IH" [OF refl refl _ _ Cons _ _ refl]
    from "1.prems" Cons len le show ?thesis
      by (subst (asm) parse_groups.simps)
        (auto simp: Let_def intro: IH dest: two four split: if_splits option.splits)
  qed
qed

lemma ParseIP_length: "ParseIP s = Some a \<Longrightarrow> length a = 16"
  by (auto simp: ParseIP_def parse_ipv6_def To16_def split: if_splits option.splits
      dest: parse_ipv4_length parse_groups_length)

lemma ParseIP_example: "ParseIP ''192.168.0.1'' = Some (To16 [byte 192, byte 168, byte 0, byte 1])"
  by code_simp

end
