(* ===== verification/MdnsProviders.thy ===== *)
theory MdnsProviders
  imports ParseIP "HOL-Library.AList"
begin

text \<open>
  The two providers of mDNS: the Go implementation (\<open>mdns/zeroconf.go\<close>) and the Avahi daemon
  (\<open>mdns/avahi.go\<close>). Their libraries are not part of the repository: what these answer to a call is an
  argument of the operation, given for the number of the instance where one operation makes several calls.

  \<open>zcRunning\<close> are the servers that \<open>Register\<close> made and nobody has shut down, \<open>avCommitted\<close> the entry groups that were
  committed and not freed: the services that are announced on the network. A Go map is an association list; its
  order is the order of iteration, which Go leaves open.
\<close>

section \<open>Interfaces and services\<close>

text \<open>An interface of the machine; \<open>niAddrs\<close> is what \<open>Addrs\<close> answers, the number of addresses or an error.\<close>

record net_interface =
  niName :: string
  niIndex :: int
  niUp :: bool
  niLoopback :: bool
  niAddrs :: "nat option"

record service_data =
  sdType :: string
  sdName :: string
  sdPort :: int
  sdTxt :: "string list"

text \<open>A call of \<open>MdnsResolveCB\<close>\<close>

record resolve_call =
  rcElements :: elements
  rcName :: string
  rcHost :: string
  rcType :: string
  rcAddresses :: "ip list"
  rcPort :: int
  rcRemove :: bool

definition validateTxtversOrder :: "string list \<Rightarrow> bool" where
  "validateTxtversOrder ts = True"

section \<open>Zeroconf\<close>

record zeroconf =
  zcIfaces :: "net_interface list"
  zcBrowsing :: "pairing_mode option"
  zcServers :: "(string \<times> nat) list"
  zcCounter :: nat
  zcInstances :: "(string \<times> service_data) list"
  zcStarted :: bool
  zcRunning :: "(nat \<times> service_data) list"

definition NewZeroconfProvider :: "net_interface list \<Rightarrow> zeroconf" where
  "NewZeroconfProvider ifaces =
     \<lparr>zcIfaces = ifaces, zcBrowsing = None, zcServers = [], zcCounter = 0, zcInstances = [], zcStarted = False,
      zcRunning = []\<rparr>"

definition UpdateInterfaces_zc :: "net_interface list \<Rightarrow> zeroconf \<Rightarrow> zeroconf" where
  "UpdateInterfaces_zc ifaces z = z\<lparr>zcIfaces := ifaces\<rparr>"

text \<open>\<open>zcBrowsing\<close> stands for the context and the goroutine \<open>chanListener\<close>, with its pairing mode.\<close>

definition Start_zc :: "pairing_mode \<Rightarrow> zeroconf \<Rightarrow> bool \<times> zeroconf" where
  "Start_zc mode z =
     (if zcStarted z then (True, z) else (True, z\<lparr>zcStarted := True, zcBrowsing := Some mode\<rparr>))"

definition AnnounceService_zc ::
  "(nat \<Rightarrow> error option) \<Rightarrow> string \<Rightarrow> string \<Rightarrow> int \<Rightarrow> string list \<Rightarrow> zeroconf \<Rightarrow> (error + string) \<times> zeroconf" where
  "AnnounceService_zc register ty name port ts z =
     (let n = Suc (zcCounter z); instanceID = Itoa n; z1 = z\<lparr>zcCounter := n\<rparr>;
          d = \<lparr>sdType = ty, sdName = name, sdPort = port, sdTxt = ts\<rparr>
      in case register n of
           Some err \<Rightarrow> (Inl (Wrapped (''failed to register '' @ ty @ '' service: '' @ error_text err) err), z1)
         | None \<Rightarrow> (Inr instanceID, z1\<lparr>zcServers := AList.update instanceID n (zcServers z1),
             zcInstances := AList.update instanceID d (zcInstances z1),
             zcRunning := AList.update n d (zcRunning z1)\<rparr>))"

definition UnannounceService_zc :: "string \<Rightarrow> zeroconf \<Rightarrow> error option \<times> zeroconf" where
  "UnannounceService_zc instanceID z =
     (if map_of (zcInstances z) instanceID = None then (Some (Sentinel ErrPairingNotActive), z)
      else
        (let z1 = (case map_of (zcServers z) instanceID of
                     None \<Rightarrow> z
                   | Some server \<Rightarrow> z\<lparr>zcRunning := AList.delete server (zcRunning z),
                       zcServers := AList.delete instanceID (zcServers z)\<rparr>)
         in (None, z1\<lparr>zcInstances := AList.delete instanceID (zcInstances z1)\<rparr>)))"

definition Shutdown_zc :: "zeroconf \<Rightarrow> zeroconf" where
  "Shutdown_zc z =
     (let z1 = fold (\<lambda>instanceID z. snd (UnannounceService_zc instanceID z)) (map fst (zcInstances z)) z
      in z1\<lparr>zcBrowsing := None, zcStarted := False\<rparr>)"

text \<open>What \<open>chanListener\<close> makes of a service entry on each of its four channels; None is a nil entry.\<close>

record service_entry =
  seInstance :: string
  seService :: string
  seHostName :: string
  sePort :: int
  seText :: "string list"
  seIPv4 :: "ip list"
  seIPv6 :: "ip list"

datatype zc_channel = ShipRemoved | ShipFound | PairingRemoved | PairingFound

definition chanListener_zc :: "zc_channel \<Rightarrow> service_entry option \<Rightarrow> resolve_call option" where
  "chanListener_zc ch service =
     (case service of None \<Rightarrow> None
      | Some s \<Rightarrow>
          (let call = (\<lambda>m ty ads rm. Some \<lparr>rcElements = m, rcName = seInstance s, rcHost = seHostName s,
                 rcType = ty, rcAddresses = ads, rcPort = sePort s, rcRemove = rm\<rparr>)
           in case ch of
                ShipRemoved \<Rightarrow>
                  if seText s = [] then None
                  else (case parseTxt (seText s) of None \<Rightarrow> None
                        | Some m \<Rightarrow> if \<not> validateTxtversOrder (seText s) then None
                                    else call m (seService s) (seIPv4 s) True)
              | ShipFound \<Rightarrow>
                  if seText s = [] then None
                  else (case parseTxt (seText s) of None \<Rightarrow> None
                        | Some m \<Rightarrow> if \<not> validateTxtversOrder (seText s) then None
                                    else call m (seService s) (seIPv4 s @ seIPv6 s) False)
              | PairingRemoved \<Rightarrow>
                  call (case parseTxt (seText s) of None \<Rightarrow> Map.empty | Some m \<Rightarrow> m)
                    shipPairingZeroConfServiceType (seIPv4 s) True
              | PairingFound \<Rightarrow>
                  if seText s = [] then None
                  else (case parseTxt (seText s) of None \<Rightarrow> None
                        | Some m \<Rightarrow> call m shipPairingZeroConfServiceType (seIPv4 s @ seIPv6 s) False)))"

definition browses :: "pairing_mode \<Rightarrow> zc_channel \<Rightarrow> bool" where
  "browses mode ch \<longleftrightarrow> ch \<in> {ShipRemoved, ShipFound} \<or> mode \<in> {PairingModeListener, PairingModeBoth}"

text \<open>An entry only arrives where the listener runs and browses for its type.\<close>

definition zeroconf_entry :: "zc_channel \<Rightarrow> service_entry option \<Rightarrow> zeroconf \<Rightarrow> resolve_call option" where
  "zeroconf_entry ch service z =
     (case zcBrowsing z of None \<Rightarrow> None | Some mode \<Rightarrow> if browses mode ch then chanListener_zc ch service else None)"

section \<open>Avahi\<close>

record mdns_service_data =
  mdName :: string
  mdPort :: int
  mdTxt :: "string list"

text \<open>
  The goroutine \<open>attemptReconnect\<close>, with the legacy service it was started with: it is about to look at
  \<open>manualShutdown\<close>, or it sleeps before the next attempt.
\<close>

datatype reconnect_phase = CheckShutdown | SleepBeforeStart

record reconnect =
  reLegacy :: "mdns_service_data option"
  rePhase :: reconnect_phase
  reDelay :: duration

record avahi =
  avIfaceIndexes :: "int list"
  avBrowser :: bool
  avPairingBrowser :: bool
  avAutoReconnect :: bool
  avManualShutdown :: bool
  avSetupSuccessful :: bool
  avListenerRunning :: bool
  avPairingMode :: pairing_mode
  avLegacy :: "mdns_service_data option"
  avElements :: "string \<rightharpoonup> elements"
  avGroups :: "(string \<times> nat) list"
  avStates :: "(string \<times> mdns_service_data) list"
  avCounter :: nat
  avInstances :: "(string \<times> service_data) list"
  avReconnect :: "reconnect option"
  avCommitted :: "(nat \<times> service_data) list"

text \<open>What the daemon answers; entry groups by the number of their instance.\<close>

record avahi_daemon =
  adSetup :: "error option"
  adVersion :: "error option"
  adBrowser :: bool
  adPairingBrowser :: bool
  adGroup :: "nat \<Rightarrow> error option"
  adAddService :: "nat \<Rightarrow> int \<Rightarrow> error option"
  adCommit :: "nat \<Rightarrow> error option"

definition InterfaceUnspec :: int where "InterfaceUnspec = -1"

definition NewAvahiProvider :: "int list \<Rightarrow> avahi" where
  "NewAvahiProvider ixs =
     \<lparr>avIfaceIndexes = ixs, avBrowser = False, avPairingBrowser = False, avAutoReconnect = False,
      avManualShutdown = False, avSetupSuccessful = False, avListenerRunning = False, avPairingMode = PairingModeOff,
      avLegacy = None, avElements = Map.empty, avGroups = [], avStates = [], avCounter = 0, avInstances = [],
      avReconnect = None, avCommitted = []\<rparr>"

definition UpdateInterfaces_av :: "int list \<Rightarrow> avahi \<Rightarrow> avahi" where
  "UpdateInterfaces_av ixs a = a\<lparr>avIfaceIndexes := ixs\<rparr>"

text \<open>\<open>avServer.Shutdown\<close>: a server that is shut down announces nothing.\<close>

definition server_shutdown :: "avahi \<Rightarrow> avahi" where
  "server_shutdown a = a\<lparr>avCommitted := []\<rparr>"

text \<open>
  The channels between the daemon and \<open>chanListener\<close> are not part of the state: what they carry are steps of their own,
  and the stop signal never blocks, since its channel has room for it.
\<close>

definition Start_av :: "avahi_daemon \<Rightarrow> pairing_mode \<Rightarrow> bool \<Rightarrow> avahi \<Rightarrow> bool \<times> avahi" where
  "Start_av d mode autoReconnect a =
     (let a1 = a\<lparr>avPairingMode := mode, avAutoReconnect := autoReconnect, avManualShutdown := False\<rparr>
      in if adSetup d \<noteq> None then (False, a1)
         else let a2 = a1\<lparr>avSetupSuccessful := True\<rparr>
         in if adVersion d \<noteq> None then (False, server_shutdown a2)
         else if \<not> adBrowser d then (False, server_shutdown a2)
         else let a3 = a2\<lparr>avBrowser := True\<rparr>;
                  a4 = (if (mode = PairingModeListener \<or> mode = PairingModeBoth) \<and> adPairingBrowser d
                        then a3\<lparr>avPairingBrowser := True\<rparr> else a3);
                  a5 = (if \<not> autoReconnect then a4\<lparr>avAutoReconnect := True\<rparr> else a4)
         in (True, if \<not> avListenerRunning a5 then a5\<lparr>avListenerRunning := True\<rparr> else a5))"

definition mdns_data :: "string \<Rightarrow> int \<Rightarrow> string list \<Rightarrow> mdns_service_data" where
  "mdns_data name port ts = \<lparr>mdName = name, mdPort = port, mdTxt = ts\<rparr>"

fun add_services :: "avahi_daemon \<Rightarrow> nat \<Rightarrow> int list \<Rightarrow> error option" where
  "add_services d n [] = None"
| "add_services d n (iface # ifaces) =
     (case adAddService d n iface of Some err \<Rightarrow> Some err | None \<Rightarrow> add_services d n ifaces)"

definition EntryGroupFree :: "string \<Rightarrow> nat \<Rightarrow> avahi \<Rightarrow> avahi" where
  "EntryGroupFree instanceID g a =
     a\<lparr>avCommitted := AList.delete g (avCommitted a), avGroups := AList.delete instanceID (avGroups a)\<rparr>"

text \<open>
  The port is cut to 16 bits where it is handed to the daemon. The server that \<open>NewAvahiProvider\<close> made is never nil, so
  the error for that has no branch.
\<close>

definition AnnounceService_av ::
  "avahi_daemon \<Rightarrow> string \<Rightarrow> string \<Rightarrow> int \<Rightarrow> string list \<Rightarrow> avahi \<Rightarrow> (error + string) \<times> avahi" where
  "AnnounceService_av d ty name port ts a =
     (let n = Suc (avCounter a); instanceID = Itoa n; a1 = a\<lparr>avCounter := n\<rparr>
      in case adGroup d n of
           Some err \<Rightarrow> (Inl (Wrapped (''failed to create entry group for instance '' @ instanceID @ '': '' @ error_text err) err), a1)
         | None \<Rightarrow>
             (let a2 = a1\<lparr>avGroups := AList.update instanceID n (avGroups a1)\<rparr>
              in case add_services d n (avIfaceIndexes a2) of
                   Some err \<Rightarrow> (Inl (Wrapped (''failed to add '' @ ty @ '' service: '' @ error_text err) err),
                       EntryGroupFree instanceID n a2)
                 | None \<Rightarrow>
                     (case adCommit d n of
                        Some err \<Rightarrow> (Inl (Wrapped (''failed to commit '' @ ty @ '' service: '' @ error_text err) err),
                            EntryGroupFree instanceID n a2)
                      | None \<Rightarrow>
                          (let sd = \<lparr>sdType = ty, sdName = name, sdPort = port mod 2 ^ 16, sdTxt = ts\<rparr>;
                               a3 = a2\<lparr>avCommitted := AList.update n sd (avCommitted a2),
                                  avStates := AList.update instanceID (mdns_data name port ts) (avStates a2),
                                  avInstances := AList.update instanceID (sd\<lparr>sdPort := port\<rparr>) (avInstances a2)\<rparr>
                           in (Inr instanceID,
                               if ty = shipZeroConfServiceType then a3\<lparr>avLegacy := Some (mdns_data name port ts)\<rparr>
                               else a3)))))"

definition UnannounceService_av :: "string \<Rightarrow> avahi \<Rightarrow> error option \<times> avahi" where
  "UnannounceService_av instanceID a =
     (if map_of (avInstances a) instanceID = None then (Some (Sentinel ErrPairingNotActive), a)
      else
        (let a1 = (case map_of (avGroups a) instanceID of None \<Rightarrow> a | Some g \<Rightarrow> EntryGroupFree instanceID g a)
         in (None, a1\<lparr>avStates := AList.delete instanceID (avStates a1),
               avInstances := AList.delete instanceID (avInstances a1)\<rparr>)))"

text \<open>
  \<open>Shutdown\<close> waits for the reconnection goroutine; the parts before and after the wait are steps of their own.
  The first tells whether there is anything to shut down.
\<close>

definition Shutdown_av_begin :: "avahi \<Rightarrow> bool \<times> avahi" where
  "Shutdown_av_begin a =
     (let a1 = a\<lparr>avManualShutdown := True\<rparr>
      in if \<not> avSetupSuccessful a1 then (False, a1)
         else (True, a1\<lparr>avAutoReconnect := False, avBrowser := False, avPairingBrowser := False,
                 avListenerRunning := False\<rparr>))"

definition Shutdown_av_end :: "avahi \<Rightarrow> avahi option" where
  "Shutdown_av_end a =
     (if avReconnect a \<noteq> None then None
      else Some (server_shutdown
        (fold (\<lambda>instanceID a. snd (UnannounceService_av instanceID a)) (map fst (avInstances a)) a)))"

section \<open>Losing the daemon\<close>

definition avahiCallback :: "bool \<Rightarrow> avahi \<Rightarrow> avahi" where
  "avahiCallback isDisconnected a =
     (if avManualShutdown a \<or> \<not> avAutoReconnect a \<or> \<not> isDisconnected then a
      else if avReconnect a \<noteq> None then a
      else a\<lparr>avReconnect := Some \<lparr>reLegacy = avLegacy a, rePhase = CheckShutdown, reDelay = 1000000000\<rparr>\<rparr>)"

text \<open>The connection to the daemon breaks: its entry groups are gone, and the callback is called.\<close>

definition avahi_disconnect :: "avahi \<Rightarrow> avahi" where
  "avahi_disconnect a = avahiCallback True (a\<lparr>avCommitted := []\<rparr>)"

definition restore_instance ::
  "avahi_daemon \<Rightarrow> string \<times> mdns_service_data \<Rightarrow> string list \<times> avahi \<Rightarrow> string list \<times> avahi" where
  "restore_instance d st ra =
     (let (instanceID, state) = st; (restored, a) = ra;
          serviceType = (case map_of (avInstances a) instanceID of
            None \<Rightarrow> shipPairingZeroConfServiceType | Some i \<Rightarrow> sdType i)
      in case AnnounceService_av d serviceType (mdName state) (mdPort state) (mdTxt state) a of
           (Inl err, a1) \<Rightarrow> (restored, a1)
         | (Inr _, a1) \<Rightarrow>
             (let a2 = (case map_of (avGroups a1) instanceID of None \<Rightarrow> a1 | Some g \<Rightarrow> EntryGroupFree instanceID g a1);
                  a3 = a2\<lparr>avStates := AList.delete instanceID (avStates a2),
                         avInstances := AList.delete instanceID (avInstances a2)\<rparr>
              in (if serviceType = shipZeroConfServiceType then mdName state # restored else restored, a3)))"

definition restore_all :: "avahi_daemon \<Rightarrow> mdns_service_data option \<Rightarrow> avahi \<Rightarrow> avahi" where
  "restore_all d legacy a =
     (let (restored, a1) = fold (restore_instance d) (avStates a) ([], a)
      in case legacy of
           None \<Rightarrow> a1
         | Some s \<Rightarrow> if mdName s \<in> set restored then a1
             else snd (AnnounceService_av d shipZeroConfServiceType (mdName s) (mdPort s) (mdTxt s) a1))"

text \<open>
  One step of the goroutine: the check, or the attempt after the sleep. The jitter is a random part of up to a
  tenth of the doubled delay.
\<close>

definition next_delay :: "duration \<Rightarrow> duration \<Rightarrow> duration" where
  "next_delay jitter delay = min (2 * delay + jitter) 30000000000"

definition attemptReconnect :: "avahi_daemon \<Rightarrow> duration \<Rightarrow> avahi \<Rightarrow> avahi" where
  "attemptReconnect d jitter a =
     (case avReconnect a of
        None \<Rightarrow> a
      | Some r \<Rightarrow>
          (case rePhase r of
             CheckShutdown \<Rightarrow>
               if avManualShutdown a then a\<lparr>avReconnect := None\<rparr>
               else a\<lparr>avReconnect := Some (r\<lparr>rePhase := SleepBeforeStart\<rparr>)\<rparr>
           | SleepBeforeStart \<Rightarrow>
               (case Start_av d (avPairingMode a) True a of
                  (False, a1) \<Rightarrow>
                    a1\<lparr>avReconnect := Some (r\<lparr>rePhase := CheckShutdown, reDelay := next_delay jitter (reDelay r)\<rparr>)\<rparr>
                | (True, a1) \<Rightarrow> (restore_all d (reLegacy r) a1)\<lparr>avReconnect := None\<rparr>)))"

section \<open>Services found by Avahi\<close>

record avahi_service =
  vsInterface :: int
  vsProtocol :: int
  vsName :: string
  vsType :: string
  vsDomain :: string
  vsHost :: string
  vsAddress :: string
  vsPort :: nat
  vsTxt :: "bytes list"

definition decimal :: "int \<Rightarrow> string" where
  "decimal i = (if i < 0 then ''-'' @ Itoa (nat (- i)) else Itoa (nat i))"

definition getServiceUniqueKey :: "avahi_service \<Rightarrow> string" where
  "getServiceUniqueKey s =
     vsName s @ ''-'' @ vsType s @ ''-'' @ vsDomain s @ ''-'' @ decimal (vsProtocol s) @ ''-'' @ decimal (vsInterface s)"

definition processRemovedService :: "avahi_service \<Rightarrow> avahi \<Rightarrow> resolve_call" where
  "processRemovedService s a =
     \<lparr>rcElements = (case avElements a (getServiceUniqueKey s) of None \<Rightarrow> Map.empty | Some m \<Rightarrow> m),
      rcName = vsName s, rcHost = vsHost s, rcType = vsType s, rcAddresses = [], rcPort = -1, rcRemove = True\<rparr>"

definition processAddedService :: "avahi_service \<Rightarrow> avahi \<Rightarrow> resolve_call option \<times> avahi" where
  "processAddedService s a =
     (case parseTxt (vsTxt s) of
        None \<Rightarrow> (None, a)
      | Some m \<Rightarrow>
          if \<not> validateTxtversOrder (vsTxt s) then (None, a)
          else (case ParseIP (vsAddress s) of
                  None \<Rightarrow> (None, a)
                | Some address \<Rightarrow>
                    if IsUnspecified address then (None, a)
                    else (Some \<lparr>rcElements = m, rcName = vsName s, rcHost = vsHost s, rcType = vsType s,
                            rcAddresses = [address], rcPort = int (vsPort s), rcRemove = False\<rparr>,
                          a\<lparr>avElements := (avElements a)(getServiceUniqueKey s \<mapsto> m)\<rparr>)))"

text \<open>\<open>resolved\<close> is what \<open>ResolveService\<close> answers; an error ends the processing with a log line.\<close>

definition processService ::
  "(error + avahi_service) \<Rightarrow> avahi_service \<Rightarrow> bool \<Rightarrow> avahi \<Rightarrow> resolve_call option \<times> avahi" where
  "processService resolved s isRemoved a =
     (if \<not> (avIfaceIndexes a = [InterfaceUnspec] \<or> vsInterface s \<in> set (avIfaceIndexes a)) then (None, a)
      else if isRemoved then (Some (processRemovedService s a), a)
      else case resolved of Inl err \<Rightarrow> (None, a) | Inr r \<Rightarrow> processAddedService r a)"

end
