(* ===== verification/MdnsTable.thy ===== *)
theory MdnsTable
  imports MdnsProviders
begin

text \<open>
  What the manager relies on in a provider: a table of announced services. \<open>AnnounceService\<close> adds one under an
  identifier nobody had before or changes nothing, \<open>UnannounceService\<close> removes exactly the one it is asked for. The
  interface is the locale \<open>service_provider\<close>; Zeroconf, Avahi while its daemon is there, and the provider the
  manager holds are its interpretations.
\<close>

section \<open>The abstract table\<close>

record service_table =
  tbNext :: nat
  tbServices :: "(nat \<times> service_data) list"

definition table_announce ::
  "bool \<Rightarrow> string \<Rightarrow> string \<Rightarrow> int \<Rightarrow> string list \<Rightarrow> service_table \<Rightarrow> string option \<times> service_table" where
  "table_announce accepted ty name port ts t =
     (let n = Suc (tbNext t); t1 = t\<lparr>tbNext := n\<rparr>
      in if accepted
         then (Some (Itoa n), t1\<lparr>tbServices := tbServices t1 @ [(n, \<lparr>sdType = ty, sdName = name, sdPort = port, sdTxt = ts\<rparr>)]\<rparr>)
         else (None, t1))"

definition table_unannounce :: "string \<Rightarrow> service_table \<Rightarrow> bool \<times> service_table" where
  "table_unannounce instanceID t =
     (\<exists>p \<in> set (tbServices t). Itoa (fst p) = instanceID,
      t\<lparr>tbServices := filter (\<lambda>p. Itoa (fst p) \<noteq> instanceID) (tbServices t)\<rparr>)"

definition table_ok :: "service_table \<Rightarrow> bool" where
  "table_ok t \<longleftrightarrow> distinct (map fst (tbServices t)) \<and> (\<forall>p \<in> set (tbServices t). fst p \<le> tbNext t)"

text \<open>Association lists by the number of the instance, and by its identifier\<close>

definition by_id :: "(nat \<Rightarrow> 'a \<Rightarrow> 'b) \<Rightarrow> (nat \<times> 'a) list \<Rightarrow> (string \<times> 'b) list" where
  "by_id f ps = map (\<lambda>(n, d). (Itoa n, f n d)) ps"

lemma Itoa_inject [simp]: "Itoa m = Itoa n \<longleftrightarrow> m = n"
  by (metis Itoa_digits)

lemma by_id_append: "by_id f (ps @ qs) = by_id f ps @ by_id f qs"
  by (simp add: by_id_def)

lemma by_id_single [simp]: "by_id f [(n, d)] = [(Itoa n, f n d)]"
  by (simp add: by_id_def)

lemma by_id_update: "n \<notin> fst ` set ps \<Longrightarrow> AList.update (Itoa n) x (by_id f ps) = by_id f ps @ [(Itoa n, x)]"
  by (induction ps) (auto simp: by_id_def)

lemma by_id_filter: "AList.delete i (by_id f ps) = by_id f (filter (\<lambda>p. Itoa (fst p) \<noteq> i) ps)"
  by (induction ps) (auto simp: by_id_def)

lemma delete_filter: "AList.delete (n :: nat) ps = filter (\<lambda>p. fst p \<noteq> n) ps"
  by (induction ps) auto

lemma by_id_Some: "map_of (by_id f ps) i = Some x \<Longrightarrow> \<exists>n d. i = Itoa n \<and> map_of ps n = Some d \<and> x = f n d"
  by (induction ps) (auto simp: by_id_def split: if_splits)

lemma by_id_None: "map_of (by_id f ps) i = None \<longleftrightarrow> \<not> (\<exists>p \<in> set ps. Itoa (fst p) = i)"
  by (induction ps) (auto simp: by_id_def)

lemma by_id_Itoa: "map_of (by_id f ps) (Itoa n) = map_option (f n) (map_of ps n)"
  by (induction ps) (auto simp: by_id_def)

lemma update_fresh: "k \<notin> fst ` set ps \<Longrightarrow> AList.update k v ps = ps @ [(k, v)]"
  by (induction ps) auto

text \<open>The service announced under an identifier\<close>

definition announced :: "service_table \<Rightarrow> string \<Rightarrow> service_data option" where
  "announced t = map_of (by_id (\<lambda>_ d. d) (tbServices t))"

lemma table_fresh: "table_ok t \<Longrightarrow> tbNext t < n \<Longrightarrow> n \<notin> fst ` set (tbServices t)"
  by (fastforce simp: table_ok_def)

lemma table_ok_announce: "table_ok t \<Longrightarrow> table_ok (snd (table_announce b ty name port ts t))"
  by (fastforce simp: table_ok_def table_announce_def Let_def)

lemma table_ok_unannounce: "table_ok t \<Longrightarrow> table_ok (snd (table_unannounce i t))"
  by (auto simp: table_ok_def table_unannounce_def distinct_map_filter)

lemma announced_announce:
  assumes "table_ok t" "table_announce b ty name port ts t = (r, t')"
  shows "case r of
      None \<Rightarrow> \<not> b \<and> announced t' = announced t
    | Some i \<Rightarrow> b \<and> i = Itoa (Suc (tbNext t)) \<and> announced t i = None
        \<and> announced t' = (announced t)(i \<mapsto> \<lparr>sdType = ty, sdName = name, sdPort = port, sdTxt = ts\<rparr>)"
proof -
  have "announced t (Itoa (Suc (tbNext t))) = None"
    using table_fresh [OF assms(1)] by (force simp: announced_def by_id_None)
  with assms(2) show ?thesis
    by (auto simp: table_announce_def Let_def announced_def by_id_append by_id_def map_add_def split: if_splits
        option.splits)
qed

lemma announced_unannounce:
  "table_unannounce i t = (b, t') \<Longrightarrow> (b \<longleftrightarrow> announced t i \<noteq> None) \<and> announced t' = (announced t)(i := None)"
  unfolding table_unannounce_def announced_def by_id_None prod.inject
  by (elim conjE, hypsubst) (simp add: by_id_filter [symmetric] delete_conv')

section \<open>Sequences of operations\<close>

datatype service_op = OpAnnounce string string int "string list" | OpUnannounce string

datatype service_result = Failed | Made string | Withdrawn

definition provider_op ::
  "('e \<Rightarrow> string \<Rightarrow> string \<Rightarrow> int \<Rightarrow> string list \<Rightarrow> 'p \<Rightarrow> (error + string) \<times> 'p) \<Rightarrow> (string \<Rightarrow> 'p \<Rightarrow> error option \<times> 'p)
    \<Rightarrow> 'e \<Rightarrow> service_op \<Rightarrow> 'p \<Rightarrow> service_result \<times> 'p" where
  "provider_op ann unann e op p =
     (case op of
        OpAnnounce ty name port ts \<Rightarrow>
          (case ann e ty name port ts p of (Inl _, p') \<Rightarrow> (Failed, p') | (Inr i, p') \<Rightarrow> (Made i, p'))
      | OpUnannounce i \<Rightarrow>
          (case unann i p of (Some _, p') \<Rightarrow> (Failed, p') | (None, p') \<Rightarrow> (Withdrawn, p')))"

definition table_op :: "bool \<Rightarrow> service_op \<Rightarrow> service_table \<Rightarrow> service_result \<times> service_table" where
  "table_op accepted op t =
     (case op of
        OpAnnounce ty name port ts \<Rightarrow>
          (case table_announce accepted ty name port ts t of (None, t') \<Rightarrow> (Failed, t') | (Some i, t') \<Rightarrow> (Made i, t'))
      | OpUnannounce i \<Rightarrow>
          (case table_unannounce i t of (False, t') \<Rightarrow> (Failed, t') | (True, t') \<Rightarrow> (Withdrawn, t')))"

fun run_ops :: "('o \<Rightarrow> 's \<Rightarrow> 'r \<times> 's) \<Rightarrow> 'o list \<Rightarrow> 's \<Rightarrow> 'r list \<times> 's" where
  "run_ops f [] s = ([], s)"
| "run_ops f (x # xs) s = (let (r, s1) = f x s; (rs, s2) = run_ops f xs s1 in (r # rs, s2))"

definition port_ok :: "service_op \<Rightarrow> bool" where
  "port_ok op \<longleftrightarrow> (case op of OpAnnounce _ _ port _ \<Rightarrow> 0 \<le> port \<and> port < 65536 | _ \<Rightarrow> True)"

section \<open>The interface\<close>

locale service_provider =
  fixes announce :: "'e \<Rightarrow> string \<Rightarrow> string \<Rightarrow> int \<Rightarrow> string list \<Rightarrow> 'p \<Rightarrow> (error + string) \<times> 'p"
    and unannounce :: "string \<Rightarrow> 'p \<Rightarrow> error option \<times> 'p"
    and accepts :: "'e \<Rightarrow> 'p \<Rightarrow> bool"
    and table :: "'p \<Rightarrow> service_table"
    and okay :: "'p \<Rightarrow> bool"
  assumes okay_table: "okay p \<Longrightarrow> table_ok (table p)"
    and announce_okay: "okay p \<Longrightarrow> 0 \<le> port \<Longrightarrow> port < 65536 \<Longrightarrow> okay (snd (announce e ty name port ts p))"
    and announce_refines: "okay p \<Longrightarrow> 0 \<le> port \<Longrightarrow> port < 65536 \<Longrightarrow>
      (case fst (announce e ty name port ts p) of Inl err \<Rightarrow> None | Inr i \<Rightarrow> Some i,
       table (snd (announce e ty name port ts p))) = table_announce (accepts e p) ty name port ts (table p)"
    and unannounce_okay: "okay p \<Longrightarrow> okay (snd (unannounce i p))"
    and unannounce_refines: "okay p \<Longrightarrow>
      (fst (unannounce i p) = None, table (snd (unannounce i p))) = table_unannounce i (table p)"
begin

lemma announce_cases:
  assumes "okay p" "0 \<le> port" "port < 65536"
  obtains (failed) err p' where "announce e ty name port ts p = (Inl err, p')" "okay p'"
      "announced (table p') = announced (table p)" "\<not> accepts e p"
    | (made) i p' where "announce e ty name port ts p = (Inr i, p')" "okay p'" "announced (table p) i = None"
      "announced (table p') = (announced (table p))(i \<mapsto> \<lparr>sdType = ty, sdName = name, sdPort = port, sdTxt = ts\<rparr>)"
      "accepts e p"
proof -
  obtain r p' where p': "announce e ty name port ts p = (r, p')" by (cases "announce e ty name port ts p")
  have "okay p'" using announce_okay [OF assms, of e ty name ts] p' by simp
  moreover have "table_announce (accepts e p) ty name port ts (table p)
      = (case r of Inl err \<Rightarrow> None | Inr i \<Rightarrow> Some i, table p')"
    using announce_refines [OF assms, of e ty name ts] p' by simp
  note announced_announce [OF okay_table [OF assms(1)] this]
  ultimately show ?thesis
    using p' that by (cases r) auto
qed

lemma unannounce_announced:
  assumes "okay p"
  shows "okay (snd (unannounce i p))" "announced (table (snd (unannounce i p))) = (announced (table p))(i := None)"
    "fst (unannounce i p) = None \<longleftrightarrow> announced (table p) i \<noteq> None"
  using unannounce_okay [OF assms, of i] announced_unannounce [OF unannounce_refines [OF assms, of i, symmetric]]
  by auto

text \<open>All services of a list of identifiers are withdrawn, and no others.\<close>

lemma unannounce_all:
  "okay p \<Longrightarrow> okay (fold (\<lambda>i p. snd (unannounce i p)) is p)
     \<and> announced (table (fold (\<lambda>i p. snd (unannounce i p)) is p)) = announced (table p) |` (- set is)"
proof (induction "is" arbitrary: p)
  case (Cons i "is")
  note u = unannounce_announced [OF Cons.prems, of i]
  from Cons.IH [OF u(1)] u(2) show ?case
    by (auto simp: restrict_map_def fun_eq_iff)
qed (simp add: restrict_map_def)

text \<open>A step, and a sequence of steps, do what they do on the table.\<close>

lemma op_refines:
  assumes "okay p" "port_ok op"
  shows "okay (snd (provider_op announce unannounce e op p))"
    "map_prod id table (provider_op announce unannounce e op p) = table_op (accepts e p) op (table p)"
proof -
  have "okay (snd (provider_op announce unannounce e op p))
      \<and> map_prod id table (provider_op announce unannounce e op p) = table_op (accepts e p) op (table p)"
  proof (cases op)
    case (OpAnnounce ty name port ts)
    with assms announce_refines [of p port e ty name ts] announce_okay [of p port e ty name ts] show ?thesis
      by (auto simp: provider_op_def table_op_def port_ok_def split: sum.splits prod.splits option.splits)
  next
    case (OpUnannounce i)
    with assms unannounce_refines [of p i] unannounce_okay [of p i] show ?thesis
      by (auto simp: provider_op_def table_op_def split: prod.splits option.splits bool.splits)
  qed
  then show "okay (snd (provider_op announce unannounce e op p))"
    "map_prod id table (provider_op announce unannounce e op p) = table_op (accepts e p) op (table p)" by simp_all
qed

lemma run_refines:
  assumes "okay p" "\<forall>op \<in> set ops. port_ok op" "\<And>p. accepts e p"
  shows "map_prod id table (run_ops (provider_op announce unannounce e) ops p) = run_ops (table_op True) ops (table p)"
  using assms(1,2)
proof (induction ops arbitrary: p)
  case (Cons op ops)
  note op = op_refines [of p op e]
  obtain r p' where p': "provider_op announce unannounce e op p = (r, p')" by (cases "provider_op announce unannounce e op p")
  have "okay p'" "table_op True op (table p) = (r, table p')"
    using Cons.prems op assms(3) p' by auto
  with Cons.IH [of p'] Cons.prems(2) p' show ?case by (auto split: prod.splits)
qed simp

end

section \<open>Zeroconf\<close>

definition zc_table :: "zeroconf \<Rightarrow> service_table" where
  "zc_table z = \<lparr>tbNext = zcCounter z, tbServices = zcRunning z\<rparr>"

text \<open>The tables of the provider tell the same as the servers that run.\<close>

definition zc_ok :: "zeroconf \<Rightarrow> bool" where
  "zc_ok z \<longleftrightarrow> zcServers z = by_id (\<lambda>n _. n) (zcRunning z) \<and> zcInstances z = by_id (\<lambda>_ d. d) (zcRunning z)
     \<and> table_ok (zc_table z)"

lemma zc_unannounce:
  assumes "zc_ok z"
  shows "snd (UnannounceService_zc i z) = z\<lparr>zcRunning := filter (\<lambda>p. Itoa (fst p) \<noteq> i) (zcRunning z),
      zcServers := by_id (\<lambda>n _. n) (filter (\<lambda>p. Itoa (fst p) \<noteq> i) (zcRunning z)),
      zcInstances := by_id (\<lambda>_ d. d) (filter (\<lambda>p. Itoa (fst p) \<noteq> i) (zcRunning z))\<rparr>
    \<and> (fst (UnannounceService_zc i z) = None \<longleftrightarrow> (\<exists>p \<in> set (zcRunning z). Itoa (fst p) = i))"
proof (cases "map_of (zcInstances z) i")
  case None
  with assms have "\<not> (\<exists>p \<in> set (zcRunning z). Itoa (fst p) = i)" by (simp add: zc_ok_def by_id_None)
  moreover from this have "filter (\<lambda>p. Itoa (fst p) \<noteq> i) (zcRunning z) = zcRunning z" by (auto intro: filter_True)
  ultimately show ?thesis using None assms by (simp add: UnannounceService_zc_def zc_ok_def)
next
  case (Some d)
  with assms obtain n where n: "i = Itoa n" "map_of (zcRunning z) n = Some d"
    by (auto simp: zc_ok_def dest!: by_id_Some)
  then have "map_of (zcServers z) i = Some n" using assms by (simp add: zc_ok_def by_id_Itoa)
  moreover have "(n, d) \<in> set (zcRunning z)" using n by (simp add: map_of_SomeD)
  ultimately show ?thesis
    using Some n assms by (auto simp: UnannounceService_zc_def zc_ok_def by_id_filter delete_filter intro!: bexI [of _ "(n, d)"])
qed

interpretation zc: service_provider AnnounceService_zc UnannounceService_zc
  "\<lambda>register z. register (Suc (zcCounter z)) = None" zc_table zc_ok
proof
  fix z register ty name port ts i
  assume z: "zc_ok z"
  then show "table_ok (zc_table z)" by (simp add: zc_ok_def)
  from this have fresh: "Suc (zcCounter z) \<notin> fst ` set (zcRunning z)" by (force simp: zc_table_def dest: table_fresh)
  have ok: "zc_ok (snd (AnnounceService_zc register ty name port ts z))
      \<and> (case fst (AnnounceService_zc register ty name port ts z) of Inl err \<Rightarrow> None | Inr i \<Rightarrow> Some i,
         zc_table (snd (AnnounceService_zc register ty name port ts z)))
        = table_announce (register (Suc (zcCounter z)) = None) ty name port ts (zc_table z)"
    using z fresh table_ok_announce [of "zc_table z" "register (Suc (zcCounter z)) = None" ty name port ts]
    by (auto simp: AnnounceService_zc_def Let_def zc_ok_def zc_table_def table_announce_def update_fresh by_id_update by_id_append
        split: option.splits)
  then show "zc_ok (snd (AnnounceService_zc register ty name port ts z))" by blast
  from ok show "(case fst (AnnounceService_zc register ty name port ts z) of Inl err \<Rightarrow> None | Inr i \<Rightarrow> Some i,
      zc_table (snd (AnnounceService_zc register ty name port ts z)))
    = table_announce (register (Suc (zcCounter z)) = None) ty name port ts (zc_table z)" by blast
  show "zc_ok (snd (UnannounceService_zc i z))"
    using z zc_unannounce [OF z, of i] table_ok_unannounce [of "zc_table z" i]
    by (simp add: zc_ok_def zc_table_def table_unannounce_def)
  show "(fst (UnannounceService_zc i z) = None, zc_table (snd (UnannounceService_zc i z)))
      = table_unannounce i (zc_table z)"
    using zc_unannounce [OF z, of i] by (simp add: zc_table_def table_unannounce_def)
qed

section \<open>Avahi\<close>

definition av_table :: "avahi \<Rightarrow> service_table" where
  "av_table a = \<lparr>tbNext = avCounter a, tbServices = avCommitted a\<rparr>"

definition av_ok :: "avahi \<Rightarrow> bool" where
  "av_ok a \<longleftrightarrow> avGroups a = by_id (\<lambda>n _. n) (avCommitted a) \<and> avInstances a = by_id (\<lambda>_ d. d) (avCommitted a)
     \<and> avStates a = by_id (\<lambda>_ d. mdns_data (sdName d) (sdPort d) (sdTxt d)) (avCommitted a) \<and> table_ok (av_table a)"

definition av_accepts :: "avahi_daemon \<Rightarrow> avahi \<Rightarrow> bool" where
  "av_accepts d a \<longleftrightarrow> (let n = Suc (avCounter a) in
     adGroup d n = None \<and> add_services d n (avIfaceIndexes a) = None \<and> adCommit d n = None)"

lemma av_unannounce:
  assumes "av_ok a"
  shows "snd (UnannounceService_av i a) = a\<lparr>avCommitted := filter (\<lambda>p. Itoa (fst p) \<noteq> i) (avCommitted a),
      avGroups := by_id (\<lambda>n _. n) (filter (\<lambda>p. Itoa (fst p) \<noteq> i) (avCommitted a)),
      avStates := by_id (\<lambda>_ d. mdns_data (sdName d) (sdPort d) (sdTxt d)) (filter (\<lambda>p. Itoa (fst p) \<noteq> i) (avCommitted a)),
      avInstances := by_id (\<lambda>_ d. d) (filter (\<lambda>p. Itoa (fst p) \<noteq> i) (avCommitted a))\<rparr>
    \<and> (fst (UnannounceService_av i a) = None \<longleftrightarrow> (\<exists>p \<in> set (avCommitted a). Itoa (fst p) = i))"
proof (cases "map_of (avInstances a) i")
  case None
  with assms have "\<not> (\<exists>p \<in> set (avCommitted a). Itoa (fst p) = i)" by (simp add: av_ok_def by_id_None)
  moreover from this have "filter (\<lambda>p. Itoa (fst p) \<noteq> i) (avCommitted a) = avCommitted a" by (auto intro: filter_True)
  ultimately show ?thesis using None assms by (simp add: UnannounceService_av_def av_ok_def)
next
  case (Some d)
  with assms obtain n where n: "i = Itoa n" "map_of (avCommitted a) n = Some d"
    by (auto simp: av_ok_def dest!: by_id_Some)
  then have "map_of (avGroups a) i = Some n" using assms by (simp add: av_ok_def by_id_Itoa)
  moreover have "(n, d) \<in> set (avCommitted a)" using n by (simp add: map_of_SomeD)
  ultimately show ?thesis
    using Some n assms
    by (auto simp: UnannounceService_av_def EntryGroupFree_def av_ok_def by_id_filter delete_filter
        intro!: bexI [of _ "(n, d)"])
qed

lemma delete_appended: "n \<notin> fst ` set ps \<Longrightarrow> AList.delete (Itoa n) (by_id f ps @ [(Itoa n, x)]) = by_id f ps"
  by (induction ps) (auto simp: by_id_def)

lemma delete_fresh: "(n :: nat) \<notin> fst ` set ps \<Longrightarrow> AList.delete n ps = ps"
  by (induction ps) auto

text \<open>A service that is announced: it is added under the next number.\<close>

definition av_added :: "string \<Rightarrow> string \<Rightarrow> int \<Rightarrow> string list \<Rightarrow> avahi \<Rightarrow> avahi" where
  "av_added ty name port ts a =
     (let n = Suc (avCounter a); sd = \<lparr>sdType = ty, sdName = name, sdPort = port, sdTxt = ts\<rparr>;
          a1 = a\<lparr>avCounter := n, avCommitted := avCommitted a @ [(n, sd)],
            avGroups := avGroups a @ [(Itoa n, n)], avInstances := avInstances a @ [(Itoa n, sd)],
            avStates := avStates a @ [(Itoa n, mdns_data name port ts)]\<rparr>
      in if ty = shipZeroConfServiceType then a1\<lparr>avLegacy := Some (mdns_data name port ts)\<rparr> else a1)"

lemma av_announce_general:
  assumes "avGroups a = by_id (\<lambda>n _. n) ps" "avInstances a = by_id (\<lambda>_ d. d) ps"
    "avStates a = by_id (\<lambda>_ d. mdns_data (sdName d) (sdPort d) (sdTxt d)) ps"
    "Suc (avCounter a) \<notin> fst ` set ps" "Suc (avCounter a) \<notin> fst ` set (avCommitted a)" "0 \<le> port" "port < 65536"
  shows "if av_accepts d a
      then AnnounceService_av d ty name port ts a = (Inr (Itoa (Suc (avCounter a))), av_added ty name port ts a)
      else \<exists>err. AnnounceService_av d ty name port ts a = (Inl err, a\<lparr>avCounter := Suc (avCounter a)\<rparr>)"
  using assms
  by (auto simp: AnnounceService_av_def av_added_def av_accepts_def Let_def update_fresh by_id_update EntryGroupFree_def
      delete_appended delete_fresh split: option.splits)

lemma av_fresh: "av_ok a \<Longrightarrow> Suc (avCounter a) \<notin> fst ` set (avCommitted a)"
  by (force simp: av_ok_def av_table_def dest: table_fresh)

lemma av_announce:
  assumes "av_ok a" "0 \<le> port" "port < 65536"
  shows "if av_accepts d a
      then AnnounceService_av d ty name port ts a = (Inr (Itoa (Suc (avCounter a))), av_added ty name port ts a)
      else \<exists>err. AnnounceService_av d ty name port ts a = (Inl err, a\<lparr>avCounter := Suc (avCounter a)\<rparr>)"
  using assms av_fresh [OF assms(1)]
  by (intro av_announce_general [where ps = "avCommitted a"]) (simp_all add: av_ok_def)

interpretation av: service_provider AnnounceService_av UnannounceService_av av_accepts av_table av_ok
proof
  fix a d ty name port ts i
  assume a: "av_ok a"
  then show "table_ok (av_table a)" by (simp add: av_ok_def)
  show "av_ok (snd (UnannounceService_av i a))"
    using a av_unannounce [OF a, of i] table_ok_unannounce [of "av_table a" i]
    by (simp add: av_ok_def av_table_def table_unannounce_def)
  show "(fst (UnannounceService_av i a) = None, av_table (snd (UnannounceService_av i a)))
      = table_unannounce i (av_table a)"
    using av_unannounce [OF a, of i] by (simp add: av_table_def table_unannounce_def)
  assume port: "0 \<le> port" "port < (65536 :: int)"
  note announce = av_announce [OF a port, of d ty name ts]
  show "av_ok (snd (AnnounceService_av d ty name port ts a))"
    using a table_ok_announce [of "av_table a" "av_accepts d a" ty name port ts]
      announce by (auto simp: Let_def av_added_def av_ok_def av_table_def table_announce_def by_id_append split: if_splits)
  show "(case fst (AnnounceService_av d ty name port ts a) of Inl err \<Rightarrow> None | Inr i \<Rightarrow> Some i,
      av_table (snd (AnnounceService_av d ty name port ts a)))
    = table_announce (av_accepts d a) ty name port ts (av_table a)"
    using announce by (auto simp: Let_def av_added_def av_table_def table_announce_def split: if_splits)
qed

section \<open>Both providers\<close>

lemma add_services_None: "(\<And>i. adAddService d n i = None) \<Longrightarrow> add_services d n ixs = None"
  by (induction ixs) auto

lemma new_ok: "zc_ok (NewZeroconfProvider ifaces)" "av_ok (NewAvahiProvider ixs)"
  by (simp_all add: zc_ok_def NewZeroconfProvider_def by_id_def table_ok_def zc_table_def av_ok_def NewAvahiProvider_def
      av_table_def)

text \<open>
  C36. The two providers are interchangeable: while their libraries accept what they are asked, any sequence of
  announcements and withdrawals gives the same identifiers and the same results on both, and in the end the same
  services are on the network under the same numbers.
\<close>

theorem providers_agree:
  assumes "\<forall>op \<in> set ops. port_ok op" "\<forall>n. register n = None"
    "\<forall>n. adGroup d n = None \<and> adCommit d n = None \<and> (\<forall>i. adAddService d n i = None)"
  shows "let (rs, z) = run_ops (provider_op AnnounceService_zc UnannounceService_zc register) ops (NewZeroconfProvider ifaces);
             (rs', a) = run_ops (provider_op AnnounceService_av UnannounceService_av d) ops (NewAvahiProvider ixs)
         in rs = rs' \<and> zcRunning z = avCommitted a"
proof -
  have z: "map_prod id zc_table (run_ops (provider_op AnnounceService_zc UnannounceService_zc register) ops (NewZeroconfProvider ifaces))
      = run_ops (table_op True) ops \<lparr>tbNext = 0, tbServices = []\<rparr>"
    using zc.run_refines [OF new_ok(1) assms(1), of register ifaces] assms(2)
    by (simp add: zc_table_def NewZeroconfProvider_def)
  have "map_prod id av_table (run_ops (provider_op AnnounceService_av UnannounceService_av d) ops (NewAvahiProvider ixs))
      = run_ops (table_op True) ops \<lparr>tbNext = 0, tbServices = []\<rparr>"
    using av.run_refines [OF new_ok(2) assms(1), of d ixs] assms(3)
    by (simp add: av_table_def NewAvahiProvider_def av_accepts_def add_services_None Let_def)
  from trans [OF z this [symmetric]] show ?thesis
    by (auto simp: zc_table_def av_table_def split: prod.splits)
qed

definition good_daemon :: avahi_daemon where
  "good_daemon = \<lparr>adSetup = None, adVersion = None, adBrowser = True, adPairingBrowser = True, adGroup = (\<lambda>_. None),
     adAddService = (\<lambda>_ _. None), adCommit = (\<lambda>_. None)\<rparr>"

theorem providers_agree_witness:
  "let ops = [OpAnnounce ''_ship._tcp'' ''a'' 4711 [''txtvers=1''], OpUnannounce ''1'', OpUnannounce ''1''];
       (rs, z) = run_ops (provider_op AnnounceService_zc UnannounceService_zc (\<lambda>_. None)) ops (NewZeroconfProvider []);
       (rs', a) = run_ops (provider_op AnnounceService_av UnannounceService_av good_daemon) ops (NewAvahiProvider [2])
   in rs = rs' \<and> zcRunning z = avCommitted a"
  using providers_agree [of "[OpAnnounce ''_ship._tcp'' ''a'' 4711 [''txtvers=1''], OpUnannounce ''1'', OpUnannounce ''1'']"
      "\<lambda>_. None" good_daemon "[]" "[2]"]
  by (simp add: port_ok_def good_daemon_def del: run_ops.simps)

section \<open>The provider of the manager\<close>

text \<open>\<open>api.MdnsProviderInterface\<close>: the calls go to the provider that was made.\<close>

datatype mdns_provider = Avahi avahi | Zeroconf zeroconf

record provider_env =
  peRegister :: "nat \<Rightarrow> error option"
  peDaemon :: avahi_daemon

definition provider_Start :: "provider_env \<Rightarrow> pairing_mode \<Rightarrow> bool \<Rightarrow> mdns_provider \<Rightarrow> bool \<times> mdns_provider" where
  "provider_Start env mode autoReconnect p =
     (case p of
        Avahi a \<Rightarrow> map_prod id Avahi (Start_av (peDaemon env) mode autoReconnect a)
      | Zeroconf z \<Rightarrow> map_prod id Zeroconf (Start_zc mode z))"

definition provider_Announce ::
  "provider_env \<Rightarrow> string \<Rightarrow> string \<Rightarrow> int \<Rightarrow> string list \<Rightarrow> mdns_provider \<Rightarrow> (error + string) \<times> mdns_provider" where
  "provider_Announce env ty name port ts p =
     (case p of
        Avahi a \<Rightarrow> map_prod id Avahi (AnnounceService_av (peDaemon env) ty name port ts a)
      | Zeroconf z \<Rightarrow> map_prod id Zeroconf (AnnounceService_zc (peRegister env) ty name port ts z))"

definition provider_Unannounce :: "string \<Rightarrow> mdns_provider \<Rightarrow> error option \<times> mdns_provider" where
  "provider_Unannounce i p =
     (case p of
        Avahi a \<Rightarrow> map_prod id Avahi (UnannounceService_av i a)
      | Zeroconf z \<Rightarrow> map_prod id Zeroconf (UnannounceService_zc i z))"

text \<open>\<open>Shutdown\<close>; None if it does not return because it waits for the reconnection of Avahi.\<close>

definition provider_Shutdown :: "mdns_provider \<Rightarrow> mdns_provider option" where
  "provider_Shutdown p =
     (case p of
        Avahi a \<Rightarrow> (case Shutdown_av_begin a of
          (False, a1) \<Rightarrow> Some (Avahi a1) | (True, a1) \<Rightarrow> map_option Avahi (Shutdown_av_end a1))
      | Zeroconf z \<Rightarrow> Some (Zeroconf (Shutdown_zc z)))"

definition UpdateInterfaces :: "net_interface list \<Rightarrow> int list \<Rightarrow> mdns_provider \<Rightarrow> mdns_provider" where
  "UpdateInterfaces ifaces ixs p =
     (case p of Avahi a \<Rightarrow> Avahi (UpdateInterfaces_av ixs a) | Zeroconf z \<Rightarrow> Zeroconf (UpdateInterfaces_zc ifaces z))"

definition provider_table :: "mdns_provider \<Rightarrow> service_table" where
  "provider_table p = (case p of Avahi a \<Rightarrow> av_table a | Zeroconf z \<Rightarrow> zc_table z)"

definition provider_ok :: "mdns_provider \<Rightarrow> bool" where
  "provider_ok p \<longleftrightarrow> (case p of Avahi a \<Rightarrow> av_ok a | Zeroconf z \<Rightarrow> zc_ok z)"

definition provider_accepts :: "provider_env \<Rightarrow> mdns_provider \<Rightarrow> bool" where
  "provider_accepts env p \<longleftrightarrow> (case p of Avahi a \<Rightarrow> av_accepts (peDaemon env) a
     | Zeroconf z \<Rightarrow> peRegister env (Suc (zcCounter z)) = None)"

lemmas provider_defs = provider_Announce_def provider_Unannounce_def provider_table_def provider_ok_def
  provider_accepts_def

interpretation mp: service_provider provider_Announce provider_Unannounce provider_accepts provider_table provider_ok
proof
  fix p env ty name port ts i
  assume "provider_ok p"
  then show "table_ok (provider_table p)" "provider_ok (snd (provider_Unannounce i p))"
    "(fst (provider_Unannounce i p) = None, provider_table (snd (provider_Unannounce i p)))
      = table_unannounce i (provider_table p)"
    by (cases p; simp add: provider_defs av.okay_table zc.okay_table av.unannounce_okay zc.unannounce_okay
        av.unannounce_refines zc.unannounce_refines)+
  assume "0 \<le> port" "port < (65536 :: int)"
  with \<open>provider_ok p\<close> show "provider_ok (snd (provider_Announce env ty name port ts p))"
    "(case fst (provider_Announce env ty name port ts p) of Inl err \<Rightarrow> None | Inr i \<Rightarrow> Some i,
      provider_table (snd (provider_Announce env ty name port ts p)))
      = table_announce (provider_accepts env p) ty name port ts (provider_table p)"
    using av.announce_refines [of _ port] zc.announce_refines [of _ port]
    by (cases p; simp add: provider_defs av.announce_okay zc.announce_okay)+
qed

text \<open>Starting and changing the interfaces do not touch the services, and nothing is left after \<open>Shutdown\<close>.\<close>

lemma provider_Start_table:
  assumes "provider_ok p" "fst (provider_Start env mode r p)"
  shows "provider_ok (snd (provider_Start env mode r p))
    \<and> announced (provider_table (snd (provider_Start env mode r p))) = announced (provider_table p)"
  using assms
  by (cases p) (auto simp: provider_defs provider_Start_def Start_av_def Start_zc_def Let_def av_ok_def zc_ok_def
      av_table_def zc_table_def announced_def)

lemma UpdateInterfaces_table [simp]:
  "provider_ok (UpdateInterfaces ifaces ixs p) = provider_ok p"
  "provider_table (UpdateInterfaces ifaces ixs p) = provider_table p"
  by (cases p; simp add: provider_defs UpdateInterfaces_def UpdateInterfaces_av_def UpdateInterfaces_zc_def av_ok_def
      zc_ok_def av_table_def zc_table_def)+

lemma announced_dom: "announced t i \<noteq> None \<Longrightarrow> i \<in> fst ` set (by_id (\<lambda>_ d. d) (tbServices t))"
  by (auto simp: announced_def dest: map_of_SomeD intro: rev_image_eqI)

lemma announced_empty: "announced t = Map.empty \<longleftrightarrow> tbServices t = []"
  by (auto simp: announced_def by_id_def)

lemma Shutdown_zc_empty: "zc_ok z \<Longrightarrow> zcRunning (Shutdown_zc z) = [] \<and> zcInstances (Shutdown_zc z) = []"
proof -
  assume z: "zc_ok z"
  let ?z = "fold (\<lambda>i z. snd (UnannounceService_zc i z)) (map fst (zcInstances z)) z"
  from zc.unannounce_all [OF z, of "map fst (zcInstances z)"]
  have ok: "zc_ok ?z" and "announced (zc_table ?z) = announced (zc_table z) |` (- set (map fst (zcInstances z)))" by auto
  moreover have "announced (zc_table z) i = None" if "i \<notin> set (map fst (zcInstances z))" for i
    using that z announced_dom [of "zc_table z" i] by (auto simp: zc_ok_def zc_table_def)
  ultimately have "announced (zc_table ?z) = Map.empty" by (auto simp: restrict_map_def fun_eq_iff)
  then have "zcRunning ?z = []" by (simp add: announced_empty zc_table_def)
  with ok show ?thesis by (simp add: Shutdown_zc_def zc_ok_def by_id_def)
qed

end
