(* ===== verification/MdnsEntries.thy ===== *)
theory MdnsEntries
  imports MdnsTable
begin

text \<open>
  The mDNS manager (\<open>mdns/mdns.go\<close>): its state, and what it does with the records the provider reports. The calls of the
  report interface (\<open>go ReportMdnsEntries\<close>, each in a goroutine of its own) and of the pairing callback are
  recorded, oldest first; an interface or a callback is a number.
\<close>

section \<open>State\<close>

record announced_pairing =
  apServiceName :: string
  apTxtRecord :: ship_pairing_txt
  apProviderID :: string

datatype provider_selection =
    MdnsProviderSelectionAll
  | MdnsProviderSelectionAvahiOnly
  | MdnsProviderSelectionGoZeroConfOnly
  | MdnsProviderSelectionTestSetup
  | OtherSelection nat

record provider_factory =
  NewAvahi :: "(int list \<Rightarrow> mdns_provider option) option"
  NewZeroconf :: "(net_interface list \<Rightarrow> mdns_provider option) option"

definition DefaultProviderFactory :: provider_factory where
  "DefaultProviderFactory =
     \<lparr>NewAvahi = Some (\<lambda>ixs. Some (Avahi (NewAvahiProvider ixs))),
      NewZeroconf = Some (\<lambda>ifaces. Some (Zeroconf (NewZeroconfProvider ifaces)))\<rparr>"

record mdns_manager =
  mmSki :: string
  mmBrand :: string
  mmModel :: string
  mmSerial :: string
  mmType :: string
  mmCategories :: "nat list"
  mmIdentifier :: string
  mmServiceName :: string
  mmIfaces :: "string list"
  mmPort :: int
  mmAutoaccept :: bool
  mmPairingMode :: pairing_mode
  mmAnnounced :: bool
  mmPairings :: "(string \<times> announced_pairing) list"
  mmCounter :: nat
  mmEntries :: "(string \<times> mdns_entry) list"
  mmPairingEntries :: "(string \<times> ship_pairing_txt) list"
  mmReport :: "nat option"
  mmPairingCallback :: "nat option"
  mmProvider :: "mdns_provider option"
  mmFactory :: "provider_factory option"
  mmSelection :: provider_selection
  mmStarted :: bool
  mmInstanceID :: string
  mmCurrentIfaces :: "string list"
  mmMissingIfaces :: "string list"
  mmRefresh :: bool
  mmReports :: "(nat \<times> (string \<times> mdns_entry) list \<times> bool) list"
  mmDelivered :: "(nat \<times> ship_pairing_txt) list"

definition NewMDNS ::
  "string \<Rightarrow> string \<Rightarrow> string \<Rightarrow> string \<Rightarrow> string \<Rightarrow> nat list \<Rightarrow> string \<Rightarrow> string \<Rightarrow> int \<Rightarrow> string list
    \<Rightarrow> provider_selection \<Rightarrow> mdns_manager" where
  "NewMDNS ski brand model ty serial categories identifier serviceName port ifaces selection =
     \<lparr>mmSki = ski, mmBrand = shortenString brand 32, mmModel = shortenString model 32,
      mmSerial = shortenString serial 32, mmType = shortenString ty 32, mmCategories = categories,
      mmIdentifier = identifier, mmServiceName = serviceName, mmIfaces = ifaces, mmPort = port,
      mmAutoaccept = False, mmPairingMode = PairingModeOff, mmAnnounced = False, mmPairings = [], mmCounter = 0,
      mmEntries = [], mmPairingEntries = [], mmReport = None, mmPairingCallback = None, mmProvider = None,
      mmFactory = Some DefaultProviderFactory, mmSelection = selection, mmStarted = False, mmInstanceID = [],
      mmCurrentIfaces = [], mmMissingIfaces = [], mmRefresh = False, mmReports = [], mmDelivered = []\<rparr>"

section \<open>Ship services of other devices\<close>

definition copyMdnsEntries :: "mdns_manager \<Rightarrow> (string \<times> mdns_entry) list" where
  "copyMdnsEntries m = map (\<lambda>(k, e). (k, DeepCopy_entry e)) (mmEntries m)"

definition report_mdns_entries :: "bool \<Rightarrow> mdns_manager \<Rightarrow> mdns_manager" where
  "report_mdns_entries isNew m =
     (case mmReport m of None \<Rightarrow> m
      | Some r \<Rightarrow> m\<lparr>mmReports := mmReports m @ [(r, copyMdnsEntries m, isNew)]\<rparr>)"

definition merge_addresses :: "ip list \<Rightarrow> ip list \<Rightarrow> ip list" where
  "merge_addresses addresses known =
     fold (\<lambda>a known. if \<exists>b \<in> set known. canonical_ip b = canonical_ip a then known else known @ [a]) addresses known"

text \<open>Are the data of an entry other than those of the new record? The SKI is not looked at, and not updated.\<close>

definition metadata_changed :: "mdns_entry \<Rightarrow> mdns_entry \<Rightarrow> bool" where
  "metadata_changed e n \<longleftrightarrow> meBrand e \<noteq> meBrand n \<or> meType e \<noteq> meType n \<or> meModel e \<noteq> meModel n
     \<or> meSerial e \<noteq> meSerial n \<or> meIdentifier e \<noteq> meIdentifier n \<or> mePath e \<noteq> mePath n
     \<or> meRegister e \<noteq> meRegister n \<or> meHost e \<noteq> meHost n \<or> mePort e \<noteq> mePort n
     \<or> meCategories e \<noteq> meCategories n"

definition update_entry :: "mdns_entry \<Rightarrow> mdns_entry \<Rightarrow> mdns_entry" where
  "update_entry e n =
     e\<lparr>meIdentifier := meIdentifier n, mePath := mePath n, meRegister := meRegister n, meBrand := meBrand n,
       meType := meType n, meModel := meModel n, meSerial := meSerial n, meCategories := meCategories n,
       meHost := meHost n, mePort := mePort n, meAddresses := merge_addresses (meAddresses n) (meAddresses e)\<rparr>"

definition processShipMdnsEntry ::
  "elements \<Rightarrow> string \<Rightarrow> string \<Rightarrow> ip list \<Rightarrow> int \<Rightarrow> bool \<Rightarrow> mdns_manager \<Rightarrow> mdns_manager" where
  "processShipMdnsEntry els serviceName host addresses port isRemoved m =
     (case read_ship_entry (mmSki m) els serviceName host addresses port of
        None \<Rightarrow> m
      | Some n \<Rightarrow>
          (case map_of (mmEntries m) serviceName of
             None \<Rightarrow> if isRemoved then m
                      else report_mdns_entries True (m\<lparr>mmEntries := AList.update serviceName n (mmEntries m)\<rparr>)
           | Some e \<Rightarrow>
               if isRemoved then report_mdns_entries True (m\<lparr>mmEntries := AList.delete serviceName (mmEntries m)\<rparr>)
               else
                 (let e' = update_entry e n;
                      m1 = m\<lparr>mmEntries := AList.update serviceName e' (mmEntries m)\<rparr>
                  in if metadata_changed e n \<or> meAddresses e' \<noteq> meAddresses e then report_mdns_entries True m1 else m1)))"

definition RequestMdnsEntries :: "mdns_manager \<Rightarrow> mdns_manager" where
  "RequestMdnsEntries m = report_mdns_entries False m"

section \<open>Pairing announcements of other devices\<close>

definition processShipPairingMdnsEntry :: "elements \<Rightarrow> string \<Rightarrow> bool \<Rightarrow> mdns_manager \<Rightarrow> mdns_manager" where
  "processShipPairingMdnsEntry els serviceName isRemoved m =
     (if isRemoved then
        (if map_of (mmPairingEntries m) serviceName \<noteq> None
         then m\<lparr>mmPairingEntries := AList.delete serviceName (mmPairingEntries m)\<rparr> else m)
      else case read_pairing_entry els of
        None \<Rightarrow> m
      | Some n \<Rightarrow>
          if map_of (mmPairingEntries m) serviceName = Some n then m
          else let m1 = m\<lparr>mmPairingEntries := AList.update serviceName n (mmPairingEntries m)\<rparr>
               in case mmPairingCallback m1 of
                    None \<Rightarrow> m1
                  | Some cb \<Rightarrow> m1\<lparr>mmDelivered := mmDelivered m1 @ [(cb, n)]\<rparr>)"

definition RegisterPairingCallback :: "nat \<Rightarrow> mdns_manager \<Rightarrow> mdns_manager" where
  "RegisterPairingCallback cb m = m\<lparr>mmPairingCallback := Some cb\<rparr>"

definition UnregisterPairingCallback :: "mdns_manager \<Rightarrow> mdns_manager" where
  "UnregisterPairingCallback m = m\<lparr>mmPairingCallback := None\<rparr>"

definition SearchPairingServices :: "nat option \<Rightarrow> mdns_manager \<Rightarrow> error option \<times> mdns_manager" where
  "SearchPairingServices callback m =
     (case callback of
        None \<Rightarrow> (Some (Opaque ''callback cannot be nil''), m)
      | Some cb \<Rightarrow>
          if \<not> mmStarted m
          then (Some (Opaque ''mDNS manager not started: call Start() before SearchPairingServices''), m)
          else if mmProvider m = None then (Some (Sentinel ErrMDNSSearchFailed), m)
          else (None, RegisterPairingCallback cb m))"

definition RequestPairingEntries :: "mdns_manager \<Rightarrow> error + (string \<times> ship_pairing_txt) list" where
  "RequestPairingEntries m =
     (if \<not> mmStarted m
      then Inl (Opaque ''mDNS manager not started: call Start() before RequestPairingEntries'')
      else Inr (mmPairingEntries m))"

definition SimulatePairingDiscovery :: "ship_pairing_txt option \<Rightarrow> mdns_manager \<Rightarrow> mdns_manager" where
  "SimulatePairingDiscovery txtRecord m =
     (case txtRecord of None \<Rightarrow> m
      | Some t \<Rightarrow> (case parseTxt (convertPairingTXTToArray t) of None \<Rightarrow> m
          | Some els \<Rightarrow> processShipPairingMdnsEntry els ''servicename'' False m))"

section \<open>Records from the provider\<close>

definition processMdnsEntry :: "resolve_call \<Rightarrow> mdns_manager \<Rightarrow> mdns_manager" where
  "processMdnsEntry c m =
     (case detectServiceType (rcType c) of
        ServiceTypeShip \<Rightarrow>
          processShipMdnsEntry (rcElements c) (rcName c) (rcHost c) (rcAddresses c) (rcPort c) (rcRemove c) m
      | ServiceTypeShipPairing \<Rightarrow> processShipPairingMdnsEntry (rcElements c) (rcName c) (rcRemove c) m
      | ServiceTypeUnknown \<Rightarrow> m)"

section \<open>What is known about other devices\<close>

text \<open>
  Entries carry their own name, are never the device's own and have no link-local IPv6 address; cached and
  delivered pairing announcements are valid.
\<close>

definition entries_ok :: "mdns_manager \<Rightarrow> bool" where
  "entries_ok m \<longleftrightarrow>
     (\<forall>(k, e) \<in> set (mmEntries m). meName e = k \<and> meSki e \<noteq> mmSki m \<and> (\<forall>a \<in> set (meAddresses e). \<not> is_link_local6 a))
     \<and> (\<forall>(k, t) \<in> set (mmPairingEntries m). Validate t = None) \<and> (\<forall>(cb, t) \<in> set (mmDelivered m). Validate t = None)"

lemma merge_addresses_set: "set (merge_addresses as known) \<subseteq> set as \<union> set known"
proof (induction "as" arbitrary: known)
  case (Cons a "as")
  from Cons.IH [of known] Cons.IH [of "known @ [a]"] show ?case
    unfolding merge_addresses_def by (auto split: if_splits)
qed (simp add: merge_addresses_def)

lemma read_ship_entry_ok:
  "read_ship_entry own els name host addresses port = Some n \<Longrightarrow>
     meName n = name \<and> meSki n \<noteq> own \<and> (\<forall>a \<in> set (meAddresses n). \<not> is_link_local6 a)"
  by (auto simp: read_ship_entry_def split: if_splits)

lemma read_pairing_entry_ok: "read_pairing_entry els = Some t \<Longrightarrow> Validate t = None"
  by (auto simp: read_pairing_entry_def Let_def validatePairingTXTStrict_None [symmetric] split: if_splits)

lemma report_mdns_entries_simps [simp]:
  "mmEntries (report_mdns_entries b m) = mmEntries m" "mmSki (report_mdns_entries b m) = mmSki m"
  "mmPairingEntries (report_mdns_entries b m) = mmPairingEntries m" "mmDelivered (report_mdns_entries b m) = mmDelivered m"
  by (simp_all add: report_mdns_entries_def split: option.split)

lemma set_update_subset: "set (AList.update k v ps) \<subseteq> insert (k, v) (set ps)"
  by (induction ps) auto

lemma set_delete_subset: "set (AList.delete k ps) \<subseteq> set ps"
  by (auto simp: AList.delete_eq)

lemma entries_ok_update:
  assumes "entries_ok m" "meName e = k" "meSki e \<noteq> mmSki m" "\<forall>a \<in> set (meAddresses e). \<not> is_link_local6 a"
  shows "entries_ok (m\<lparr>mmEntries := AList.update k e (mmEntries m)\<rparr>)"
  using assms set_update_subset [of k e "mmEntries m"] by (fastforce simp: entries_ok_def)

lemma entries_ok_report [simp]: "entries_ok (report_mdns_entries b m) = entries_ok m"
  by (simp add: entries_ok_def)

lemma entries_ok_ship:
  assumes "entries_ok m"
  shows "entries_ok (processShipMdnsEntry els name host addresses port isRemoved m)"
proof (cases "read_ship_entry (mmSki m) els name host addresses port")
  case (Some n)
  note n = read_ship_entry_ok [OF Some]
  show ?thesis
  proof (cases "map_of (mmEntries m) name")
    case None
    then show ?thesis using Some n assms by (simp add: processShipMdnsEntry_def entries_ok_update)
  next
    case e: (Some e)
    then have "(name, e) \<in> set (mmEntries m)" by (rule map_of_SomeD)
    with assms have "meName e = name" "meSki e \<noteq> mmSki m" "\<forall>a \<in> set (meAddresses e). \<not> is_link_local6 a"
      by (auto simp: entries_ok_def)
    with n have "entries_ok (m\<lparr>mmEntries := AList.update name (update_entry e n) (mmEntries m)\<rparr>)"
      using merge_addresses_set [of "meAddresses n" "meAddresses e"]
      by (intro entries_ok_update assms) (auto simp: update_entry_def)
    moreover have "entries_ok (m\<lparr>mmEntries := AList.delete name (mmEntries m)\<rparr>)"
      using assms set_delete_subset [of name "mmEntries m"] by (fastforce simp: entries_ok_def)
    ultimately show ?thesis using Some e by (simp add: processShipMdnsEntry_def Let_def)
  qed
qed (simp add: processShipMdnsEntry_def assms)

lemma entries_ok_pairing:
  assumes "entries_ok m"
  shows "entries_ok (processShipPairingMdnsEntry els name isRemoved m)"
proof -
  have "entries_ok (m\<lparr>mmPairingEntries := AList.delete name (mmPairingEntries m)\<rparr>)"
    using assms set_delete_subset [of name "mmPairingEntries m"] by (fastforce simp: entries_ok_def)
  moreover have "entries_ok (m\<lparr>mmPairingEntries := AList.update name n (mmPairingEntries m)\<rparr>)"
    if "read_pairing_entry els = Some n" for n
    using assms set_update_subset [of name n "mmPairingEntries m"] read_pairing_entry_ok [OF that]
    by (fastforce simp: entries_ok_def)
  moreover have "entries_ok (m\<lparr>mmPairingEntries := AList.update name n (mmPairingEntries m),
      mmDelivered := mmDelivered m @ [(cb, n)]\<rparr>)" if "read_pairing_entry els = Some n" for n cb
    using assms set_update_subset [of name n "mmPairingEntries m"] read_pairing_entry_ok [OF that]
    by (fastforce simp: entries_ok_def)
  ultimately show ?thesis
    using assms by (auto simp: processShipPairingMdnsEntry_def Let_def split: option.split)
qed

lemma entries_ok_process: "entries_ok m \<Longrightarrow> entries_ok (processMdnsEntry c m)"
  by (simp add: processMdnsEntry_def entries_ok_ship entries_ok_pairing split: service_type.split)

end
