(* ===== verification/MdnsManager.thy ===== *)
theory MdnsManager
  imports MdnsEntries
begin

text \<open>
  The mDNS manager (\<open>mdns/mdns.go\<close>): start and shutdown, the choice of the provider, the announcements of this device and
  the refresh of its network interfaces. The interfaces of the machine and the answers of the libraries behind
  the providers are given at each step. One step is one handler, run to its end.
\<close>

section \<open>Interfaces\<close>

record mdns_env =
  enInterface :: "string \<Rightarrow> net_interface option"
  enProvider :: provider_env

definition isInterfaceUsable :: "net_interface \<Rightarrow> bool" where
  "isInterfaceUsable i \<longleftrightarrow> niUp i \<and> \<not> niLoopback i \<and> niAddrs i \<noteq> None \<and> niAddrs i \<noteq> Some 0"

definition getUsableInterface :: "mdns_env \<Rightarrow> string \<Rightarrow> net_interface option" where
  "getUsableInterface env name =
     (case enInterface env name of None \<Rightarrow> None | Some i \<Rightarrow> if isInterfaceUsable i then Some i else None)"

text \<open>None is \<open>ErrNoInterfacesAvailable\<close>, the only error there is.\<close>

definition resolveInterfaces :: "mdns_env \<Rightarrow> mdns_manager \<Rightarrow> (net_interface list \<times> int list) option" where
  "resolveInterfaces env m =
     (if mmIfaces m = [] then Some ([], [InterfaceUnspec])
      else let ifaces = List.map_filter (getUsableInterface env) (mmIfaces m)
           in if ifaces = [] then None else Some (ifaces, map niIndex ifaces))"

definition interfaces :: "mdns_env \<Rightarrow> mdns_manager \<Rightarrow> (net_interface list \<times> int list) option \<times> mdns_manager" where
  "interfaces env m =
     (let r = resolveInterfaces env m
      in if mmIfaces m = [] then (r, m)
         else let names = (case r of None \<Rightarrow> [] | Some (ifaces, _) \<Rightarrow> map niName ifaces)
              in (r, m\<lparr>mmCurrentIfaces := names, mmMissingIfaces := filter (\<lambda>n. n \<notin> set names) (mmIfaces m)\<rparr>))"

section \<open>The ship service\<close>

definition selection_number :: "provider_selection \<Rightarrow> nat" where
  "selection_number s = (case s of MdnsProviderSelectionAll \<Rightarrow> 0 | MdnsProviderSelectionAvahiOnly \<Rightarrow> 1
     | MdnsProviderSelectionGoZeroConfOnly \<Rightarrow> 2 | MdnsProviderSelectionTestSetup \<Rightarrow> 3 | OtherSelection n \<Rightarrow> n)"

definition ship_txt :: "mdns_manager \<Rightarrow> string list" where
  "ship_txt m = announcement_txt (mmIdentifier m) (mmSki m) (mmBrand m) (mmModel m) (mmType m) (mmAutoaccept m)
     (mmSerial m) (mmCategories m)"

definition AnnounceMdnsEntry :: "mdns_env \<Rightarrow> mdns_manager \<Rightarrow> error option \<times> mdns_manager" where
  "AnnounceMdnsEntry env m =
     (case mmProvider m of
        None \<Rightarrow> (Some (Opaque (''cannot announce mDNS entry: no provider available (selection: ''
                   @ Itoa (selection_number (mmSelection m)) @ '')'')), m)
      | Some p \<Rightarrow>
          if mmAnnounced m then (None, m)
          else if mmIdentifier m = [] then
            (Some (Opaque (''cannot announce mDNS entry: service identifier is empty (SKI: '' @ mmSki m @ '')'')), m)
          else if mmSki m = [] then
            (Some (Opaque (''cannot announce mDNS entry: SKI is empty (identifier: '' @ mmIdentifier m @ '')'')), m)
          else if mmServiceName m = [] then
            (Some (Opaque (''cannot announce mDNS entry: service name is empty (SKI: '' @ mmSki m
               @ '', identifier: '' @ mmIdentifier m @ '')'')), m)
          else if mmPort m \<le> 0 \<or> mmPort m > 65535 then
            (Some (Opaque (''cannot announce mDNS entry: invalid port '' @ decimal (mmPort m))), m)
          else case provider_Announce (enProvider env) shipZeroConfServiceType (mmServiceName m) (mmPort m) (ship_txt m) p of
            (Inl err, p1) \<Rightarrow> (Some err, m\<lparr>mmProvider := Some p1\<rparr>)
          | (Inr i, p1) \<Rightarrow> (None, m\<lparr>mmProvider := Some p1, mmInstanceID := i, mmAnnounced := True\<rparr>))"

text \<open>\<open>mdnsProvider.UnannounceService\<close>, with the provider of the manager\<close>

definition withdraw :: "string \<Rightarrow> mdns_manager \<Rightarrow> error option \<times> mdns_manager" where
  "withdraw i m =
     (case mmProvider m of None \<Rightarrow> (None, m)
      | Some p \<Rightarrow> (case provider_Unannounce i p of (err, p1) \<Rightarrow> (err, m\<lparr>mmProvider := Some p1\<rparr>)))"

definition UnannounceMdnsEntry :: "mdns_manager \<Rightarrow> mdns_manager" where
  "UnannounceMdnsEntry m =
     (if \<not> mmAnnounced m \<or> mmProvider m = None then m
      else case withdraw (mmInstanceID m) m of
        (Some err, m1) \<Rightarrow> m1
      | (None, m1) \<Rightarrow> m1\<lparr>mmAnnounced := False\<rparr>)"

definition SetAutoAccept_mdns :: "mdns_env \<Rightarrow> bool \<Rightarrow> mdns_manager \<Rightarrow> mdns_manager" where
  "SetAutoAccept_mdns env accept m =
     (let m1 = m\<lparr>mmAutoaccept := accept\<rparr>
      in if \<not> mmAnnounced m1 \<or> mmProvider m1 = None then m1
         else let old = mmInstanceID m1
         in case AnnounceMdnsEntry env (m1\<lparr>mmAnnounced := False\<rparr>) of
              (Some err, m2) \<Rightarrow> m2
            | (None, m2) \<Rightarrow>
                if old \<noteq> [] \<and> old \<noteq> mmInstanceID m2 then snd (withdraw old m2) else m2)"

section \<open>Pairing services\<close>

definition AnnouncePairingService ::
  "mdns_env \<Rightarrow> ship_pairing_txt option \<Rightarrow> mdns_manager \<Rightarrow> (error + string) \<times> mdns_manager" where
  "AnnouncePairingService env txtRecord m =
     (case mmProvider m of
        None \<Rightarrow> (Inl (Opaque ''cannot announce pairing service: no provider available''), m)
      | Some p \<Rightarrow>
          (case txtRecord of
             None \<Rightarrow> (Inl (Opaque ''txtRecord cannot be nil''), m)
           | Some t \<Rightarrow>
               (case Validate t of
                  Some err \<Rightarrow> (Inl (Wrapped (''invalid TXT record: '' @ error_text err) err), m)
                | None \<Rightarrow>
                    (let n = Suc (mmCounter m); logicalID = Itoa n;
                         serviceName = mmServiceName m @ ''-pairing#'' @ logicalID;
                         m1 = m\<lparr>mmCounter := n\<rparr>
                     in case provider_Announce (enProvider env) shipPairingZeroConfServiceType serviceName (mmPort m)
                              (convertPairingTXTToArray t) p of
                          (Inl err, p1) \<Rightarrow>
                            (Inl (Wrapped (''failed to announce pairing service: '' @ error_text err) err),
                             m1\<lparr>mmProvider := Some p1\<rparr>)
                        | (Inr i, p1) \<Rightarrow>
                            (Inr logicalID, m1\<lparr>mmProvider := Some p1,
                               mmPairings := AList.update logicalID
                                 \<lparr>apServiceName = serviceName, apTxtRecord = t, apProviderID = i\<rparr> (mmPairings m1)\<rparr>)))))"

definition UnannouncePairingService :: "string \<Rightarrow> mdns_manager \<Rightarrow> error option \<times> mdns_manager" where
  "UnannouncePairingService logicalID m =
     (if mmProvider m = None then (Some (Sentinel ErrPairingNotActive), m)
      else case map_of (mmPairings m) logicalID of
        None \<Rightarrow> (Some (Opaque (''pairing logical ID '' @ logicalID @ '' not found'')), m)
      | Some entry \<Rightarrow>
          withdraw (apProviderID entry) (m\<lparr>mmPairings := AList.delete logicalID (mmPairings m)\<rparr>))"

definition IsPairingServiceAnnounced :: "mdns_manager \<Rightarrow> bool" where
  "IsPairingServiceAnnounced m \<longleftrightarrow> mmPairings m \<noteq> []"

section \<open>Changes of the interfaces\<close>

text \<open>The provider side of all pairing services is torn down, the services stay tracked.\<close>

definition suspend_pairing :: "string \<Rightarrow> mdns_manager \<Rightarrow> mdns_manager" where
  "suspend_pairing logicalID m =
     (case map_of (mmPairings m) logicalID of None \<Rightarrow> m
      | Some entry \<Rightarrow>
          (let m1 = snd (withdraw (apProviderID entry) m)
           in m1\<lparr>mmPairings := AList.update logicalID (entry\<lparr>apProviderID := []\<rparr>) (mmPairings m1)\<rparr>))"

text \<open>A tracked pairing service is announced anew, then its old instance is withdrawn; False ends the loop.\<close>

definition reannounce_pairing :: "mdns_env \<Rightarrow> string \<Rightarrow> mdns_manager \<Rightarrow> bool \<times> mdns_manager" where
  "reannounce_pairing env logicalID m =
     (case (map_of (mmPairings m) logicalID, mmProvider m) of
        (Some entry, Some p) \<Rightarrow>
          (case provider_Announce (enProvider env) shipPairingZeroConfServiceType (apServiceName entry) (mmPort m)
                  (convertPairingTXTToArray (apTxtRecord entry)) p of
             (Inl err, p1) \<Rightarrow> (False, m\<lparr>mmProvider := Some p1\<rparr>)
           | (Inr i, p1) \<Rightarrow>
               (let m1 = m\<lparr>mmProvider := Some p1,
                      mmPairings := AList.update logicalID (entry\<lparr>apProviderID := i\<rparr>) (mmPairings m)\<rparr>
                in (True, if apProviderID entry \<noteq> [] then snd (withdraw (apProviderID entry) m1) else m1)))
      | _ \<Rightarrow> (True, m))"

fun reannounce_pairings :: "mdns_env \<Rightarrow> string list \<Rightarrow> mdns_manager \<Rightarrow> mdns_manager" where
  "reannounce_pairings env [] m = m"
| "reannounce_pairings env (i # is) m =
     (case reannounce_pairing env i m of (False, m1) \<Rightarrow> m1 | (True, m1) \<Rightarrow> reannounce_pairings env is m1)"

definition reannounceWithNewInterfaces :: "mdns_env \<Rightarrow> mdns_manager \<Rightarrow> mdns_manager" where
  "reannounceWithNewInterfaces env m =
     (let m1 = m\<lparr>mmAnnounced := False\<rparr>
      in case resolveInterfaces env m1 of
           None \<Rightarrow>
             (let m2 = (if mmAnnounced m then UnannounceMdnsEntry m1 else m1)
              in if IsPairingServiceAnnounced m then fold suspend_pairing (map fst (mmPairings m2)) m2 else m2)
         | Some (ifaces, ixs) \<Rightarrow>
             (let m2 = m1\<lparr>mmProvider := map_option (UpdateInterfaces ifaces ixs) (mmProvider m1)\<rparr>
              in case AnnounceMdnsEntry env m2 of
                   (Some err, m3) \<Rightarrow> m3
                 | (None, m3) \<Rightarrow> reannounce_pairings env (map fst (mmPairings m3)) m3))"

text \<open>The tick of the refresh goroutine; the interfaces in use are listed in the configured order.\<close>

definition attemptResolveMapping :: "mdns_env \<Rightarrow> mdns_manager \<Rightarrow> mdns_manager" where
  "attemptResolveMapping env m =
     (let available = filter (\<lambda>n. getUsableInterface env n \<noteq> None) (remdups (mmIfaces m));
          appeared = filter (\<lambda>n. n \<in> set (mmMissingIfaces m)) available;
          disappeared = filter (\<lambda>n. n \<notin> set available) (mmCurrentIfaces m);
          missing = filter (\<lambda>n. n \<notin> set appeared) (mmMissingIfaces m);
          m1 = m\<lparr>mmMissingIfaces := missing @ filter (\<lambda>n. n \<notin> set missing) disappeared, mmCurrentIfaces := available\<rparr>
      in if \<not> mmRefresh m then m
         else if appeared \<noteq> [] \<or> disappeared \<noteq> [] then reannounceWithNewInterfaces env m1 else m1)"

section \<open>Start and shutdown\<close>

text \<open>
  The common part of \<open>initializeAvahiProvider\<close> and \<open>initializeZeroconfProvider\<close>. A provider that fails to start is shut
  down and dropped; nothing was announced through it.
\<close>

definition start_provider ::
  "mdns_env \<Rightarrow> string \<Rightarrow> string \<Rightarrow> mdns_provider option option \<Rightarrow> nat \<Rightarrow> bool \<Rightarrow> mdns_manager
    \<Rightarrow> error option \<times> mdns_manager" where
  "start_provider env name title made n autoReconnect m =
     (case made of
        None \<Rightarrow> (Some (Opaque (name @ '' provider factory function not available (interfaces: '' @ Itoa n @ '')'')), m)
      | Some None \<Rightarrow> (Some (Opaque (''failed to create '' @ title @ '' provider instance (interfaces: '' @ Itoa n @ '')'')), m)
      | Some (Some p) \<Rightarrow>
          (case provider_Start (enProvider env) (mmPairingMode m) autoReconnect p of
             (False, _) \<Rightarrow> (Some (Opaque (name @ '' provider failed to start (interfaces: '' @ Itoa n
               @ '', autoReconnect: '' @ bool_text autoReconnect @ '')'')), m)
           | (True, p1) \<Rightarrow> (None, m\<lparr>mmProvider := Some p1\<rparr>)))"

definition initializeAvahiProvider ::
  "mdns_env \<Rightarrow> provider_factory \<Rightarrow> int list \<Rightarrow> bool \<Rightarrow> mdns_manager \<Rightarrow> error option \<times> mdns_manager" where
  "initializeAvahiProvider env f ixs autoReconnect m =
     start_provider env ''avahi'' ''Avahi'' (map_option (\<lambda>g. g ixs) (NewAvahi f)) (length ixs) autoReconnect m"

definition initializeZeroconfProvider ::
  "mdns_env \<Rightarrow> provider_factory \<Rightarrow> net_interface list \<Rightarrow> bool \<Rightarrow> mdns_manager \<Rightarrow> error option \<times> mdns_manager" where
  "initializeZeroconfProvider env f ifaces autoReconnect m =
     start_provider env ''zeroconf'' ''Zeroconf'' (map_option (\<lambda>g. g ifaces) (NewZeroconf f)) (length ifaces) autoReconnect m"

definition initializeProviderWithFallback ::
  "mdns_env \<Rightarrow> provider_factory \<Rightarrow> int list \<Rightarrow> net_interface list \<Rightarrow> mdns_manager \<Rightarrow> error option \<times> mdns_manager" where
  "initializeProviderWithFallback env f ixs ifaces m =
     (case initializeAvahiProvider env f ixs False m of
        (None, m1) \<Rightarrow> (None, m1)
      | (Some _, m1) \<Rightarrow>
          (case initializeZeroconfProvider env f ifaces False m1 of
             (None, m2) \<Rightarrow> (None, m2)
           | (Some _, m2) \<Rightarrow>
               (Some (Opaque (''no mDNS provider available - both Avahi and Zeroconf failed to initialize (interfaces: ''
                  @ Itoa (length ifaces) @ '')'')), m2)))"

definition initialize ::
  "mdns_env \<Rightarrow> net_interface list \<Rightarrow> int list \<Rightarrow> mdns_manager \<Rightarrow> error option \<times> mdns_manager" where
  "initialize env ifaces ixs m =
     (case mmSelection m of
        MdnsProviderSelectionTestSetup \<Rightarrow>
          (case mmProvider m of
             None \<Rightarrow> (Some (Opaque ''test provider must be set before starting with MdnsProviderSelectionTestSetup''), m)
           | Some p \<Rightarrow>
               (case provider_Start (enProvider env) (mmPairingMode m) True p of
                  (False, p1) \<Rightarrow> (Some (Opaque ''test provider failed to start''), m\<lparr>mmProvider := Some p1\<rparr>)
                | (True, p1) \<Rightarrow> (None, m\<lparr>mmProvider := Some p1\<rparr>)))
      | s \<Rightarrow>
          (case mmFactory m of
             None \<Rightarrow> (Some (Opaque (''mDNS provider factory not initialized for provider selection ''
                        @ Itoa (selection_number s))), m)
           | Some f \<Rightarrow>
               (case s of
                  MdnsProviderSelectionAll \<Rightarrow> initializeProviderWithFallback env f ixs ifaces m
                | MdnsProviderSelectionAvahiOnly \<Rightarrow> initializeAvahiProvider env f ixs True m
                | MdnsProviderSelectionGoZeroConfOnly \<Rightarrow> initializeZeroconfProvider env f ifaces True m
                | _ \<Rightarrow> (Some (Opaque (''invalid mDNS provider selection: '' @ Itoa (selection_number s))), m))))"

definition Start_mdns :: "mdns_env \<Rightarrow> pairing_mode \<Rightarrow> nat option \<Rightarrow> mdns_manager \<Rightarrow> error option \<times> mdns_manager" where
  "Start_mdns env mode cb m =
     (let m1 = m\<lparr>mmReport := cb, mmPairingMode := mode\<rparr>
      in if mmStarted m1 then AnnounceMdnsEntry env m1
         else let (resolved, m2) = interfaces env m1;
                  (ifaces, ixs) = (case resolved of None \<Rightarrow> ([], []) | Some r \<Rightarrow> r)
         in case initialize env ifaces ixs m2 of
              (Some err, m3) \<Rightarrow> (Some err, m3)
            | (None, m3) \<Rightarrow>
                if mmProvider m3 = None
                then (Some (Opaque (''failed to initialize any mDNS provider (selection: ''
                        @ Itoa (selection_number (mmSelection m3)) @ '')'')), m3)
                else
                  (let m4 = m3\<lparr>mmStarted := True\<rparr>;
                       (err, m5) = (if resolved \<noteq> None then AnnounceMdnsEntry env m4 else (None, m4))
                   in if err \<noteq> None then (err, m5)
                      else (None, if mmIfaces m5 \<noteq> [] then m5\<lparr>mmRefresh := True\<rparr> else m5)))"

text \<open>None: the call does not return, see \<open>provider_Shutdown\<close>.\<close>

definition Shutdown_mdns :: "mdns_manager \<Rightarrow> mdns_manager option" where
  "Shutdown_mdns m =
     (let m1 = m\<lparr>mmRefresh := False\<rparr>
      in if mmProvider m1 = None then Some m1
         else let m2 = UnannounceMdnsEntry m1
         in case provider_Shutdown (the (mmProvider m2)) of
              None \<Rightarrow> None
            | Some p \<Rightarrow> Some (m2\<lparr>mmProvider := None, mmReport := None, mmEntries := [], mmPairingEntries := [],
                mmPairingCallback := None, mmStarted := False, mmAnnounced := False\<rparr>))"

definition SetMdnsProvider :: "mdns_provider option \<Rightarrow> mdns_manager \<Rightarrow> mdns_manager" where
  "SetMdnsProvider p m = (if p = None then m else m\<lparr>mmProvider := p\<rparr>)"

definition SetProviderFactory :: "provider_factory option \<Rightarrow> mdns_manager \<Rightarrow> mdns_manager" where
  "SetProviderFactory f m = m\<lparr>mmFactory := f\<rparr>"

end
