(* ===== verification/MdnsRuns.thy ===== *)
theory MdnsRuns
  imports MdnsManager
begin

text \<open>
  The manager over time: any sequence of calls of its methods, ticks of the refresh, and records reported by the
  provider. What is tracked as announced is on the network, and what is known of others is well-formed.
\<close>

section \<open>Events\<close>

datatype mdns_event =
    StartMdns pairing_mode "nat option"
  | ShutdownMdns
  | AnnounceMdns
  | UnannounceMdns
  | AutoAcceptMdns bool
  | AnnouncePairingMdns "ship_pairing_txt option"
  | UnannouncePairingMdns string
  | SearchMdns "nat option"
  | UnregisterMdns
  | RefreshTick
  | RequestMdns
  | ZeroconfEntry zc_channel "service_entry option"
  | AvahiEntry "error + avahi_service" avahi_service bool
  | AvahiLost
  | AvahiReconnect duration

definition from_provider :: "resolve_call option \<Rightarrow> mdns_manager \<Rightarrow> mdns_manager" where
  "from_provider c m = (case c of None \<Rightarrow> m | Some c \<Rightarrow> processMdnsEntry c m)"

text \<open>A handler, run to its end; None if it does not return.\<close>

definition mdns_step :: "mdns_env \<Rightarrow> mdns_event \<Rightarrow> mdns_manager \<Rightarrow> mdns_manager option" where
  "mdns_step env e m =
     (case e of
        StartMdns mode cb \<Rightarrow> Some (snd (Start_mdns env mode cb m))
      | ShutdownMdns \<Rightarrow> Shutdown_mdns m
      | AnnounceMdns \<Rightarrow> Some (snd (AnnounceMdnsEntry env m))
      | UnannounceMdns \<Rightarrow> Some (UnannounceMdnsEntry m)
      | AutoAcceptMdns b \<Rightarrow> Some (SetAutoAccept_mdns env b m)
      | AnnouncePairingMdns t \<Rightarrow> Some (snd (AnnouncePairingService env t m))
      | UnannouncePairingMdns i \<Rightarrow> Some (snd (UnannouncePairingService i m))
      | SearchMdns cb \<Rightarrow> Some (snd (SearchPairingServices cb m))
      | UnregisterMdns \<Rightarrow> Some (UnregisterPairingCallback m)
      | RefreshTick \<Rightarrow> Some (attemptResolveMapping env m)
      | RequestMdns \<Rightarrow> Some (RequestMdnsEntries m)
      | ZeroconfEntry ch s \<Rightarrow>
          Some (case mmProvider m of Some (Zeroconf z) \<Rightarrow> from_provider (zeroconf_entry ch s z) m | _ \<Rightarrow> m)
      | AvahiEntry resolved s isRemoved \<Rightarrow>
          Some (case mmProvider m of
            Some (Avahi a) \<Rightarrow>
              if avListenerRunning a
              then (case processService resolved s isRemoved a of
                      (c, a1) \<Rightarrow> from_provider c (m\<lparr>mmProvider := Some (Avahi a1)\<rparr>))
              else m
          | _ \<Rightarrow> m)
      | AvahiLost \<Rightarrow>
          Some (case mmProvider m of Some (Avahi a) \<Rightarrow> m\<lparr>mmProvider := Some (Avahi (avahi_disconnect a))\<rparr> | _ \<Rightarrow> m)
      | AvahiReconnect jitter \<Rightarrow>
          Some (case mmProvider m of
            Some (Avahi a) \<Rightarrow> m\<lparr>mmProvider := Some (Avahi (attemptReconnect (peDaemon (enProvider env)) jitter a))\<rparr>
          | _ \<Rightarrow> m))"

section \<open>Frames\<close>

text \<open>What the announcing operations leave alone\<close>

definition rest :: "mdns_manager \<Rightarrow> mdns_manager" where
  "rest m = m\<lparr>mmProvider := None, mmAnnounced := False, mmInstanceID := [], mmPairings := [], mmCounter := 0\<rparr>"

lemma rest_update [simp]:
  "rest (m\<lparr>mmProvider := p\<rparr>) = rest m" "rest (m\<lparr>mmAnnounced := a\<rparr>) = rest m" "rest (m\<lparr>mmInstanceID := i\<rparr>) = rest m"
  "rest (m\<lparr>mmPairings := ps\<rparr>) = rest m" "rest (m\<lparr>mmCounter := c\<rparr>) = rest m"
  by (simp_all add: rest_def)

lemma rest_fields:
  assumes "rest m' = rest m"
  shows "mmSki m' = mmSki m" "mmEntries m' = mmEntries m" "mmPairingEntries m' = mmPairingEntries m"
    "mmDelivered m' = mmDelivered m" "mmServiceName m' = mmServiceName m" "mmPort m' = mmPort m"
    "mmFactory m' = mmFactory m" "mmSelection m' = mmSelection m" "ship_txt m' = ship_txt m" "mmIfaces m' = mmIfaces m"
  using arg_cong [OF assms, of mmSki] arg_cong [OF assms, of mmEntries] arg_cong [OF assms, of mmPairingEntries]
    arg_cong [OF assms, of mmDelivered] arg_cong [OF assms, of mmServiceName] arg_cong [OF assms, of mmPort]
    arg_cong [OF assms, of mmFactory] arg_cong [OF assms, of mmSelection] arg_cong [OF assms, of ship_txt]
    arg_cong [OF assms, of mmIfaces]
  by (simp_all add: rest_def ship_txt_def)

lemma rest_announce [simp]: "rest (snd (AnnounceMdnsEntry env m)) = rest m"
  by (auto simp: AnnounceMdnsEntry_def split: option.split prod.split sum.split)

lemma rest_withdraw [simp]: "rest (snd (withdraw i m)) = rest m"
  by (auto simp: withdraw_def split: option.split prod.split)

lemma rest_unannounce [simp]: "rest (UnannounceMdnsEntry m) = rest m"
  using rest_withdraw [of "mmInstanceID m" m]
  by (auto simp: UnannounceMdnsEntry_def simp del: rest_withdraw split: option.split prod.split)

lemma rest_announce_pairing [simp]: "rest (snd (AnnouncePairingService env t m)) = rest m"
  by (auto simp: AnnouncePairingService_def Let_def split: option.split prod.split sum.split)

lemma rest_unannounce_pairing [simp]: "rest (snd (UnannouncePairingService i m)) = rest m"
  by (auto simp: UnannouncePairingService_def split: option.split)

lemma rest_suspend [simp]: "rest (suspend_pairing i m) = rest m"
  by (auto simp: suspend_pairing_def Let_def split: option.split)

lemma rest_suspend_all [simp]: "rest (fold suspend_pairing is m) = rest m"
  by (induction "is" arbitrary: m) simp_all

lemma rest_reannounce_pairing [simp]: "rest (snd (reannounce_pairing env i m)) = rest m"
  by (auto simp: reannounce_pairing_def Let_def split: option.split prod.split sum.split)

lemma rest_reannounce_pairings [simp]: "rest (reannounce_pairings env is m) = rest m"
proof (induction "is" arbitrary: m)
  case (Cons i "is")
  obtain b m1 where r: "reannounce_pairing env i m = (b, m1)" by (cases "reannounce_pairing env i m")
  with rest_reannounce_pairing [of env i m] have "rest m1 = rest m" by simp
  with Cons.IH r show ?case by (cases b) simp_all
qed simp

lemma rest_reannounce [simp]: "rest (reannounceWithNewInterfaces env m) = rest m"
proof -
  have "rest m3 = rest m"
    if "AnnounceMdnsEntry env (m\<lparr>mmAnnounced := False, mmProvider := p\<rparr>) = (r, m3)" for r m3 p
    using rest_announce [of env "m\<lparr>mmAnnounced := False, mmProvider := p\<rparr>"] that by simp
  then show ?thesis
    by (auto simp: reannounceWithNewInterfaces_def Let_def split: option.split prod.split)
qed

lemma entries_ok_rest: "rest m' = rest m \<Longrightarrow> entries_ok m' = entries_ok m"
  using rest_fields [of m' m] by (simp add: entries_ok_def)

section \<open>What is known of others\<close>

text \<open>Start and shutdown\<close>

lemma interfaces_simps [simp]:
  "entries_ok (snd (interfaces env m)) = entries_ok m" "mmProvider (snd (interfaces env m)) = mmProvider m"
  by (simp_all add: interfaces_def Let_def entries_ok_def)

lemma start_provider_rest [simp]: "rest (snd (start_provider env a b made n r m)) = rest m"
  by (auto simp: start_provider_def split: option.split prod.split bool.split)

lemma initialize_rest [simp]: "rest (snd (initialize env ifaces ixs m)) = rest m"
proof -
  have f: "rest (snd (initializeProviderWithFallback env f ixs ifaces m)) = rest m" for f
  proof -
    obtain e1 m1 where 1: "initializeAvahiProvider env f ixs False m = (e1, m1)"
      by (cases "initializeAvahiProvider env f ixs False m")
    obtain e2 m2 where 2: "initializeZeroconfProvider env f ifaces False m1 = (e2, m2)"
      by (cases "initializeZeroconfProvider env f ifaces False m1")
    have "rest m1 = rest m" "rest m2 = rest m1"
      using 1 2 start_provider_rest unfolding initializeAvahiProvider_def initializeZeroconfProvider_def
      by (metis snd_conv)+
    with 1 2 show ?thesis by (simp add: initializeProviderWithFallback_def split: option.split)
  qed
  show ?thesis
    by (auto simp: initialize_def f initializeAvahiProvider_def initializeZeroconfProvider_def
        split: provider_selection.split option.split prod.split bool.split)
qed

text \<open>The parts of \<open>Start\<close>, for a property of states\<close>

lemma Start_rule:
  assumes P: "P (m\<lparr>mmReport := cb, mmPairingMode := mode\<rparr>)"
    and announce: "\<And>m. P m \<Longrightarrow> P (snd (AnnounceMdnsEntry env m))"
    and ifaces: "\<And>m. P m \<Longrightarrow> P (snd (interfaces env m))"
    and failed: "\<And>m ifaces ixs err. P m \<Longrightarrow> \<not> mmStarted m \<Longrightarrow> fst (initialize env ifaces ixs m) = Some err \<Longrightarrow> P (snd (initialize env ifaces ixs m))"
    and started: "\<And>m ifaces ixs. P m \<Longrightarrow> \<not> mmStarted m \<Longrightarrow> fst (initialize env ifaces ixs m) = None \<Longrightarrow>
      P ((snd (initialize env ifaces ixs m))\<lparr>mmStarted := True\<rparr>)"
    and refresh: "\<And>m. P m \<Longrightarrow> P (m\<lparr>mmRefresh := True\<rparr>)"
    and provided: "\<And>m ifaces ixs. P m \<Longrightarrow> fst (initialize env ifaces ixs m) = None \<Longrightarrow>
      mmProvider (snd (initialize env ifaces ixs m)) \<noteq> None"
  shows "P (snd (Start_mdns env mode cb m))"
proof (cases "mmStarted m")
  case True
  then show ?thesis using announce [OF P] by (simp add: Start_mdns_def)
next
  case False
  let ?m1 = "m\<lparr>mmReport := cb, mmPairingMode := mode\<rparr>"
  obtain r m2 where m2: "interfaces env ?m1 = (r, m2)" by (cases "interfaces env ?m1")
  from ifaces [OF P] m2 have "P m2" by simp
  moreover have "\<not> mmStarted m2" using False m2 by (auto simp: interfaces_def Let_def split: if_splits)
  obtain fs xs where i: "(case r of None \<Rightarrow> ([], []) | Some r \<Rightarrow> r) = (fs, xs)" by (cases "case r of None \<Rightarrow> ([], []) | Some r \<Rightarrow> r")
  obtain e m3 where m3: "initialize env fs xs m2 = (e, m3)" by (cases "initialize env fs xs m2")
  show ?thesis
  proof (cases e)
    case (Some err)
    then have "P m3" using failed [OF \<open>P m2\<close> \<open>\<not> mmStarted m2\<close>, of fs xs err] m3 by simp
    then show ?thesis using False m2 i m3 Some by (simp add: Start_mdns_def)
  next
    case None
    let ?m4 = "m3\<lparr>mmStarted := True\<rparr>"
    have "P ?m4" using started [OF \<open>P m2\<close> \<open>\<not> mmStarted m2\<close>, of fs xs] m3 None by simp
    moreover have "mmProvider m3 \<noteq> None" using provided [OF \<open>P m2\<close>, of fs xs] m3 None by (metis fst_conv snd_conv)
    moreover obtain e5 m5 where m5: "(if r \<noteq> None then AnnounceMdnsEntry env ?m4 else (None, ?m4)) = (e5, m5)"
      by (cases "if r \<noteq> None then AnnounceMdnsEntry env ?m4 else (None, ?m4)")
    moreover have "P m5" using announce [OF \<open>P ?m4\<close>] \<open>P ?m4\<close> m5 by (auto split: if_splits)
    ultimately show ?thesis using False m2 i m3 None refresh [OF \<open>P m5\<close>] by (auto simp: Start_mdns_def)
  qed
qed

lemma initialize_provider: "fst (initialize env ifaces ixs m) = None \<Longrightarrow> mmProvider (snd (initialize env ifaces ixs m)) \<noteq> None"
  by (auto simp: initialize_def initializeProviderWithFallback_def initializeAvahiProvider_def
      initializeZeroconfProvider_def start_provider_def split: provider_selection.splits option.splits prod.splits bool.splits)

lemma entries_ok_fields [simp]:
  "entries_ok (m\<lparr>mmStarted := b\<rparr>) = entries_ok m" "entries_ok (m\<lparr>mmRefresh := b\<rparr>) = entries_ok m"
  "entries_ok (m\<lparr>mmReport := r\<rparr>) = entries_ok m" "entries_ok (m\<lparr>mmPairingMode := d\<rparr>) = entries_ok m"
  "entries_ok (m\<lparr>mmPairingCallback := r\<rparr>) = entries_ok m" "entries_ok (m\<lparr>mmAutoaccept := b\<rparr>) = entries_ok m"
  "entries_ok (m\<lparr>mmMissingIfaces := ns\<rparr>) = entries_ok m" "entries_ok (m\<lparr>mmCurrentIfaces := ns\<rparr>) = entries_ok m"
  "entries_ok (m\<lparr>mmProvider := p\<rparr>) = entries_ok m" "entries_ok (m\<lparr>mmAnnounced := b\<rparr>) = entries_ok m"
  by (simp_all add: entries_ok_def)

lemma entries_ok_Start: "entries_ok m \<Longrightarrow> entries_ok (snd (Start_mdns env mode cb m))"
  by (rule Start_rule) (simp_all add: entries_ok_rest [OF rest_announce] entries_ok_rest [OF initialize_rest] initialize_provider)

lemma entries_ok_Shutdown: "entries_ok m \<Longrightarrow> Shutdown_mdns m = Some m' \<Longrightarrow> entries_ok m'"
proof -
  assume m: "entries_ok m" and s: "Shutdown_mdns m = Some m'"
  let ?m2 = "UnannounceMdnsEntry (m\<lparr>mmRefresh := False\<rparr>)"
  have "entries_ok ?m2" using m by (simp add: entries_ok_rest [OF rest_unannounce])
  then have d: "\<forall>(cb, t) \<in> set (mmDelivered ?m2). Validate t = None" by (simp add: entries_ok_def)
  consider "m' = m\<lparr>mmRefresh := False\<rparr>" | p where "m' = ?m2\<lparr>mmProvider := p, mmReport := None, mmEntries := [],
      mmPairingEntries := [], mmPairingCallback := None, mmStarted := False, mmAnnounced := False\<rparr>"
    using s by (auto simp: Shutdown_mdns_def Let_def split: if_splits option.splits)
  then show ?thesis using m d by cases (simp_all add: entries_ok_def)
qed

lemma entries_ok_auto: "entries_ok m \<Longrightarrow> entries_ok (SetAutoAccept_mdns env b m)"
proof -
  assume m: "entries_ok m"
  obtain r m2 where m2: "AnnounceMdnsEntry env (m\<lparr>mmAutoaccept := b, mmAnnounced := False\<rparr>) = (r, m2)"
    by (cases "AnnounceMdnsEntry env (m\<lparr>mmAutoaccept := b, mmAnnounced := False\<rparr>)")
  have "entries_ok m2"
    using entries_ok_rest [OF rest_announce, of env "m\<lparr>mmAutoaccept := b, mmAnnounced := False\<rparr>"] m2 m by simp
  with m m2 show ?thesis
    by (auto simp: SetAutoAccept_mdns_def Let_def entries_ok_rest [OF rest_withdraw] split: option.split)
qed

lemma entries_ok_refresh: "entries_ok m \<Longrightarrow> entries_ok (attemptResolveMapping env m)"
  by (simp add: attemptResolveMapping_def Let_def entries_ok_rest [OF rest_reannounce])

lemma entries_ok_from: "entries_ok m \<Longrightarrow> entries_ok (from_provider c m)"
  by (simp add: from_provider_def entries_ok_process split: option.split)

lemma entries_ok_step: "entries_ok m \<Longrightarrow> mdns_step env e m = Some m' \<Longrightarrow> entries_ok m'"
  by (auto simp: mdns_step_def entries_ok_Start entries_ok_auto entries_ok_refresh entries_ok_from
      entries_ok_rest [OF rest_announce] entries_ok_rest [OF rest_unannounce] entries_ok_rest [OF rest_announce_pairing]
      entries_ok_rest [OF rest_unannounce_pairing] SearchPairingServices_def RegisterPairingCallback_def
      UnregisterPairingCallback_def RequestMdnsEntries_def
      split: mdns_event.splits option.splits mdns_provider.splits if_splits prod.splits
      dest: entries_ok_Shutdown)

text \<open>Runs\<close>

fun mdns_run :: "(mdns_env \<times> mdns_event) list \<Rightarrow> mdns_manager \<Rightarrow> mdns_manager option" where
  "mdns_run [] m = Some m"
| "mdns_run ((env, e) # es) m = (case mdns_step env e m of None \<Rightarrow> None | Some m' \<Rightarrow> mdns_run es m')"

lemma entries_ok_run: "entries_ok m \<Longrightarrow> mdns_run es m = Some m' \<Longrightarrow> entries_ok m'"
proof (induction es m rule: mdns_run.induct)
  case (2 env e es m)
  then show ?case by (auto split: option.splits dest: entries_ok_step)
qed simp

lemma entries_ok_New: "entries_ok (NewMDNS ski brand model ty serial cs ident name port ifaces sel)"
  by (simp add: NewMDNS_def entries_ok_def)


end
