(* ===== verification/MdnsLive.thy ===== *)
theory MdnsLive
  imports MdnsRuns
begin

text \<open>
  What the manager believes to be announced is on the network, with the current data: the invariant \<open>live_ok\<close>, kept by
  every operation as long as the Avahi daemon is there and the manager is not shut down while it still tracks
  pairing announcements.
\<close>

section \<open>The invariant\<close>

definition on_network :: "mdns_manager \<Rightarrow> string \<Rightarrow> service_data option" where
  "on_network m = (case mmProvider m of None \<Rightarrow> Map.empty | Some p \<Rightarrow> announced (provider_table p))"

definition ship_service :: "mdns_manager \<Rightarrow> service_data" where
  "ship_service m = \<lparr>sdType = shipZeroConfServiceType, sdName = mmServiceName m, sdPort = mmPort m, sdTxt = ship_txt m\<rparr>"

definition pairing_data :: "mdns_manager \<Rightarrow> announced_pairing \<Rightarrow> service_data" where
  "pairing_data m e = \<lparr>sdType = shipPairingZeroConfServiceType, sdName = apServiceName e, sdPort = mmPort m,
     sdTxt = convertPairingTXTToArray (apTxtRecord e)\<rparr>"

definition pairing_name :: "mdns_manager \<Rightarrow> string \<Rightarrow> string" where
  "pairing_name m i = mmServiceName m @ ''-pairing#'' @ i"

text \<open>The tracked announcements are in the table \<open>T\<close> of the network.\<close>

definition tracked :: "(string \<Rightarrow> service_data option) \<Rightarrow> mdns_manager \<Rightarrow> bool" where
  "tracked T m \<longleftrightarrow> (mmAnnounced m \<longrightarrow> T (mmInstanceID m) = Some (ship_service m))
     \<and> (\<forall>(i, e) \<in> set (mmPairings m). apServiceName e = pairing_name m i
          \<and> (apProviderID e \<noteq> [] \<longrightarrow> T (apProviderID e) = Some (pairing_data m e)))"

definition logical_ids :: "mdns_manager \<Rightarrow> bool" where
  "logical_ids m \<longleftrightarrow> distinct (map fst (mmPairings m)) \<and> (\<forall>i \<in> fst ` set (mmPairings m). \<exists>n \<le> mmCounter m. i = Itoa n)"

definition well_set :: "mdns_manager \<Rightarrow> bool" where
  "well_set m \<longleftrightarrow> 0 \<le> mmPort m \<and> mmPort m < 65536 \<and> mmFactory m = Some DefaultProviderFactory
     \<and> mmSelection m \<noteq> MdnsProviderSelectionTestSetup"

definition live_ok :: "mdns_manager \<Rightarrow> bool" where
  "live_ok m \<longleftrightarrow> well_set m \<and> logical_ids m \<and> (mmStarted m \<longleftrightarrow> mmProvider m \<noteq> None)
     \<and> (case mmProvider m of None \<Rightarrow> \<not> mmAnnounced m \<and> mmPairings m = []
        | Some p \<Rightarrow> provider_ok p \<and> tracked (on_network m) m)"

section \<open>Tables\<close>

lemma service_types [simp]: "shipZeroConfServiceType \<noteq> shipPairingZeroConfServiceType"
  "shipPairingZeroConfServiceType \<noteq> shipZeroConfServiceType"
  by (simp_all add: shipZeroConfServiceType_def shipPairingZeroConfServiceType_def)

lemma pairing_name_inject [simp]: "pairing_name m i = pairing_name m j \<longleftrightarrow> i = j"
  by (simp add: pairing_name_def)

lemma tracked_add: "tracked T m \<Longrightarrow> T i = None \<Longrightarrow> tracked (T(i \<mapsto> d)) m"
  by (fastforce simp: tracked_def)

text \<open>An instance that is not tracked can be withdrawn.\<close>

lemma tracked_delete:
  assumes "tracked T m" "mmAnnounced m \<Longrightarrow> mmInstanceID m \<noteq> i" "\<forall>(j, e) \<in> set (mmPairings m). apProviderID e \<noteq> [] \<longrightarrow> apProviderID e \<noteq> i"
  shows "tracked (T(i := None)) m"
  using assms by (fastforce simp: tracked_def)

lemma tracked_entry:
  "tracked T m \<Longrightarrow> (i, e) \<in> set (mmPairings m) \<Longrightarrow> apServiceName e = pairing_name m i"
  "tracked T m \<Longrightarrow> (i, e) \<in> set (mmPairings m) \<Longrightarrow> apProviderID e \<noteq> [] \<Longrightarrow> T (apProviderID e) = Some (pairing_data m e)"
  by (auto simp: tracked_def)

lemma tracked_ship:
  assumes "tracked T m" "mmAnnounced m" "(j, e) \<in> set (mmPairings m)" "apProviderID e \<noteq> []"
  shows "apProviderID e \<noteq> mmInstanceID m"
  using assms tracked_entry(2) [OF assms(1,3,4)] by (auto simp: tracked_def ship_service_def pairing_data_def)

lemma tracked_pairings:
  assumes "tracked T m" "(i, e) \<in> set (mmPairings m)" "(j, e') \<in> set (mmPairings m)" "i \<noteq> j"
    "apProviderID e \<noteq> []" "apProviderID e' \<noteq> []"
  shows "apProviderID e \<noteq> apProviderID e'"
  using assms(4) tracked_entry(2) [OF assms(1,2,5)] tracked_entry(2) [OF assms(1,3,6)]
    tracked_entry(1) [OF assms(1,2)] tracked_entry(1) [OF assms(1,3)]
  by (auto simp: pairing_data_def)

section \<open>Operations on the provider\<close>

lemma announced_nonempty: "announced t i = Some d \<Longrightarrow> i \<noteq> []"
  unfolding announced_def by (drule by_id_Some) auto

lemma withdraw_cases:
  assumes "mmProvider m = Some p" "provider_ok p"
  obtains p' err where "withdraw i m = (err, m\<lparr>mmProvider := Some p'\<rparr>)" "provider_ok p'"
    "announced (provider_table p') = (on_network m)(i := None)" "err = None \<longleftrightarrow> on_network m i \<noteq> None"
proof -
  obtain err p' where w: "provider_Unannounce i p = (err, p')" by (cases "provider_Unannounce i p")
  note u = mp.unannounce_announced [OF assms(2), of i, unfolded w fst_conv snd_conv]
  show thesis
    using that [of err p'] u w assms(1) by (simp add: withdraw_def on_network_def)
qed

lemma ship_announce_cases:
  assumes "well_set m" "mmProvider m = Some p" "provider_ok p"
  obtains (same) err where "AnnounceMdnsEntry env m = (err, m)" "err = None \<longleftrightarrow> mmAnnounced m"
    | (refused) err p' where "AnnounceMdnsEntry env m = (Some err, m\<lparr>mmProvider := Some p'\<rparr>)" "provider_ok p'"
        "announced (provider_table p') = on_network m" "\<not> mmAnnounced m"
    | (made) i p' where "AnnounceMdnsEntry env m = (None, m\<lparr>mmProvider := Some p', mmInstanceID := i, mmAnnounced := True\<rparr>)"
        "provider_ok p'" "\<not> mmAnnounced m" "on_network m i = None" "i \<noteq> []"
        "announced (provider_table p') = (on_network m)(i \<mapsto> ship_service m)"
proof (cases "mmAnnounced m \<or> mmIdentifier m = [] \<or> mmSki m = [] \<or> mmServiceName m = [] \<or> mmPort m \<le> 0 \<or> mmPort m > 65535")
  case True
  then have "\<exists>err. AnnounceMdnsEntry env m = (err, m) \<and> (err = None \<longleftrightarrow> mmAnnounced m)"
    using assms(2) by (auto simp: AnnounceMdnsEntry_def)
  then show thesis using same by blast
next
  case False
  from assms(1) have port: "0 \<le> mmPort m" "mmPort m < 65536" by (simp_all add: well_set_def)
  have net: "on_network m = announced (provider_table p)" using assms(2) by (simp add: on_network_def)
  show thesis
  proof (cases rule: mp.announce_cases [OF assms(3) port, of "enProvider env" shipZeroConfServiceType "mmServiceName m" "ship_txt m"])
    case (1 err p')
    with False assms(2) net show thesis by (intro refused [of err p']) (auto simp: AnnounceMdnsEntry_def)
  next
    case (2 i p')
    moreover from this have "i \<noteq> []" using announced_nonempty [of "provider_table p'" i] by simp
    ultimately show thesis
      using False assms(2) net by (intro made [of i p']) (auto simp: AnnounceMdnsEntry_def ship_service_def)
  qed
qed

section \<open>Each operation\<close>

text \<open>The invariant of a manager with a provider\<close>

definition core :: "mdns_manager \<Rightarrow> bool" where
  "core m \<longleftrightarrow> well_set m \<and> logical_ids m \<and> tracked (on_network m) m
     \<and> (case mmProvider m of None \<Rightarrow> False | Some p \<Rightarrow> provider_ok p)"

lemma tracked_fields [simp]:
  "tracked T (m\<lparr>mmProvider := p\<rparr>) = tracked T m" "tracked T (m\<lparr>mmCounter := c\<rparr>) = tracked T m"
  "tracked T (m\<lparr>mmStarted := b\<rparr>) = tracked T m" "tracked T (m\<lparr>mmRefresh := b\<rparr>) = tracked T m"
  "tracked T (m\<lparr>mmReport := r\<rparr>) = tracked T m" "tracked T (m\<lparr>mmPairingMode := d\<rparr>) = tracked T m"
  "tracked T (m\<lparr>mmMissingIfaces := ns\<rparr>) = tracked T m" "tracked T (m\<lparr>mmCurrentIfaces := ns\<rparr>) = tracked T m"
  "tracked T (m\<lparr>mmPairingCallback := r\<rparr>) = tracked T m" "tracked T (m\<lparr>mmReports := rs\<rparr>) = tracked T m"
  "tracked T (m\<lparr>mmEntries := es\<rparr>) = tracked T m" "tracked T (m\<lparr>mmPairingEntries := ps\<rparr>) = tracked T m"
  "tracked T (m\<lparr>mmDelivered := ds\<rparr>) = tracked T m"
  by (simp_all add: tracked_def ship_service_def ship_txt_def pairing_data_def pairing_name_def)

lemma core_fields [simp]:
  "core (m\<lparr>mmRefresh := b\<rparr>) = core m" "core (m\<lparr>mmStarted := b\<rparr>) = core m"
  "core (m\<lparr>mmReport := r\<rparr>) = core m" "core (m\<lparr>mmPairingMode := d\<rparr>) = core m"
  "core (m\<lparr>mmMissingIfaces := ns\<rparr>) = core m" "core (m\<lparr>mmCurrentIfaces := ns\<rparr>) = core m"
  "core (m\<lparr>mmPairingCallback := r\<rparr>) = core m" "core (m\<lparr>mmReports := rs\<rparr>) = core m"
  "core (m\<lparr>mmEntries := es\<rparr>) = core m" "core (m\<lparr>mmPairingEntries := ps\<rparr>) = core m"
  "core (m\<lparr>mmDelivered := ds\<rparr>) = core m"
  by (simp_all add: core_def well_set_def logical_ids_def on_network_def)

lemma core_provider:
  "core m \<Longrightarrow> provider_ok p' \<Longrightarrow> tracked (announced (provider_table p')) m \<Longrightarrow> core (m\<lparr>mmProvider := Some p'\<rparr>)"
  by (simp add: core_def well_set_def logical_ids_def on_network_def)

lemma core_silent: "core m \<Longrightarrow> core (m\<lparr>mmAnnounced := False\<rparr>)"
  by (auto simp: core_def well_set_def logical_ids_def on_network_def tracked_def pairing_data_def pairing_name_def)

lemma core_announce:
  assumes "core m"
  shows "core (snd (AnnounceMdnsEntry env m))"
proof -
  from assms obtain p where m: "well_set m" "mmProvider m = Some p" "provider_ok p" "tracked (on_network m) m"
    by (auto simp: core_def split: option.splits)
  show ?thesis
  proof (cases rule: ship_announce_cases [OF m(1-3), of env])
    case (2 err p')
    with core_provider [OF assms, of p'] m(4) show ?thesis by simp
  next
    case (3 i p')
    then have "tracked (announced (provider_table p')) (m\<lparr>mmProvider := Some p', mmInstanceID := i, mmAnnounced := True\<rparr>)"
      using tracked_add [OF m(4) 3(4), of "ship_service m"]
      by (auto simp: tracked_def ship_service_def ship_txt_def pairing_data_def pairing_name_def)
    with 3 assms show ?thesis
      by (simp add: core_def well_set_def logical_ids_def on_network_def)
  qed (use assms in simp)
qed

lemma core_withdraw:
  assumes "core m" "mmAnnounced m \<Longrightarrow> mmInstanceID m \<noteq> i"
    "\<forall>(j, e) \<in> set (mmPairings m). apProviderID e \<noteq> [] \<longrightarrow> apProviderID e \<noteq> i"
  shows "core (snd (withdraw i m))"
proof -
  from assms(1) obtain p where p: "mmProvider m = Some p" "provider_ok p" and t: "tracked (on_network m) m"
    by (auto simp: core_def split: option.splits)
  from withdraw_cases [OF p, of i] obtain p' err where w: "withdraw i m = (err, m\<lparr>mmProvider := Some p'\<rparr>)"
    "provider_ok p'" "announced (provider_table p') = (on_network m)(i := None)" by blast
  with core_provider [OF assms(1) w(2)] tracked_delete [OF t assms(2,3)] show ?thesis by simp
qed

lemma withdraw_announced [simp]:
  "withdraw i (m\<lparr>mmAnnounced := b\<rparr>) = (fst (withdraw i m), (snd (withdraw i m))\<lparr>mmAnnounced := b\<rparr>)"
  by (simp add: withdraw_def split: option.split prod.split)

lemma core_unannounce:
  assumes "core m"
  shows "core (UnannounceMdnsEntry m)"
proof (cases "mmAnnounced m")
  case True
  from assms obtain p where p: "mmProvider m = Some p" "provider_ok p" and t: "tracked (on_network m) m"
    by (auto simp: core_def split: option.splits)
  from withdraw_cases [OF p, of "mmInstanceID m"] obtain p' err where w: "withdraw (mmInstanceID m) m = (err, m\<lparr>mmProvider := Some p'\<rparr>)"
    "err = None \<longleftrightarrow> on_network m (mmInstanceID m) \<noteq> None" by blast
  moreover from t True have "on_network m (mmInstanceID m) \<noteq> None" by (simp add: tracked_def)
  ultimately have "UnannounceMdnsEntry m = snd (withdraw (mmInstanceID m) (m\<lparr>mmAnnounced := False\<rparr>))"
    using True p by (simp add: UnannounceMdnsEntry_def)
  also have "core \<dots>"
    using tracked_ship [OF t True] by (intro core_withdraw core_silent assms) auto
  finally show ?thesis .
qed (use assms in \<open>simp add: UnannounceMdnsEntry_def\<close>)

lemma core_auto:
  assumes "core m"
  shows "core (SetAutoAccept_mdns env b m)"
proof (cases "mmAnnounced m")
  case False
  with assms show ?thesis
    by (simp add: SetAutoAccept_mdns_def core_def well_set_def logical_ids_def on_network_def tracked_def pairing_data_def
        pairing_name_def)
next
  case True
  from assms obtain p where p: "mmProvider m = Some p" "provider_ok p" and t: "tracked (on_network m) m"
    by (auto simp: core_def split: option.splits)
  let ?m1 = "m\<lparr>mmAutoaccept := b, mmAnnounced := False\<rparr>"
  have c: "core ?m1"
    using assms by (auto simp: core_def well_set_def logical_ids_def on_network_def tracked_def pairing_data_def pairing_name_def)
  then have c1: "core (snd (AnnounceMdnsEntry env ?m1))" by (rule core_announce)
  from c p have m1: "well_set ?m1" "mmProvider ?m1 = Some p" by (simp_all add: core_def)
  show ?thesis
  proof (cases rule: ship_announce_cases [OF m1 p(2), of env])
    case (3 i p')
    let ?m2 = "?m1\<lparr>mmProvider := Some p', mmInstanceID := i, mmAnnounced := True\<rparr>"
    from True t have "on_network m (mmInstanceID m) = Some (ship_service m)" by (simp add: tracked_def)
    with 3 have ne: "i \<noteq> mmInstanceID m" by (auto simp: on_network_def)
    have "core (snd (withdraw (mmInstanceID m) ?m2))"
      using c1 3(1) ne tracked_ship [OF t True] by (intro core_withdraw) auto
    with 3 True p c1 ne show ?thesis by (simp add: SetAutoAccept_mdns_def Let_def)
  qed (use True p c1 in \<open>auto simp: SetAutoAccept_mdns_def Let_def\<close>)
qed

lemma core_Some: "core m \<Longrightarrow> mmProvider m \<noteq> None"
  by (auto simp: core_def split: option.splits)

text \<open>The tracked pairing announcements\<close>

lemma set_update:
  "distinct (map fst ps) \<Longrightarrow> (j, x) \<in> set (AList.update k v ps) \<longleftrightarrow> (if j = k then x = v else (j, x) \<in> set ps)"
  by (induction ps) (auto simp: rev_image_eqI)

lemma set_delete: "(j, x) \<in> set (AList.delete k ps) \<longleftrightarrow> j \<noteq> k \<and> (j, x) \<in> set ps"
  by (auto simp: AList.delete_eq)

lemma core_set_pairing:
  assumes "core m" "apServiceName e = pairing_name m l"
    "apProviderID e \<noteq> [] \<Longrightarrow> on_network m (apProviderID e) = Some (pairing_data m e)"
    "\<exists>n \<le> mmCounter m. l = Itoa n"
  shows "core (m\<lparr>mmPairings := AList.update l e (mmPairings m)\<rparr>)"
proof -
  have d: "distinct (map fst (mmPairings m))" using assms(1) by (simp add: core_def logical_ids_def)
  have "logical_ids (m\<lparr>mmPairings := AList.update l e (mmPairings m)\<rparr>)"
    using assms(1,4) d by (auto simp: core_def logical_ids_def distinct_update dom_update dom_update [symmetric] set_update)
  moreover have "tracked (on_network m) (m\<lparr>mmPairings := AList.update l e (mmPairings m)\<rparr>)"
    using assms(1-3) by (auto simp: core_def tracked_def set_update [OF d] pairing_name_def pairing_data_def ship_service_def
        ship_txt_def split: if_splits)
  ultimately show ?thesis using assms(1) by (simp add: core_def well_set_def on_network_def)
qed

lemma core_delete_pairing: "core m \<Longrightarrow> core (m\<lparr>mmPairings := AList.delete l (mmPairings m)\<rparr>)"
  by (auto simp: core_def well_set_def on_network_def logical_ids_def tracked_def set_delete distinct_delete
      delete_keys distinct_removeAll pairing_name_def pairing_data_def ship_service_def ship_txt_def)

lemma core_entry:
  assumes "core m" "map_of (mmPairings m) l = Some e"
  shows "(l, e) \<in> set (mmPairings m)" "apServiceName e = pairing_name m l" "\<exists>n \<le> mmCounter m. l = Itoa n"
    "apProviderID e \<noteq> [] \<Longrightarrow> on_network m (apProviderID e) = Some (pairing_data m e)"
proof -
  show le: "(l, e) \<in> set (mmPairings m)" using assms(2) by (rule map_of_SomeD)
  from assms(1) have t: "tracked (on_network m) m" by (simp add: core_def)
  show "apServiceName e = pairing_name m l" "apProviderID e \<noteq> [] \<Longrightarrow> on_network m (apProviderID e) = Some (pairing_data m e)"
    using tracked_entry [OF t le] by auto
  show "\<exists>n \<le> mmCounter m. l = Itoa n" using assms(1) le by (force simp: core_def logical_ids_def)
qed

text \<open>Withdrawing the instance of an entry that is forgotten or suspended\<close>

lemma core_withdraw_entry:
  assumes "core m" "map_of (mmPairings m) l = Some e" "core m1" "mmAnnounced m1 = mmAnnounced m" "mmInstanceID m1 = mmInstanceID m"
    "\<forall>(j, e') \<in> set (mmPairings m1). apProviderID e' \<noteq> [] \<longrightarrow> j \<noteq> l \<and> (j, e') \<in> set (mmPairings m)"
    "apProviderID e \<noteq> []"
  shows "core (snd (withdraw (apProviderID e) m1))"
proof -
  from assms(1) have t: "tracked (on_network m) m" by (simp add: core_def)
  note e = core_entry(1) [OF assms(1,2)]
  show ?thesis
    using assms(4-7) tracked_ship [OF t _ e assms(7)] tracked_pairings [OF t _ e _ _ assms(7)]
    by (intro core_withdraw assms(3)) fastforce+
qed

lemma withdraw_nil: "core m \<Longrightarrow> core (snd (withdraw [] m))"
proof (rule core_withdraw)
  assume m: "core m"
  show "mmInstanceID m \<noteq> []" if "mmAnnounced m"
    using m that announced_nonempty by (auto simp: core_def tracked_def on_network_def split: option.splits)
qed auto

lemma core_unannounce_pairing: "core m \<Longrightarrow> core (snd (UnannouncePairingService l m))"
proof -
  assume m: "core m"
  show ?thesis
  proof (cases "map_of (mmPairings m) l")
    case (Some e)
    let ?m1 = "m\<lparr>mmPairings := AList.delete l (mmPairings m)\<rparr>"
    have "core ?m1" using m by (rule core_delete_pairing)
    moreover from this have "core (snd (withdraw (apProviderID e) ?m1))" if "apProviderID e \<noteq> []"
      using that by (intro core_withdraw_entry [OF m Some]) (auto simp: set_delete)
    ultimately have "core (snd (withdraw (apProviderID e) ?m1))" using withdraw_nil by (cases "apProviderID e = []") auto
    then show ?thesis using Some core_Some [OF m] by (auto simp: UnannouncePairingService_def)
  qed (use m in \<open>simp add: UnannouncePairingService_def\<close>)
qed

lemma withdraw_pairings [simp]:
  "withdraw i (m\<lparr>mmPairings := ps\<rparr>) = (fst (withdraw i m), (snd (withdraw i m))\<lparr>mmPairings := ps\<rparr>)"
  "mmPairings (snd (withdraw i m)) = mmPairings m"
  by (simp_all add: withdraw_def split: option.split prod.split)

lemma core_suspend: "core m \<Longrightarrow> core (suspend_pairing l m)"
proof -
  assume m: "core m"
  show ?thesis
  proof (cases "map_of (mmPairings m) l")
    case (Some e)
    let ?m1 = "m\<lparr>mmPairings := AList.update l (e\<lparr>apProviderID := []\<rparr>) (mmPairings m)\<rparr>"
    have c: "core ?m1" using m core_entry [OF m Some] by (intro core_set_pairing) auto
    have d: "distinct (map fst (mmPairings m))" using m by (simp add: core_def logical_ids_def)
    from c have "core (snd (withdraw (apProviderID e) ?m1))" if "apProviderID e \<noteq> []"
      using that by (intro core_withdraw_entry [OF m Some]) (auto simp: set_update [OF d] split: if_splits)
    then have "core (snd (withdraw (apProviderID e) ?m1))" using withdraw_nil [OF c] by (cases "apProviderID e = []") auto
    then show ?thesis using Some by (simp add: suspend_pairing_def Let_def)
  qed (use m in \<open>simp add: suspend_pairing_def\<close>)
qed

lemma core_suspend_all: "core m \<Longrightarrow> core (fold suspend_pairing ls m)"
  by (induction ls arbitrary: m) (simp_all add: core_suspend)

lemma core_announce_pairing: "core m \<Longrightarrow> core (snd (AnnouncePairingService env t m))"
proof -
  assume m: "core m"
  then obtain p where p: "mmProvider m = Some p" "provider_ok p" and port: "0 \<le> mmPort m" "mmPort m < 65536"
    and t: "tracked (on_network m) m" and l: "logical_ids m"
    by (auto simp: core_def well_set_def split: option.splits)
  have net: "on_network m = announced (provider_table p)" using p by (simp add: on_network_def)
  let ?l = "Itoa (Suc (mmCounter m))"
  have c: "core (m\<lparr>mmCounter := Suc (mmCounter m)\<rparr>)"
    using m by (auto simp: core_def well_set_def on_network_def logical_ids_def intro: le_SucI)
  show ?thesis
  proof (cases "case t of None \<Rightarrow> True | Some r \<Rightarrow> Validate r \<noteq> None")
    case True
    then have "snd (AnnouncePairingService env t m) = m" using p by (auto simp: AnnouncePairingService_def split: option.splits)
    with m show ?thesis by simp
  next
    case False
    then obtain r where r: "t = Some r" "Validate r = None" by (auto split: option.splits)
    show ?thesis
    proof (cases rule: mp.announce_cases [OF p(2) port, of "enProvider env" shipPairingZeroConfServiceType
          "pairing_name m ?l" "convertPairingTXTToArray r"])
      case (1 err p')
      with p r core_provider [OF c, of p'] t net show ?thesis
        by (simp add: AnnouncePairingService_def Let_def pairing_name_def)
    next
      case (2 i p')
      let ?e = "\<lparr>apServiceName = pairing_name m ?l, apTxtRecord = r, apProviderID = i\<rparr>"
      let ?m1 = "m\<lparr>mmCounter := Suc (mmCounter m), mmProvider := Some p'\<rparr>"
      have "core ?m1" using core_provider [OF c 2(2)] tracked_add [OF t, of i] 2(3,4) net by simp
      then have "core (?m1\<lparr>mmPairings := AList.update ?l ?e (mmPairings ?m1)\<rparr>)"
        using 2(4) by (intro core_set_pairing) (auto simp: pairing_name_def on_network_def pairing_data_def)
      with 2(1) p r show ?thesis by (simp add: AnnouncePairingService_def Let_def pairing_name_def)
    qed
  qed
qed

lemma core_reannounce_pairing: "core m \<Longrightarrow> core (snd (reannounce_pairing env l m))"
proof -
  assume m: "core m"
  then obtain p where p: "mmProvider m = Some p" "provider_ok p" and port: "0 \<le> mmPort m" "mmPort m < 65536"
    and t: "tracked (on_network m) m" and d: "distinct (map fst (mmPairings m))"
    by (auto simp: core_def well_set_def logical_ids_def split: option.splits)
  have net: "on_network m = announced (provider_table p)" using p by (simp add: on_network_def)
  show ?thesis
  proof (cases "map_of (mmPairings m) l")
    case (Some e)
    note e = core_entry [OF m Some]
    show ?thesis
    proof (cases rule: mp.announce_cases [OF p(2) port, of "enProvider env" shipPairingZeroConfServiceType
          "apServiceName e" "convertPairingTXTToArray (apTxtRecord e)"])
      case (1 err p')
      with p Some core_provider [OF m, of p'] t net show ?thesis by (simp add: reannounce_pairing_def)
    next
      case (2 i p')
      let ?m1 = "m\<lparr>mmProvider := Some p'\<rparr>"
      let ?m2 = "?m1\<lparr>mmPairings := AList.update l (e\<lparr>apProviderID := i\<rparr>) (mmPairings ?m1)\<rparr>"
      have c1: "core ?m1" using core_provider [OF m 2(2)] tracked_add [OF t, of i] 2(3,4) net by simp
      then have c2: "core ?m2"
        using e(2,3) 2(4) by (intro core_set_pairing) (auto simp: pairing_name_def on_network_def pairing_data_def)
      have "core (snd (withdraw (apProviderID e) ?m2))" if old: "apProviderID e \<noteq> []"
      proof (rule core_withdraw [OF c2])
        show "mmInstanceID ?m2 \<noteq> apProviderID e" if "mmAnnounced ?m2"
          using tracked_ship [OF t _ e(1) old] that by auto
        have "i \<noteq> apProviderID e" using e(4) [OF old] 2(3) net by auto
        then show "\<forall>(j, e') \<in> set (mmPairings ?m2). apProviderID e' \<noteq> [] \<longrightarrow> apProviderID e' \<noteq> apProviderID e"
          using tracked_pairings [OF t _ e(1) _ _ old] by (fastforce simp: set_update [OF d] split: if_splits)
      qed
      with 2(1) p Some c2 show ?thesis by (simp add: reannounce_pairing_def Let_def)
    qed
  qed (use m in \<open>simp add: reannounce_pairing_def\<close>)
qed

lemma core_reannounce_pairings: "core m \<Longrightarrow> core (reannounce_pairings env ls m)"
proof (induction ls arbitrary: m)
  case (Cons l ls)
  obtain b m1 where r: "reannounce_pairing env l m = (b, m1)" by (cases "reannounce_pairing env l m")
  with core_reannounce_pairing [OF Cons.prems, of env l] have "core m1" by simp
  with Cons.IH r show ?case by (cases b) simp_all
qed simp

lemma core_reannounce:
  assumes "core m"
  shows "core (reannounceWithNewInterfaces env m)"
proof -
  have c: "core (m\<lparr>mmAnnounced := False\<rparr>)" using assms by (rule core_silent)
  show ?thesis
  proof (cases "resolveInterfaces env (m\<lparr>mmAnnounced := False\<rparr>)")
    case None
    with c show ?thesis
      by (auto simp: reannounceWithNewInterfaces_def Let_def UnannounceMdnsEntry_def intro!: core_suspend_all)
  next
    case (Some r)
    obtain fs xs where r: "r = (fs, xs)" by (cases r)
    let ?m2 = "m\<lparr>mmAnnounced := False, mmProvider := map_option (UpdateInterfaces fs xs) (mmProvider m)\<rparr>"
    have "core ?m2"
      using c by (cases "mmProvider m") (auto simp: core_def well_set_def logical_ids_def on_network_def)
    then have "core (snd (AnnounceMdnsEntry env ?m2))" by (rule core_announce)
    then show ?thesis
      using Some r core_reannounce_pairings
      by (cases "AnnounceMdnsEntry env ?m2") (auto simp: reannounceWithNewInterfaces_def Let_def split: option.split)
  qed
qed

section \<open>All events\<close>

lemma live_ok_core: "mmProvider m \<noteq> None \<Longrightarrow> live_ok m \<longleftrightarrow> core m \<and> mmStarted m"
  by (auto simp: live_ok_def core_def)

lemma rest_started:
  assumes "rest m' = rest m"
  shows "mmStarted m' = mmStarted m"
  using arg_cong [OF assms, of mmStarted] by (simp add: rest_def)

lemma live_ok_keep:
  assumes "live_ok m" "mmProvider m \<noteq> None" "core m'" "mmStarted m' = mmStarted m"
  shows "live_ok m'"
  using assms core_Some [OF assms(3)] by (simp add: live_ok_core)

text \<open>Without a provider, nothing is announced and nothing can be.\<close>

lemma no_provider:
  assumes "live_ok m" "mmProvider m = None"
  shows "snd (AnnounceMdnsEntry env m) = m" "UnannounceMdnsEntry m = m" "snd (AnnouncePairingService env t m) = m"
    "snd (UnannouncePairingService l m) = m" "SetAutoAccept_mdns env b m = m\<lparr>mmAutoaccept := b\<rparr>"
    "live_ok (attemptResolveMapping env m)"
  using assms
  by (simp_all add: live_ok_def AnnounceMdnsEntry_def UnannounceMdnsEntry_def AnnouncePairingService_def
      UnannouncePairingService_def SetAutoAccept_mdns_def attemptResolveMapping_def Let_def reannounceWithNewInterfaces_def
      IsPairingServiceAnnounced_def well_set_def logical_ids_def split: option.split)

lemma live_ok_New:
  assumes "0 \<le> port" "port < 65536" "sel \<noteq> MdnsProviderSelectionTestSetup"
  shows "live_ok (NewMDNS ski brand model ty serial cs ident name port ifaces sel)"
  using assms by (simp add: NewMDNS_def live_ok_def well_set_def logical_ids_def)

lemma new_provider:
  assumes "p = Avahi (NewAvahiProvider ixs) \<or> p = Zeroconf (NewZeroconfProvider ifaces)" "fst (provider_Start env mode r p)"
  shows "provider_ok (snd (provider_Start env mode r p)) \<and> announced (provider_table (snd (provider_Start env mode r p))) = Map.empty"
proof -
  have "provider_ok p" using assms(1) new_ok by (auto simp: provider_ok_def)
  moreover have "announced (provider_table p) = Map.empty"
    using assms(1) by (auto simp: provider_table_def announced_empty av_table_def zc_table_def NewAvahiProvider_def NewZeroconfProvider_def)
  ultimately show ?thesis using provider_Start_table [of p env mode r] assms(2) by simp
qed

lemma start_provider_live:
  assumes "well_set m" "logical_ids m" "mmPairings m = []" "\<not> mmAnnounced m"
    "made = Some (Some p)" "p = Avahi (NewAvahiProvider ixs) \<or> p = Zeroconf (NewZeroconfProvider ifaces)"
    "start_provider env a b made n r m = (None, m')"
  shows "core m'"
proof -
  obtain p1 where p1: "provider_Start (enProvider env) (mmPairingMode m) r p = (True, p1)" "m' = m\<lparr>mmProvider := Some p1\<rparr>"
    using assms(5,7) by (auto simp: start_provider_def split: prod.splits bool.splits)
  with new_provider [OF assms(6), of "enProvider env" "mmPairingMode m" r] have "provider_ok p1" by simp
  with assms(1-4) p1 show ?thesis by (simp add: core_def well_set_def logical_ids_def tracked_def)
qed

lemma start_provider_failed: "start_provider env a b made n r m = (Some err, m') \<Longrightarrow> m' = m"
  by (auto simp: start_provider_def split: option.splits prod.splits bool.splits)

lemma initialize_live:
  assumes "live_ok m" "\<not> mmStarted m" "initialize env fs xs m = (r, m')"
  shows "case r of None \<Rightarrow> core m' | Some err \<Rightarrow> m' = m"
proof -
  from assms(1,2) have m: "well_set m" "logical_ids m" "mmPairings m = []" "\<not> mmAnnounced m" "mmProvider m = None"
    by (auto simp: live_ok_def split: option.splits)
  then have f: "mmFactory m = Some DefaultProviderFactory" "mmSelection m \<noteq> MdnsProviderSelectionTestSetup"
    by (auto simp: well_set_def)
  have av: "case r of None \<Rightarrow> core m' | Some err \<Rightarrow> m' = m"
    if "initializeAvahiProvider env DefaultProviderFactory xs b m = (r, m')" for r m' b
    using that start_provider_live [OF m(1-4), of _ "Avahi (NewAvahiProvider xs)" xs] start_provider_failed
    by (auto simp: initializeAvahiProvider_def DefaultProviderFactory_def split: option.splits)
  have zc: "case r of None \<Rightarrow> core m' | Some err \<Rightarrow> m' = m"
    if "initializeZeroconfProvider env DefaultProviderFactory fs b m = (r, m')" for r m' b
    using that start_provider_live [OF m(1-4), of _ "Zeroconf (NewZeroconfProvider fs)" _ fs] start_provider_failed
    by (auto simp: initializeZeroconfProvider_def DefaultProviderFactory_def split: option.splits)
  show ?thesis
    using assms(3) f av zc
    by (fastforce simp: initialize_def initializeProviderWithFallback_def split: provider_selection.splits option.splits
        prod.splits)
qed

lemma live_ok_fields [simp]:
  "live_ok (m\<lparr>mmRefresh := b\<rparr>) = live_ok m" "live_ok (m\<lparr>mmReport := r\<rparr>) = live_ok m"
  "live_ok (m\<lparr>mmPairingMode := d\<rparr>) = live_ok m" "live_ok (m\<lparr>mmMissingIfaces := ns\<rparr>) = live_ok m"
  "live_ok (m\<lparr>mmCurrentIfaces := ns\<rparr>) = live_ok m" "live_ok (m\<lparr>mmPairingCallback := r\<rparr>) = live_ok m"
  "live_ok (m\<lparr>mmReports := rs\<rparr>) = live_ok m" "live_ok (m\<lparr>mmEntries := es\<rparr>) = live_ok m"
  "live_ok (m\<lparr>mmPairingEntries := ps\<rparr>) = live_ok m" "live_ok (m\<lparr>mmDelivered := ds\<rparr>) = live_ok m"
  by (simp_all add: live_ok_def well_set_def logical_ids_def on_network_def cong: option.case_cong)

lemma live_ok_report [simp]: "live_ok (report_mdns_entries b m) = live_ok m"
  by (simp add: report_mdns_entries_def split: option.split)

lemma live_ok_process [simp]: "live_ok (processMdnsEntry c m) = live_ok m"
  by (simp add: processMdnsEntry_def processShipMdnsEntry_def processShipPairingMdnsEntry_def Let_def
      split: service_type.split option.split)

lemma live_ok_from [simp]: "live_ok (from_provider c m) = live_ok m"
  by (simp add: from_provider_def split: option.split)

lemma live_ok_announce: "live_ok m \<Longrightarrow> live_ok (snd (AnnounceMdnsEntry env m))"
proof (cases "mmProvider m")
  case (Some p)
  assume m: "live_ok m"
  with Some have "core m" by (simp add: live_ok_core)
  then show ?thesis
    using m Some rest_started [OF rest_announce] by (intro live_ok_keep [OF m] core_announce) auto
qed (simp add: no_provider(1))

lemma live_ok_Start: "live_ok m \<Longrightarrow> live_ok (snd (Start_mdns env mode cb m))"
proof (rule Start_rule)
  fix m fs xs err
  assume m: "live_ok m" "\<not> mmStarted m"
  note i = initialize_live [OF m, of env fs xs "fst (initialize env fs xs m)" "snd (initialize env fs xs m)", OF prod.collapse [symmetric]]
  show "live_ok (snd (initialize env fs xs m))" if "fst (initialize env fs xs m) = Some err"
    using i m(1) that by simp
  show "live_ok ((snd (initialize env fs xs m))\<lparr>mmStarted := True\<rparr>)" if "fst (initialize env fs xs m) = None"
  proof -
    from i that have c: "core (snd (initialize env fs xs m))" by simp
    then show ?thesis using core_Some [OF c] by (subst live_ok_core) simp_all
  qed
qed (simp_all add: live_ok_announce initialize_provider interfaces_def Let_def)

lemma live_ok_Shutdown: "live_ok m \<Longrightarrow> mmPairings m = [] \<Longrightarrow> Shutdown_mdns m = Some m' \<Longrightarrow> live_ok m'"
proof -
  assume m: "live_ok m" "mmPairings m = []" and s: "Shutdown_mdns m = Some m'"
  show ?thesis
  proof (cases "mmProvider m")
    case None
    with s m show ?thesis by (auto simp: Shutdown_mdns_def Let_def)
  next
    case (Some p)
    let ?m2 = "UnannounceMdnsEntry (m\<lparr>mmRefresh := False\<rparr>)"
    have "core (m\<lparr>mmRefresh := False\<rparr>)" using m Some by (simp add: live_ok_core)
    then have "core ?m2" by (rule core_unannounce)
    then have "well_set ?m2" by (simp add: core_def)
    moreover have "mmPairings ?m2 = []"
      using m(2) withdraw_pairings(2) [of "mmInstanceID m" "m\<lparr>mmRefresh := False\<rparr>"]
      by (auto simp: UnannounceMdnsEntry_def simp del: withdraw_pairings split: option.split prod.split)
    ultimately show ?thesis
      using s Some by (auto simp: Shutdown_mdns_def Let_def live_ok_def well_set_def logical_ids_def split: option.splits)
  qed
qed

text \<open>
  Reachable states: the Avahi daemon does not go away, and \<open>Shutdown\<close> is only called when no pairing announcement is
  tracked any more.
\<close>

definition regular :: "mdns_event \<Rightarrow> mdns_manager \<Rightarrow> bool" where
  "regular e m \<longleftrightarrow> (case e of ShutdownMdns \<Rightarrow> mmPairings m = [] | AvahiLost \<Rightarrow> False | AvahiReconnect _ \<Rightarrow> False | _ \<Rightarrow> True)"

inductive mdns_reachable :: "mdns_manager \<Rightarrow> mdns_manager \<Rightarrow> bool" for m0 where
  reach_start: "mdns_reachable m0 m0"
| reach_step: "mdns_reachable m0 m \<Longrightarrow> regular e m \<Longrightarrow> mdns_step env e m = Some m' \<Longrightarrow> mdns_reachable m0 m'"

lemma processService_table:
  assumes "processService resolved s rm a = (c, a1)"
  shows "av_ok a1 = av_ok a \<and> av_table a1 = av_table a"
proof -
  have "a1 = a \<or> (\<exists>els. a1 = a\<lparr>avElements := els\<rparr>)"
    using assms by (auto simp: processService_def processAddedService_def split: if_splits sum.splits option.splits)
  then show ?thesis by (auto simp: av_ok_def av_table_def)
qed

lemma live_ok_provider_same:
  assumes "live_ok m" "mmProvider m = Some p" "provider_ok p' = provider_ok p" "provider_table p' = provider_table p"
  shows "live_ok (m\<lparr>mmProvider := Some p'\<rparr>)"
  using assms by (simp add: live_ok_def well_set_def logical_ids_def on_network_def)

lemma live_ok_avahi:
  assumes "live_ok m" "mmProvider m = Some (Avahi a)" "processService resolved s rm a = (c, a1)"
  shows "live_ok (m\<lparr>mmProvider := Some (Avahi a1)\<rparr>)"
  using processService_table [OF assms(3)]
  by (intro live_ok_provider_same [OF assms(1,2)]) (simp_all add: provider_ok_def provider_table_def)

lemma refresh_core: "core m \<Longrightarrow> core (attemptResolveMapping env m)"
  by (simp add: attemptResolveMapping_def Let_def core_reannounce)

lemma refresh_started: "mmStarted (attemptResolveMapping env m) = mmStarted m"
  by (auto simp: attemptResolveMapping_def Let_def rest_started [OF rest_reannounce])

lemma auto_started: "mmStarted (SetAutoAccept_mdns env b m) = mmStarted m"
  using rest_started [OF rest_announce, of env "m\<lparr>mmAutoaccept := b, mmAnnounced := False\<rparr>"]
  by (auto simp: SetAutoAccept_mdns_def Let_def rest_started [OF rest_withdraw] split: prod.split option.split)

lemma live_ok_step:
  assumes "live_ok m" "regular e m" "mdns_step env e m = Some m'"
  shows "live_ok m'"
proof (cases "mmProvider m")
  case None
  show ?thesis
  proof (cases e)
    case (AutoAcceptMdns b)
    then show ?thesis using assms None by (auto simp: mdns_step_def no_provider(5) live_ok_def well_set_def logical_ids_def)
  qed (use assms no_provider [OF assms(1) None] None live_ok_Shutdown in \<open>auto simp: mdns_step_def regular_def live_ok_Start
      SearchPairingServices_def UnregisterPairingCallback_def RequestMdnsEntries_def split: option.splits\<close>)
next
  case (Some p)
  then have ne: "mmProvider m \<noteq> None" and c: "core m" using assms(1) by (simp_all add: live_ok_core)
  note keep = live_ok_keep [OF assms(1) ne]
  show ?thesis
  proof (cases e)
    case (AvahiEntry resolved s rm)
    then show ?thesis
      using assms Some live_ok_avahi [OF assms(1)]
      by (auto simp: mdns_step_def split: mdns_provider.splits prod.splits if_splits)
  next
    case (SearchMdns cb)
    then show ?thesis using assms by (auto simp: mdns_step_def SearchPairingServices_def RegisterPairingCallback_def split: option.splits)
  next
    case UnannounceMdns
    then show ?thesis using assms keep [OF core_unannounce [OF c]] rest_started [OF rest_unannounce] by (auto simp: mdns_step_def)
  next
    case (AutoAcceptMdns b)
    then show ?thesis using assms keep [OF core_auto [OF c]] auto_started by (auto simp: mdns_step_def)
  next
    case (AnnouncePairingMdns t)
    then show ?thesis
      using assms keep [OF core_announce_pairing [OF c]] rest_started [OF rest_announce_pairing] by (auto simp: mdns_step_def)
  next
    case (UnannouncePairingMdns l)
    then show ?thesis
      using assms keep [OF core_unannounce_pairing [OF c]] rest_started [OF rest_unannounce_pairing] by (auto simp: mdns_step_def)
  next
    case RefreshTick
    then show ?thesis using assms keep [OF refresh_core [OF c]] refresh_started by (auto simp: mdns_step_def)
  next
    case (ZeroconfEntry ch s)
    then show ?thesis using assms by (auto simp: mdns_step_def split: option.splits mdns_provider.splits)
  qed (use assms live_ok_Shutdown in \<open>auto simp: mdns_step_def regular_def live_ok_Start live_ok_announce
      UnregisterPairingCallback_def RequestMdnsEntries_def\<close>)
qed

lemma live_ok_reachable: "mdns_reachable m0 m \<Longrightarrow> live_ok m0 \<Longrightarrow> live_ok m"
  by (induction rule: mdns_reachable.induct) (auto intro: live_ok_step)

text \<open>
  C29. While the Avahi daemon stays, and \<open>Shutdown\<close> comes only when no pairing service is tracked, what the manager takes
  for announced is on the network in every reachable state: the ship service under the identifier it
  remembers and with the current auto-accept flag in its record, and each pairing service that has a provider
  instance under that identifier, with its stable name and its record. Refreshes of the interfaces, failing
  announcements and records of other devices may come in between.
\<close>

theorem announced_is_on_network:
  assumes "mdns_reachable (NewMDNS ski brand model ty serial cs ident name port ifaces sel) m"
    "0 \<le> port" "port < 65536" "sel \<noteq> MdnsProviderSelectionTestSetup"
  shows "(mmAnnounced m \<longrightarrow> on_network m (mmInstanceID m) = Some (ship_service m))
    \<and> (\<forall>(i, e) \<in> set (mmPairings m). apProviderID e \<noteq> [] \<longrightarrow> on_network m (apProviderID e) = Some (pairing_data m e))"
proof -
  have "live_ok m" using live_ok_reachable [OF assms(1) live_ok_New] assms(2-4) by blast
  then show ?thesis by (auto simp: live_ok_def tracked_def split: option.splits)
qed

section \<open>Losing all interfaces\<close>

text \<open>Suspending the pairing services does not touch the ship service.\<close>

lemma suspend_ship:
  assumes "core m" "on_network m i = Some d" "sdType d = shipZeroConfServiceType"
  shows "on_network (suspend_pairing l m) i = Some d \<and> mmAnnounced (suspend_pairing l m) = mmAnnounced m"
proof (cases "map_of (mmPairings m) l")
  case (Some e)
  from assms(1) obtain p where p: "mmProvider m = Some p" "provider_ok p" by (auto simp: core_def split: option.splits)
  have "apProviderID e \<noteq> i"
    using core_entry(4) [OF assms(1) Some] assms(2,3) announced_nonempty [of "provider_table p" i d] p
    by (auto simp: pairing_data_def on_network_def)
  moreover from withdraw_cases [OF p, of "apProviderID e"] obtain p' err where
    w: "withdraw (apProviderID e) m = (err, m\<lparr>mmProvider := Some p'\<rparr>)"
      "announced (provider_table p') = (on_network m)(apProviderID e := None)" by blast
  ultimately show ?thesis using Some assms(2) by (simp add: suspend_pairing_def Let_def on_network_def)
qed (use assms in \<open>simp add: suspend_pairing_def\<close>)

lemma suspend_all_ship:
  assumes "core m" "on_network m i = Some d" "sdType d = shipZeroConfServiceType"
  shows "on_network (fold suspend_pairing ls m) i = Some d \<and> mmAnnounced (fold suspend_pairing ls m) = mmAnnounced m"
  using assms
proof (induction ls arbitrary: m)
  case (Cons l ls)
  with suspend_ship [OF Cons.prems, of l] core_suspend [OF Cons.prems(1), of l] show ?case by simp
qed simp

text \<open>
  When all configured interfaces are gone, the ship service is not withdrawn, although the code calls
  \<open>UnannounceMdnsEntry\<close> for it: the flag was cleared just before. The old instance stays on the network, the
  manager takes it for withdrawn, and \<open>UnannounceMdnsEntry\<close> does nothing from then on.
\<close>

theorem interface_loss_keeps_service:
  assumes "live_ok m" "mmAnnounced m" "resolveInterfaces env m = None"
  shows "on_network (reannounceWithNewInterfaces env m) (mmInstanceID m) = Some (ship_service m)
    \<and> \<not> mmAnnounced (reannounceWithNewInterfaces env m)
    \<and> UnannounceMdnsEntry (reannounceWithNewInterfaces env m) = reannounceWithNewInterfaces env m"
proof -
  let ?m1 = "m\<lparr>mmAnnounced := False\<rparr>"
  have ne: "mmProvider m \<noteq> None" using assms(1,2) by (auto simp: live_ok_def)
  then have c: "core m" using assms(1) by (simp add: live_ok_core)
  have "on_network ?m1 (mmInstanceID m) = Some (ship_service m)"
    using c assms(2) by (simp add: core_def tracked_def on_network_def)
  note s = suspend_all_ship [OF core_silent [OF c] this, of "map fst (mmPairings m)"]
  have "resolveInterfaces env ?m1 = None" using assms(3) by (simp add: resolveInterfaces_def Let_def split: if_splits)
  then have "reannounceWithNewInterfaces env m = fold suspend_pairing (map fst (mmPairings m)) ?m1"
    by (simp add: reannounceWithNewInterfaces_def Let_def UnannounceMdnsEntry_def IsPairingServiceAnnounced_def)
  with s show ?thesis by (simp add: ship_service_def UnannounceMdnsEntry_def)
qed

section \<open>Examples\<close>

lemma run_reachable:
  "mdns_reachable m0 m \<Longrightarrow> list_all (\<lambda>(env, e). e \<noteq> ShutdownMdns \<and> e \<noteq> AvahiLost \<and> (\<forall>j. e \<noteq> AvahiReconnect j)) es
    \<Longrightarrow> mdns_run es m = Some m' \<Longrightarrow> mdns_reachable m0 m'"
proof (induction es m rule: mdns_run.induct)
  case (2 env e es m)
  then obtain m1 where "mdns_step env e m = Some m1" "mdns_run es m1 = Some m'" by (auto split: option.splits)
  moreover have "regular e m" using 2(3) by (auto simp: regular_def split: mdns_event.split)
  ultimately show ?case using 2 reach_step [of m0 m e env m1] by simp
qed simp

text \<open>A machine with one interface, up or down, and libraries that accept everything\<close>

definition machine :: "bool \<Rightarrow> mdns_env" where
  "machine up = \<lparr>enInterface = (\<lambda>n. if n = ''eth0'' \<or> up then Some \<lparr>niName = n, niIndex = 2, niUp = True, niLoopback = False, niAddrs = Some 1\<rparr> else None),
     enProvider = \<lparr>peRegister = (\<lambda>_. None), peDaemon = good_daemon\<rparr>\<rparr>"

definition device :: "string list \<Rightarrow> mdns_manager" where
  "device ifaces = NewMDNS ''ab'' ''brand'' ''model'' ''type'' [] [2] ''id'' ''name'' 4711 ifaces MdnsProviderSelectionGoZeroConfOnly"

theorem announced_is_on_network_witness:
  "case mdns_run [(machine True, StartMdns PairingModeOff None), (machine True, AutoAcceptMdns True)] (device []) of
     None \<Rightarrow> False
   | Some m \<Rightarrow> on_network m ''2'' = Some (ship_service m) \<and> ''register=true'' \<in> set (sdTxt (ship_service m))"
proof -
  let ?run = "mdns_run [(machine True, StartMdns PairingModeOff None), (machine True, AutoAcceptMdns True)] (device [])"
  have e: "case ?run of None \<Rightarrow> False | Some m \<Rightarrow> mmAnnounced m \<and> mmInstanceID m = ''2'' \<and> mmAutoaccept m"
    by code_simp
  then obtain m where m: "?run = Some m" "mmAnnounced m" "mmInstanceID m = ''2''" "mmAutoaccept m"
    by (cases ?run) auto
  have "mdns_reachable (device []) m"
    by (rule run_reachable [OF reach_start _ m(1)]) simp
  from announced_is_on_network [OF this [unfolded device_def]] m show ?thesis
    by (simp add: ship_service_def ship_txt_def announcement_txt_def bool_text_def)
qed

theorem interface_loss_keeps_service_witness:
  "case mdns_run [(machine True, StartMdns PairingModeOff None)] (device [''eth1'']) of
     None \<Rightarrow> False
   | Some m \<Rightarrow> on_network (reannounceWithNewInterfaces (machine False) m) (mmInstanceID m) = Some (ship_service m)"
proof -
  let ?run = "mdns_run [(machine True, StartMdns PairingModeOff None)] (device [''eth1''])"
  have e: "case ?run of None \<Rightarrow> False | Some m \<Rightarrow> mmAnnounced m \<and> resolveInterfaces (machine False) m = None"
    by code_simp
  then obtain m where m: "?run = Some m" "mmAnnounced m" "resolveInterfaces (machine False) m = None"
    by (cases ?run) auto
  have "mdns_reachable (device [''eth1'']) m"
    by (rule run_reachable [OF reach_start _ m(1)]) simp
  then have "live_ok m" by (rule live_ok_reachable) (simp add: device_def live_ok_New)
  from interface_loss_keeps_service [OF this m(2,3)] m(1) show ?thesis by simp
qed

end
