(* ===== verification/MdnsDiscovery.thy ===== *)
theory MdnsDiscovery
  imports MdnsLive
begin

text \<open>
  Two devices: what one announces through its manager and provider is what the other, browsing with Zeroconf, keeps
  about it and hands to its pairing listener. The network carries a service as its instance name, type, port and
  TXT record, and adds host and addresses.
\<close>

definition found_service :: "service_data \<Rightarrow> string \<Rightarrow> ip list \<Rightarrow> ip list \<Rightarrow> service_entry" where
  "found_service d host v4 v6 =
     \<lparr>seInstance = sdName d, seService = sdType d, seHostName = host, sePort = sdPort d, seText = sdTxt d,
      seIPv4 = v4, seIPv6 = v6\<rparr>"

section \<open>The ship service\<close>

lemma detect_types [simp]:
  "detectServiceType shipZeroConfServiceType = ServiceTypeShip"
  "detectServiceType shipPairingZeroConfServiceType = ServiceTypeShipPairing"
  by code_simp+

lemma ship_txt_nonempty: "ship_txt m \<noteq> []"
  by (simp add: ship_txt_def announcement_txt_def)

lemma found_device:
  fixes a b :: mdns_manager
  assumes "\<forall>c \<in> set (mmCategories a). c < 2 ^ 32" "zcBrowsing z = Some mode" "mmProvider b = Some (Zeroconf z)"
    "map_of (mmEntries b) (mmServiceName a) = None"
    "mdns_step env (ZeroconfEntry ShipFound (Some (found_service (ship_service a) host v4 v6))) b = Some b'"
  shows "map_of (mmEntries b') (mmServiceName a) =
     (if mmSki a = mmSki b then None
      else Some \<lparr>meName = mmServiceName a, meSki = mmSki a, meIdentifier = mmIdentifier a, mePath = shipWebsocketPath,
        meRegister = mmAutoaccept a, meBrand = mmBrand a, meType = mmType a, meModel = mmModel a,
        meSerial = mmSerial a, meCategories = mmCategories a, meHost = host, mePort = mmPort a,
        meAddresses = filter (\<lambda>x. \<not> is_link_local6 x) (v4 @ v6)\<rparr>)
    \<and> (\<forall>k. k \<noteq> mmServiceName a \<longrightarrow> map_of (mmEntries b') k = map_of (mmEntries b) k)"
proof -
  obtain els where els: "parseTxt (ship_txt a) = Some els"
    "read_ship_entry (mmSki b) els (mmServiceName a) host (v4 @ v6) (mmPort a) = (if mmSki a = mmSki b then None else
       Some \<lparr>meName = mmServiceName a, meSki = mmSki a, meIdentifier = mmIdentifier a, mePath = shipWebsocketPath,
        meRegister = mmAutoaccept a, meBrand = mmBrand a, meType = mmType a, meModel = mmModel a,
        meSerial = mmSerial a, meCategories = mmCategories a, meHost = host, mePort = mmPort a,
        meAddresses = filter (\<lambda>x. \<not> is_link_local6 x) (v4 @ v6)\<rparr>)"
    using ship_record_read [OF assms(1), of "mmIdentifier a" "mmSki a" "mmBrand a" "mmModel a" "mmType a" "mmAutoaccept a"
        "mmSerial a" "mmSki b" "mmServiceName a" host "v4 @ v6" "mmPort a"] by (auto simp: ship_txt_def)
  have "b' = processShipMdnsEntry els (mmServiceName a) host (v4 @ v6) (mmPort a) False b"
    using assms(2,3,5) els(1) ship_txt_nonempty [of a]
    by (simp add: mdns_step_def zeroconf_entry_def browses_def chanListener_zc_def found_service_def ship_service_def
        validateTxtversOrder_def from_provider_def processMdnsEntry_def)
  then show ?thesis
    using els(2) assms(4) by (auto simp: processShipMdnsEntry_def update_conv')
qed

text \<open>
  C31. Discovery: when a device hears for the first time of a service that another one announces, it keeps exactly
  one entry under that name, with the SKI, identifier, register flag, device data, categories and port of the other's
  configuration, and with its usable addresses; a device ignores its own announcement.
\<close>

theorem discovered_device:
  fixes a b :: mdns_manager
  assumes "\<forall>c \<in> set (mmCategories a). c < 2 ^ 32" "zcBrowsing z = Some mode" "mmProvider b = Some (Zeroconf z)"
    "map_of (mmEntries b) (mmServiceName a) = None"
    "mdns_step env (ZeroconfEntry ShipFound (Some (found_service (ship_service a) host v4 v6))) b = Some b'"
  shows "map_of (mmEntries b') (mmServiceName a) =
     (if mmSki a = mmSki b then None
      else Some \<lparr>meName = mmServiceName a, meSki = mmSki a, meIdentifier = mmIdentifier a, mePath = shipWebsocketPath,
        meRegister = mmAutoaccept a, meBrand = mmBrand a, meType = mmType a, meModel = mmModel a,
        meSerial = mmSerial a, meCategories = mmCategories a, meHost = host, mePort = mmPort a,
        meAddresses = filter (\<lambda>x. \<not> is_link_local6 x) (v4 @ v6)\<rparr>)
    \<and> (\<forall>k. k \<noteq> mmServiceName a \<longrightarrow> map_of (mmEntries b') k = map_of (mmEntries b) k)"
  using found_device [OF assms] .

section \<open>Pairing announcements\<close>

text \<open>
  C32. Discovery of a pairing announcement: a record that \<open>AnnouncePairingService\<close> accepts reaches the pairing
  listener of a device that browses for pairing services unchanged, and is kept under its instance name; if it
  is already known under that name the listener is not called again.
\<close>

theorem discovered_pairing:
  assumes "Validate t = None" "zcBrowsing z = Some mode" "mode = PairingModeListener \<or> mode = PairingModeBoth"
    "mmProvider b = Some (Zeroconf z)" "mmPairingCallback b = Some cb" "apTxtRecord e = t"
    "mdns_step env (ZeroconfEntry PairingFound (Some (found_service (pairing_data a e) host v4 v6))) b = Some b'"
  shows "map_of (mmPairingEntries b') (apServiceName e) = Some t
    \<and> mmDelivered b' = mmDelivered b @ (if map_of (mmPairingEntries b) (apServiceName e) = Some t then [] else [(cb, t)])"
proof -
  obtain els where els: "parseTxt (convertPairingTXTToArray t) = Some els" "read_pairing_entry els = Some t"
    using pairing_record_read [of t] assms(1) by auto
  have "convertPairingTXTToArray t \<noteq> []"
    using Validate_nonempty [OF assms(1)] by (simp add: convert_items fields_of items_of_def)
  then have "b' = processShipPairingMdnsEntry els (apServiceName e) False b"
    using assms(2-4,6,7) els(1)
    by (auto simp: mdns_step_def zeroconf_entry_def browses_def chanListener_zc_def found_service_def pairing_data_def
        from_provider_def processMdnsEntry_def)
  then show ?thesis
    using els(2) assms(5) by (simp add: processShipPairingMdnsEntry_def Let_def update_conv')
qed

text \<open>A record that is known is delivered again only after a different one.\<close>

lemma deliveries_after:
  assumes "map_of (mmPairingEntries m) name = Some t" "mmPairingCallback m = Some cb"
  shows "mmDelivered (fold (\<lambda>els. processShipPairingMdnsEntry els name False) elss m)
      = mmDelivered m @ map (Pair cb) (tl (remdups_adj (t # List.map_filter read_pairing_entry elss)))"
  using assms
proof (induction elss arbitrary: m t)
  case (Cons els elss)
  show ?case
  proof (cases "read_pairing_entry els")
    case None
    with Cons show ?thesis by (simp add: processShipPairingMdnsEntry_def List.map_filter_simps)
  next
    case (Some u)
    show ?thesis
    proof (cases "u = t")
      case True
      with Some Cons show ?thesis by (simp add: processShipPairingMdnsEntry_def List.map_filter_simps)
    next
      case False
      let ?m = "m\<lparr>mmPairingEntries := AList.update name u (mmPairingEntries m), mmDelivered := mmDelivered m @ [(cb, u)]\<rparr>"
      have "processShipPairingMdnsEntry els name False m = ?m"
        using Some False Cons.prems by (simp add: processShipPairingMdnsEntry_def Let_def)
      with Cons.IH [of ?m u] Cons.prems Some False show ?thesis
        by (simp add: List.map_filter_simps update_conv' remdups_adj_Cons split: list.split)
    qed
  qed
qed (simp add: List.map_filter_simps)

text \<open>
  C30. Records that are repeated: of a sequence of records under one instance name the listener gets the valid ones, each as
  often as it differs from the valid one before it.
\<close>

theorem pairing_deliveries:
  assumes "map_of (mmPairingEntries m) name = None" "mmPairingCallback m = Some cb"
  shows "mmDelivered (fold (\<lambda>els. processShipPairingMdnsEntry els name False) elss m)
     = mmDelivered m @ map (Pair cb) (remdups_adj (List.map_filter read_pairing_entry elss))"
  using assms
proof (induction elss arbitrary: m)
  case (Cons els elss)
  show ?case
  proof (cases "read_pairing_entry els")
    case None
    with Cons show ?thesis by (simp add: processShipPairingMdnsEntry_def List.map_filter_simps)
  next
    case (Some u)
    let ?m = "m\<lparr>mmPairingEntries := AList.update name u (mmPairingEntries m), mmDelivered := mmDelivered m @ [(cb, u)]\<rparr>"
    have "processShipPairingMdnsEntry els name False m = ?m"
      using Some Cons.prems by (simp add: processShipPairingMdnsEntry_def Let_def)
    moreover have "remdups_adj (List.map_filter read_pairing_entry (els # elss))
        = u # tl (remdups_adj (u # List.map_filter read_pairing_entry elss))"
      using Some by (simp add: List.map_filter_simps)
    ultimately show ?thesis
      using deliveries_after [of ?m name u cb elss] Cons.prems by (simp add: update_conv' del: remdups_adj_Cons_alt)
  qed
qed (simp add: List.map_filter_simps)

section \<open>Concrete devices\<close>

definition browser :: mdns_manager where
  "browser = (NewMDNS ''cd'' ''b'' ''m'' ''t'' [] [1] ''id2'' ''name2'' 4712 [] MdnsProviderSelectionGoZeroConfOnly)
     \<lparr>mmProvider := Some (Zeroconf (snd (Start_zc PairingModeBoth (NewZeroconfProvider [])))), mmPairingCallback := Some 7\<rparr>"

lemma browser_simps:
  "mmProvider browser = Some (Zeroconf (snd (Start_zc PairingModeBoth (NewZeroconfProvider []))))"
  "mmSki browser = ''cd''" "mmEntries browser = []" "mmPairingCallback browser = Some 7" "mmPairingEntries browser = []"
  "mmDelivered browser = []" "zcBrowsing (snd (Start_zc PairingModeBoth (NewZeroconfProvider []))) = Some PairingModeBoth"
  by (simp_all add: browser_def NewMDNS_def Start_zc_def NewZeroconfProvider_def)

lemma device_simps: "mmSki (device ifs) = ''ab''" "mmCategories (device ifs) = [2]" "mmServiceName (device ifs) = ''name''"
  "mmPort (device ifs) = 4711"
  by (simp_all add: device_def NewMDNS_def)

lemma zeroconf_step: "\<exists>b'. mdns_step env (ZeroconfEntry ch s) b = Some b'"
  by (simp add: mdns_step_def)

theorem discovered_device_witness:
  "case mdns_step (machine True) (ZeroconfEntry ShipFound (Some (found_service (ship_service (device [])) ''h'' [] []))) browser of
     None \<Rightarrow> False
   | Some b' \<Rightarrow> map_option (\<lambda>e. (meSki e, mePort e, meCategories e)) (map_of (mmEntries b') ''name'') = Some (''ab'', 4711, [2])"
proof -
  obtain b' where b': "mdns_step (machine True) (ZeroconfEntry ShipFound (Some (found_service (ship_service (device [])) ''h'' [] []))) browser
      = Some b'" using zeroconf_step by blast
  from discovered_device [OF _ browser_simps(7) browser_simps(1) _ this] b' show ?thesis
    by (simp add: device_simps browser_simps)
qed

definition request :: ship_pairing_txt where
  "request = \<lparr>TxtVers = ''1'', ParType = ParTypeFPSHA256, ForId = ''dev'', ForPar = replicate 64 CHR ''A'', TrustId = ''cem'',
     TrustPar = replicate 64 CHR ''B'', TrustCurve = CurveSecp256r1, CmdType = CommandTypeAddCU,
     TrustNonce = replicate 32 CHR ''0'', Alg = AlgorithmHMACSHA256, Digest = replicate 64 CHR ''C''\<rparr>"

lemma request_valid: "Validate request = None"
  by code_simp

theorem discovered_pairing_witness:
  "case mdns_step (machine True) (ZeroconfEntry PairingFound (Some (found_service
       (pairing_data (device []) \<lparr>apServiceName = ''x'', apTxtRecord = request, apProviderID = ''1''\<rparr>) ''h'' [] []))) browser of
     None \<Rightarrow> False
   | Some b' \<Rightarrow> mmDelivered b' = [(7, request)]"
proof -
  let ?e = "\<lparr>apServiceName = ''x'', apTxtRecord = request, apProviderID = ''1''\<rparr>"
  obtain b' where b': "mdns_step (machine True) (ZeroconfEntry PairingFound (Some (found_service
       (pairing_data (device []) ?e) ''h'' [] []))) browser = Some b'" using zeroconf_step by blast
  from discovered_pairing [OF request_valid browser_simps(7) _ browser_simps(1,4) _ this] b' show ?thesis
    by (simp add: browser_simps)
qed

theorem pairing_deliveries_witness:
  "(let els = the (parseTxt (convertPairingTXTToArray request))
    in mmDelivered (fold (\<lambda>els. processShipPairingMdnsEntry els ''x'' False) [els, Map.empty, els] browser)) = [(7, request)]"
proof -
  obtain els where els: "parseTxt (convertPairingTXTToArray request) = Some els" "read_pairing_entry els = Some request"
    using pairing_record_read [of request] request_valid by auto
  have "read_pairing_entry Map.empty = None" by (simp add: read_pairing_entry_def pairing_fields_def element_def)
  then have "List.map_filter read_pairing_entry [els, Map.empty, els] = [request, request]"
    using els(2) by (simp add: List.map_filter_simps)
  with pairing_deliveries [of browser "''x''" 7 "[els, Map.empty, els]"] els(1) show ?thesis
    by (simp add: browser_simps)
qed


end
