(* ===== verification/HubDiscovery.thy ===== *)
theory HubDiscovery
  imports HubAttempts MdnsDiscovery
begin

text \<open>
  From the network to the hub: a device that announces its ship service is found by the mDNS manager of another
  one (\<open>mdns/mdns.go\<close>), whose report makes the hub (\<open>hub/hub_mdns.go\<close>) start a connection attempt if it knows the
  service.
\<close>

section \<open>Copies of entries\<close>

lemma valid_text_ascii: "\<forall>c \<in> set s. code c < 128 \<Longrightarrow> valid_text s = s"
proof (induction s rule: valid_text.induct)
  case (2 c cs)
  then have "utf8_length (c # cs) = 1" by (simp add: utf8_length_def Let_def)
  with 2 show ?case by (simp add: Let_def)
qed simp

lemma ski_ascii:
  assumes "IsSkiFormatValid ski"
  shows "valid_text ski = ski"
proof (rule valid_text_ascii, rule ballI)
  fix c
  assume c: "c \<in> set ski"
  show "code c < 128"
  proof (cases "c = CHR '' '' \<or> c = CHR ''-''")
    case False
    with c have "lower c \<in> set (NormalizeSKI ski)" by (auto simp: NormalizeSKI_alt)
    with assms have "is_lower_hex (lower c)" by (auto simp: IsSkiFormatValid_def Let_def list_all_iff split: if_splits)
    then show ?thesis by (auto simp: is_lower_hex_def lower_def is_upper_def split: if_splits)
  qed auto
qed

lemma DeepCopy_ski:
  "IsSkiFormatValid (meSki e) \<Longrightarrow> \<forall>a \<in> set (meAddresses e). length a \<in> {0, 4, 16} \<Longrightarrow> meSki (DeepCopy_entry e) = meSki e"
  by (auto simp: DeepCopy_entry_def ski_ascii)

section \<open>Reports keep what the hub knows\<close>

definition knows :: "string \<Rightarrow> hub \<Rightarrow> bool" where
  "knows ski h \<longleftrightarrow> (\<exists>a \<in> set (rgList (hbRegistry h)). svcSKI (service_at h a) = ski)"

lemma knows_find: "NormalizeSKI ski \<noteq> [] \<Longrightarrow> find_service ski [] h \<noteq> None \<longleftrightarrow> knows (NormalizeSKI ski) h"
  using find_known found_known by (fastforce simp: knows_def)

lemma knows_frame: "hbRegistry h' = hbRegistry h \<Longrightarrow> knows ski h' = knows ski h"
  by (simp add: knows_def service_at_def)

text \<open>A merge with a candidate that has an SKI loses no SKI.\<close>

lemma merge_keeps_ski:
  assumes n: "\<forall>a \<in> set (rgList r). normal_service (rgHeap r a)" and c: "normal_service (rgHeap r candidate)"
    and k: "svcSKI (rgHeap r candidate) \<noteq> []" "ski \<noteq> []"
    and m: "mergeOrAddService candidate r = (Inr can, r')"
    and a: "a \<in> set (rgList r)" "svcSKI (rgHeap r a) = ski"
  shows "\<exists>b \<in> set (rgList r'). svcSKI (rgHeap r' b) = ski"
  using m
proof (cases rule: merge_cases)
  case added
  then show ?thesis using a by auto
next
  case merged
  show ?thesis
  proof (cases "a \<in> set (matched (rgHeap r candidate) r)")
    case True
    then have "EqualFold (svcSKI (rgHeap r candidate)) ski"
      using merge_conflict_free [OF merged(5), of "rgHeap r a"] a(2) k by auto
    then have "svcSKI (rgHeap r candidate) = ski"
      using EqualFold_normal c n a by (fastforce simp: normal_service_def)
    then show ?thesis using merge_identifiers(1) [OF n c m k(1)] merged_in [OF m] by auto
  next
    case False
    then show ?thesis using merged(1-3) a by (intro bexI [of _ a]) auto
  qed
qed

lemma merge_service_keeps_ski:
  assumes "services_ok h" "c < rgFresh (hbRegistry h)" "svcSKI (service_at h c) \<noteq> []" "ski \<noteq> []" "knows ski h"
  shows "knows ski (snd (merge_service c h))"
proof (cases "fst (merge_service c h)")
  case (Inl err)
  then obtain q where q: "mergeOrAddService c (hbRegistry h) = (Inl err, q)"
    by (cases "mergeOrAddService c (hbRegistry h)") (simp add: merge_service_def)
  then have "merge_service c h = (Inl err, h\<lparr>hbRegistry := q\<rparr>)" by (simp only: merge_service_def Let_def prod.case)
  then have "hbRegistry (snd (merge_service c h)) = hbRegistry h" by (simp add: merge_error [OF q])
  from knows_frame [OF this] assms(5) show ?thesis by blast
next
  case (Inr can)
  then have m: "mergeOrAddService c (hbRegistry h) = (Inr can, hbRegistry (snd (merge_service c h)))"
    by (cases "mergeOrAddService c (hbRegistry h)") (simp add: merge_service_def)
  have n: "\<forall>a \<in> set (rgList (hbRegistry h)). normal_service (rgHeap (hbRegistry h) a)"
    "normal_service (rgHeap (hbRegistry h) c)"
    using assms(1,2) by (auto simp: services_ok_def service_at_def)
  from assms(5) obtain a where "a \<in> set (rgList (hbRegistry h))" "svcSKI (rgHeap (hbRegistry h) a) = ski"
    by (auto simp: knows_def service_at_def)
  with merge_keeps_ski [OF n _ assms(4) m] assms(3) show ?thesis by (auto simp: knows_def service_at_def)
qed

lemma entry_service_shape:
  assumes "snd (entry_service e h) \<noteq> h"
  obtains b where "serviceForTrustedShipID (meIdentifier e) (hbRegistry h) = Some b" "svcSKI (service_at h b) = []"
    "snd (entry_service e h) = snd (merge_service b (set_service b (SetSKI (meSki e)) h))"
  using assms by (auto simp: entry_service_def split: option.splits if_splits prod.splits sum.splits)

lemma entry_service_keeps:
  assumes "services_ok h" "NormalizeSKI (meSki e) \<noteq> []" "ski \<noteq> []" "knows ski h"
  shows "knows ski (snd (entry_service e h))"
proof (cases "snd (entry_service e h) = h")
  case False
  from entry_service_shape [OF this]
  obtain b where b: "serviceForTrustedShipID (meIdentifier e) (hbRegistry h) = Some b" "svcSKI (service_at h b) = []"
    and g: "snd (entry_service e h) = snd (merge_service b (set_service b (SetSKI (meSki e)) h))" .
  let ?h = "set_service b (SetSKI (meSki e)) h"
  from trusted_ship_in [OF b(1)] in_use [OF assms(1)] have use: "b < rgFresh (hbRegistry ?h)" by simp
  have "services_ok ?h" using no_new_trust_ok_of [OF no_new_trust_set [of "SetSKI (meSki e)" False h b] assms(1)] by simp
  moreover have "knows ski ?h" using assms(3,4) b(2) by (auto simp: knows_def)
  moreover have "svcSKI (service_at ?h b) \<noteq> []" using assms(2) by (simp add: service_setters)
  ultimately show ?thesis unfolding g using use assms(3) by (blast intro: merge_service_keeps_ski)
qed (use assms in simp)

lemma report_entry_keeps:
  assumes "services_ok h" "ski \<noteq> []" "knows ski h"
  shows "knows ski (snd (report_entry p random e h))"
proof (cases "IsSkiFormatValid (meSki e)")
  case True
  obtain v g where e: "entry_service e h = (v, g)" by (cases "entry_service e h")
  have "knows ski g" using entry_service_keeps [OF assms(1) valid_ski_nonempty [OF True] assms(2,3)] e by simp
  then have "knows ski (set_service a (SetAutoAccept x) g)" for a x
    by (auto simp: knows_def service_setters split: if_splits)
  then have "knows ski (coordinateConnectionInitations random k f (set_service a (SetAutoAccept x) g))" for a x k f
    by (subst knows_frame [where h = "set_service a (SetAutoAccept x) g"]) simp_all
  with \<open>knows ski g\<close> assms(3) show ?thesis by (simp add: report_entry_def e Let_def split: option.split)
qed (use assms(3) in \<open>simp add: report_entry_def\<close>)

section \<open>Reports start attempts\<close>

lemma coordinate_running:
  "isConnectionAttemptRunning k (coordinateConnectionInitations random ski e h)
     \<longleftrightarrow> k = ski \<or> isConnectionAttemptRunning k h"
  by (auto simp: coordinateConnectionInitations_def Let_def case_prod_beta isConnectionAttemptRunning_def
      attempts_running [unfolded isConnectionAttemptRunning_def] split: option.split)

lemma running_same: "same_attempts h g \<Longrightarrow> isConnectionAttemptRunning k g = isConnectionAttemptRunning k h"
  by (simp add: same_attempts_def isConnectionAttemptRunning_def)

lemma report_entry_running:
  assumes "isConnectionAttemptRunning k h"
  shows "isConnectionAttemptRunning k (snd (report_entry p random e h))"
proof -
  obtain v g where e: "entry_service e h = (v, g)" by (cases "entry_service e h")
  then have "isConnectionAttemptRunning k g" using running_same [OF entry_attempts] assms by blast
  moreover from this have "isConnectionAttemptRunning k (set_service a f g)" for a f
    using running_same [of g "set_service a f g"] set_attempts [of g a f g] by (simp add: same_attempts_def)
  ultimately show ?thesis using assms by (simp add: report_entry_def e Let_def coordinate_running split: option.split)
qed

lemma report_entry_connections [simp]: "hbConnections (snd (report_entry p random e h)) = hbConnections h"
proof -
  have "hbConnections (snd (entry_service e h)) = hbConnections h"
  proof (cases "snd (entry_service e h) = h")
    case False
    then show ?thesis by (rule entry_service_shape) simp
  qed simp
  then show ?thesis by (auto simp: report_entry_def Let_def split: prod.split option.split)
qed

lemma report_entry_starts:
  assumes "IsSkiFormatValid (meSki e)" "\<not> isSkiConnected (meSki e) h" "knows (NormalizeSKI (meSki e)) h"
  shows "isConnectionAttemptRunning (meSki e) (snd (report_entry p random e h))"
proof -
  obtain a where "find_service (meSki e) [] h = Some a"
    using knows_find [OF valid_ski_nonempty [OF assms(1)]] assms(3) by blast
  then have "entry_service e h = (Some a, h)"
    by (simp add: entry_service_def IsRemoteServiceForSKIPaired_def)
  moreover have "meSki (patch_entry p s e) = meSki e" for s by (simp add: patch_entry_def split: option.split)
  ultimately show ?thesis using assms by (simp add: report_entry_def Let_def coordinate_running)
qed

lemma report_entries_running:
  "isConnectionAttemptRunning k h \<Longrightarrow> isConnectionAttemptRunning k (snd (report_entries p random es h))"
  by (induction es arbitrary: h) (simp_all add: Let_def case_prod_beta report_entry_running)

lemma report_entries_start:
  "services_ok h \<Longrightarrow> e \<in> set es \<Longrightarrow> IsSkiFormatValid (meSki e) \<Longrightarrow> \<not> isSkiConnected (meSki e) h
   \<Longrightarrow> knows (NormalizeSKI (meSki e)) h \<Longrightarrow> isConnectionAttemptRunning (meSki e) (snd (report_entries p random es h))"
proof (induction es arbitrary: h)
  case (Cons x es)
  let ?h = "snd (report_entry p random x h)"
  show ?case
  proof (cases "e = x")
    case True
    then show ?thesis
      using report_entry_starts [OF Cons.prems(3-5)] by (simp add: Let_def case_prod_beta report_entries_running)
  next
    case False
    have "services_ok ?h" by (rule no_new_trust_ok_of [OF report_entry_no_new_trust Cons.prems(1)])
    moreover have "\<not> isSkiConnected (meSki e) ?h" using Cons.prems(4) by (simp add: isSkiConnected_def)
    moreover have "knows (NormalizeSKI (meSki e)) ?h"
      by (rule report_entry_keeps [OF Cons.prems(1) valid_ski_nonempty [OF Cons.prems(3)] Cons.prems(5)])
    ultimately show ?thesis using Cons.IH [of ?h] Cons.prems(2,3) False by (simp add: Let_def case_prod_beta)
  qed
qed simp

lemma report_starts:
  assumes "services_ok h" "e \<in> set es" "IsSkiFormatValid (meSki e)" "\<not> isSkiConnected (meSki e) h"
    "find_service (meSki e) [] h \<noteq> None"
  shows "isConnectionAttemptRunning (meSki e) (ReportMdnsEntries p random es new h)"
proof -
  let ?g = "cleanupRemovedMdnsEntries es h"
  have "services_ok ?g" using no_new_trust_ok_of [OF no_new_trust_frame assms(1)] by simp
  moreover have "\<not> isSkiConnected (meSki e) ?g" using assms(4) by (simp add: isSkiConnected_def)
  moreover have "knows (NormalizeSKI (meSki e)) ?g"
    using knows_find [OF valid_ski_nonempty [OF assms(3)]] assms(5) knows_frame [of ?g h] by simp
  ultimately have "isConnectionAttemptRunning (meSki e) (snd (report_entries p random es ?g))"
    using report_entries_start assms(2,3) by blast
  then show ?thesis
    by (simp add: ReportMdnsEntries_def Let_def case_prod_beta isConnectionAttemptRunning_def)
qed

section \<open>Discovery leads to a connection attempt\<close>

text \<open>The entry of a service that is heard of for the first time is in the report.\<close>

lemma discovery_reported:
  fixes a b :: mdns_manager
  assumes "zcBrowsing z = Some mode" "mmProvider b = Some (Zeroconf z)" "mmReport b = Some r"
    "map_of (mmEntries b) (mmServiceName a) = None" "mmSki a \<noteq> mmSki b" "\<forall>c \<in> set (mmCategories a). c < 2 ^ 32"
    "mdns_step menv (ZeroconfEntry ShipFound (Some (found_service (ship_service a) host v4 v6))) b = Some b'"
    "\<forall>x \<in> set (v4 @ v6). length x \<in> {0, 4, 16}" "IsSkiFormatValid (mmSki a)"
  shows "mmReports b' = mmReports b @ [(r, copyMdnsEntries b', True)]
     \<and> (\<exists>e \<in> set (map snd (copyMdnsEntries b')). meSki e = mmSki a)"
proof -
  have f: "map_of (mmEntries b') (mmServiceName a) \<noteq> None"
    using found_device [OF assms(6,1,2,4,7)] assms(5) by simp
  then obtain e where e: "map_of (mmEntries b') (mmServiceName a) = Some e" "meSki e = mmSki a"
      "meAddresses e = filter (\<lambda>x. \<not> is_link_local6 x) (v4 @ v6)"
    using found_device [OF assms(6,1,2,4,7)] assms(5) by auto
  have "meSki (DeepCopy_entry e) = mmSki a" using DeepCopy_ski [of e] e(2,3) assms(8,9) by auto
  moreover have "DeepCopy_entry e \<in> set (map snd (copyMdnsEntries b'))"
    using map_of_SomeD [OF e(1)] by (force simp: copyMdnsEntries_def)
  moreover have "mmReports b' = mmReports b @ [(r, copyMdnsEntries b', True)]"
    using assms(1-4,7) f
    by (auto simp: mdns_step_def zeroconf_entry_def browses_def from_provider_def processMdnsEntry_def
        processShipMdnsEntry_def processShipPairingMdnsEntry_def report_mdns_entries_def copyMdnsEntries_def chanListener_zc_def
        found_service_def ship_service_def split: option.splits if_splits)
  ultimately show ?thesis by blast
qed



end
