(* ===== verification/HubQR.thy ===== *)
theory HubQR
  imports HubTrust MdnsEntries
begin

text \<open>
  The texts of the QR codes (\<open>hub/hub_pairing.go\<close>) by which a user carries the identifiers and, for pairing, the
  secret of this device to another one. The device data are those of the mDNS manager, after it has cut them to 32
  bytes. The texts of the categories are made by a copy of the function of the manager.
\<close>

section \<open>Writing\<close>

definition safeQRCodeKeyValue :: "string \<Rightarrow> string \<Rightarrow> string" where
  "safeQRCodeKeyValue key v =
     (if length v > 0 then ToUpper key @ '':'' @ ReplaceAll '';'' [] v @ '';'' else [])"

text \<open>Categories that are nil and an empty slice of them both give nothing.\<close>

definition buildOptionalMetadata :: "mdns_manager \<Rightarrow> string" where
  "buildOptionalMetadata m =
     (if length (mmBrand m) > 0 then safeQRCodeKeyValue ''BRAND'' (mmBrand m) else [])
     @ (if length (mmType m) > 0 then safeQRCodeKeyValue ''TYPE'' (mmType m) else [])
     @ (if length (mmModel m) > 0 then safeQRCodeKeyValue ''MODEL'' (mmModel m) else [])
     @ (if length (mmSerial m) > 0 then safeQRCodeKeyValue ''SERIAL'' (mmSerial m) else [])
     @ safeQRCodeKeyValue ''CAT'' (deviceCategoriesString (mmCategories m))"

definition GetLocalCertificateFingerprint :: "hub_env \<Rightarrow> hub \<Rightarrow> error + string" where
  "GetLocalCertificateFingerprint env h =
     (case hbCertificate h of
        [] \<Rightarrow> Inl (Sentinel ErrInvalidCertificate)
      | der # _ \<Rightarrow>
          if enParse env der \<noteq> None then Inl (Sentinel ErrInvalidCertificate)
          else FingerprintFromCertificate (enSha env) (Some der))"

definition generateStandardShipQR :: "mdns_manager \<Rightarrow> hub \<Rightarrow> error + string" where
  "generateStandardShipQR m h =
     Inr (''SHIP;SKI:'' @ svcSKI (hbLocal h) @ '';ID:'' @ svcShipID (hbLocal h) @ '';'' @ buildOptionalMetadata m
       @ ''ENDSHIP;'')"

definition generatePairingServiceQR :: "hub_env \<Rightarrow> mdns_manager \<Rightarrow> pairing_secret \<Rightarrow> hub \<Rightarrow> error + string" where
  "generatePairingServiceQR env m secret h =
     (if length secret < 16 then Inl (Sentinel ErrSecretTooShort)
      else if length secret > 16 then Inl (Sentinel ErrInvalidSecret)
      else case GetLocalCertificateFingerprint env h of
        Inl err \<Rightarrow> Inl err
      | Inr fingerprint \<Rightarrow>
          Inr (''SHIP;SKI:'' @ svcSKI (hbLocal h) @ '';ID:'' @ svcShipID (hbLocal h) @ '';'' @ buildOptionalMetadata m
            @ ''FPH256:'' @ fingerprint @ '';SPSEC:'' @ ToUpper (EncodeHexLower secret) @ '';ENDSHIP;''))"

definition GeneratePairingQR :: "hub_env \<Rightarrow> mdns_manager \<Rightarrow> hub \<Rightarrow> error + string" where
  "GeneratePairingQR env m h =
     (case hbPairingConfig h of
        None \<Rightarrow> generateStandardShipQR m h
      | Some c \<Rightarrow> if length (Secret c) = 0 then generateStandardShipQR m h
                  else generatePairingServiceQR env m (Secret c) h)"

section \<open>Reading\<close>

text \<open>A reader: fields end with a semicolon, the key of a field with its first colon.\<close>

fun split_semicolon :: "string \<Rightarrow> string list" where
  "split_semicolon [] = [[]]"
| "split_semicolon (c # cs) = (if c = CHR '';'' then [] # split_semicolon cs
     else (case split_semicolon cs of [] \<Rightarrow> [[c]] | x # xs \<Rightarrow> (c # x) # xs))"

definition qr_fields :: "string \<Rightarrow> (string \<times> string) list" where
  "qr_fields s = List.map_filter (\<lambda>f. Cut f CHR '':'') (split_semicolon s)"

definition device_fields :: "mdns_manager \<Rightarrow> (string \<times> string) list" where
  "device_fields m = map (\<lambda>(k, v). (k, filter (\<lambda>c. c \<noteq> CHR '';'') v)) (filter (\<lambda>(k, v). v \<noteq> [])
     [(''BRAND'', mmBrand m), (''TYPE'', mmType m), (''MODEL'', mmModel m), (''SERIAL'', mmSerial m),
      (''CAT'', deviceCategoriesString (mmCategories m))])"

lemma split_semicolon_append: "CHR '';'' \<notin> set s \<Longrightarrow> split_semicolon (s @ CHR '';'' # r) = s # split_semicolon r"
  by (induction s) auto

text \<open>A text made of fields is read back.\<close>

definition fields_text :: "(string \<times> string) list \<Rightarrow> string" where
  "fields_text fs = concat (map (\<lambda>(k, v). k @ '':'' @ v @ '';'') fs)"

definition fields_plain :: "(string \<times> string) list \<Rightarrow> bool" where
  "fields_plain fs \<longleftrightarrow> (\<forall>(k, v) \<in> set fs. CHR '';'' \<notin> set k \<and> CHR '':'' \<notin> set k \<and> CHR '';'' \<notin> set v)"

lemma split_fields:
  "fields_plain fs \<Longrightarrow> split_semicolon (fields_text fs @ r) = map (\<lambda>(k, v). k @ CHR '':'' # v) fs @ split_semicolon r"
proof (induction fs)
  case (Cons f fs)
  obtain k v where f: "f = (k, v)" by (cases f)
  with Cons.prems have "CHR '';'' \<notin> set (k @ CHR '':'' # v)" by (simp add: fields_plain_def)
  from split_semicolon_append [OF this, of "fields_text fs @ r"] Cons f show ?case
    by (simp add: fields_text_def fields_plain_def)
qed (simp add: fields_text_def)

lemma read_fields: "fields_plain fs \<Longrightarrow> List.map_filter (\<lambda>f. Cut f CHR '':'') (map (\<lambda>(k, v). k @ CHR '':'' # v) fs) = fs"
  by (induction fs) (auto simp: fields_plain_def List.map_filter_simps Cut_append)

lemma qr_fields_text:
  assumes "fields_plain fs"
  shows "qr_fields (''SHIP;'' @ fields_text fs @ ''ENDSHIP;'') = fs"
proof -
  have "split_semicolon (''SHIP;'' @ fields_text fs @ ''ENDSHIP;'')
      = ''SHIP'' # map (\<lambda>(k, v). k @ CHR '':'' # v) fs @ [''ENDSHIP'', []]"
    using split_semicolon_append [of "''SHIP''" "fields_text fs @ ''ENDSHIP;''"] split_fields [OF assms, of "''ENDSHIP;''"] by simp
  moreover have "List.map_filter f (xs @ ys) = List.map_filter f xs @ List.map_filter f ys" for f :: "string \<Rightarrow> (string \<times> string) option" and xs ys
    by (simp add: List.map_filter_def)
  ultimately show ?thesis
    using read_fields [OF assms] by (simp add: qr_fields_def List.map_filter_simps Cut_def)
qed

lemma metadata_text: "buildOptionalMetadata m = fields_text (device_fields m)"
  by (auto simp: buildOptionalMetadata_def safeQRCodeKeyValue_def device_fields_def fields_text_def ReplaceAll_char_filter
      ToUpper_def upper_def is_lower_def)

lemma fields_text_append: "fields_text (as @ bs) = fields_text as @ fields_text bs"
  by (simp add: fields_text_def)

lemma fields_plain_append: "fields_plain (as @ bs) \<longleftrightarrow> fields_plain as \<and> fields_plain bs"
  by (auto simp: fields_plain_def)

lemma device_fields_plain: "fields_plain (device_fields m)"
  by (auto simp: fields_plain_def device_fields_def)

text \<open>The fields of the two texts\<close>

definition pairing_code_fields :: "hub_env \<Rightarrow> pairing_secret \<Rightarrow> hub \<Rightarrow> (string \<times> string) list" where
  "pairing_code_fields env secret h =
     (if secret = [] then [] else [(''FPH256'', EncodeHexUpper (enSha env (hd (hbCertificate h)))), (''SPSEC'', EncodeHexUpper secret)])"

definition the_secret :: "hub \<Rightarrow> pairing_secret" where
  "the_secret h = (case hbPairingConfig h of None \<Rightarrow> [] | Some c \<Rightarrow> Secret c)"

lemma qr_text:
  assumes "GeneratePairingQR env m h = Inr qr"
  shows "qr = ''SHIP;'' @ fields_text ([(''SKI'', svcSKI (hbLocal h)), (''ID'', svcShipID (hbLocal h))] @ device_fields m
      @ pairing_code_fields env (the_secret h) h) @ ''ENDSHIP;'' \<and> length (the_secret h) \<in> {0, 16}"
  using assms
  by (auto simp: GeneratePairingQR_def generateStandardShipQR_def generatePairingServiceQR_def the_secret_def
      GetLocalCertificateFingerprint_def FingerprintFromCertificate_def ToUpper_EncodeHexLower metadata_text
      pairing_code_fields_def fields_text_def split: option.splits if_splits sum.splits list.splits)

lemma hex_plain: "CHR '';'' \<notin> set (EncodeHexUpper b)"
  using EncodeHexUpper_upper_hex [of "CHR '';''" b] by (auto simp: is_upper_hex_def is_digit_def)


definition coded_hub :: hub where
  "coded_hub = sample_hub\<lparr>hbPairingConfig := Some (NewPairingConfig PairingModeListener (replicate 16 CHR ''s''))\<rparr>"

definition coded_device :: mdns_manager where
  "coded_device = NewMDNS ''00'' ''a;b'' ''m'' ''t'' [] [2] ''me'' ''name'' 4711 [] MdnsProviderSelectionAll"


end
