(* ===== verification/CertCreate.thy ===== *)
theory CertCreate
  imports Certs
begin

text \<open>
  Creating a certificate (\<open>CreateCertificate\<close> in \<open>cert/cert.go\<close>). The key pair, the random serial number, the clock and
  what the X.509 library makes of a template are arguments. A public key is the result of its conversion to ECDH
  bytes, as in \<open>public_key\<close>.
\<close>

record cert_template =
  ctSerialNumber :: int
  ctOrganizationalUnit :: "string list"
  ctOrganization :: "string list"
  ctCountry :: "string list"
  ctCommonName :: string
  ctNotBefore :: int
  ctNotAfter :: int
  ctKeyUsageDigitalSignature :: bool
  ctBasicConstraintsValid :: bool
  ctIsCA :: bool
  ctTemplateSubjectKeyId :: bytes

type_synonym ecdsa_key = "error + bytes"

record tls_certificate =
  tcCertificate :: "bytes list"
  tcPrivateKey :: ecdsa_key

text \<open>\<open>random_int\<close> is \<open>rand.Int\<close> with its exclusive bound; the times are in nanoseconds.\<close>

definition CreateCertificate ::
  "(bytes \<Rightarrow> bytes) \<Rightarrow> error + ecdsa_key \<Rightarrow> (int \<Rightarrow> error + int) \<Rightarrow> int \<times> int \<Rightarrow> (cert_template \<Rightarrow> ecdsa_key \<Rightarrow> error + bytes)
    \<Rightarrow> string \<Rightarrow> string \<Rightarrow> string \<Rightarrow> string \<Rightarrow> error + tls_certificate" where
  "CreateCertificate sha1 generated random_int now x509_create organizationalUnit organization country commonName =
     (case generated of
        Inl err \<Rightarrow> Inl err
      | Inr privateKey \<Rightarrow>
          (case skiFromECDSAKey sha1 privateKey of
             Inl err \<Rightarrow> Inl err
           | Inr ski \<Rightarrow>
               (case random_int (2 ^ 130 - 1) of
                  Inl err \<Rightarrow> Inl err
                | Inr serialNumber \<Rightarrow>
                    (let template = \<lparr>ctSerialNumber = serialNumber, ctOrganizationalUnit = [organizationalUnit],
                           ctOrganization = [organization], ctCountry = [country], ctCommonName = commonName,
                           ctNotBefore = fst now, ctNotAfter = snd now + 60 * 60 * 10 ^ 9 * 24 * 365 * 10,
                           ctKeyUsageDigitalSignature = True, ctBasicConstraintsValid = True, ctIsCA = True,
                           ctTemplateSubjectKeyId = ski\<rparr>
                     in case x509_create template privateKey of
                          Inl err \<Rightarrow> Inl err
                        | Inr certBytes \<Rightarrow> Inr \<lparr>tcCertificate = [certBytes], tcPrivateKey = privateKey\<rparr>))))"

text \<open>
  What the code relies on: the library writes the subject key identifier of the template and the public key into
  the certificate, so that the parser reads them back, with the bytes it was given.
\<close>

definition x509_reads_back :: "(cert_template \<Rightarrow> ecdsa_key \<Rightarrow> error + bytes) \<Rightarrow> (bytes \<Rightarrow> x509 option) \<Rightarrow> bool" where
  "x509_reads_back x509_create parse \<longleftrightarrow>
     (\<forall>template key raw. x509_create template key = Inr raw \<longrightarrow>
        (\<exists>c. parse raw = Some c \<and> crtRaw c = raw \<and> crtSubjectKeyId c = ctTemplateSubjectKeyId template
           \<and> crtPublicKey c = ECDSA key))"

lemma created:
  assumes "CreateCertificate sha1 generated random_int now x509_create ou org cy cn = Inr crt"
  shows "\<exists>b template raw. tcPrivateKey crt = Inr b \<and> ctTemplateSubjectKeyId template = sha1 b
     \<and> x509_create template (Inr b) = Inr raw \<and> tcCertificate crt = [raw]"
proof -
  from assms obtain b n where b: "generated = Inr (Inr b)" and n: "random_int (2 ^ 130 - 1) = Inr n"
    by (auto simp: CreateCertificate_def skiFromECDSAKey_def split: sum.splits)
  let ?t = "\<lparr>ctSerialNumber = n, ctOrganizationalUnit = [ou], ctOrganization = [org], ctCountry = [cy], ctCommonName = cn,
     ctNotBefore = fst now, ctNotAfter = snd now + 60 * 60 * 10 ^ 9 * 24 * 365 * 10, ctKeyUsageDigitalSignature = True,
     ctBasicConstraintsValid = True, ctIsCA = True, ctTemplateSubjectKeyId = sha1 b\<rparr>"
  from assms b n obtain raw where "x509_create ?t (Inr b) = Inr raw" "crt = \<lparr>tcCertificate = [raw], tcPrivateKey = Inr b\<rparr>"
    by (auto simp: CreateCertificate_def skiFromECDSAKey_def Let_def split: sum.splits)
  then show ?thesis by (intro exI [of _ b] exI [of _ ?t] exI [of _ raw]) simp
qed


text \<open>A library that writes the identifier of the template, and a key, can be read.\<close>

definition plain_create :: "cert_template \<Rightarrow> ecdsa_key \<Rightarrow> error + bytes" where
  "plain_create template key =
     (case key of Inl err \<Rightarrow> Inl err
      | Inr b \<Rightarrow> if length (ctTemplateSubjectKeyId template) = 20 then Inr (ctTemplateSubjectKeyId template @ b)
                else Inl (Opaque ''bad template''))"

definition plain_parse :: "bytes \<Rightarrow> x509 option" where
  "plain_parse raw = Some \<lparr>crtRaw = raw, crtSubject = [], crtSubjectKeyId = take 20 raw, crtPublicKey = ECDSA (Inr (drop 20 raw))\<rparr>"

lemma plain_reads_back: "x509_reads_back plain_create plain_parse"
  by (auto simp: x509_reads_back_def plain_create_def plain_parse_def split: sum.splits if_splits)


end
