(* ===== verification/MdnsAvahi.thy ===== *)
theory MdnsAvahi
  imports MdnsTable
begin

text \<open>
  The Avahi provider when its daemon goes away and comes back (\<open>mdns/avahi.go\<close>): what the reconnection restores, and
  what it does to a shutdown.
\<close>

section \<open>Restoring the services\<close>

text \<open>The services \<open>old\<close> still wait to be announced, \<open>new\<close> are announced again.\<close>

definition restoring :: "(nat \<times> service_data) list \<Rightarrow> (nat \<times> service_data) list \<Rightarrow> avahi \<Rightarrow> bool" where
  "restoring old new a \<longleftrightarrow> avGroups a = by_id (\<lambda>n _. n) (old @ new) \<and> avInstances a = by_id (\<lambda>_ d. d) (old @ new)
     \<and> avStates a = by_id (\<lambda>_ d. mdns_data (sdName d) (sdPort d) (sdTxt d)) (old @ new) \<and> avCommitted a = new
     \<and> distinct (map fst (old @ new)) \<and> (\<forall>p \<in> set (old @ new). fst p \<le> avCounter a)"

definition accepting :: "avahi_daemon \<Rightarrow> bool" where
  "accepting d \<longleftrightarrow> adSetup d = None \<and> adVersion d = None \<and> adBrowser d
     \<and> (\<forall>n. adGroup d n = None \<and> adCommit d n = None \<and> (\<forall>i. adAddService d n i = None))"

definition valid_ports :: "(nat \<times> service_data) list \<Rightarrow> bool" where
  "valid_ports ps \<longleftrightarrow> (\<forall>p \<in> set ps. 0 \<le> sdPort (snd p) \<and> sdPort (snd p) < 65536)"

lemma accepting_accepts: "accepting d \<Longrightarrow> av_accepts d a"
  by (simp add: accepting_def av_accepts_def Let_def add_services_None)

lemma av_added_fields:
  "avGroups (av_added ty name port ts a) = avGroups a @ [(Itoa (Suc (avCounter a)), Suc (avCounter a))]"
  "avInstances (av_added ty name port ts a) = avInstances a
     @ [(Itoa (Suc (avCounter a)), \<lparr>sdType = ty, sdName = name, sdPort = port, sdTxt = ts\<rparr>)]"
  "avStates (av_added ty name port ts a) = avStates a @ [(Itoa (Suc (avCounter a)), mdns_data name port ts)]"
  "avCommitted (av_added ty name port ts a) = avCommitted a
     @ [(Suc (avCounter a), \<lparr>sdType = ty, sdName = name, sdPort = port, sdTxt = ts\<rparr>)]"
  "avCounter (av_added ty name port ts a) = Suc (avCounter a)"
  by (simp_all add: av_added_def Let_def)

lemma restoring_step:
  assumes "restoring ((n, sd) # old) new a" "accepting d" "0 \<le> sdPort sd" "sdPort sd < 65536"
  shows "\<exists>a'. restore_instance d (Itoa n, mdns_data (sdName sd) (sdPort sd) (sdTxt sd)) (rs, a)
      = (if sdType sd = shipZeroConfServiceType then sdName sd # rs else rs, a')
    \<and> restoring old (new @ [(Suc (avCounter a), sd)]) a' \<and> avCounter a' = Suc (avCounter a)"
proof -
  let ?ps = "((n, sd) # old) @ new" and ?c = "Suc (avCounter a)"
  have fresh: "?c \<notin> fst ` set ?ps" "?c \<notin> fst ` set (avCommitted a)"
    using assms(1) by (force simp: restoring_def)+
  have "map_of (avInstances a) (Itoa n) = Some sd" using assms(1) by (simp add: restoring_def by_id_def)
  moreover have "AnnounceService_av d (sdType sd) (sdName sd) (sdPort sd) (sdTxt sd) a
      = (Inr (Itoa ?c), av_added (sdType sd) (sdName sd) (sdPort sd) (sdTxt sd) a)"
    using av_announce_general [of a ?ps "sdPort sd" d "sdType sd" "sdName sd" "sdTxt sd"] fresh assms accepting_accepts
    by (simp add: restoring_def)
  moreover let ?a1 = "av_added (sdType sd) (sdName sd) (sdPort sd) (sdTxt sd) a"
  have "map_of (avGroups ?a1) (Itoa n) = Some n" using assms(1) by (simp add: av_added_def Let_def restoring_def by_id_def)
  moreover let ?a2 = "EntryGroupFree (Itoa n) n ?a1"
  let ?a3 = "?a2\<lparr>avStates := AList.delete (Itoa n) (avStates ?a2), avInstances := AList.delete (Itoa n) (avInstances ?a2)\<rparr>"
  have "restoring old (new @ [(?c, sd)]) ?a3" "avCounter ?a3 = ?c"
  proof -
    have n: "n \<notin> fst ` set old" "n \<notin> fst ` set new" "n \<noteq> ?c" using assms(1) by (auto simp: restoring_def)
    have keep: "filter (\<lambda>p. fst p \<noteq> n) (((n, sd) # old) @ new @ [(?c, sd)]) = old @ new @ [(?c, sd)]"
    proof -
      have "filter (\<lambda>p. fst p \<noteq> n) old = old" "filter (\<lambda>p. fst p \<noteq> n) new = new"
        using n by (auto intro!: filter_True simp: rev_image_eqI)
      with n(3) show ?thesis by simp
    qed
    have gone: "AList.delete (Itoa n) (by_id f ?ps @ [(Itoa ?c, f ?c sd)]) = by_id f (old @ new @ [(?c, sd)])"
      for f :: "nat \<Rightarrow> service_data \<Rightarrow> 'b"
    proof -
      have "by_id f ?ps @ [(Itoa ?c, f ?c sd)] = by_id f (((n, sd) # old) @ new @ [(?c, sd)])"
        by (simp add: by_id_append [symmetric] del: by_id_append flip: by_id_single)
      then show ?thesis using keep by (simp only: by_id_filter Itoa_inject)
    qed
    have "AList.delete n (new @ [(?c, sd)]) = new @ [(?c, sd)]"
      using n by (auto simp: delete_filter filter_id_conv image_iff)
    moreover have "distinct (map fst (old @ new @ [(?c, sd)]))" "\<forall>p \<in> set (old @ new @ [(?c, sd)]). fst p \<le> ?c"
      using assms(1) fresh by (auto simp: restoring_def intro: le_SucI)
    moreover obtain ty name port ts where "sd = \<lparr>sdType = ty, sdName = name, sdPort = port, sdTxt = ts\<rparr>" by (cases sd)
    ultimately show "restoring old (new @ [(?c, sd)]) ?a3"
      using assms(1) gone [of "\<lambda>n _. n"] gone [of "\<lambda>_ d. d"] gone [of "\<lambda>_ d. mdns_data (sdName d) (sdPort d) (sdTxt d)"]
      by (simp add: restoring_def av_added_fields EntryGroupFree_def)
    show "avCounter ?a3 = ?c" by (simp add: EntryGroupFree_def av_added_fields)
  qed
  ultimately show ?thesis
    by (intro exI [of _ ?a3]) (simp add: restore_instance_def mdns_data_def Let_def)
qed

definition ship_names :: "(nat \<times> service_data) list \<Rightarrow> string list" where
  "ship_names ps = map (\<lambda>p. sdName (snd p)) (filter (\<lambda>p. sdType (snd p) = shipZeroConfServiceType) ps)"

lemma restoring_all:
  assumes "restoring old new a" "accepting d" "valid_ports old"
  shows "\<exists>a' new'.
    fold (restore_instance d) (by_id (\<lambda>_ d. mdns_data (sdName d) (sdPort d) (sdTxt d)) old) (rs, a)
      = (rev (ship_names old) @ rs, a')
    \<and> restoring [] (new @ new') a' \<and> map snd new' = map snd old \<and> (\<forall>p \<in> set new'. avCounter a < fst p)
    \<and> avCounter a \<le> avCounter a'"
  using assms
proof (induction old arbitrary: new a rs)
  case Nil
  then show ?case by (simp add: by_id_def ship_names_def)
next
  case (Cons p old)
  obtain n sd where p: "p = (n, sd)" by (cases p)
  from Cons.prems(3) p have port: "0 \<le> sdPort sd" "sdPort sd < 65536" "valid_ports old" by (auto simp: valid_ports_def)
  let ?rs = "if sdType sd = shipZeroConfServiceType then sdName sd # rs else rs"
  from restoring_step [OF Cons.prems(1) [unfolded p] Cons.prems(2) port(1,2), of rs] obtain a1 where
    a1: "restore_instance d (Itoa n, mdns_data (sdName sd) (sdPort sd) (sdTxt sd)) (rs, a) = (?rs, a1)"
      "restoring old (new @ [(Suc (avCounter a), sd)]) a1" "avCounter a1 = Suc (avCounter a)" by blast
  from Cons.IH [OF a1(2) Cons.prems(2) port(3), of ?rs] obtain a' new' where
    a': "fold (restore_instance d) (by_id (\<lambda>_ d. mdns_data (sdName d) (sdPort d) (sdTxt d)) old) (?rs, a1)
        = (rev (ship_names old) @ ?rs, a')"
      "restoring [] ((new @ [(Suc (avCounter a), sd)]) @ new') a'" "map snd new' = map snd old"
      "\<forall>p \<in> set new'. avCounter a1 < fst p" "avCounter a1 \<le> avCounter a'" by blast
  from a1 a' p show ?case
    by (intro exI [of _ a'] exI [of _ "(Suc (avCounter a), sd) # new'"]) (auto simp: by_id_def ship_names_def)
qed

lemma restoring_done: "restoring [] new a \<Longrightarrow> av_ok a \<and> avCommitted a = new"
  by (simp add: restoring_def av_ok_def av_table_def table_ok_def)

section \<open>The daemon comes back\<close>

lemma Start_av_accepting:
  assumes "accepting d"
  shows "\<exists>a1. Start_av d mode True a = (True, a1) \<and> avGroups a1 = avGroups a \<and> avInstances a1 = avInstances a
    \<and> avStates a1 = avStates a \<and> avCommitted a1 = avCommitted a \<and> avCounter a1 = avCounter a"
  using assms by (simp add: accepting_def Start_av_def Let_def)

definition legacy_service :: "mdns_service_data \<Rightarrow> service_data" where
  "legacy_service s = \<lparr>sdType = shipZeroConfServiceType, sdName = mdName s, sdPort = mdPort s, sdTxt = mdTxt s\<rparr>"

text \<open>Which service comes back although it was withdrawn\<close>

definition legacy_extra :: "mdns_service_data option \<Rightarrow> (nat \<times> service_data) list \<Rightarrow> service_data list" where
  "legacy_extra legacy ps = (case legacy of None \<Rightarrow> []
     | Some s \<Rightarrow> if mdName s \<in> set (ship_names ps) then [] else [legacy_service s])"

lemma restore_all_services:
  assumes "restoring ps [] a" "accepting d" "valid_ports ps" "\<forall>s. legacy = Some s \<longrightarrow> 0 \<le> mdPort s \<and> mdPort s < 65536"
  shows "\<exists>new. av_ok (restore_all d legacy a) \<and> avCommitted (restore_all d legacy a) = new
    \<and> map snd new = map snd ps @ legacy_extra legacy ps \<and> (\<forall>p \<in> set new. avCounter a < fst p)"
proof -
  from restoring_all [OF assms(1-3), of "[]"] obtain a2 new where a2:
    "fold (restore_instance d) (by_id (\<lambda>_ d. mdns_data (sdName d) (sdPort d) (sdTxt d)) ps) ([], a) = (rev (ship_names ps), a2)"
    "restoring [] new a2" "map snd new = map snd ps" "\<forall>p \<in> set new. avCounter a < fst p" "avCounter a \<le> avCounter a2" by auto
  have states: "avStates a = by_id (\<lambda>_ d. mdns_data (sdName d) (sdPort d) (sdTxt d)) ps"
    using assms(1) by (simp add: restoring_def)
  note ok = restoring_done [OF a2(2)]
  show ?thesis
  proof (cases "legacy_extra legacy ps = []")
    case True
    then have "restore_all d legacy a = a2"
      using a2(1) states by (auto simp: restore_all_def legacy_extra_def split: option.splits if_splits)
    then show ?thesis using True ok a2(3,4) by simp
  next
    case False
    then obtain s where s: "legacy = Some s" "mdName s \<notin> set (ship_names ps)" "legacy_extra legacy ps = [legacy_service s]"
      by (auto simp: legacy_extra_def split: option.splits if_splits)
    with assms(4) have port: "0 \<le> mdPort s" "mdPort s < 65536" by auto
    let ?a3 = "snd (AnnounceService_av d shipZeroConfServiceType (mdName s) (mdPort s) (mdTxt s) a2)"
    have "restore_all d legacy a = ?a3" using s a2(1) states by (simp add: restore_all_def)
    moreover from av_announce [OF conjunct1 [OF ok] port, of d] accepting_accepts [OF assms(2)]
    have "?a3 = av_added shipZeroConfServiceType (mdName s) (mdPort s) (mdTxt s) a2" by simp
    moreover have "av_ok ?a3" using ok port by (intro av.announce_okay) auto
    ultimately show ?thesis
      using ok a2(3-5) s(3) by (auto simp: av_added_def Let_def legacy_service_def)
  qed
qed

text \<open>An identifier is stale when all services have larger numbers than it.\<close>

lemma stale_id:
  assumes "av_ok a" "announced (av_table a) i \<noteq> None" "\<forall>p \<in> set (avCommitted b). avCounter a < fst p"
  shows "announced (av_table b) i = None"
proof -
  obtain n x where "i = Itoa n" "(n, x) \<in> set (avCommitted a)"
    using announced_dom [OF assms(2)] by (auto simp: av_table_def by_id_def)
  moreover from this have "n \<le> avCounter a" using assms(1) by (auto simp: av_ok_def table_ok_def av_table_def)
  ultimately show ?thesis using assms(3) by (force simp: announced_def av_table_def by_id_None)
qed


text \<open>A provider that announced and withdrew a ship service, and announces a pairing service\<close>

definition used_avahi :: avahi where
  "used_avahi =
     (let a1 = snd (Start_av good_daemon PairingModeBoth True (NewAvahiProvider [2]));
          a2 = snd (AnnounceService_av good_daemon shipZeroConfServiceType ''name'' 4711 [''txtvers=1''] a1);
          a3 = snd (UnannounceService_av ''1'' a2)
      in snd (AnnounceService_av good_daemon shipPairingZeroConfServiceType ''p'' 4711 [''txtvers=1''] a3))"


section \<open>Shutting down while the daemon is away\<close>

text \<open>
  The goroutine that sleeps before its next attempt calls \<open>Start\<close>, which clears the flag that \<open>Shutdown\<close> has just
  set: as long as the daemon stays away the reconnection goes on for ever, and \<open>Shutdown\<close> waits for its end.
\<close>

definition still_trying :: "avahi \<Rightarrow> bool" where
  "still_trying a \<longleftrightarrow> (\<exists>r. avReconnect a = Some r \<and> (rePhase r = CheckShutdown \<longrightarrow> \<not> avManualShutdown a))"

lemma still_trying_step:
  assumes "still_trying a" "adSetup d \<noteq> None"
  shows "still_trying (attemptReconnect d j a)"
proof -
  obtain r where r: "avReconnect a = Some r" "rePhase r = CheckShutdown \<longrightarrow> \<not> avManualShutdown a"
    using assms(1) by (auto simp: still_trying_def)
  then show ?thesis using assms(2)
    by (cases "rePhase r") (auto simp: still_trying_def attemptReconnect_def Start_av_def Let_def)
qed

text \<open>
  A shutdown that begins while the provider sleeps between two attempts to reconnect does not end before the
  daemon is back: after any number of attempts that fail, it still waits.
\<close>

theorem shutdown_waits_for_daemon:
  assumes "avReconnect a = Some r" "rePhase r = SleepBeforeStart" "\<forall>(d, j) \<in> set tries. adSetup d \<noteq> None"
  shows "Shutdown_av_end (fold (\<lambda>(d, j). attemptReconnect d j) tries (snd (Shutdown_av_begin a))) = None"
proof -
  have "still_trying (snd (Shutdown_av_begin a))"
    using assms(1,2) by (simp add: still_trying_def Shutdown_av_begin_def Let_def)
  then have "still_trying (fold (\<lambda>(d, j). attemptReconnect d j) tries (snd (Shutdown_av_begin a)))"
    using assms(3)
  proof (induction tries arbitrary: a rule: rev_induct)
    case (snoc t ts)
    then show ?case by (cases t) (auto intro: still_trying_step)
  qed simp
  then show ?thesis by (auto simp: still_trying_def Shutdown_av_end_def)
qed

theorem shutdown_waits_for_daemon_witness:
  "let gone = good_daemon\<lparr>adSetup := Some (Opaque ''no daemon'')\<rparr>;
       a = attemptReconnect gone 0 (avahi_disconnect used_avahi)
   in Shutdown_av_end (fold (\<lambda>(d, j). attemptReconnect d j) [(gone, 0), (gone, 0), (gone, 0)] (snd (Shutdown_av_begin a))) = None"
proof -
  let ?gone = "good_daemon\<lparr>adSetup := Some (Opaque ''no daemon'')\<rparr>"
  let ?a = "attemptReconnect ?gone 0 (avahi_disconnect used_avahi)"
  have "map_option rePhase (avReconnect ?a) = Some SleepBeforeStart" by code_simp
  then obtain r where r: "avReconnect ?a = Some r" "rePhase r = SleepBeforeStart" by auto
  show ?thesis
    using shutdown_waits_for_daemon [OF r, of "[(?gone, 0), (?gone, 0), (?gone, 0)]"] by (simp add: Let_def)
qed

end
