(* ===== verification/Spec2Isabelle.thy ===== *)
theory Spec2Isabelle
  imports ShipSession HubDouble HubDiscovery HubQR CertCreate MdnsAvahi
begin

text \<open>
  A verification library for ship-go, the Go implementation of SHIP (the transport of EEBUS) and of the SHIP
  Pairing Service. All paths below are under \<open>src/\<close>.

  \<^bold>\<open>The program.\<close> A device runs one hub (\<open>hub/\<close>). The hub keeps the registry of remote services and whom
  of them the user trusts; it learns from the mDNS manager (\<open>mdns/\<close>) who is on the network, dials known
  services or serves incoming ones over TLS, checks their certificates (\<open>cert/\<close>) and puts a SHIP connection
  (\<open>ship/\<close>) on each websocket (\<open>ws/\<close>). The connection runs the handshake of the protocol, with messages
  (\<open>model/\<close>) in the EEBUS flavour of JSON, and reports its states to the hub, which knows about trust. After the
  handshake it hands SPINE messages to the application. The pairing service (\<open>pairing/\<close>) announces a
  request for trust over mDNS on one device; the listener on the other checks its digest against a shared secret
  and tells the hub to trust the sender.

  \<^bold>\<open>Theories and sources.\<close>
    \<^item> \<open>Prelude\<close>, \<open>Numbers\<close>, \<open>Json\<close>, \<open>ParseIP\<close>: what the sources use of Go's library (strings, hex, \<open>strconv\<close>,
      \<open>encoding/json\<close>, \<open>net.ParseIP\<close>), the collections \<open>proj\<close> and \<open>str_simps\<close>, and lemmas on lists.
    \<^item> \<open>Errors\<close> (\<open>api/errors.go\<close>), \<open>ShipModel\<close> and \<open>ShipMessages\<close> (\<open>model/\<close>), \<open>EebusJson\<close> and \<open>EebusRoundtrip\<close>
      (\<open>ship/helper.go\<close>): errors as values, messages as records, both conversions of the JSON and their round trip.
    \<^item> \<open>HandshakeTimer\<close> (the timer of \<open>ship/handshake.go\<close>) and \<open>Ws\<close> (\<open>ws/websocket.go\<close>): the record \<open>hs_timer\<close>
      with armed and fired runtime timers, the record \<open>ws\<close> with both pumps and the write channel.
    \<^item> \<open>ShipConn\<close>, \<open>ShipHandshake\<close>, \<open>ShipEvents\<close>: the record \<open>ship_conn\<close> (\<open>ShipConnection\<close>) and every handler of
      \<open>ship/connection*.go\<close> and \<open>ship/hs_*.go\<close>; the events that reach a connection. Their properties:
      \<open>ShipInvariants\<close> (the locales by which an invariant is proved for the handlers once), \<open>ShipProps\<close>,
      \<open>ShipDelivery\<close>, \<open>ShipPhases\<close>, \<open>ShipHello\<close>, and \<open>ShipSession\<close> for two connections that talk to each other.
    \<^item> \<open>Services\<close> (\<open>api/servicedetails.go\<close>, \<open>api/service_identity.go\<close>, \<open>api/connectionstate.go\<close>), \<open>Certs\<close> and
      \<open>CertCreate\<close> (\<open>cert/cert.go\<close>).
    \<^item> \<open>PairingTxt\<close> (\<open>api/shippairing.go\<close>, \<open>api/pairing_config.go\<close>), \<open>PairingCrypto\<close> (\<open>pairing/hmac.go\<close>,
      \<open>cert/fingerprint.go\<close>), \<open>RingBuffer\<close> (\<open>pairing/ring_buffer.go\<close>), \<open>PairingListener\<close> (\<open>pairing/listener.go\<close>),
      \<open>PairingAnnouncer\<close> (\<open>pairing/hub_integration.go\<close>, \<open>pairing/service.go\<close>).
    \<^item> \<open>HubRegistry\<close> (the services of \<open>hub/hub.go\<close>, as a heap of objects), \<open>Trackers\<close> (the two timer tables of
      \<open>hub/\<close>), \<open>HubState\<close> (the record \<open>hub\<close>), \<open>HubConnections\<close> (\<open>hub/hub_connections*.go\<close>), \<open>HubPairing\<close>
      (\<open>hub/hub_pairing.go\<close>), \<open>HubEvents\<close> (\<open>hub/hub_shipconnection.go\<close>, \<open>hub/hub_mdns.go\<close>, start and shutdown, the
      event system \<open>hub_step\<close>), \<open>HubQR\<close> (the texts of the QR codes). \<open>HubFrames\<close> says what each operation leaves
      alone; \<open>HubTrust\<close>, \<open>HubLinks\<close>, \<open>HubDouble\<close>, \<open>HubTakeover\<close> and \<open>HubAttempts\<close> hold the properties of trust, of
      the connection registry, of double connections, of a change of the control unit, and of the connection attempts.
    \<^item> \<open>MdnsTxt\<close> (\<open>mdns/helper.go\<close>, \<open>mdns/types.go\<close>, the stateless parts of \<open>mdns/mdns.go\<close>), \<open>MdnsProviders\<close>
      (\<open>mdns/zeroconf.go\<close>, \<open>mdns/avahi.go\<close>), \<open>MdnsTable\<close> (what the manager relies on in a provider),
      \<open>MdnsEntries\<close> and \<open>MdnsManager\<close> (\<open>mdns/mdns.go\<close>), \<open>MdnsRuns\<close> (its event system \<open>mdns_step\<close>); the properties
      are in \<open>MdnsRuns\<close>, \<open>MdnsLive\<close> (what is announced), \<open>MdnsDiscovery\<close> (what one device learns of another)
      and \<open>MdnsAvahi\<close> (losing the daemon). \<open>HubDiscovery\<close> joins the manager with the hub.
\<close>

text \<open>
  \<^bold>\<open>How state and operations correspond.\<close> A struct is a record, an enumeration a datatype, a handler a function
  on the record that returns it changed; where a handler can fail it returns the error as a value. A Go map is an
  association list, whose order is the order of iteration that Go leaves open, or a partial function where the order
  plays no part. Slices and objects that are shared are references: the secrets of pairing targets (\<open>slices\<close>)
  and the services of the registry (\<open>rgHeap\<close>), since aliasing changes what the code does there. Calls to
  other parts and to the application are recorded in order (\<open>hbCalls\<close>, \<open>eff\<close>, \<open>mmReports\<close>, \<open>mmDelivered\<close>).
  Strings are lists of bytes; a duration is a number of nanoseconds, wrapped to 64 bits where the code converts to
  it.

  Concurrency is a list of events. A handler of the connection, the hub or the manager runs to its end, and where it
  hands work to a goroutine, waits for the network, or leaves a timer behind, what comes later is an event of its own
  that can come at any time: firing of a timer and its callback, the two pumps of a websocket, the delayed approval and
  the delayed reports, check and commit of a pairing request, each stage of a dial, each attempt to reconnect to
  Avahi. Properties of runs hold for all lists of events.

  \<^bold>\<open>Parameters.\<close> HMAC, SHA-1, SHA-256, the X.509 parser, random numbers, the clock, the persistence of the ring
  buffer, the answers of the network and of the mDNS libraries, and the interfaces of the machine are arguments.
  What a theorem needs of one of them is a hypothesis of its statement (the length of a SHA-1 hash, an
  X.509 library that reads back what it wrote, a daemon that accepts).

  \<^bold>\<open>Interfaces.\<close> Each locale is the contract of a component and is interpreted on its definitions: \<open>data_writer\<close>
  (what the SHIP layer relies on in the websocket), \<open>handler_invariant\<close>, \<open>step_invariant\<close> and
  \<open>conn_invariant\<close> (what an invariant of the connection needs), \<open>digest_history\<close> (the bounded queue that the
  ring buffer refines), \<open>listener_invariant\<close>, \<open>ship_tracker\<close> (both timer tables of the hub), \<open>service_provider\<close> (a
  table of announced services, refined by both providers of mDNS and by their sum), \<open>pass\<close> (one of the textual
  replacements of the EEBUS JSON).

  \<^bold>\<open>Bounds.\<close> The only fuel is that of \<open>handleState\<close>: its handlers call it back, and 8 nested calls are enough in
  every state, as \<open>ShipHandshake\<close> shows, which also gives the recursive equation of the source. Calls that can wait for
  ever return an option, None for no return (the close of a completed connection whose websocket is closed, the
  shutdown of the Avahi provider while it reconnects).
\<close>

text \<open>
  \<^bold>\<open>What the theorems show.\<close> For a connection: nothing passes the hello phase without trust; the reported states
  follow the graph of the protocol; it completes only with the expected SHIP ID, which is never replaced; SPINE messages arrive in order,
  none lost or doubled; two trusting connections complete the handshake; messages and JSON round trips; every
  handler ends; writes never panic. For pairing: trust only by an authentic request, replays refused for as many
  pairings as the history has places, the digest binds its fields, announcer and listener agree. For the hub: who
  can become trusted and when, certificates behind registered connections, distinct registry entries, the most recent of
  double connections, the change of the control unit, removal, closing, silent timers, attempts that end and their delays. For mDNS: what is announced is on
  the network, what is kept of others is well-formed, what one device announces the other reads, repeated
  pairing records are delivered once, the two providers agree, and what a reconnection restores. Across the parts:
  a device found on the network is dialled if the hub knows it, a certificate that is created is accepted by
  the other side, the QR code gives the reader the secret.

  Some theorems state where the code does less than its comments say: \<open>interface_loss_keeps_service\<close>,
  \<open>shutdown_waits_for_daemon\<close>, \<open>shutdown_blocks_attempts\<close>, \<open>safe_close_deadlocks\<close>, \<open>unregister_leaves_connection\<close>,
  \<open>absorbed_entry_comes_back\<close>, \<open>timer_stale_callback\<close>, \<open>ready_hello_while_pending\<close>, \<open>double_delivery_accepts_twice\<close> and
  others beside the operation they are about.

  \<^bold>\<open>Not modelled.\<close> The network libraries (gorilla websocket, zeroconf, Avahi over D-Bus, HTTP and TLS) and their
  configuration in \<open>startWebsocketServer\<close>; read deadlines of the websocket; logging, with the choice of its level in
  \<open>hub/error_classification.go\<close> and \<open>cert/cert_expiration.go\<close>; mocks, examples and test helpers. Getters are the
  selectors of the records. Two handlers of one hub or one manager that run at the same time are not interleaved
  inside their critical sections. The text of an identifier conflict (\<open>checkConflict\<close>) leaves out the quoted values.
\<close>

end
